(* ===== verification/Prelude.thy ===== *)
theory Prelude
  imports Main "HOL-Library.Sublist"
begin

text \<open>
  Shared vocabulary of the development.

  \<^item> Python exceptions are values: an operation that may raise returns \<open>exn + 'a\<close>, \<open>Inl\<close>
    for the exception (its class and, where it is a literal, its message) and \<open>Inr\<close> for
    the returned value. \<open>bindR\<close> sequences such operations as statements of one body.
  \<^item> Python's \<open>str\<close> is a \<open>string\<close>: a list of code points below 256. Case folding is the
    ASCII one. \<open>blank\<close> and \<open>py_strip\<close> use the characters for which \<open>str.isspace\<close> holds.
  \<^item> Python's insertion-ordered \<open>dict\<close> is an association list with distinct keys
    (\<open>dget\<close>, \<open>dput\<close>, \<open>dpop\<close>), so that iteration order is part of the model.
  \<^item> \<open>state_machine\<close>, \<open>monotone_machine\<close> and \<open>status_graph\<close> are the contracts that
    several components provide: an invariant every operation keeps, an order every
    operation climbs, and a status table with absorbing states.
\<close>

section \<open>Exceptions as values\<close>

datatype exn_class =
    ValueError
  | TypeError
  | KeyError
  | RuntimeError
  | BudgetExceededError
  | WorkflowCycleError
  | WorkflowTransitionError
  | PromptBudgetError
  | ProviderProtocolError
  | ProviderResponseLimitError
  | SessionCorruptionError
  | SessionNotFound
  | IntegrityError
  | EngineLimitError
  | ModelStreamError
  | ContextBuildError
  | SessionPersistenceError
  | PendingActionError
  | CancellationError
  | ContextError
  | ContextBudgetError
  | RuleLimitError
  | WorkspaceError
  | EditConflictError
  | BatchEditConflictError
  | CrossVolumeMoveError
  | SnapshotIntegrityError
  | OSError
  | AssertionError
  | CancelledError
  | TextCodecError
  | BinaryFileError
  | FileTooLargeError

datatype exn = Exn exn_class string

text \<open>\<open>type(error).__name__\<close>.\<close>

fun class_name :: "exn_class \<Rightarrow> string" where
  "class_name ValueError = ''ValueError''"
| "class_name TypeError = ''TypeError''"
| "class_name KeyError = ''KeyError''"
| "class_name RuntimeError = ''RuntimeError''"
| "class_name BudgetExceededError = ''BudgetExceededError''"
| "class_name WorkflowCycleError = ''WorkflowCycleError''"
| "class_name WorkflowTransitionError = ''WorkflowTransitionError''"
| "class_name PromptBudgetError = ''PromptBudgetError''"
| "class_name ProviderProtocolError = ''ProviderProtocolError''"
| "class_name ProviderResponseLimitError = ''ProviderResponseLimitError''"
| "class_name SessionCorruptionError = ''SessionCorruptionError''"
| "class_name SessionNotFound = ''SessionNotFound''"
| "class_name IntegrityError = ''IntegrityError''"
| "class_name EngineLimitError = ''EngineLimitError''"
| "class_name ModelStreamError = ''ModelStreamError''"
| "class_name ContextBuildError = ''ContextBuildError''"
| "class_name SessionPersistenceError = ''SessionPersistenceError''"
| "class_name PendingActionError = ''PendingActionError''"
| "class_name CancellationError = ''CancellationError''"
| "class_name ContextError = ''ContextError''"
| "class_name ContextBudgetError = ''ContextBudgetError''"
| "class_name RuleLimitError = ''RuleLimitError''"
| "class_name WorkspaceError = ''WorkspaceError''"
| "class_name EditConflictError = ''EditConflictError''"
| "class_name BatchEditConflictError = ''BatchEditConflictError''"
| "class_name CrossVolumeMoveError = ''CrossVolumeMoveError''"
| "class_name SnapshotIntegrityError = ''SnapshotIntegrityError''"
| "class_name OSError = ''OSError''"
| "class_name AssertionError = ''AssertionError''"
| "class_name CancelledError = ''CancelledError''"
| "class_name TextCodecError = ''TextCodecError''"
| "class_name BinaryFileError = ''BinaryFileError''"
| "class_name FileTooLargeError = ''FileTooLargeError''"

fun exn_kind :: "exn \<Rightarrow> exn_class" where
  "exn_kind (Exn c m) = c"

fun exn_text :: "exn \<Rightarrow> string" where
  "exn_text (Exn c m) = m"

type_synonym 'a result = "exn + 'a"

definition raiseR :: "exn_class \<Rightarrow> string \<Rightarrow> 'a result" where
  "raiseR c m = Inl (Exn c m)"

definition bindR :: "'a result \<Rightarrow> ('a \<Rightarrow> 'b result) \<Rightarrow> 'b result" where
  "bindR r f = (case r of Inl e \<Rightarrow> Inl e | Inr x \<Rightarrow> f x)"

named_theorems res_simps \<open>reading results of raising operations\<close>

lemma bindR_simps [simp]:
  "bindR (Inl e) f = Inl e"
  "bindR (Inr x) f = f x"
  by (simp_all add: bindR_def)

lemma raiseR_neq [simp]: "raiseR c m \<noteq> Inr x" "Inr x \<noteq> raiseR c m"
  by (simp_all add: raiseR_def)

lemma bindR_raiseR [simp]: "bindR (raiseR c m) f = raiseR c m"
  by (simp add: raiseR_def)

lemma bindR_Inr_iff [res_simps]:
  "bindR r f = Inr y \<longleftrightarrow> (\<exists>x. r = Inr x \<and> f x = Inr y)"
  by (cases r) auto

lemma bindR_InrE:
  assumes "bindR r f = Inr y"
  obtains x where "r = Inr x" "f x = Inr y"
  using assms by (auto simp: bindR_Inr_iff)

lemma bindR_split_asm:
  "P (bindR r f) \<longleftrightarrow> \<not> (\<exists>e. r = Inl e \<and> \<not> P (Inl e) \<or> (\<exists>x. r = Inr x \<and> \<not> P (f x)))"
  by (cases r) auto

lemma bindR_assoc: "bindR (bindR r f) g = bindR r (\<lambda>x. bindR (f x) g)"
  by (cases r) auto

definition okR :: "'a result \<Rightarrow> bool" where
  "okR r = (case r of Inl _ \<Rightarrow> False | Inr _ \<Rightarrow> True)"

lemma okR_simps [simp]: "okR (Inr x)" "\<not> okR (Inl e)" "\<not> okR (raiseR c m)"
  by (simp_all add: okR_def raiseR_def)

lemma okR_iff: "okR r \<longleftrightarrow> (\<exists>x. r = Inr x)"
  by (cases r) auto

text \<open>Executable forms of "it returned, and the value satisfies".\<close>

definition okP :: "('a \<Rightarrow> bool) \<Rightarrow> 'a result \<Rightarrow> bool" where
  "okP P r = (case r of Inl _ \<Rightarrow> False | Inr x \<Rightarrow> P x)"

definition someP :: "('a \<Rightarrow> bool) \<Rightarrow> 'a option \<Rightarrow> bool" where
  "someP P r = (case r of None \<Rightarrow> False | Some x \<Rightarrow> P x)"

lemma okP_E:
  assumes "okP P r"
  obtains x where "r = Inr x" "P x"
  using assms by (auto simp: okP_def split: sum.splits)

lemma someP_E:
  assumes "someP P r"
  obtains x where "r = Some x" "P x"
  using assms by (auto simp: someP_def split: option.splits)

text \<open>Running a checked operation over a list, stopping at the first exception.\<close>

primrec foldR :: "('a \<Rightarrow> 's \<Rightarrow> 's result) \<Rightarrow> 'a list \<Rightarrow> 's \<Rightarrow> 's result" where
  "foldR f [] s = Inr s"
| "foldR f (x # xs) s = bindR (f x s) (foldR f xs)"

lemma foldR_append: "foldR f (xs @ ys) s = bindR (foldR f xs s) (foldR f ys)"
proof (induction xs arbitrary: s)
  case (Cons x xs)
  then show ?case by (cases "f x s") simp_all
qed simp

lemma foldR_invariant:
  assumes "\<And>x s s'. P s \<Longrightarrow> f x s = Inr s' \<Longrightarrow> P s'"
  shows "P s \<Longrightarrow> foldR f xs s = Inr s' \<Longrightarrow> P s'"
  by (induction xs arbitrary: s) (auto simp: bindR_Inr_iff dest: assms)

text \<open>Building a list with a checked operation, stopping at the first exception.\<close>

primrec mapR :: "('a \<Rightarrow> 'b result) \<Rightarrow> 'a list \<Rightarrow> 'b list result" where
  "mapR f [] = Inr []"
| "mapR f (x # xs) = bindR (f x) (\<lambda>y. bindR (mapR f xs) (\<lambda>ys. Inr (y # ys)))"

lemma mapR_Inr_iff: "mapR f xs = Inr ys \<longleftrightarrow> list_all2 (\<lambda>x y. f x = Inr y) xs ys"
  by (induction xs arbitrary: ys) (auto simp: bindR_Inr_iff list_all2_Cons1)

lemma mapR_map: "(\<And>x. x \<in> set xs \<Longrightarrow> f (h x) = Inr x) \<Longrightarrow> mapR f (map h xs) = Inr xs"
  by (induction xs) simp_all

section \<open>Python text\<close>

definition code_of :: "char \<Rightarrow> nat" where
  "code_of c = of_char c"

definition is_space :: "char \<Rightarrow> bool" where
  "is_space c = (code_of c \<in> {9, 10, 11, 12, 13, 28, 29, 30, 31, 32, 133, 160})"

definition blank :: "string \<Rightarrow> bool" where
  "blank s = list_all is_space s"

definition py_lstrip :: "string \<Rightarrow> string" where
  "py_lstrip s = dropWhile is_space s"

definition py_strip :: "string \<Rightarrow> string" where
  "py_strip s = rev (py_lstrip (rev (py_lstrip s)))"

lemma blank_Nil [simp]: "blank []"
  by (simp add: blank_def)

lemma blank_py_lstrip: "blank s \<longleftrightarrow> py_lstrip s = []"
  by (induction s) (auto simp: blank_def py_lstrip_def)

definition is_upper :: "char \<Rightarrow> bool" where
  "is_upper c = (65 \<le> code_of c \<and> code_of c \<le> 90)"

definition is_lower :: "char \<Rightarrow> bool" where
  "is_lower c = (97 \<le> code_of c \<and> code_of c \<le> 122)"

definition is_digit :: "char \<Rightarrow> bool" where
  "is_digit c = (48 \<le> code_of c \<and> code_of c \<le> 57)"

definition lower_char :: "char \<Rightarrow> char" where
  "lower_char c = (if is_upper c then char_of (code_of c + 32) else c)"

definition casefold :: "string \<Rightarrow> string" where
  "casefold s = map lower_char s"

definition starts_with :: "'a list \<Rightarrow> 'a list \<Rightarrow> bool" where
  "starts_with s p = (take (length p) s = p)"

definition ends_with :: "string \<Rightarrow> string \<Rightarrow> bool" where
  "ends_with s p = (length p \<le> length s \<and> drop (length s - length p) s = p)"

text \<open>\<open>text_check\<close>: the bounded non-blank text guard the dataclasses share.\<close>

definition text_check :: "nat \<Rightarrow> string \<Rightarrow> string \<Rightarrow> string result" where
  "text_check maximum msg v =
     (if blank v \<or> maximum < length v then raiseR ValueError msg else Inr v)"

lemma text_check_Inr [simp]:
  "text_check n m v = Inr w \<longleftrightarrow> w = v \<and> \<not> blank v \<and> length v \<le> n"
  by (auto simp: text_check_def)

text \<open>\<open>str.split(c)\<close>: always at least one part.\<close>

fun split_on :: "char \<Rightarrow> string \<Rightarrow> string list" where
  "split_on c [] = [[]]"
| "split_on c (x # xs) =
     (if x = c then [] # split_on c xs
      else case split_on c xs of p # ps \<Rightarrow> (x # p) # ps | [] \<Rightarrow> [[x]])"

fun join_with :: "string \<Rightarrow> string list \<Rightarrow> string" where
  "join_with sep [] = []"
| "join_with sep [p] = p"
| "join_with sep (p # ps) = p @ sep @ join_with sep ps"

lemma split_on_not_Nil [simp]: "split_on c s \<noteq> []"
  by (induction s) (auto split: list.split)

lemma join_split_on [simp]: "join_with [c] (split_on c s) = s"
proof (induction s)
  case (Cons x xs)
  obtain p ps where "split_on c xs = p # ps" by (metis list.exhaust split_on_not_Nil)
  then show ?case using Cons by (cases ps) auto
qed simp

lemma split_on_parts: "p \<in> set (split_on c s) \<Longrightarrow> c \<notin> set p"
  by (induction s arbitrary: p) (auto split: list.splits if_splits)

lemma split_on_no_sep: "c \<notin> set p \<Longrightarrow> split_on c p = [p]"
  by (induction p) auto

lemma split_on_append_sep: "c \<notin> set p \<Longrightarrow> split_on c (p @ c # s) = p # split_on c s"
  by (induction p) auto

lemma split_join [simp]:
  "ps \<noteq> [] \<Longrightarrow> (\<And>p. p \<in> set ps \<Longrightarrow> c \<notin> set p) \<Longrightarrow> split_on c (join_with [c] ps) = ps"
proof (induction ps)
  case (Cons p ps)
  then show ?case by (cases ps) (auto simp: split_on_append_sep split_on_no_sep)
qed simp

text \<open>A lower-case SHA-256 digest: \<open>[0-9a-f]{64}\<close>.\<close>

definition is_sha256 :: "string \<Rightarrow> bool" where
  "is_sha256 s = (length s = 64 \<and> list_all (\<lambda>c. is_digit c \<or> c \<in> set ''abcdef'') s)"

text \<open>\<open>str.replace(old, new)\<close> for a non-empty \<open>old\<close>.\<close>

function replace_all :: "'a list \<Rightarrow> 'a list \<Rightarrow> 'a list \<Rightarrow> 'a list" where
  "replace_all old new [] = []"
| "replace_all old new (c # s) =
     (if old \<noteq> [] \<and> starts_with (c # s) old then new @ replace_all old new (drop (length old) (c # s))
      else c # replace_all old new s)"
  by pat_completeness auto
termination by (relation "measure (\<lambda>(old, new, s). length s)") (auto simp: neq_Nil_conv)

lemma replace_all_plain: "old \<noteq> [] \<Longrightarrow> hd old \<notin> set s \<Longrightarrow> replace_all old new (s @ t) = s @ replace_all old new t"
  by (induction s) (auto simp: starts_with_def neq_Nil_conv)

text \<open>Decimal digits of a number, as \<open>str\<close> writes it.\<close>

fun dec :: "nat \<Rightarrow> string" where
  "dec n = (if n < 10 then [char_of (48 + n)] else dec (n div 10) @ [char_of (48 + n mod 10)])"

declare dec.simps [simp del]

definition int_text :: "int \<Rightarrow> string" where
  "int_text i = (if i < 0 then CHR ''-'' # dec (nat (- i)) else dec (nat i))"

section \<open>Insertion-ordered dictionaries\<close>

primrec dget :: "('k \<times> 'v) list \<Rightarrow> 'k \<Rightarrow> 'v option" where
  "dget [] k = None"
| "dget (p # d) k = (if fst p = k then Some (snd p) else dget d k)"

primrec dput :: "'k \<Rightarrow> 'v \<Rightarrow> ('k \<times> 'v) list \<Rightarrow> ('k \<times> 'v) list" where
  "dput k v [] = [(k, v)]"
| "dput k v (p # d) = (if fst p = k then (k, v) # d else p # dput k v d)"

definition dpop :: "'k \<Rightarrow> ('k \<times> 'v) list \<Rightarrow> ('k \<times> 'v) list" where
  "dpop k d = filter (\<lambda>p. fst p \<noteq> k) d"

definition dkeys :: "('k \<times> 'v) list \<Rightarrow> 'k list" where
  "dkeys d = map fst d"

definition dvals :: "('k \<times> 'v) list \<Rightarrow> 'v list" where
  "dvals d = map snd d"

named_theorems dict_simps \<open>laws of insertion-ordered dictionaries\<close>

lemma dget_dput [dict_simps, simp]:
  "dget (dput k v d) k' = (if k' = k then Some v else dget d k')"
  by (induction d) auto

lemma dget_dpop [dict_simps, simp]:
  "dget (dpop k d) k' = (if k' = k then None else dget d k')"
  by (induction d) (auto simp: dpop_def)

lemma dkeys_dput_set [dict_simps]: "set (dkeys (dput k v d)) = insert k (set (dkeys d))"
  by (induction d) (auto simp: dkeys_def)

lemma dkeys_dput_dom: "dkeys (dput k v d) = (if k \<in> set (dkeys d) then dkeys d else dkeys d @ [k])"
  by (induction d) (auto simp: dkeys_def)

lemma distinct_dput [dict_simps]: "distinct (dkeys d) \<Longrightarrow> distinct (dkeys (dput k v d))"
  by (simp add: dkeys_dput_dom)

lemma distinct_dpop [dict_simps]: "distinct (dkeys d) \<Longrightarrow> distinct (dkeys (dpop k d))"
  by (induction d) (auto simp: dkeys_def dpop_def)

lemma dget_None_iff: "dget d k = None \<longleftrightarrow> k \<notin> set (dkeys d)"
  by (induction d) (auto simp: dkeys_def)

lemma dget_Some_in: "dget d k = Some v \<Longrightarrow> (k, v) \<in> set d"
  by (induction d) (auto split: if_splits)

lemma dget_in_iff: "distinct (dkeys d) \<Longrightarrow> dget d k = Some v \<longleftrightarrow> (k, v) \<in> set d"
  by (induction d) (auto simp: dkeys_def image_iff)

lemma dput_set: "set (dput k v d) \<subseteq> insert (k, v) (set d)"
  by (induction d) auto

lemma dpop_set: "set (dpop k d) \<subseteq> set d"
  by (auto simp: dpop_def)

lemma dput_new: "dget d k = None \<Longrightarrow> dput k v d = d @ [(k, v)]"
  by (induction d) (auto split: if_splits)

lemma length_dpop_le: "length (dpop k d) \<le> length d"
  by (simp add: dpop_def)

section \<open>JSON values\<close>

text \<open>
  Values that came through \<open>validate_json\<close>: no other Python value, only finite floats and text keys, so
  \<open>freeze_json\<close> and \<open>plain\<close> do not change them here. A JSON object keeps its keys in order; a finite float \<open>JFloat m k\<close> is \<open>m / 2 ^ k\<close>.
  Where a class is built from a dictionary, a field of a wrong type is refused when it is read, so that
  only the order of refusals can differ from the code's.
\<close>

datatype json =
    JNull
  | JBool bool
  | JInt int
  | JFloat int nat
  | JStr string
  | JArr "json list"
  | JObj "(string \<times> json) list"

type_synonym jdict = "(string \<times> json) list"

text \<open>\<open>data[k]\<close>, \<open>data.get(k, default)\<close>, and the checks of the constructors on what was read.\<close>

definition field_of :: "string \<Rightarrow> jdict \<Rightarrow> json result" where
  "field_of k d = (case dget d k of None \<Rightarrow> raiseR KeyError k | Some v \<Rightarrow> Inr v)"

definition get_or :: "string \<Rightarrow> json \<Rightarrow> jdict \<Rightarrow> json" where
  "get_or k v d = (case dget d k of None \<Rightarrow> v | Some x \<Rightarrow> x)"

definition as_str :: "string \<Rightarrow> json \<Rightarrow> string result" where
  "as_str msg v = (case v of JStr s \<Rightarrow> Inr s | _ \<Rightarrow> raiseR ValueError msg)"

definition as_str_opt :: "string \<Rightarrow> json \<Rightarrow> string option result" where
  "as_str_opt msg v = (case v of JNull \<Rightarrow> Inr None | JStr s \<Rightarrow> Inr (Some s) | _ \<Rightarrow> raiseR ValueError msg)"

definition as_int :: "string \<Rightarrow> json \<Rightarrow> int result" where
  "as_int msg v = (case v of JInt i \<Rightarrow> Inr i | _ \<Rightarrow> raiseR ValueError msg)"

definition as_bool :: "string \<Rightarrow> json \<Rightarrow> bool result" where
  "as_bool msg v = (case v of JBool b \<Rightarrow> Inr b | _ \<Rightarrow> raiseR TypeError msg)"

definition as_obj :: "string \<Rightarrow> json \<Rightarrow> jdict result" where
  "as_obj msg v = (case v of JObj d \<Rightarrow> Inr d | _ \<Rightarrow> raiseR TypeError msg)"

definition opt_json :: "string option \<Rightarrow> json" where
  "opt_json v = (case v of None \<Rightarrow> JNull | Some s \<Rightarrow> JStr s)"

lemma json_read_simps [simp]:
  "as_str m (JStr s) = Inr s" "as_int m (JInt i) = Inr i" "as_bool m (JBool b) = Inr b"
  "as_obj m (JObj d) = Inr d" "as_str_opt m (opt_json v) = Inr v" "as_str_opt m JNull = Inr None"
  by (simp_all add: as_str_def as_int_def as_bool_def as_obj_def as_str_opt_def opt_json_def split: option.split)

definition as_text :: "string \<Rightarrow> json \<Rightarrow> string result" where
  "as_text msg v = (case v of JStr s \<Rightarrow> Inr s | _ \<Rightarrow> raiseR TypeError msg)"

definition as_text_opt :: "string \<Rightarrow> json \<Rightarrow> string option result" where
  "as_text_opt msg v = (case v of JNull \<Rightarrow> Inr None | JStr s \<Rightarrow> Inr (Some s) | _ \<Rightarrow> raiseR TypeError msg)"

definition as_count :: "string \<Rightarrow> json \<Rightarrow> int result" where
  "as_count msg v = (case v of JInt i \<Rightarrow> Inr i | _ \<Rightarrow> raiseR TypeError msg)"

text \<open>\<open>tuple(v)\<close>: a text gives its characters, a mapping its keys.\<close>

definition tuple_of :: "json \<Rightarrow> json list result" where
  "tuple_of v = (case v of JArr xs \<Rightarrow> Inr xs | JStr s \<Rightarrow> Inr (map (\<lambda>c. JStr [c]) s)
     | JObj d \<Rightarrow> Inr (map JStr (dkeys d)) | _ \<Rightarrow> raiseR TypeError ''object is not iterable'')"

text \<open>An optional entry of a dictionary under construction.\<close>

definition opt_field :: "'k \<Rightarrow> 'v option \<Rightarrow> ('k \<times> 'v) list" where
  "opt_field k v = (case v of None \<Rightarrow> [] | Some x \<Rightarrow> [(k, x)])"

lemma opt_field_simps [simp]: "opt_field k None = []" "opt_field k (Some x) = [(k, x)]"
  by (simp_all add: opt_field_def)

lemma dget_append [simp]: "dget (a @ b) k = (case dget a k of None \<Rightarrow> dget b k | Some v \<Rightarrow> Some v)"
  by (induction a) auto

lemma as_text_simps [simp]:
  "as_text m (JStr s) = Inr s" "as_text_opt m (JStr s) = Inr (Some s)" "as_text_opt m JNull = Inr None"
  "as_text_opt m (opt_json v) = Inr v" "as_count m (JInt i) = Inr i" "tuple_of (JArr xs) = Inr xs"
  by (simp_all add: as_text_def as_text_opt_def as_count_def tuple_of_def opt_json_def split: option.split)

lemma field_of_simps [simp]:
  "field_of k ((k, v) # d) = Inr v" "k' \<noteq> k \<Longrightarrow> field_of k ((k', v) # d) = field_of k d"
  by (simp_all add: field_of_def)

lemma get_or_simps [simp]:
  "get_or k w ((k, v) # d) = v" "k' \<noteq> k \<Longrightarrow> get_or k w ((k', v) # d) = get_or k w d" "get_or k w [] = w"
  by (simp_all add: get_or_def)

section \<open>Contracts shared by the components\<close>

text \<open>A component whose operations all keep an invariant: the invariant holds after any run.\<close>

locale state_machine =
  fixes step :: "'op \<Rightarrow> 's \<Rightarrow> 's"
    and inv :: "'s \<Rightarrow> bool"
  assumes step_inv: "inv s \<Longrightarrow> inv (step op s)"
begin

lemma run_inv: "inv s \<Longrightarrow> inv (fold step ops s)"
  by (induction ops arbitrary: s) (auto dest: step_inv)

end

text \<open>A component whose operations never move down in a preorder (counters that only grow).\<close>

locale monotone_machine = state_machine +
  fixes le :: "'s \<Rightarrow> 's \<Rightarrow> bool"
  assumes le_refl: "le s s"
    and le_trans: "le s t \<Longrightarrow> le t u \<Longrightarrow> le s u"
    and step_le: "inv s \<Longrightarrow> le s (step op s)"
begin

lemma run_le: "inv s \<Longrightarrow> le s (fold step ops s)"
proof (induction ops arbitrary: s)
  case Nil
  then show ?case by (simp add: le_refl)
next
  case (Cons op ops)
  have "le s (step op s)" using Cons.prems by (rule step_le)
  moreover have "le (step op s) (fold step ops (step op s))"
    using Cons.prems by (intro Cons.IH step_inv)
  ultimately show ?case by (auto intro: le_trans)
qed

end

text \<open>A status table with absorbing states.\<close>

locale status_graph =
  fixes allowed :: "'s \<Rightarrow> 's \<Rightarrow> bool"
    and final :: "'s \<Rightarrow> bool"
  assumes final_stuck: "final s \<Longrightarrow> \<not> allowed s t"
begin

lemma final_absorbing: "rtranclp allowed s t \<Longrightarrow> final s \<Longrightarrow> t = s"
  by (induction rule: rtranclp_induct) (auto dest: final_stuck)

end

end
