(* ===== verification/Limits.thy ===== *)
theory Limits
  imports Prelude
begin

text \<open>
  Limits and leases of one task: \<open>src/src/code_agent/core/limits.py\<close> (\<open>EngineLimits\<close>,
  \<open>TaskProgressSnapshot\<close>, \<open>TaskBudget\<close>, \<open>BudgetReservation\<close>, \<open>lease_limits\<close>, \<open>add_usage\<close>), the
  \<open>Usage\<close> value of \<open>core/models.py\<close>, and the tier change \<open>_renew_lease\<close> of
  \<open>sessions/_task_budget.py\<close>. A dataclass is a record together with the guards of its
  \<open>__post_init__\<close> (\<open>check_*\<close>), which \<open>dataclasses.replace\<close> runs again. SHA-256 is the
  parameter \<open>sha\<close>, applied to the fields of the canonical JSON payload.
\<close>

section \<open>Engine limits\<close>

datatype lease_tier = QUICK | STANDARD | DEEP

datatype reserve_status = RESERVED | RENEWED | LEASE_EXHAUSTED | HARD_EXHAUSTED

record engine_limits =
  el_max_agent_rounds :: int
  el_max_tool_calls :: int
  el_max_tool_calls_per_round :: int
  el_max_total_tokens :: int
  el_max_assistant_chars :: int

definition check_limits :: "engine_limits \<Rightarrow> engine_limits result" where
  "check_limits l =
     bindR (foldR (\<lambda>(n, v, lo) u. if v < lo
              then raiseR ValueError (n @ '' must be at least '' @ (if lo = 0 then ''0'' else ''1'')) else Inr u)
            [(''max_agent_rounds'', el_max_agent_rounds l, 1 :: int),
             (''max_tool_calls'', el_max_tool_calls l, 0),
             (''max_tool_calls_per_round'', el_max_tool_calls_per_round l, 1),
             (''max_total_tokens'', el_max_total_tokens l, 1),
             (''max_assistant_chars'', el_max_assistant_chars l, 1)] ()) (\<lambda>_. Inr l)"

text \<open>\<open>EngineLimits.__init__\<close> with its compatibility keyword \<open>max_model_turns\<close>.\<close>

definition new_limits :: "engine_limits \<Rightarrow> int option \<Rightarrow> engine_limits result" where
  "new_limits l max_model_turns =
     (case max_model_turns of
        None \<Rightarrow> check_limits l
      | Some m \<Rightarrow>
          if el_max_agent_rounds l \<noteq> 50
          then raiseR ValueError ''max_agent_rounds conflicts with max_model_turns''
          else check_limits (l\<lparr>el_max_agent_rounds := m\<rparr>))"

definition default_limits :: engine_limits where
  "default_limits =
     \<lparr>el_max_agent_rounds = 50, el_max_tool_calls = 128, el_max_tool_calls_per_round = 50,
      el_max_total_tokens = 200000, el_max_assistant_chars = 1000000\<rparr>"

fun tier_limits :: "lease_tier \<Rightarrow> int \<times> int" where
  "tier_limits QUICK = (4, 8)"
| "tier_limits STANDARD = (12, 30)"
| "tier_limits DEEP = (30, 80)"

definition lease_limits :: "lease_tier \<Rightarrow> engine_limits \<Rightarrow> int \<times> int" where
  "lease_limits tier l =
     (case tier_limits tier of (turns, tools) \<Rightarrow>
        (min turns (el_max_agent_rounds l), min tools (el_max_tool_calls l)))"

section \<open>Progress facts\<close>

record progress_snapshot =
  ps_code_generation :: int
  ps_subject_hash :: string
  ps_verification_fingerprint :: string
  ps_failure_fingerprint :: string
  ps_action_fingerprint :: string
  ps_interaction_revision :: int
  ps_reason :: string

definition initial_snapshot :: progress_snapshot where
  "initial_snapshot =
     \<lparr>ps_code_generation = 0, ps_subject_hash = '''', ps_verification_fingerprint = '''',
      ps_failure_fingerprint = '''', ps_action_fingerprint = '''', ps_interaction_revision = 0,
      ps_reason = ''initial task state''\<rparr>"

definition check_snapshot :: "progress_snapshot \<Rightarrow> progress_snapshot result" where
  "check_snapshot p =
     (if ps_code_generation p < 0 \<or> ps_interaction_revision p < 0
      then raiseR ValueError ''must be a non-negative integer''
      else if 256 < length (ps_subject_hash p) \<or> 256 < length (ps_verification_fingerprint p) \<or>
              256 < length (ps_failure_fingerprint p) \<or> 256 < length (ps_action_fingerprint p)
      then raiseR ValueError ''must be bounded text''
      else if blank (ps_reason p) \<or> 256 < length (ps_reason p)
      then raiseR ValueError ''reason must be bounded non-blank text''
      else Inr p)"

type_synonym digest_payload = "string \<times> int \<times> int \<times> string \<times> string"

definition snapshot_digest :: "(digest_payload \<Rightarrow> string) \<Rightarrow> progress_snapshot \<Rightarrow> string" where
  "snapshot_digest sha p =
     sha (ps_action_fingerprint p, ps_code_generation p, ps_interaction_revision p,
          (if ps_code_generation p = 0 then '''' else ps_subject_hash p),
          ps_verification_fingerprint p)"

section \<open>Task budgets\<close>

record task_budget =
  tb_model_name :: string
  tb_limits :: engine_limits
  tb_model_turns :: int
  tb_tool_calls :: int
  tb_input_tokens :: int
  tb_output_tokens :: int
  tb_repair_cycles :: int
  tb_repeated_failures :: int
  tb_last_failure :: "string option"
  tb_active_seconds :: int
  tb_warned_80 :: bool
  tb_warned_90 :: bool
  tb_tier :: lease_tier
  tb_lease_turns :: int
  tb_lease_tools :: int
  tb_renewals :: int
  tb_final :: bool
  tb_baseline :: string
  tb_last_reason :: "string option"

text \<open>\<open>TaskBudget.__post_init__\<close> on a value whose lease limits are already integers.\<close>

definition check_task_budget :: "task_budget \<Rightarrow> task_budget result" where
  "check_task_budget b =
     (if blank (tb_model_name b) then raiseR ValueError ''model_name must be non-blank text''
      else if tb_model_turns b < 0 \<or> tb_tool_calls b < 0 \<or> tb_input_tokens b < 0 \<or>
              tb_output_tokens b < 0 \<or> tb_repair_cycles b < 0 \<or> tb_repeated_failures b < 0 \<or>
              tb_active_seconds b < 0
      then raiseR ValueError ''must be a non-negative integer''
      else if el_max_agent_rounds (tb_limits b) < tb_model_turns b
      then raiseR ValueError ''model_turns exceeds task limit''
      else if el_max_tool_calls (tb_limits b) < tb_tool_calls b
      then raiseR ValueError ''tool_calls exceeds task limit''
      else if (case tb_last_failure b of None \<Rightarrow> False | Some f \<Rightarrow> 1024 < length f)
      then raiseR ValueError ''last_failure_signature must be bounded text or None''
      else if \<not> (0 \<le> tb_lease_turns b \<and> tb_lease_turns b \<le> el_max_agent_rounds (tb_limits b))
      then raiseR ValueError ''lease_model_turn_limit must be within the hard task limit''
      else if \<not> (0 \<le> tb_lease_tools b \<and> tb_lease_tools b \<le> el_max_tool_calls (tb_limits b))
      then raiseR ValueError ''lease_tool_call_limit must be within the hard task limit''
      else if tb_renewals b < 0 \<or> 3 < tb_renewals b
      then raiseR ValueError ''lease_renewals must be between zero and three''
      else if 64 < length (tb_baseline b)
      then raiseR ValueError ''lease_progress_baseline must be a bounded digest''
      else if tb_baseline b \<noteq> '''' \<and> \<not> is_sha256 (tb_baseline b)
      then raiseR ValueError ''lease_progress_baseline must be a SHA-256 digest''
      else if (case tb_last_reason b of None \<Rightarrow> False | Some r \<Rightarrow> blank r \<or> 256 < length r)
      then raiseR ValueError ''lease_last_reason must be bounded text or None''
      else Inr b)"

text \<open>The constructor: a lease limit given as \<open>None\<close> is filled from the tier.\<close>

definition new_task_budget :: "int option \<Rightarrow> int option \<Rightarrow> task_budget \<Rightarrow> task_budget result" where
  "new_task_budget turns tools b =
     (case lease_limits (tb_tier b) (tb_limits b) of (default_turns, default_tools) \<Rightarrow>
        check_task_budget
          (b\<lparr>tb_lease_turns := (case turns of None \<Rightarrow> default_turns | Some n \<Rightarrow> n),
             tb_lease_tools := (case tools of None \<Rightarrow> default_tools | Some n \<Rightarrow> n)\<rparr>))"

definition fresh_budget :: "string \<Rightarrow> engine_limits \<Rightarrow> task_budget" where
  "fresh_budget model l =
     \<lparr>tb_model_name = model, tb_limits = l, tb_model_turns = 0, tb_tool_calls = 0,
      tb_input_tokens = 0, tb_output_tokens = 0, tb_repair_cycles = 0, tb_repeated_failures = 0,
      tb_last_failure = None, tb_active_seconds = 0, tb_warned_80 = False, tb_warned_90 = False,
      tb_tier = STANDARD, tb_lease_turns = 0, tb_lease_tools = 0, tb_renewals = 0,
      tb_final = False, tb_baseline = '''', tb_last_reason = None\<rparr>"

record budget_reservation =
  br_budget :: task_budget
  br_status :: reserve_status
  br_reason :: "string option"

definition accepted :: "budget_reservation \<Rightarrow> bool" where
  "accepted r = (br_status r \<in> {RESERVED, RENEWED})"

text \<open>
  \<open>_renew_lease\<close>: the tiers climb QUICK, STANDARD, DEEP, then one final extension to the hard
  limits; after it there is no renewal (\<open>None\<close>).
\<close>

definition renew_lease ::
  "(digest_payload \<Rightarrow> string) \<Rightarrow> task_budget \<Rightarrow> progress_snapshot \<Rightarrow> task_budget option result" where
  "renew_lease sha b p =
     (let extend = (\<lambda>tier limits final.
            bindR (check_task_budget
              (b\<lparr>tb_tier := tier,
                 tb_lease_turns := max (tb_lease_turns b) (fst limits),
                 tb_lease_tools := max (tb_lease_tools b) (snd limits),
                 tb_renewals := tb_renewals b + 1,
                 tb_final := final,
                 tb_baseline := snapshot_digest sha p,
                 tb_last_reason := Some (ps_reason p)\<rparr>)) (\<lambda>b'. Inr (Some b')))
      in case tb_tier b of
           QUICK \<Rightarrow> extend STANDARD (lease_limits STANDARD (tb_limits b)) False
         | STANDARD \<Rightarrow> extend DEEP (lease_limits DEEP (tb_limits b)) False
         | DEEP \<Rightarrow>
             if \<not> tb_final b
             then extend DEEP (el_max_agent_rounds (tb_limits b), el_max_tool_calls (tb_limits b)) True
             else Inr None)"

section \<open>Provider usage\<close>

record usage =
  us_input :: int
  us_output :: int
  us_cached_input :: int
  us_cache_write :: "int option"
  us_cache_read_known :: bool

definition zero_model_usage :: usage where
  "zero_model_usage =
     \<lparr>us_input = 0, us_output = 0, us_cached_input = 0, us_cache_write = None,
      us_cache_read_known = False\<rparr>"

definition add_usage :: "usage \<Rightarrow> usage \<Rightarrow> usage" where
  "add_usage l r =
     (if l = zero_model_usage then r
      else \<lparr>us_input = us_input l + us_input r, us_output = us_output l + us_output r,
            us_cached_input = us_cached_input l + us_cached_input r,
            us_cache_write = (case (us_cache_write l, us_cache_write r) of
                                (Some a, Some b) \<Rightarrow> Some (a + b) | _ \<Rightarrow> None),
            us_cache_read_known = (us_cache_read_known l \<and> us_cache_read_known r)\<rparr>)"

section \<open>Lemmas\<close>

lemma check_limits_Inr:
  "check_limits l = Inr l' \<longleftrightarrow> l' = l \<and> 1 \<le> el_max_agent_rounds l \<and> 0 \<le> el_max_tool_calls l \<and>
     1 \<le> el_max_tool_calls_per_round l \<and> 1 \<le> el_max_total_tokens l \<and> 1 \<le> el_max_assistant_chars l"
  by (auto simp: check_limits_def bindR_Inr_iff split: if_splits)

text \<open>The rank of a lease: how many renewals can lie behind a lease of this tier.\<close>

fun lease_rank :: "lease_tier \<Rightarrow> bool \<Rightarrow> int" where
  "lease_rank QUICK f = 0"
| "lease_rank STANDARD f = 1"
| "lease_rank DEEP f = (if f then 3 else 2)"

text \<open>
  \<open>budget_ok\<close> is what the constructor's guards say of a stored budget, plus the relation between
  the tier and the number of renewals that keeps a renewal from ever failing its own guards.
\<close>

definition budget_ok :: "task_budget \<Rightarrow> bool" where
  "budget_ok b \<longleftrightarrow> check_task_budget b = Inr b \<and> check_limits (tb_limits b) = Inr (tb_limits b) \<and>
     tb_renewals b \<le> lease_rank (tb_tier b) (tb_final b) \<and> (tb_final b \<longrightarrow> tb_tier b = DEEP)"

definition counters_ok :: "task_budget \<Rightarrow> bool" where
  "counters_ok b \<longleftrightarrow> 0 \<le> tb_model_turns b \<and> tb_model_turns b \<le> el_max_agent_rounds (tb_limits b) \<and>
     0 \<le> tb_tool_calls b \<and> tb_tool_calls b \<le> el_max_tool_calls (tb_limits b)"

lemma check_task_budget_Inr:
  "check_task_budget b = Inr b' \<longleftrightarrow> b' = b \<and> \<not> blank (tb_model_name b) \<and> counters_ok b \<and>
     0 \<le> tb_input_tokens b \<and> 0 \<le> tb_output_tokens b \<and> 0 \<le> tb_repair_cycles b \<and>
     0 \<le> tb_repeated_failures b \<and> 0 \<le> tb_active_seconds b \<and>
     (case tb_last_failure b of None \<Rightarrow> True | Some f \<Rightarrow> length f \<le> 1024) \<and>
     0 \<le> tb_lease_turns b \<and> tb_lease_turns b \<le> el_max_agent_rounds (tb_limits b) \<and>
     0 \<le> tb_lease_tools b \<and> tb_lease_tools b \<le> el_max_tool_calls (tb_limits b) \<and>
     0 \<le> tb_renewals b \<and> tb_renewals b \<le> 3 \<and> length (tb_baseline b) \<le> 64 \<and>
     (tb_baseline b = '''' \<or> is_sha256 (tb_baseline b)) \<and>
     (case tb_last_reason b of None \<Rightarrow> True | Some r \<Rightarrow> \<not> blank r \<and> length r \<le> 256)"
  by (auto simp: check_task_budget_def counters_ok_def split: option.splits)

lemma lease_rank_le: "lease_rank t f \<le> 3"
  by (cases t) auto

lemma renew_lease_SomeD:
  assumes "renew_lease sha b p = Inr (Some b')"
  shows "b' = b\<lparr>tb_tier := tb_tier b', tb_lease_turns := tb_lease_turns b',
                tb_lease_tools := tb_lease_tools b', tb_renewals := tb_renewals b + 1,
                tb_final := tb_final b', tb_baseline := snapshot_digest sha p,
                tb_last_reason := Some (ps_reason p)\<rparr>"
    and "lease_rank (tb_tier b') (tb_final b') = lease_rank (tb_tier b) (tb_final b) + 1
         \<or> tb_tier b \<noteq> DEEP \<and> tb_final b"
    and "check_task_budget b' = Inr b'"
    and "tb_final b' \<longrightarrow> tb_tier b' = DEEP"
  using assms
  by (auto simp: renew_lease_def Let_def bindR_Inr_iff check_task_budget_Inr
      split: lease_tier.splits if_splits)

lemma renew_lease_grows:
  assumes "renew_lease sha b p = Inr (Some b')"
  shows "tb_lease_turns b \<le> tb_lease_turns b'" "tb_lease_tools b \<le> tb_lease_tools b'"
  using assms
  by (auto simp: renew_lease_def Let_def bindR_Inr_iff check_task_budget_Inr
      split: lease_tier.splits if_splits)

lemma renew_lease_total:
  assumes ok: "budget_ok b" and dg: "is_sha256 (snapshot_digest sha p)" and p: "check_snapshot p = Inr p"
  shows "\<exists>r. renew_lease sha b p = Inr r"
proof -
  have reason: "\<not> blank (ps_reason p)" "length (ps_reason p) \<le> 256"
    using p by (auto simp: check_snapshot_def split: if_splits)
  have lim: "0 \<le> el_max_tool_calls (tb_limits b)" "1 \<le> el_max_agent_rounds (tb_limits b)"
    using ok by (auto simp: budget_ok_def check_limits_Inr)
  show ?thesis
    using ok reason lim dg
    by (cases "tb_tier b"; cases "tb_final b")
       (auto simp: renew_lease_def Let_def budget_ok_def check_task_budget_Inr bindR_Inr_iff
         lease_limits_def counters_ok_def is_sha256_def)
qed

lemma renew_lease_None_iff: "renew_lease sha b p = Inr None \<longleftrightarrow> tb_tier b = DEEP \<and> tb_final b"
  by (auto simp: renew_lease_def Let_def bindR_Inr_iff split: lease_tier.splits if_splits)

text \<open>Summing provider usage: the empty usage is neutral, and adding is associative.\<close>

lemma add_usage_zero_left [simp]: "add_usage zero_model_usage u = u"
  by (simp add: add_usage_def)

lemma add_usage_tokens:
  "us_input (add_usage l r) = us_input l + us_input r"
  "us_output (add_usage l r) = us_output l + us_output r"
  by (auto simp: add_usage_def zero_model_usage_def)

end
