(* ===== verification/Ledger.thy ===== *)
theory Ledger
  imports Prelude
begin

text \<open>
  The parent budget of a delegation tree: \<open>src/src/code_agent/orchestration/budget.py\<close>
  (\<open>ParentBudget\<close>, \<open>BudgetLease\<close>, \<open>BudgetState\<close>, \<open>BudgetLedger\<close>) with the request and usage
  values of \<open>orchestration/models.py\<close>. Every method runs under one \<open>asyncio.Lock\<close>, so an
  execution is a sequence of whole operations; \<open>ledger_step\<close> is one of them. A child's agent
  definition is opaque to the ledger and stays a type parameter. \<open>uuid4().hex\<close> is an argument
  (\<open>fresh\<close>), with nothing assumed about it.
\<close>

section \<open>Values\<close>

record agent_usage =
  au_total_tokens :: int
  au_tool_calls :: int
  au_active_seconds :: int

definition nonnegative :: "string \<Rightarrow> int \<Rightarrow> int result" where
  "nonnegative label v =
     (if v < 0 then raiseR ValueError (label @ '' must be a non-negative integer'') else Inr v)"

definition positive :: "string \<Rightarrow> int \<Rightarrow> int result" where
  "positive label v = bindR (nonnegative label v) (\<lambda>r.
     if r = 0 then raiseR ValueError (label @ '' must be a positive integer'') else Inr r)"

lemma nonnegative_Inr [simp]: "nonnegative l v = Inr w \<longleftrightarrow> w = v \<and> 0 \<le> v"
  by (auto simp: nonnegative_def)

lemma positive_Inr [simp]: "positive l v = Inr w \<longleftrightarrow> w = v \<and> 0 < v"
  by (auto simp: positive_def bindR_Inr_iff)

definition mk_usage :: "int \<Rightarrow> int \<Rightarrow> int \<Rightarrow> agent_usage result" where
  "mk_usage t c a =
     bindR (nonnegative ''total_tokens'' t) (\<lambda>t.
     bindR (nonnegative ''tool_calls'' c) (\<lambda>c.
     bindR (nonnegative ''active_seconds'' a) (\<lambda>a.
       Inr \<lparr>au_total_tokens = t, au_tool_calls = c, au_active_seconds = a\<rparr>)))"

definition zero_usage :: agent_usage where
  "zero_usage = \<lparr>au_total_tokens = 0, au_tool_calls = 0, au_active_seconds = 0\<rparr>"

definition add_agent_usage :: "agent_usage \<Rightarrow> agent_usage \<Rightarrow> agent_usage" where
  "add_agent_usage l r =
     \<lparr>au_total_tokens = au_total_tokens l + au_total_tokens r,
      au_tool_calls = au_tool_calls l + au_tool_calls r,
      au_active_seconds = au_active_seconds l + au_active_seconds r\<rparr>"

definition freeze_sources :: "string list \<Rightarrow> string list result" where
  "freeze_sources vs =
     (if 32 < length vs \<or> list_ex (\<lambda>p. blank p \<or> 1024 < length p) vs
      then raiseR ValueError ''required_sources must contain at most 32 bounded paths''
      else if \<not> distinct vs then raiseR ValueError ''required_sources must be unique''
      else Inr vs)"

record 'ag child_request =
  cr_parent_run_id :: string
  cr_objective :: string
  cr_agent :: 'ag
  cr_depth :: int
  cr_token_budget :: int
  cr_tool_budget :: int
  cr_active_seconds :: int
  cr_run_id :: string
  cr_required_sources :: "string list"

text \<open>\<open>ChildRunRequest.__post_init__\<close>: a request exists only if every guard passes.\<close>

definition mk_child_request :: "'ag child_request \<Rightarrow> 'ag child_request result" where
  "mk_child_request r =
     bindR (freeze_sources (cr_required_sources r)) (\<lambda>_.
     bindR (text_check 128 ''run_id must be non-blank text of at most 128 characters'' (cr_run_id r)) (\<lambda>_.
     bindR (text_check 128 ''parent_run_id must be non-blank text of at most 128 characters'' (cr_parent_run_id r)) (\<lambda>_.
     bindR (text_check 4096 ''objective must be non-blank text of at most 4096 characters'' (cr_objective r)) (\<lambda>_.
     bindR (positive ''depth'' (cr_depth r)) (\<lambda>_.
     bindR (positive ''token_budget'' (cr_token_budget r)) (\<lambda>_.
     bindR (nonnegative ''tool_budget'' (cr_tool_budget r)) (\<lambda>_.
     bindR (positive ''active_seconds'' (cr_active_seconds r)) (\<lambda>_. Inr r))))))))"

lemma mk_child_request_Inr:
  "mk_child_request r = Inr r' \<Longrightarrow>
     r' = r \<and> 0 < cr_token_budget r \<and> 0 \<le> cr_tool_budget r \<and> 0 < cr_active_seconds r"
  by (auto simp: mk_child_request_def bindR_Inr_iff)

record parent_budget =
  pb_max_children :: int
  pb_max_depth :: int
  pb_max_concurrency :: int
  pb_max_total_tokens :: int
  pb_max_tool_calls :: int
  pb_max_active_seconds :: int

definition default_parent_budget :: parent_budget where
  "default_parent_budget =
     \<lparr>pb_max_children = 8, pb_max_depth = 2, pb_max_concurrency = 4,
      pb_max_total_tokens = 200000, pb_max_tool_calls = 128, pb_max_active_seconds = 3600\<rparr>"

definition mk_parent_budget :: "parent_budget \<Rightarrow> parent_budget result" where
  "mk_parent_budget b =
     bindR (foldR (\<lambda>(n, v) u. if v < 1
              then raiseR ValueError (n @ '' must be a positive integer'') else Inr u)
            [(''max_children'', pb_max_children b), (''max_depth'', pb_max_depth b),
             (''max_concurrency'', pb_max_concurrency b),
             (''max_total_tokens'', pb_max_total_tokens b),
             (''max_active_seconds'', pb_max_active_seconds b)] ()) (\<lambda>_.
     if pb_max_tool_calls b < 0
     then raiseR ValueError ''max_tool_calls must be a non-negative integer''
     else Inr b)"

lemma mk_parent_budget_Inr:
  "mk_parent_budget b = Inr b' \<longleftrightarrow> b' = b \<and> 1 \<le> pb_max_children b \<and> 1 \<le> pb_max_depth b \<and>
     1 \<le> pb_max_concurrency b \<and> 1 \<le> pb_max_total_tokens b \<and> 1 \<le> pb_max_active_seconds b \<and>
     0 \<le> pb_max_tool_calls b"
  by (auto simp: mk_parent_budget_def bindR_Inr_iff split: if_splits)

record budget_lease =
  bl_lease_id :: string
  bl_run_id :: string
  bl_token_budget :: int
  bl_tool_budget :: int
  bl_active_seconds :: int

record budget_state =
  bs_children_started :: int
  bs_running_leases :: int
  bs_used :: agent_usage
  bs_reserved :: agent_usage

record ledger =
  lg_budget :: parent_budget
  lg_children_started :: int
  lg_used :: agent_usage
  lg_leases :: "(string \<times> budget_lease) list"

section \<open>Operations\<close>

definition new_ledger :: "parent_budget \<Rightarrow> ledger" where
  "new_ledger b =
     \<lparr>lg_budget = b, lg_children_started = 0, lg_used = zero_usage, lg_leases = []\<rparr>"

definition reserved :: "ledger \<Rightarrow> agent_usage" where
  "reserved g =
     \<lparr>au_total_tokens = sum_list (map bl_token_budget (dvals (lg_leases g))),
      au_tool_calls = sum_list (map bl_tool_budget (dvals (lg_leases g))),
      au_active_seconds = sum_list (map bl_active_seconds (dvals (lg_leases g)))\<rparr>"

definition ledger_state :: "ledger \<Rightarrow> budget_state" where
  "ledger_state g =
     \<lparr>bs_children_started = lg_children_started g,
      bs_running_leases = int (length (lg_leases g)),
      bs_used = lg_used g,
      bs_reserved = reserved g\<rparr>"

definition reserve :: "string \<Rightarrow> 'ag child_request \<Rightarrow> ledger \<Rightarrow> (budget_lease \<times> ledger) result" where
  "reserve fresh r g =
     (let b = lg_budget g; u = lg_used g; res = reserved g;
          remaining_tokens = pb_max_total_tokens b - au_total_tokens u - au_total_tokens res;
          remaining_tools = pb_max_tool_calls b - au_tool_calls u - au_tool_calls res;
          remaining_seconds = pb_max_active_seconds b - au_active_seconds u - au_active_seconds res
      in if cr_depth r > pb_max_depth b
         then raiseR BudgetExceededError ''child depth exceeds parent budget''
         else if lg_children_started g \<ge> pb_max_children b
         then raiseR BudgetExceededError ''child count exceeds parent budget''
         else if cr_token_budget r > remaining_tokens
         then raiseR BudgetExceededError ''child token reservation exceeds parent budget''
         else if cr_tool_budget r > remaining_tools
         then raiseR BudgetExceededError ''child tool reservation exceeds parent budget''
         else if cr_active_seconds r > remaining_seconds
         then raiseR BudgetExceededError ''child active-time reservation exceeds parent budget''
         else let lease = \<lparr>bl_lease_id = fresh, bl_run_id = cr_run_id r,
                           bl_token_budget = cr_token_budget r,
                           bl_tool_budget = cr_tool_budget r,
                           bl_active_seconds = cr_active_seconds r\<rparr>
              in Inr (lease, g\<lparr>lg_leases := dput fresh lease (lg_leases g),
                               lg_children_started := lg_children_started g + 1\<rparr>))"

text \<open>
  \<open>settle\<close> changes the ledger on every path, the raising ones included: the pop of
  the lease happens before the comparison, the charge before the overrun is raised.
\<close>

definition settle :: "budget_lease \<Rightarrow> agent_usage \<Rightarrow> ledger \<Rightarrow> ledger \<times> budget_state result" where
  "settle lease usage g =
     (let active = dget (lg_leases g) (bl_lease_id lease);
          popped = g\<lparr>lg_leases := dpop (bl_lease_id lease) (lg_leases g)\<rparr>
      in if active \<noteq> Some lease then (popped, raiseR ValueError ''budget lease is not active'')
         else let exceeded = (au_total_tokens usage > bl_token_budget lease \<or>
                              au_tool_calls usage > bl_tool_budget lease \<or>
                              au_active_seconds usage > bl_active_seconds lease);
                  charged = \<lparr>au_total_tokens = min (au_total_tokens usage) (bl_token_budget lease),
                             au_tool_calls = min (au_tool_calls usage) (bl_tool_budget lease),
                             au_active_seconds = min (au_active_seconds usage) (bl_active_seconds lease)\<rparr>;
                  done = popped\<lparr>lg_used := add_agent_usage (lg_used popped) charged\<rparr>
              in (done, if exceeded
                        then raiseR BudgetExceededError ''child usage exceeded its reserved budget''
                        else Inr (ledger_state done)))"

definition release :: "budget_lease \<Rightarrow> ledger \<Rightarrow> ledger \<times> budget_state result" where
  "release lease g = settle lease zero_usage g"

datatype 'ag ledger_op =
    Reserve string "'ag child_request"
  | Settle budget_lease int int int
  | Release budget_lease

text \<open>
  One call on the ledger, together with the construction of its argument: a request or a usage
  whose constructor raises never reaches the ledger.
\<close>

fun ledger_step :: "'ag ledger_op \<Rightarrow> ledger \<Rightarrow> ledger" where
  "ledger_step (Reserve fresh r) g =
     (case bindR (mk_child_request r) (\<lambda>r. reserve fresh r g) of
        Inl e \<Rightarrow> g | Inr (lease, g') \<Rightarrow> g')"
| "ledger_step (Settle lease t c a) g =
     (case mk_usage t c a of Inl e \<Rightarrow> g | Inr u \<Rightarrow> fst (settle lease u g))"
| "ledger_step (Release lease) g = fst (release lease g)"

section \<open>The ledger never overcommits\<close>

definition lease_ok :: "budget_lease \<Rightarrow> bool" where
  "lease_ok l \<longleftrightarrow> 0 < bl_token_budget l \<and> 0 \<le> bl_tool_budget l \<and> 0 < bl_active_seconds l"

definition usage_nonneg :: "agent_usage \<Rightarrow> bool" where
  "usage_nonneg u \<longleftrightarrow> 0 \<le> au_total_tokens u \<and> 0 \<le> au_tool_calls u \<and> 0 \<le> au_active_seconds u"

text \<open>What is spent and what is promised together stay within the parent's limits.\<close>

definition within_budget :: "ledger \<Rightarrow> bool" where
  "within_budget g \<longleftrightarrow>
     au_total_tokens (lg_used g) + au_total_tokens (reserved g) \<le> pb_max_total_tokens (lg_budget g) \<and>
     au_tool_calls (lg_used g) + au_tool_calls (reserved g) \<le> pb_max_tool_calls (lg_budget g) \<and>
     au_active_seconds (lg_used g) + au_active_seconds (reserved g) \<le> pb_max_active_seconds (lg_budget g) \<and>
     lg_children_started g \<le> pb_max_children (lg_budget g)"

definition ledger_inv :: "ledger \<Rightarrow> bool" where
  "ledger_inv g \<longleftrightarrow> within_budget g \<and> usage_nonneg (lg_used g) \<and>
     distinct (dkeys (lg_leases g)) \<and> list_all lease_ok (dvals (lg_leases g)) \<and>
     list_all (\<lambda>(k, l). bl_lease_id l = k) (lg_leases g) \<and>
     int (length (lg_leases g)) \<le> lg_children_started g"

lemma sum_dput_le:
  assumes "\<And>x. x \<in> set (dvals d) \<Longrightarrow> 0 \<le> (f x :: int)"
  shows "sum_list (map f (dvals (dput k v d))) \<le> sum_list (map f (dvals d)) + f v"
  using assms
proof (induction d)
  case (Cons p d)
  then have "sum_list (map f (dvals (dput k v d))) \<le> sum_list (map f (dvals d)) + f v" "0 \<le> f (snd p)"
    by (auto simp: dvals_def)
  then show ?case by (auto simp: dvals_def)
qed (simp add: dvals_def)

lemma sum_dpop_eq:
  assumes "distinct (dkeys d)" "dget d k = Some v"
  shows "sum_list (map f (dvals (dpop k d))) = sum_list (map f (dvals d)) - (f v :: int)"
  using assms
proof (induction d)
  case (Cons p d)
  show ?case
  proof (cases "fst p = k")
    case True
    then have "k \<notin> fst ` set d" "snd p = v"
      using Cons.prems by (auto simp: dkeys_def)
    then have "filter (\<lambda>q. fst q \<noteq> k) d = d"
      by (auto simp: filter_id_conv)
    then show ?thesis using True \<open>snd p = v\<close> by (simp add: dpop_def dvals_def)
  next
    case False
    then show ?thesis using Cons by (simp add: dpop_def dvals_def dkeys_def)
  qed
qed simp

lemma sum_dpop_le:
  assumes "\<And>x. x \<in> set (dvals d) \<Longrightarrow> 0 \<le> (f x :: int)"
  shows "sum_list (map f (dvals (dpop k d))) \<le> sum_list (map f (dvals d))"
  using assms
proof (induction d)
  case (Cons p d)
  then have "sum_list (map f (dvals (dpop k d))) \<le> sum_list (map f (dvals d))" "0 \<le> f (snd p)"
    by (auto simp: dvals_def)
  then show ?case by (auto simp: dpop_def dvals_def)
qed (simp add: dpop_def dvals_def)

lemma lease_ok_nonneg:
  assumes "list_all lease_ok ls" "x \<in> set ls"
  shows "0 \<le> bl_token_budget x" "0 \<le> bl_tool_budget x" "0 \<le> bl_active_seconds x"
  using assms by (auto simp: list_all_iff lease_ok_def)

lemma reserve_InrD:
  assumes "reserve fresh r g = Inr (l, g')"
  shows "l = \<lparr>bl_lease_id = fresh, bl_run_id = cr_run_id r, bl_token_budget = cr_token_budget r,
              bl_tool_budget = cr_tool_budget r, bl_active_seconds = cr_active_seconds r\<rparr>"
    and "g' = g\<lparr>lg_leases := dput fresh l (lg_leases g),
               lg_children_started := lg_children_started g + 1\<rparr>"
    and "lg_children_started g < pb_max_children (lg_budget g)"
    and "au_total_tokens (lg_used g) + au_total_tokens (reserved g) + cr_token_budget r
           \<le> pb_max_total_tokens (lg_budget g)"
    and "au_tool_calls (lg_used g) + au_tool_calls (reserved g) + cr_tool_budget r
           \<le> pb_max_tool_calls (lg_budget g)"
    and "au_active_seconds (lg_used g) + au_active_seconds (reserved g) + cr_active_seconds r
           \<le> pb_max_active_seconds (lg_budget g)"
  using assms by (auto simp: reserve_def Let_def split: if_splits)

lemma dput_vals_all: "list_all P (dvals d) \<Longrightarrow> P v \<Longrightarrow> list_all P (dvals (dput k v d))"
  by (induction d) (auto simp: dvals_def)

lemma dput_pairs_all: "list_all P d \<Longrightarrow> P (k, v) \<Longrightarrow> list_all P (dput k v d)"
  by (induction d) auto

lemma length_dput_le: "length (dput k v d) \<le> Suc (length d)"
  by (induction d) auto

lemma reserve_inv:
  assumes inv: "ledger_inv g" and ok: "mk_child_request r = Inr r'" and res: "reserve fresh r g = Inr (l, g')"
  shows "ledger_inv g'"
proof -
  note R = reserve_InrD [OF res]
  let ?d = "lg_leases g"
  have nn: "0 < cr_token_budget r" "0 \<le> cr_tool_budget r" "0 < cr_active_seconds r"
    using mk_child_request_Inr [OF ok] by auto
  then have lok: "lease_ok l" by (simp add: R(1) lease_ok_def)
  have all: "list_all lease_ok (dvals ?d)" using inv by (simp add: ledger_inv_def)
  have bud: "bl_token_budget l = cr_token_budget r" "bl_tool_budget l = cr_tool_budget r"
    "bl_active_seconds l = cr_active_seconds r"
    by (simp_all add: R(1))
  have le: "sum_list (map bl_token_budget (dvals (dput fresh l ?d)))
              \<le> sum_list (map bl_token_budget (dvals ?d)) + cr_token_budget r"
    "sum_list (map bl_tool_budget (dvals (dput fresh l ?d)))
              \<le> sum_list (map bl_tool_budget (dvals ?d)) + cr_tool_budget r"
    "sum_list (map bl_active_seconds (dvals (dput fresh l ?d)))
              \<le> sum_list (map bl_active_seconds (dvals ?d)) + cr_active_seconds r"
    unfolding bud [symmetric] by (intro sum_dput_le; rule lease_ok_nonneg [OF all]; assumption)+
  have "within_budget g'"
    using le R(3-6) by (simp add: within_budget_def R(2) reserved_def)
  moreover have "int (length (dput fresh l ?d)) \<le> lg_children_started g + 1"
    using length_dput_le [of fresh l ?d] inv by (simp add: ledger_inv_def)
  moreover have "list_all (\<lambda>(k, l). bl_lease_id l = k) (dput fresh l ?d)"
    using inv by (intro dput_pairs_all) (auto simp: ledger_inv_def R(1))
  ultimately show ?thesis
    using inv lok by (simp add: ledger_inv_def R(2) distinct_dput dput_vals_all)
qed

lemma settle_inv:
  assumes inv: "ledger_inv g" and u: "usage_nonneg u"
  shows "ledger_inv (fst (settle l u g))"
proof -
  let ?d = "lg_leases g" and ?k = "bl_lease_id l"
  have all: "list_all lease_ok (dvals ?d)" and dist: "distinct (dkeys ?d)"
    using inv by (simp_all add: ledger_inv_def)
  have keep: "list_all lease_ok (dvals (dpop ?k ?d))"
    "list_all (\<lambda>(k, l). bl_lease_id l = k) (dpop ?k ?d)"
    using inv dpop_set [of ?k ?d] by (auto simp: ledger_inv_def list_all_iff dvals_def)
  have len: "int (length (dpop ?k ?d)) \<le> lg_children_started g"
    using length_dpop_le [of ?k ?d] inv by (simp add: ledger_inv_def)
  show ?thesis
  proof (cases "dget ?d ?k = Some l")
    case True
    then have lok: "lease_ok l"
      using all by (auto simp: list_all_iff dvals_def dest!: dget_Some_in)
    note eq = sum_dpop_eq [OF dist True, of bl_token_budget]
      sum_dpop_eq [OF dist True, of bl_tool_budget] sum_dpop_eq [OF dist True, of bl_active_seconds]
    have "within_budget (fst (settle l u g))"
      using inv True eq
      by (auto simp: ledger_inv_def within_budget_def settle_def Let_def reserved_def add_agent_usage_def)
    then show ?thesis
      using True lok inv u keep len
      by (simp add: ledger_inv_def settle_def Let_def distinct_dpop usage_nonneg_def
          add_agent_usage_def lease_ok_def)
  next
    case False
    have le: "sum_list (map bl_token_budget (dvals (dpop ?k ?d))) \<le> sum_list (map bl_token_budget (dvals ?d))"
      "sum_list (map bl_tool_budget (dvals (dpop ?k ?d))) \<le> sum_list (map bl_tool_budget (dvals ?d))"
      "sum_list (map bl_active_seconds (dvals (dpop ?k ?d))) \<le> sum_list (map bl_active_seconds (dvals ?d))"
      by (intro sum_dpop_le; rule lease_ok_nonneg [OF all]; assumption)+
    show ?thesis
      using False le inv keep len
      by (simp add: ledger_inv_def within_budget_def settle_def Let_def reserved_def distinct_dpop)
  qed
qed

lemma mk_usage_nonneg: "mk_usage t c a = Inr u \<Longrightarrow> usage_nonneg u"
  by (auto simp: mk_usage_def bindR_Inr_iff usage_nonneg_def)

lemma ledger_step_inv: "ledger_inv g \<Longrightarrow> ledger_inv (ledger_step op g)"
proof (induction op g rule: ledger_step.induct)
  case (1 fresh r g)
  then show ?case
    by (auto simp: bindR_Inr_iff split: sum.split
        dest: mk_child_request_Inr intro: reserve_inv)
next
  case (2 l t c a g)
  then show ?case by (auto split: sum.split intro: settle_inv mk_usage_nonneg)
next
  case (3 l g)
  then show ?case
    by (simp add: release_def settle_inv usage_nonneg_def zero_usage_def)
qed

lemma new_ledger_inv: "mk_parent_budget b = Inr b' \<Longrightarrow> ledger_inv (new_ledger b')"
  by (auto simp: mk_parent_budget_Inr ledger_inv_def within_budget_def new_ledger_def reserved_def
      zero_usage_def usage_nonneg_def dvals_def dkeys_def)

lemma ledger_step_budget: "lg_budget (ledger_step op g) = lg_budget g"
  by (induction op g rule: ledger_step.induct)
     (auto simp: bindR_Inr_iff release_def settle_def Let_def dest!: reserve_InrD(2) split: sum.split)

text \<open>The number of children ever started only grows, whatever fails.\<close>

definition ledger_le :: "ledger \<Rightarrow> ledger \<Rightarrow> bool" where
  "ledger_le g g' \<longleftrightarrow> lg_budget g' = lg_budget g \<and> lg_children_started g \<le> lg_children_started g'"

lemma ledger_step_le: "ledger_le g (ledger_step op g)"
  by (induction op g rule: ledger_step.induct)
     (auto simp: ledger_le_def bindR_Inr_iff release_def settle_def Let_def dest!: reserve_InrD(2) split: sum.split)

interpretation ledger_machine: monotone_machine ledger_step ledger_inv ledger_le
  by unfold_locales (auto simp: ledger_step_inv ledger_step_le, auto simp: ledger_le_def)

text \<open>
  C1: for any limits \<open>ParentBudget\<close> accepts and any sequence of \<open>reserve\<close>, \<open>settle\<close> and
  \<open>release\<close> calls (with any identifiers, foreign leases, double settlements, overruns and
  rejected requests), the tokens, tool calls and seconds already charged plus those still reserved
  stay within the parent's limits, and no more than \<open>max_children\<close> children are ever started.
\<close>

theorem ledger_never_overcommits:
  assumes "mk_parent_budget b = Inr b'"
  shows "within_budget (fold ledger_step ops (new_ledger b'))
     \<and> lg_budget (fold ledger_step ops (new_ledger b')) = b"
proof -
  have "ledger_inv (fold ledger_step ops (new_ledger b'))"
    by (intro ledger_machine.run_inv new_ledger_inv [OF assms])
  moreover have "ledger_le (new_ledger b') (fold ledger_step ops (new_ledger b'))"
    by (intro ledger_machine.run_le new_ledger_inv [OF assms])
  ultimately show ?thesis
    using assms by (auto simp: ledger_inv_def ledger_le_def new_ledger_def mk_parent_budget_Inr)
qed

definition sample_request :: "unit child_request" where
  "sample_request =
     \<lparr>cr_parent_run_id = ''root'', cr_objective = ''inspect'', cr_agent = (), cr_depth = 1,
      cr_token_budget = 1000, cr_tool_budget = 10, cr_active_seconds = 60, cr_run_id = ''r1'',
      cr_required_sources = [''a.py'']\<rparr>"

lemma default_parent_budget_ok: "mk_parent_budget default_parent_budget = Inr default_parent_budget"
  by (simp add: mk_parent_budget_Inr default_parent_budget_def)

theorem ledger_never_overcommits_witness:
  "mk_parent_budget default_parent_budget = Inr default_parent_budget
   \<and> within_budget (fold ledger_step [Reserve ''L1'' sample_request, Reserve ''L2'' sample_request]
        (new_ledger default_parent_budget))
   \<and> lg_budget (fold ledger_step [Reserve ''L1'' sample_request, Reserve ''L2'' sample_request]
        (new_ledger default_parent_budget)) = default_parent_budget"
  using ledger_never_overcommits [OF default_parent_budget_ok] default_parent_budget_ok by blast

lemma sample_run_charges:
  "au_total_tokens (reserved (fold ledger_step
      [Reserve ''L1'' sample_request, Reserve ''L2'' sample_request] (new_ledger default_parent_budget)))
   = 2000"
  by code_simp

lemma dpop_absent: "dget d k = None \<Longrightarrow> dpop k d = d"
  by (auto simp: dget_None_iff dkeys_def dpop_def filter_id_conv)

lemma settle_activeD:
  assumes "dget (lg_leases g) (bl_lease_id l) = Some l"
  shows "lg_leases (fst (settle l u g)) = dpop (bl_lease_id l) (lg_leases g)"
    and "au_total_tokens (lg_used (fst (settle l u g)))
           = au_total_tokens (lg_used g) + min (au_total_tokens u) (bl_token_budget l)"
    and "snd (settle l u g) = Inr (ledger_state (fst (settle l u g))) \<longleftrightarrow>
           au_total_tokens u \<le> bl_token_budget l \<and> au_tool_calls u \<le> bl_tool_budget l \<and>
           au_active_seconds u \<le> bl_active_seconds l"
  using assms by (auto simp: settle_def Let_def add_agent_usage_def)

text \<open>
  on every reachable ledger, settling an active lease moves its tokens from reserved
  to used exactly once: the charge is the usage capped by the lease, the whole reservation is given
  back, the call returns normally exactly when the usage kept within the lease, and a second
  settlement of the same lease raises and changes nothing.
\<close>

theorem settle_charges_once:
  fixes ops :: "'ag ledger_op list"
  assumes "mk_parent_budget b = Inr b'"
    and "g = fold ledger_step ops (new_ledger b')"
    and "dget (lg_leases g) (bl_lease_id l) = Some l"
    and "settle l u g = (g', r)"
  shows "au_total_tokens (lg_used g') = au_total_tokens (lg_used g) + min (au_total_tokens u) (bl_token_budget l)
     \<and> au_total_tokens (reserved g') = au_total_tokens (reserved g) - bl_token_budget l
     \<and> (r = Inr (ledger_state g') \<longleftrightarrow> au_total_tokens u \<le> bl_token_budget l
          \<and> au_tool_calls u \<le> bl_tool_budget l \<and> au_active_seconds u \<le> bl_active_seconds l)
     \<and> settle l u2 g' = (g', raiseR ValueError ''budget lease is not active'')"
proof -
  have "ledger_inv g"
    unfolding assms(2) by (intro ledger_machine.run_inv new_ledger_inv [OF assms(1)])
  then have dist: "distinct (dkeys (lg_leases g))" by (simp add: ledger_inv_def)
  have g': "g' = fst (settle l u g)" "r = snd (settle l u g)" using assms(4) by simp_all
  note A = settle_activeD [OF assms(3), of u, folded g']
  have "au_total_tokens (reserved g') = au_total_tokens (reserved g) - bl_token_budget l"
    by (simp add: reserved_def A(1) sum_dpop_eq [OF dist assms(3)])
  moreover have "settle l u2 g' = (g', raiseR ValueError ''budget lease is not active'')"
    by (simp add: settle_def Let_def A(1) dpop_absent)
  ultimately show ?thesis using A(2,3) by simp
qed

definition sample_lease :: budget_lease where
  "sample_lease =
     \<lparr>bl_lease_id = ''L1'', bl_run_id = ''r1'', bl_token_budget = 1000, bl_tool_budget = 10,
      bl_active_seconds = 60\<rparr>"

definition sample_ledger :: ledger where
  "sample_ledger = fold ledger_step [Reserve ''L1'' sample_request] (new_ledger default_parent_budget)"

lemma sample_lease_active: "dget (lg_leases sample_ledger) (bl_lease_id sample_lease) = Some sample_lease"
  by code_simp

theorem settle_charges_once_witness:
  "au_total_tokens (lg_used (fst (settle sample_lease zero_usage sample_ledger)))
     = au_total_tokens (lg_used sample_ledger) + min 0 1000"
proof -
  obtain g' r where s: "settle sample_lease zero_usage sample_ledger = (g', r)" by fastforce
  have "au_total_tokens (lg_used g') = au_total_tokens (lg_used sample_ledger)
          + min (au_total_tokens zero_usage) (bl_token_budget sample_lease)"
    using settle_charges_once
      [OF default_parent_budget_ok sample_ledger_def sample_lease_active s, of zero_usage]
    by (elim conjE)
  moreover have "au_total_tokens zero_usage = 0" "bl_token_budget sample_lease = 1000"
    by (simp_all add: zero_usage_def sample_lease_def)
  ultimately show ?thesis by (simp add: s)
qed

end
