(* ===== verification/Task_Budget.thy ===== *)
theory Task_Budget
  imports Limits Ledger
begin

text \<open>
  Durable budgets: \<open>src/src/code_agent/sessions/_task_budget.py\<close> and \<open>_shared_budget.py\<close>.
  \<open>session_db\<close> holds the rows these functions read and write: threads, \<open>task_budgets\<close>, \<open>tasks\<close>
  (joined with \<open>task_executions\<close>), workspace lineages with their usage, child bindings
  (checkpoints labelled \<open>context:child_budget\<close>) and the usage journal (\<open>context:usage\<close>).
  \<open>database.write\<close> runs one transaction: an exception rolls everything back, so a raising write is
  \<open>Inl\<close> and the caller keeps the old database. A stored budget row has no assistant-character
  limit; reading it gives the default one.
\<close>

section \<open>Rows\<close>

record task_row =
  tr_id :: string
  tr_thread :: string
  tr_status :: string
  tr_lineage :: "string option"
  tr_instance :: "string option"

record lineage_row =
  ln_owner_task :: "string option"
  ln_status :: string

record lineage_usage =
  lu_model_turns :: int
  lu_tool_calls :: int
  lu_input_tokens :: int
  lu_output_tokens :: int
  lu_repair_cycles :: int
  lu_repeated_failures :: int
  lu_last_failure :: "string option"
  lu_active_seconds :: int
  lu_warned_80 :: bool
  lu_warned_90 :: bool

record usage_record =
  ur_owner :: string
  ur_settled :: bool
  ur_reserved :: int
  ur_charged :: "int option"
  ur_origin :: "string option"
  ur_projected :: "int option"
  ur_prior :: "int option"

record child_binding =
  cb_owner_thread :: string
  cb_parent_task :: string
  cb_request :: string
  cb_max_total_tokens :: int
  cb_max_tool_calls :: int
  cb_max_agent_rounds :: int
  cb_max_children :: "int option"
  cb_required_sources :: "string list"
  cb_owner_instance :: "string option"

record session_db =
  sd_threads :: "(string \<times> string option) list"
  sd_budgets :: "(string \<times> task_budget) list"
  sd_tasks :: "task_row list"
  sd_lineages :: "(string \<times> lineage_row) list"
  sd_lineage_usage :: "(string \<times> lineage_usage) list"
  sd_bindings :: "(string \<times> child_binding) list"
  sd_journal :: "usage_record list"

type_synonym 'a txn = "(session_db \<times> 'a) result"

definition require_thread :: "session_db \<Rightarrow> string \<Rightarrow> unit result" where
  "require_thread db t =
     (case dget (sd_threads db) t of
        None \<Rightarrow> raiseR SessionNotFound ''thread not found'' | Some _ \<Rightarrow> Inr ())"

text \<open>\<open>task_budget(row)\<close>: rebuilding the value re-runs its guards; a bad row is corruption.\<close>

definition stored_row :: "task_budget \<Rightarrow> task_budget" where
  "stored_row b = b\<lparr>tb_limits := (tb_limits b)\<lparr>el_max_assistant_chars := 1000000\<rparr>\<rparr>"

definition task_budget_of_row :: "task_budget \<Rightarrow> task_budget result" where
  "task_budget_of_row row =
     (case bindR (check_limits (tb_limits (stored_row row))) (\<lambda>_. check_task_budget (stored_row row)) of
        Inl _ \<Rightarrow> raiseR SessionCorruptionError ''invalid persisted task budget''
      | Inr b \<Rightarrow> Inr b)"

definition load_budget :: "session_db \<Rightarrow> string \<Rightarrow> task_budget result" where
  "load_budget db t =
     (case dget (sd_budgets db) t of
        None \<Rightarrow> raiseR SessionCorruptionError ''task budget is missing''
      | Some row \<Rightarrow> task_budget_of_row row)"

section \<open>Lineage usage\<close>

definition raise_usage :: "task_budget \<Rightarrow> lineage_usage \<Rightarrow> lineage_usage" where
  "raise_usage b u =
     \<lparr>lu_model_turns = max (lu_model_turns u) (tb_model_turns b),
      lu_tool_calls = max (lu_tool_calls u) (tb_tool_calls b),
      lu_input_tokens = max (lu_input_tokens u) (tb_input_tokens b),
      lu_output_tokens = max (lu_output_tokens u) (tb_output_tokens b),
      lu_repair_cycles = max (lu_repair_cycles u) (tb_repair_cycles b),
      lu_repeated_failures = tb_repeated_failures b,
      lu_last_failure = tb_last_failure b,
      lu_active_seconds = max (lu_active_seconds u) (tb_active_seconds b),
      lu_warned_80 = (lu_warned_80 u \<or> tb_warned_80 b),
      lu_warned_90 = (lu_warned_90 u \<or> tb_warned_90 b)\<rparr>"

definition sync_lineage_usage :: "string \<Rightarrow> task_budget \<Rightarrow> session_db \<Rightarrow> session_db result" where
  "sync_lineage_usage t b db =
     (case find (\<lambda>r. tr_thread r = t) (sd_tasks db) of
        None \<Rightarrow> Inr db
      | Some row \<Rightarrow>
          (case tr_lineage row of
             None \<Rightarrow> Inr db
           | Some lid \<Rightarrow>
               (case dget (sd_lineages db) lid of
                  None \<Rightarrow> raiseR SessionCorruptionError ''task workspace lineage is missing''
                | Some l \<Rightarrow>
                    if ln_owner_task l = None
                    then raiseR SessionCorruptionError ''task workspace lineage is missing''
                    else if ln_status l \<noteq> ''active''
                    then raiseR ValueError ''task workspace lineage is not active''
                    else if ln_owner_task l \<noteq> Some (tr_id row)
                    then raiseR ValueError ''task does not own its workspace lineage''
                    else Inr (case dget (sd_lineage_usage db) lid of
                                None \<Rightarrow> db
                              | Some u \<Rightarrow> db\<lparr>sd_lineage_usage :=
                                           dput lid (raise_usage b u) (sd_lineage_usage db)\<rparr>))))"

text \<open>Every writer below stores a budget row and then synchronises the lineage.\<close>

definition store_budget :: "string \<Rightarrow> task_budget \<Rightarrow> session_db \<Rightarrow> session_db result" where
  "store_budget t b db = sync_lineage_usage t b (db\<lparr>sd_budgets := dput t (stored_row b) (sd_budgets db)\<rparr>)"

section \<open>The usage journal and shared admission\<close>

definition liability :: "usage_record \<Rightarrow> int" where
  "liability r =
     (if ur_settled r then (case ur_charged r of None \<Rightarrow> ur_reserved r | Some c \<Rightarrow> c)
      else max (ur_reserved r) (case ur_charged r of None \<Rightarrow> 0 | Some c \<Rightarrow> c))"

definition usage_records :: "session_db \<Rightarrow> string \<Rightarrow> usage_record list" where
  "usage_records db owner = filter (\<lambda>r. ur_owner r = owner) (sd_journal db)"

definition token_spent :: "session_db \<Rightarrow> string \<Rightarrow> string option \<Rightarrow> int" where
  "token_spent db owner origin =
     (let records = usage_records db owner;
          selected = (case origin of
             None \<Rightarrow> records
           | Some o' \<Rightarrow> filter (\<lambda>r. (case ur_origin r of None \<Rightarrow> owner | Some x \<Rightarrow> x) = o') records);
          subject = (case origin of None \<Rightarrow> owner | Some o' \<Rightarrow> if o' = '''' then owner else o');
          actual = (case dget (sd_budgets db) subject of
             None \<Rightarrow> 0 | Some row \<Rightarrow> tb_input_tokens row + tb_output_tokens row);
          projected = sum_list (map (\<lambda>r. case ur_projected r of Some p \<Rightarrow> p
             | None \<Rightarrow> (case ur_charged r of None \<Rightarrow> 0 | Some c \<Rightarrow> c)) selected);
          legacy_prior = sum_list (map (\<lambda>r. case ur_prior r of None \<Rightarrow> 0 | Some p \<Rightarrow> p) selected)
      in max (actual - projected) legacy_prior + sum_list (map liability selected))"

definition binding :: "session_db \<Rightarrow> string \<Rightarrow> child_binding option result" where
  "binding db t =
     (case filter (\<lambda>p. fst p = t) (sd_bindings db) of
        [] \<Rightarrow> Inr None
      | [p] \<Rightarrow> Inr (Some (snd p))
      | _ \<Rightarrow> raiseR ValueError ''ambiguous child budget binding'')"

definition require_active_parent :: "session_db \<Rightarrow> child_binding \<Rightarrow> string result" where
  "require_active_parent db p =
     (case find (\<lambda>r. tr_id r = cb_parent_task p) (sd_tasks db) of
        None \<Rightarrow> raiseR ValueError ''child budget parent is not actively owned''
      | Some row \<Rightarrow>
          (case tr_instance row of
             None \<Rightarrow> raiseR ValueError ''child budget parent is not actively owned''
           | Some inst \<Rightarrow>
               if tr_thread row \<noteq> cb_owner_thread p \<or> tr_status row \<notin> {''running'', ''verifying''}
               then raiseR ValueError ''child budget parent is not actively owned''
               else if (case cb_owner_instance p of None \<Rightarrow> inst | Some i \<Rightarrow> i) \<noteq> inst
               then raiseR ValueError ''child budget belongs to an earlier parent execution''
               else Inr inst))"

section \<open>Reservation\<close>

definition exhausted :: "task_budget \<Rightarrow> reserve_status \<Rightarrow> string \<Rightarrow> budget_reservation" where
  "exhausted b st why = \<lparr>br_budget = b, br_status = st, br_reason = Some why\<rparr>"

text \<open>
  \<open>_reserve_connection\<close>: hard limits first, then the soft lease; an exceeded lease is renewed only
  on a progress digest that differs from the baseline. Only an accepted reservation writes.
\<close>

definition write_reservation ::
  "string \<Rightarrow> int \<Rightarrow> int \<Rightarrow> task_budget \<Rightarrow> session_db \<Rightarrow> task_budget \<Rightarrow> reserve_status \<Rightarrow> string option
   \<Rightarrow> budget_reservation txn" where
  "write_reservation t turns tools current db renewed status reason =
     bindR (check_task_budget (renewed\<lparr>tb_model_turns := tb_model_turns current + turns,
                                       tb_tool_calls := tb_tool_calls current + tools\<rparr>)) (\<lambda>updated.
     bindR (store_budget t updated db) (\<lambda>db'.
       Inr (db', \<lparr>br_budget = updated, br_status = status, br_reason = reason\<rparr>)))"

definition over_lease :: "task_budget \<Rightarrow> int \<Rightarrow> int \<Rightarrow> task_budget \<Rightarrow> bool" where
  "over_lease current turns tools b \<longleftrightarrow>
     tb_model_turns current + turns > tb_lease_turns b \<or> tb_tool_calls current + tools > tb_lease_tools b"

definition reserve_connection ::
  "(digest_payload \<Rightarrow> string) \<Rightarrow> string \<Rightarrow> int \<Rightarrow> int \<Rightarrow> progress_snapshot \<Rightarrow> bool \<Rightarrow> session_db
   \<Rightarrow> budget_reservation txn" where
  "reserve_connection sha t turns tools p allow_renewal db =
     bindR (require_thread db t) (\<lambda>_.
     bindR (load_budget db t) (\<lambda>current.
     let digest = snapshot_digest sha p;
         baseline = (if tb_baseline current = '''' then digest else tb_baseline current)
     in if tb_model_turns current + turns > el_max_agent_rounds (tb_limits current) \<or>
           tb_tool_calls current + tools > el_max_tool_calls (tb_limits current) \<or>
           token_spent db t None \<ge> el_max_total_tokens (tb_limits current)
        then Inr (db, exhausted current HARD_EXHAUSTED ''hard task budget exhausted'')
        else bindR (check_task_budget (current\<lparr>tb_baseline := baseline\<rparr>)) (\<lambda>renewed.
          if \<not> over_lease current turns tools current
          then write_reservation t turns tools current db renewed RESERVED None
          else if \<not> allow_renewal
          then Inr (db, exhausted current LEASE_EXHAUSTED ''child cannot renew parent soft lease'')
          else if digest = baseline
          then Inr (db, exhausted renewed LEASE_EXHAUSTED
                          ''soft lease exhausted without new trusted progress'')
          else bindR (renew_lease sha renewed p) (\<lambda>next. case next of
             None \<Rightarrow> Inr (db, exhausted current LEASE_EXHAUSTED
                                ''soft lease exhausted after final extension'')
           | Some extended \<Rightarrow>
               if over_lease current turns tools extended
               then Inr (db, exhausted current LEASE_EXHAUSTED
                               ''requested reservation exceeds renewed soft lease'')
               else write_reservation t turns tools current db extended RENEWED
                      (Some (ps_reason p))))))"

text \<open>
  \<open>reserve\<close>: a bound child charges itself and its owner in one transaction. The savepoint
  is the database \<open>db\<close> before the child's own reservation.
\<close>

definition reserve_txn ::
  "(digest_payload \<Rightarrow> string) \<Rightarrow> string \<Rightarrow> int \<Rightarrow> int \<Rightarrow> progress_snapshot \<Rightarrow> session_db
   \<Rightarrow> budget_reservation txn" where
  "reserve_txn sha t turns tools p db =
     bindR (binding db t) (\<lambda>bound. case bound of
       None \<Rightarrow> reserve_connection sha t turns tools p True db
     | Some b \<Rightarrow>
         bindR (require_active_parent db b) (\<lambda>_.
         bindR (load_budget db t) (\<lambda>child.
         if tb_model_turns child + turns > cb_max_agent_rounds b \<or>
            tb_tool_calls child + tools > cb_max_tool_calls b \<or>
            token_spent db (cb_owner_thread b) (Some t) \<ge> cb_max_total_tokens b
         then Inr (db, exhausted child HARD_EXHAUSTED ''child task budget exhausted'')
         else bindR (reserve_connection sha t turns tools p True db) (\<lambda>(db1, local).
           if \<not> accepted local then Inr (db, local)
           else bindR (reserve_connection sha (cb_owner_thread b) turns tools p False db1)
             (\<lambda>(db2, shared).
               if \<not> accepted shared
               then Inr (db, \<lparr>br_budget = child, br_status = br_status shared,
                              br_reason = br_reason shared\<rparr>)
               else Inr (db2, local))))))"

definition reserve_budget ::
  "(digest_payload \<Rightarrow> string) \<Rightarrow> string \<Rightarrow> int \<Rightarrow> int \<Rightarrow> progress_snapshot option \<Rightarrow> session_db
   \<Rightarrow> budget_reservation txn" where
  "reserve_budget sha t turns tools progress db =
     (if blank t then raiseR ValueError ''thread_id must not be blank''
      else if turns < 0 \<or> tools < 0
      then raiseR ValueError ''budget increments must be non-negative integers''
      else reserve_txn sha t turns tools (case progress of None \<Rightarrow> initial_snapshot | Some p \<Rightarrow> p) db)"

section \<open>The other writers\<close>

definition get_or_create ::
  "string \<Rightarrow> string \<Rightarrow> engine_limits \<Rightarrow> lease_tier option \<Rightarrow> session_db \<Rightarrow> task_budget txn" where
  "get_or_create t model l tier db =
     (if blank t then raiseR ValueError ''thread_id must not be blank''
      else if blank model then raiseR ValueError ''model_name must not be blank''
      else bindR (require_thread db t) (\<lambda>_.
        case dget (sd_budgets db) t of
          None \<Rightarrow>
            (let selected = (case tier of None \<Rightarrow> DEEP | Some x \<Rightarrow> x);
                 (turns, tools) = (case tier of
                    None \<Rightarrow> (el_max_agent_rounds l, el_max_tool_calls l)
                  | Some x \<Rightarrow> lease_limits x l)
             in bindR (new_task_budget (Some turns) (Some tools)
                  ((fresh_budget model l)\<lparr>tb_tier := selected, tb_final := (tier = None)\<rparr>)) (\<lambda>b.
                bindR (store_budget t b db) (\<lambda>db'. Inr (db', b))))
        | Some row \<Rightarrow>
            bindR (task_budget_of_row row) (\<lambda>b.
            bindR (sync_lineage_usage t b db) (\<lambda>db'. Inr (db', b)))))"

definition consume_usage :: "string \<Rightarrow> usage \<Rightarrow> session_db \<Rightarrow> task_budget txn" where
  "consume_usage t u db =
     bindR (load_budget db t) (\<lambda>current.
     bindR (check_task_budget (current\<lparr>tb_input_tokens := tb_input_tokens current + us_input u,
                                       tb_output_tokens := tb_output_tokens current + us_output u\<rparr>)) (\<lambda>updated.
     bindR (store_budget t updated db) (\<lambda>db'. Inr (db', updated))))"

definition observe_validation_budget :: "string \<Rightarrow> string option \<Rightarrow> int \<Rightarrow> session_db \<Rightarrow> task_budget txn" where
  "observe_validation_budget t fingerprint changed_files db =
     (if (case fingerprint of None \<Rightarrow> False | Some f \<Rightarrow> 1024 < length f)
      then raiseR ValueError ''fingerprint must be bounded text or None''
      else if changed_files < 0 then raiseR ValueError ''changed_files must be non-negative''
      else bindR (load_budget db t) (\<lambda>current.
        let failing = (fingerprint \<noteq> None \<and> fingerprint \<noteq> Some '''' \<and> changed_files \<noteq> 0);
            repeated = (if failing \<and> fingerprint = tb_last_failure current
                        then tb_repeated_failures current + 1
                        else if failing then 1 else 0);
            repairs = tb_repair_cycles current + (if failing then 1 else 0)
        in bindR (check_task_budget (current\<lparr>tb_repair_cycles := repairs,
                    tb_repeated_failures := repeated, tb_last_failure := fingerprint\<rparr>)) (\<lambda>updated.
           bindR (store_budget t updated db) (\<lambda>db'. Inr (db', updated)))))"

definition record_active_seconds :: "string \<Rightarrow> int \<Rightarrow> session_db \<Rightarrow> task_budget txn" where
  "record_active_seconds t seconds db =
     (if seconds < 0 then raiseR ValueError ''active_seconds must be a non-negative integer''
      else bindR (load_budget db t) (\<lambda>current.
        if seconds < tb_active_seconds current
        then raiseR ValueError ''active_seconds must not decrease''
        else bindR (check_task_budget (current\<lparr>tb_active_seconds := seconds\<rparr>)) (\<lambda>updated.
             bindR (store_budget t updated db) (\<lambda>db'. Inr (db', updated)))))"

definition mark_warnings :: "string \<Rightarrow> session_db \<Rightarrow> int list txn" where
  "mark_warnings t db =
     bindR (load_budget db t) (\<lambda>b.
     let used = tb_input_tokens b + tb_output_tokens b;
         limit = el_max_total_tokens (tb_limits b);
         at80 = (used * 100 \<ge> limit * 80 \<and> \<not> tb_warned_80 b);
         at90 = (used * 100 \<ge> limit * 90 \<and> \<not> tb_warned_90 b);
         thresholds = (if at80 then [80] else []) @ (if at90 then [90] else [])
     in if thresholds = [] then Inr (db, [])
        else bindR (store_budget t (b\<lparr>tb_warned_80 := (tb_warned_80 b \<or> at80),
                                      tb_warned_90 := (tb_warned_90 b \<or> at90)\<rparr>) db)
               (\<lambda>db'. Inr (db', thresholds)))"

section \<open>Child bindings\<close>

text \<open>
  \<open>bind_child\<close>: the payload carries the instance that runs the parent; a second call with the same
  identity and limits returns the stored binding, any other difference is refused. Every binding
  this code writes has \<open>max_children\<close>; one read without it counts as 8 for its siblings.
\<close>

definition bind_child ::
  "string \<Rightarrow> child_binding \<Rightarrow> session_db \<Rightarrow> child_binding txn" where
  "bind_child child p db =
     bindR (freeze_sources (cb_required_sources p)) (\<lambda>_.
     if blank child then raiseR ValueError ''child_thread_id must not be blank''
     else if blank (cb_owner_thread p) then raiseR ValueError ''owner_thread_id must not be blank''
     else if blank (cb_parent_task p) then raiseR ValueError ''parent_task_id must not be blank''
     else if blank (cb_request p) then raiseR ValueError ''delegate_request_id must not be blank''
     else if cb_max_total_tokens p \<le> 0 \<or> cb_max_agent_rounds p \<le> 0 \<or>
             (case cb_max_children p of None \<Rightarrow> True | Some n \<Rightarrow> n \<le> 0)
     then raiseR ValueError ''child budget limits must be positive integers''
     else if cb_max_tool_calls p < 0 then raiseR ValueError ''child tool budget must be non-negative''
     else bindR (require_thread db child) (\<lambda>_.
       bindR (require_active_parent db (p\<lparr>cb_owner_instance := None\<rparr>)) (\<lambda>inst.
       let payload = p\<lparr>cb_owner_instance := Some inst\<rparr>; owner = cb_owner_thread p in
       if child = owner \<or> dget (sd_threads db) child \<noteq> Some (Some owner)
       then raiseR ValueError ''child thread is outside parent tree''
       else bindR (binding db child) (\<lambda>existing. case existing of
         Some e \<Rightarrow>
           if e \<noteq> payload then raiseR ValueError ''child budget identity or limits changed''
           else Inr (db, e)
       | None \<Rightarrow>
           let siblings = map snd (filter (\<lambda>q. dget (sd_threads db) (fst q) = Some (Some owner))
                                     (sd_bindings db));
               widths = map (\<lambda>s. case cb_max_children s of None \<Rightarrow> 8 | Some n \<Rightarrow> n) (payload # siblings)
           in if list_ex (\<lambda>s. cb_request s = cb_request p) siblings
              then raiseR ValueError ''delegation request has already created a child''
              else if int (length siblings) \<ge> Min (set widths)
              then raiseR ValueError ''parent child-start budget exhausted''
              else if dget (sd_budgets db) owner = None
              then raiseR ValueError ''parent task budget is missing''
              else Inr (db\<lparr>sd_bindings := sd_bindings db @ [(child, payload)]\<rparr>, payload)))))"

section \<open>Operations as steps\<close>

datatype db_op =
    GetOrCreate string string engine_limits "lease_tier option"
  | ReserveBudget string int int "progress_snapshot option"
  | ConsumeUsage string usage
  | ObserveValidation string "string option" int
  | RecordActiveSeconds string int
  | MarkWarnings string
  | BindChild string child_binding

definition check_usage :: "usage \<Rightarrow> usage result" where
  "check_usage u =
     (if us_input u < 0 \<or> us_output u < 0 \<or> us_cached_input u < 0 \<or>
         (case us_cache_write u of None \<Rightarrow> False | Some n \<Rightarrow> n < 0)
      then raiseR ValueError ''token count must be non-negative'' else Inr u)"

definition commit :: "session_db \<Rightarrow> 'a txn \<Rightarrow> session_db" where
  "commit db r = (case r of Inl _ \<Rightarrow> db | Inr (db', _) \<Rightarrow> db')"

text \<open>The arguments of a writer are values whose own constructors have accepted them.\<close>

fun db_step :: "(digest_payload \<Rightarrow> string) \<Rightarrow> db_op \<Rightarrow> session_db \<Rightarrow> session_db" where
  "db_step sha (GetOrCreate t m l tier) db =
     commit db (bindR (check_limits l) (\<lambda>l. get_or_create t m l tier db))"
| "db_step sha (ReserveBudget t turns tools p) db =
     commit db (bindR (case p of None \<Rightarrow> Inr initial_snapshot | Some q \<Rightarrow> check_snapshot q)
       (\<lambda>_. reserve_budget sha t turns tools p db))"
| "db_step sha (ConsumeUsage t u) db = commit db (bindR (check_usage u) (\<lambda>u. consume_usage t u db))"
| "db_step sha (ObserveValidation t f n) db = commit db (observe_validation_budget t f n db)"
| "db_step sha (RecordActiveSeconds t s) db = commit db (record_active_seconds t s db)"
| "db_step sha (MarkWarnings t) db = commit db (mark_warnings t db)"
| "db_step sha (BindChild c p) db = commit db (bind_child c p db)"

section \<open>Row validity\<close>

text \<open>
  A valid row satisfies the guards of \<open>TaskBudget\<close>, its renewals agree with its tier, and what it
  has reserved lies within its current lease.
\<close>

definition row_ok :: "task_budget \<Rightarrow> bool" where
  "row_ok b \<longleftrightarrow> budget_ok b \<and> tb_model_turns b \<le> tb_lease_turns b \<and> tb_tool_calls b \<le> tb_lease_tools b"

definition db_ok :: "session_db \<Rightarrow> bool" where
  "db_ok db = list_all (\<lambda>p. row_ok (snd p)) (sd_budgets db)"

lemma stored_row_fields [simp]:
  "tb_model_turns (stored_row b) = tb_model_turns b" "tb_tool_calls (stored_row b) = tb_tool_calls b"
  "tb_input_tokens (stored_row b) = tb_input_tokens b" "tb_output_tokens (stored_row b) = tb_output_tokens b"
  "tb_lease_turns (stored_row b) = tb_lease_turns b" "tb_lease_tools (stored_row b) = tb_lease_tools b"
  "tb_renewals (stored_row b) = tb_renewals b" "tb_active_seconds (stored_row b) = tb_active_seconds b"
  "tb_repair_cycles (stored_row b) = tb_repair_cycles b"
  "tb_warned_80 (stored_row b) = tb_warned_80 b" "tb_warned_90 (stored_row b) = tb_warned_90 b"
  "tb_tier (stored_row b) = tb_tier b"
  "tb_final (stored_row b) = tb_final b" "tb_baseline (stored_row b) = tb_baseline b"
  "el_max_agent_rounds (tb_limits (stored_row b)) = el_max_agent_rounds (tb_limits b)"
  "el_max_tool_calls (tb_limits (stored_row b)) = el_max_tool_calls (tb_limits b)"
  "el_max_total_tokens (tb_limits (stored_row b)) = el_max_total_tokens (tb_limits b)"
  "el_max_tool_calls_per_round (tb_limits (stored_row b)) = el_max_tool_calls_per_round (tb_limits b)"
  "el_max_assistant_chars (tb_limits (stored_row b)) = 1000000"
  by (simp_all add: stored_row_def)

lemma stored_row_idem [simp]: "stored_row (stored_row b) = stored_row b"
  by (simp add: stored_row_def)

lemma check_stored_row: "check_task_budget (stored_row b) = Inr c \<longleftrightarrow> c = stored_row b \<and> check_task_budget b = Inr b"
  by (auto simp: check_task_budget_Inr stored_row_def counters_ok_def)

lemma row_ok_stored [simp]: "row_ok b \<Longrightarrow> row_ok (stored_row b)"
  by (simp add: row_ok_def budget_ok_def check_stored_row check_limits_Inr)

lemma db_okD: "db_ok db \<Longrightarrow> dget (sd_budgets db) t = Some b \<Longrightarrow> row_ok b"
  by (auto simp: db_ok_def list_all_iff dest!: dget_Some_in)

lemma db_ok_put: "db_ok db \<Longrightarrow> row_ok b \<Longrightarrow> db_ok (db\<lparr>sd_budgets := dput t b (sd_budgets db)\<rparr>)"
  by (simp add: db_ok_def dput_pairs_all)

lemma load_budget_InrD:
  assumes "load_budget db t = Inr b"
  obtains row where "dget (sd_budgets db) t = Some row" "b = stored_row row" "check_task_budget b = Inr b"
  using assms
  by (auto simp: load_budget_def task_budget_of_row_def bindR_Inr_iff check_stored_row split: option.splits sum.splits)

lemma load_budget_ok: "db_ok db \<Longrightarrow> load_budget db t = Inr b \<Longrightarrow> row_ok b"
  by (elim load_budget_InrD) (simp add: db_okD)

lemma sync_lineage_InrD:
  assumes "sync_lineage_usage t b db = Inr db'"
  obtains u where "db' = db\<lparr>sd_lineage_usage := u\<rparr>"
proof -
  have "\<exists>u. db' = db\<lparr>sd_lineage_usage := u\<rparr>"
    using assms
    by (auto simp: sync_lineage_usage_def split: option.splits if_splits)
       (metis session_db.surjective session_db.update_convs(5))+
  then show ?thesis using that by blast
qed

lemma store_budget_InrD:
  assumes "store_budget t b db = Inr db'"
  obtains u where "db' = db\<lparr>sd_budgets := dput t (stored_row b) (sd_budgets db), sd_lineage_usage := u\<rparr>"
  using assms by (auto simp: store_budget_def elim!: sync_lineage_InrD)

lemma store_budget_ok: "db_ok db \<Longrightarrow> row_ok b \<Longrightarrow> store_budget t b db = Inr db' \<Longrightarrow> db_ok db'"
  by (elim store_budget_InrD) (simp add: db_ok_def dput_pairs_all)

section \<open>What a reservation does\<close>

lemma exhausted_not_accepted [simp]:
  "\<not> accepted (exhausted b LEASE_EXHAUSTED w)" "\<not> accepted (exhausted b HARD_EXHAUSTED w)"
  by (simp_all add: accepted_def exhausted_def)

lemma write_reservation_InrD:
  assumes "write_reservation t turns tools cur db b st why = Inr (db', res)"
  shows "br_budget res = b\<lparr>tb_model_turns := tb_model_turns cur + turns, tb_tool_calls := tb_tool_calls cur + tools\<rparr>"
    and "store_budget t (br_budget res) db = Inr db'"
    and "check_task_budget (br_budget res) = Inr (br_budget res)"
    and "br_status res = st"
  using assms by (auto simp: write_reservation_def bindR_Inr_iff check_task_budget_Inr)

text \<open>
  A reservation on one row either writes nothing, or writes the row it returns, made from the
  stored one (with a baseline) or from its renewal on a new digest, within the lease of that row.
\<close>

definition granted_from ::
  "(digest_payload \<Rightarrow> string) \<Rightarrow> progress_snapshot \<Rightarrow> bool \<Rightarrow> task_budget \<Rightarrow> task_budget \<Rightarrow> reserve_status \<Rightarrow> bool" where
  "granted_from sha p allow cur b st \<longleftrightarrow>
     (\<exists>bl. b = cur\<lparr>tb_baseline := bl\<rparr>) \<and> st = RESERVED \<or>
     renew_lease sha cur p = Inr (Some b) \<and> st = RENEWED \<and> allow \<and>
       tb_baseline cur \<noteq> '''' \<and> snapshot_digest sha p \<noteq> tb_baseline cur"

lemma reserve_connection_InrD:
  assumes r: "reserve_connection sha t turns tools p allow db = Inr (db', res)"
  obtains (kept) "\<not> accepted res" "db' = db"
  | (granted) cur b where "load_budget db t = Inr cur" "accepted res"
      "granted_from sha p allow cur b (br_status res)" "\<not> over_lease cur turns tools b"
      "br_budget res = b\<lparr>tb_model_turns := tb_model_turns cur + turns, tb_tool_calls := tb_tool_calls cur + tools\<rparr>"
      "store_budget t (br_budget res) db = Inr db'"
      "check_task_budget (br_budget res) = Inr (br_budget res)"
proof -
  obtain cur where c: "load_budget db t = Inr cur" and th: "require_thread db t = Inr ()"
    using r by (auto simp: reserve_connection_def bindR_Inr_iff)
  define digest where "digest = snapshot_digest sha p"
  define bl where "bl = (if tb_baseline cur = '''' then digest else tb_baseline cur)"
  note R = r [unfolded reserve_connection_def c th bindR_simps Let_def, folded digest_def, folded bl_def]
  have wr: thesis
    if w: "write_reservation t turns tools cur db b st why = Inr (db', res)"
      and "granted_from sha p allow cur b st" "\<not> over_lease cur turns tools b" "st = RESERVED \<or> st = RENEWED"
    for b st why
    using write_reservation_InrD [OF w] that(2-4)
    by (intro granted [of cur b]) (auto simp: c accepted_def)
  show ?thesis
  proof (cases "tb_model_turns cur + turns > el_max_agent_rounds (tb_limits cur) \<or>
           tb_tool_calls cur + tools > el_max_tool_calls (tb_limits cur) \<or>
           token_spent db t None \<ge> el_max_total_tokens (tb_limits cur)")
    case True
    then show ?thesis using R kept by auto
  next
    case False
    note H = R [unfolded if_not_P [OF False]]
    let ?new = "cur\<lparr>tb_baseline := bl\<rparr>"
    have k: "check_task_budget ?new = Inr ?new"
      using H by (elim bindR_InrE) (metis check_task_budget_Inr)
    note H2 = H [unfolded k bindR_simps]
    show ?thesis
    proof (cases "over_lease cur turns tools cur")
      case False
      then have "write_reservation t turns tools cur db ?new RESERVED None = Inr (db', res)"
        using H2 by simp
      then show ?thesis using False
        by (intro wr [of ?new RESERVED None]) (auto simp: granted_from_def over_lease_def)
    next
      case over: True
      show ?thesis
      proof (cases "\<not> allow \<or> digest = bl")
        case True
        then show ?thesis using H2 over kept by (cases allow) auto
      next
        case False
        then have ne: "digest \<noteq> bl" by simp
        then have nb: "tb_baseline cur \<noteq> ''''" by (metis bl_def)
        then have same: "bl = tb_baseline cur" by (simp add: bl_def)
        have nb2: "digest \<noteq> tb_baseline cur" using ne by (simp add: same)
        have id: "cur\<lparr>tb_baseline := tb_baseline cur\<rparr> = cur" by simp
        have H3: "bindR (renew_lease sha cur p) (\<lambda>next. case next of
             None \<Rightarrow> Inr (db, exhausted cur LEASE_EXHAUSTED
                                ''soft lease exhausted after final extension'')
           | Some extended \<Rightarrow>
               if over_lease cur turns tools extended
               then Inr (db, exhausted cur LEASE_EXHAUSTED
                               ''requested reservation exceeds renewed soft lease'')
               else write_reservation t turns tools cur db extended RENEWED
                      (Some (ps_reason p))) = Inr (db', res)"
          using H2 [unfolded same id] over False by (simp add: same)
        then obtain nx where n: "renew_lease sha cur p = Inr nx"
          by (cases "renew_lease sha cur p") auto
        show ?thesis
        proof (cases nx)
          case None
          then show ?thesis using H3 n kept by auto
        next
          case (Some e)
          show ?thesis
          proof (cases "over_lease cur turns tools e")
            case True
            then show ?thesis using H3 n Some kept by auto
          next
            case fit: False
            then show ?thesis using H3 n Some False nb nb2
              by (intro wr [of e RENEWED "Some (ps_reason p)"]) (auto simp: granted_from_def digest_def)
          qed
        qed
      qed
    qed
  qed
qed

lemma granted_row_ok:
  assumes cur: "row_ok cur" and g: "granted_from sha p allow cur b st" and fit: "\<not> over_lease cur turns tools b"
    and res: "r = b\<lparr>tb_model_turns := tb_model_turns cur + turns, tb_tool_calls := tb_tool_calls cur + tools\<rparr>"
    and ok: "check_task_budget r = Inr r"
  shows "row_ok r"
proof -
  have "tb_limits b = tb_limits cur \<and> tb_renewals b \<le> lease_rank (tb_tier b) (tb_final b)
     \<and> (tb_final b \<longrightarrow> tb_tier b = DEEP)"
  proof (cases "renew_lease sha cur p = Inr (Some b)")
    case True
    note R = renew_lease_SomeD [OF True]
    have "tb_limits b = tb_limits cur" "tb_renewals b = tb_renewals cur + 1"
      by (subst R(1), simp)+
    then show ?thesis using R(2,4) cur by (auto simp: row_ok_def budget_ok_def)
  next
    case False
    then show ?thesis using g cur by (auto simp: granted_from_def row_ok_def budget_ok_def)
  qed
  then show ?thesis using ok fit cur res
    by (simp add: row_ok_def budget_ok_def over_lease_def)
qed

lemma reserve_connection_ok:
  assumes "db_ok db" "reserve_connection sha t turns tools p allow db = Inr (db', res)"
  shows "db_ok db'"
  using assms(2)
proof (cases rule: reserve_connection_InrD)
  case (granted cur b)
  have "row_ok (br_budget res)"
    by (rule granted_row_ok [OF load_budget_ok [OF assms(1) granted(1)] granted(3,4,5,7)])
  then show ?thesis by (rule store_budget_ok [OF assms(1) _ granted(6)])
qed (use assms in simp)

text \<open>Between two versions of a row, spending and leases only grow and the limits stay.\<close>

definition same_limits :: "engine_limits \<Rightarrow> engine_limits \<Rightarrow> bool" where
  "same_limits l l' \<longleftrightarrow> el_max_agent_rounds l' = el_max_agent_rounds l \<and>
     el_max_tool_calls l' = el_max_tool_calls l \<and> el_max_total_tokens l' = el_max_total_tokens l \<and>
     el_max_tool_calls_per_round l' = el_max_tool_calls_per_round l"

definition row_le :: "task_budget \<Rightarrow> task_budget \<Rightarrow> bool" where
  "row_le b b' \<longleftrightarrow> same_limits (tb_limits b) (tb_limits b') \<and>
     tb_model_turns b \<le> tb_model_turns b' \<and> tb_tool_calls b \<le> tb_tool_calls b' \<and>
     tb_input_tokens b \<le> tb_input_tokens b' \<and> tb_output_tokens b \<le> tb_output_tokens b' \<and>
     tb_repair_cycles b \<le> tb_repair_cycles b' \<and> tb_active_seconds b \<le> tb_active_seconds b' \<and>
     tb_renewals b \<le> tb_renewals b' \<and>
     tb_lease_turns b \<le> tb_lease_turns b' \<and> tb_lease_tools b \<le> tb_lease_tools b' \<and>
     (tb_warned_80 b \<longrightarrow> tb_warned_80 b') \<and> (tb_warned_90 b \<longrightarrow> tb_warned_90 b')"

definition db_le :: "session_db \<Rightarrow> session_db \<Rightarrow> bool" where
  "db_le db db' \<longleftrightarrow> (\<forall>t b. dget (sd_budgets db) t = Some b \<longrightarrow>
     (\<exists>b'. dget (sd_budgets db') t = Some b' \<and> row_le b b'))"

lemma row_le_refl [simp]: "row_le b b"
  by (simp add: row_le_def same_limits_def)

lemma row_le_trans: "row_le a b \<Longrightarrow> row_le b c \<Longrightarrow> row_le a c"
  by (auto simp: row_le_def same_limits_def)

lemma row_le_stored [simp]: "row_le b (stored_row c) = row_le b c" "row_le (stored_row b) c = row_le b c"
  by (simp_all add: row_le_def same_limits_def)

lemma db_le_refl [simp]: "db_le db db"
  by (auto simp: db_le_def)

lemma db_le_trans: "db_le a b \<Longrightarrow> db_le b c \<Longrightarrow> db_le a c"
  unfolding db_le_def by (meson row_le_trans)

lemma store_budget_le:
  assumes "store_budget t b db = Inr db'" "\<And>row. dget (sd_budgets db) t = Some row \<Longrightarrow> row_le row b"
  shows "db_le db db'"
  using assms by (elim store_budget_InrD) (auto simp: db_le_def)

lemma store_loaded_le:
  assumes "load_budget db t = Inr cur" "store_budget t b db = Inr db'" "row_le cur b"
  shows "db_le db db'"
  using assms by (intro store_budget_le [of t b]) (auto elim!: load_budget_InrD)

lemma renew_lease_kept:
  assumes "renew_lease sha b p = Inr (Some b')"
  shows "tb_model_turns b' = tb_model_turns b" "tb_tool_calls b' = tb_tool_calls b"
    "tb_limits b' = tb_limits b"
  by (subst renew_lease_SomeD(1) [OF assms], simp)+

lemma granted_row_le:
  assumes "granted_from sha p allow cur b st"
    and "r = b\<lparr>tb_model_turns := tb_model_turns cur + turns, tb_tool_calls := tb_tool_calls cur + tools\<rparr>"
    and "0 \<le> turns" "0 \<le> tools"
  shows "row_le cur r"
proof (cases "renew_lease sha cur p = Inr (Some b)")
  case True
  note G = renew_lease_grows [OF True]
  have "row_le cur b"
    by (subst renew_lease_SomeD(1) [OF True]) (simp add: row_le_def same_limits_def G)
  then show ?thesis using assms(2-4) renew_lease_kept [OF True]
    by (simp add: row_le_def)
next
  case False
  then show ?thesis using assms by (auto simp: granted_from_def row_le_def same_limits_def)
qed

lemma reserve_connection_le:
  assumes "reserve_connection sha t turns tools p allow db = Inr (db', res)" "0 \<le> turns" "0 \<le> tools"
  shows "db_le db db'"
  using assms(1)
proof (cases rule: reserve_connection_InrD)
  case (granted cur b)
  have "row_le cur (br_budget res)" by (rule granted_row_le [OF granted(3,5) assms(2,3)])
  then show ?thesis by (rule store_loaded_le [OF granted(1,6)])
qed (use assms in simp)

lemma reserve_txn_InrD:
  assumes r: "reserve_txn sha t turns tools p db = Inr (db', res)"
  obtains (kept) "\<not> accepted res" "db' = db"
  | (own) "binding db t = Inr None" "reserve_connection sha t turns tools p True db = Inr (db', res)"
  | (shared) b db1 own where "binding db t = Inr (Some b)" "accepted res" "accepted own"
      "reserve_connection sha t turns tools p True db = Inr (db1, res)"
      "reserve_connection sha (cb_owner_thread b) turns tools p False db1 = Inr (db', own)"
proof -
  obtain bd where bd: "binding db t = Inr bd"
    using r by (auto simp: reserve_txn_def elim: bindR_InrE)
  show ?thesis
  proof (cases bd)
    case None
    then show ?thesis using r bd own by (simp add: reserve_txn_def)
  next
    case (Some b)
    note R = r [unfolded reserve_txn_def bd Some bindR_simps option.case]
    from R obtain child where R1: "(if tb_model_turns child + turns > cb_max_agent_rounds b \<or>
            tb_tool_calls child + tools > cb_max_tool_calls b \<or>
            token_spent db (cb_owner_thread b) (Some t) \<ge> cb_max_total_tokens b
         then Inr (db, exhausted child HARD_EXHAUSTED ''child task budget exhausted'')
         else bindR (reserve_connection sha t turns tools p True db) (\<lambda>(db1, local).
           if \<not> accepted local then Inr (db, local)
           else bindR (reserve_connection sha (cb_owner_thread b) turns tools p False db1)
             (\<lambda>(db2, shared).
               if \<not> accepted shared
               then Inr (db, \<lparr>br_budget = child, br_status = br_status shared,
                              br_reason = br_reason shared\<rparr>)
               else Inr (db2, local)))) = Inr (db', res)"
      by (elim bindR_InrE)
    show ?thesis
    proof (cases "tb_model_turns child + turns > cb_max_agent_rounds b \<or>
            tb_tool_calls child + tools > cb_max_tool_calls b \<or>
            token_spent db (cb_owner_thread b) (Some t) \<ge> cb_max_total_tokens b")
      case True
      then show ?thesis using R1 kept by auto
    next
      case False
      with R1 obtain db1 l where l: "reserve_connection sha t turns tools p True db = Inr (db1, l)"
        and R2: "(if \<not> accepted l then Inr (db, l)
           else bindR (reserve_connection sha (cb_owner_thread b) turns tools p False db1)
             (\<lambda>(db2, shared). if \<not> accepted shared
               then Inr (db, \<lparr>br_budget = child, br_status = br_status shared,
                              br_reason = br_reason shared\<rparr>)
               else Inr (db2, l))) = Inr (db', res)"
        by (auto elim!: bindR_InrE)
      show ?thesis
      proof (cases "accepted l")
        case False
        then show ?thesis using R2 kept by auto
      next
        case True
        then have "bindR (reserve_connection sha (cb_owner_thread b) turns tools p False db1)
             (\<lambda>(db2, shared). if \<not> accepted shared
               then Inr (db, \<lparr>br_budget = child, br_status = br_status shared,
                              br_reason = br_reason shared\<rparr>)
               else Inr (db2, l)) = Inr (db', res)"
          using R2 by simp
        then obtain y where y: "reserve_connection sha (cb_owner_thread b) turns tools p False db1 = Inr y"
          and R3: "(\<lambda>(db2, shared). if \<not> accepted shared
               then Inr (db, \<lparr>br_budget = child, br_status = br_status shared,
                              br_reason = br_reason shared\<rparr>)
               else Inr (db2, l)) y = (Inr (db', res) :: budget_reservation txn)"
          by (rule bindR_InrE)
        obtain db2 s where s: "y = (db2, s)" by (cases y)
        show ?thesis
        proof (cases "accepted s")
          case False
          with R3 s have "\<not> accepted res" "db' = db" by (auto simp: accepted_def)
          then show ?thesis by (rule kept)
        next
          case acc: True
          then show ?thesis using R3 l s y bd Some True by (intro shared) auto
        qed
      qed
    qed
  qed
qed

lemma reserve_budget_InrD:
  assumes "reserve_budget sha t turns tools p db = Inr (db', res)"
  obtains q where "reserve_txn sha t turns tools q db = Inr (db', res)" "0 \<le> turns" "0 \<le> tools"
  using assms by (auto simp: reserve_budget_def split: if_splits)

lemma reserve_budget_ok:
  assumes "db_ok db" "reserve_budget sha t turns tools p db = Inr (db', res)"
  shows "db_ok db' \<and> db_le db db'"
  using assms(2)
proof (elim reserve_budget_InrD)
  fix q assume r: "reserve_txn sha t turns tools q db = Inr (db', res)" and nn: "0 \<le> turns" "0 \<le> tools"
  show ?thesis
    using r
  proof (cases rule: reserve_txn_InrD)
    case own
    then show ?thesis using reserve_connection_ok [OF assms(1)] reserve_connection_le [OF _ nn] by blast
  next
    case (shared b db1 own)
    have 1: "db_ok db1" "db_le db db1"
      using reserve_connection_ok [OF assms(1) shared(4)] reserve_connection_le [OF shared(4) nn] by auto
    have 2: "db_ok db'" "db_le db1 db'"
      using reserve_connection_ok [OF 1(1) shared(5)] reserve_connection_le [OF shared(5) nn] by auto
    show ?thesis using 1 2 db_le_trans by blast
  qed (use assms in simp)
qed

lemma get_or_create_ok:
  assumes inv: "db_ok db" and l: "check_limits l = Inr l" and r: "get_or_create t m l tier db = Inr (db', b)"
  shows "db_ok db' \<and> db_le db db'"
proof (cases "dget (sd_budgets db) t")
  case None
  obtain turns tools where
    new: "new_task_budget (Some turns) (Some tools)
            ((fresh_budget m l)\<lparr>tb_tier := (case tier of None \<Rightarrow> DEEP | Some x \<Rightarrow> x), tb_final := (tier = None)\<rparr>) = Inr b"
    and st: "store_budget t b db = Inr db'"
    using r None by (auto simp: get_or_create_def Let_def bindR_Inr_iff split: if_splits prod.splits)
  have "b = (fresh_budget m l)\<lparr>tb_tier := (case tier of None \<Rightarrow> DEEP | Some x \<Rightarrow> x), tb_final := (tier = None),
               tb_lease_turns := turns, tb_lease_tools := tools\<rparr>" "check_task_budget b = Inr b"
    using new by (auto simp: new_task_budget_def lease_limits_def check_task_budget_Inr split: prod.splits)
  then have "row_ok b"
    using l lease_rank_le [of "tb_tier b" "tb_final b"]
    by (auto simp: row_ok_def budget_ok_def fresh_budget_def check_task_budget_Inr split: option.splits lease_tier.splits)
       (metis lease_rank.simps lease_tier.exhaust order_refl zero_le_numeral zero_le_one)
  then show ?thesis
    using store_budget_ok [OF inv _ st] store_budget_le [OF st] None by auto
next
  case (Some row)
  then obtain b0 where "sync_lineage_usage t b0 db = Inr db'"
    using r by (auto simp: get_or_create_def bindR_Inr_iff split: if_splits)
  then show ?thesis using inv by (elim sync_lineage_InrD) (simp add: db_ok_def db_le_def)
qed

text \<open>The writers that replace some fields of a loaded row and store it again.\<close>

lemma rewrite_row_ok:
  assumes "db_ok db" "load_budget db t = Inr cur" "store_budget t b db = Inr db'"
    and "row_ok cur \<Longrightarrow> row_ok b" "row_le cur b"
  shows "db_ok db' \<and> db_le db db'"
  using assms load_budget_ok store_budget_ok store_loaded_le by blast

lemma replace_row_InrD:
  assumes "bindR (check_task_budget x) (\<lambda>u. bindR (store_budget t u db) (\<lambda>db'. Inr (db', u))) = Inr (db', b)"
  shows "b = x" "check_task_budget b = Inr b" "store_budget t b db = Inr db'"
  using assms by (auto simp: bindR_Inr_iff check_task_budget_Inr)

lemma consume_usage_ok:
  assumes "db_ok db" "check_usage u = Inr u" "consume_usage t u db = Inr (db', b)"
  shows "db_ok db' \<and> db_le db db'"
proof -
  obtain cur where c: "load_budget db t = Inr cur" "store_budget t b db = Inr db'"
    "b = cur\<lparr>tb_input_tokens := tb_input_tokens cur + us_input u,
             tb_output_tokens := tb_output_tokens cur + us_output u\<rparr>" "check_task_budget b = Inr b"
    using assms(3) by (auto simp: consume_usage_def bindR_Inr_iff check_task_budget_Inr)
  then show ?thesis
    using assms(2)
    by (intro rewrite_row_ok [OF assms(1) c(1,2)])
       (auto simp: row_ok_def budget_ok_def row_le_def same_limits_def check_usage_def split: if_splits)
qed

lemma observe_validation_ok:
  assumes "db_ok db" "observe_validation_budget t f n db = Inr (db', b)"
  shows "db_ok db' \<and> db_le db db'"
proof -
  obtain cur where c: "load_budget db t = Inr cur"
    using assms(2) by (auto simp: observe_validation_budget_def bindR_Inr_iff split: if_splits)
  have g: "\<not> (case f of None \<Rightarrow> False | Some f \<Rightarrow> 1024 < length f)" "\<not> n < 0"
    using assms(2) by (auto simp: observe_validation_budget_def split: if_splits)
  note O = replace_row_InrD [OF assms(2) [unfolded observe_validation_budget_def if_not_P [OF g(1)]
        if_not_P [OF g(2)] c bindR_simps Let_def]]
  show ?thesis
    by (rule rewrite_row_ok [OF assms(1) c O(3)])
       (use O(2) in \<open>simp add: row_ok_def budget_ok_def, simp add: O(1)\<close>,
        simp add: O(1) row_le_def same_limits_def)
qed

lemma record_active_ok:
  assumes "db_ok db" "record_active_seconds t s db = Inr (db', b)"
  shows "db_ok db' \<and> db_le db db'"
proof -
  obtain cur where c: "load_budget db t = Inr cur" "store_budget t b db = Inr db'"
    "b = cur\<lparr>tb_active_seconds := s\<rparr>" "tb_active_seconds cur \<le> s" "check_task_budget b = Inr b"
    using assms(2)
    by (auto simp: record_active_seconds_def bindR_Inr_iff check_task_budget_Inr split: if_splits)
  then show ?thesis
    by (intro rewrite_row_ok [OF assms(1) c(1,2)])
       (auto simp: row_ok_def budget_ok_def row_le_def same_limits_def)
qed

lemma mark_warnings_ok:
  assumes "db_ok db" "mark_warnings t db = Inr (db', ws)"
  shows "db_ok db' \<and> db_le db db'"
proof -
  obtain cur where c: "load_budget db t = Inr cur"
    using assms(2) by (auto simp: mark_warnings_def bindR_Inr_iff)
  have "db' = db \<or> (\<exists>x y. store_budget t (cur\<lparr>tb_warned_80 := (tb_warned_80 cur \<or> x),
                                            tb_warned_90 := (tb_warned_90 cur \<or> y)\<rparr>) db = Inr db')"
    using assms(2) unfolding mark_warnings_def c bindR_simps Let_def
    by (simp only: bindR_Inr_iff split: if_split_asm) blast+
  then consider "db' = db" | x y where "store_budget t (cur\<lparr>tb_warned_80 := (tb_warned_80 cur \<or> x), tb_warned_90 := (tb_warned_90 cur \<or> y)\<rparr>) db = Inr db'"
    by blast
  then show ?thesis
  proof cases
    case (2 x y)
    then show ?thesis
      by (intro rewrite_row_ok [OF assms(1) c 2])
         (auto simp: row_ok_def budget_ok_def row_le_def same_limits_def check_task_budget_Inr counters_ok_def)
  qed (use assms in simp)
qed

lemma bind_child_ok:
  assumes "db_ok db" "bind_child c p db = Inr (db', b)"
  shows "db_ok db' \<and> db_le db db'"
proof -
  have "sd_budgets db' = sd_budgets db"
    using assms(2)
    by (auto simp: bind_child_def bindR_Inr_iff Let_def split: if_splits option.splits)
  then show ?thesis using assms(1) by (simp add: db_ok_def db_le_def)
qed

section \<open>The store as a machine\<close>

lemma commit_ok:
  assumes "db_ok db" "\<And>db' a. r = Inr (db', a) \<Longrightarrow> db_ok db' \<and> db_le db db'"
  shows "db_ok (commit db r) \<and> db_le db (commit db r)"
  using assms by (auto simp: commit_def split: sum.splits)

lemma check_usage_Inr: "check_usage u = Inr v \<Longrightarrow> v = u \<and> check_usage u = Inr u"
  by (auto simp: check_usage_def split: if_splits)

lemma db_step_ok: "db_ok db \<Longrightarrow> db_ok (db_step sha op db) \<and> db_le db (db_step sha op db)"
proof (induction sha op db rule: db_step.induct)
  case (1 sha t m l tier db)
  show ?case
    unfolding db_step.simps
    by (rule commit_ok [OF 1], elim bindR_InrE) (metis check_limits_Inr get_or_create_ok 1)
next
  case (2 sha t turns tools p db)
  show ?case
    unfolding db_step.simps
    by (rule commit_ok [OF 2], elim bindR_InrE) (rule reserve_budget_ok [OF 2])
next
  case (3 sha t u db)
  show ?case
    unfolding db_step.simps
    by (rule commit_ok [OF 3], elim bindR_InrE) (metis check_usage_Inr consume_usage_ok 3)
next
  case (4 sha t f n db)
  show ?case unfolding db_step.simps by (rule commit_ok [OF 4]) (rule observe_validation_ok [OF 4])
next
  case (5 sha t s db)
  show ?case unfolding db_step.simps by (rule commit_ok [OF 5]) (rule record_active_ok [OF 5])
next
  case (6 sha t db)
  show ?case unfolding db_step.simps by (rule commit_ok [OF 6]) (rule mark_warnings_ok [OF 6])
next
  case (7 sha c p db)
  show ?case unfolding db_step.simps by (rule commit_ok [OF 7]) (rule bind_child_ok [OF 7])
qed

interpretation budget_db: monotone_machine "db_step sha" db_ok db_le for sha
  by unfold_locales (auto simp: db_step_ok intro: db_le_trans)

lemma empty_db_ok: "sd_budgets db = [] \<Longrightarrow> db_ok db"
  by (simp add: db_ok_def)


definition sample_db :: session_db where
  "sample_db =
     \<lparr>sd_threads = [(''t'', None), (''c'', Some ''t'')], sd_budgets = [],
      sd_tasks = [\<lparr>tr_id = ''k'', tr_thread = ''t'', tr_status = ''running'', tr_lineage = None,
                   tr_instance = Some ''i''\<rparr>],
      sd_lineages = [], sd_lineage_usage = [], sd_bindings = [], sd_journal = []\<rparr>"

definition sample_binding :: child_binding where
  "sample_binding =
     \<lparr>cb_owner_thread = ''t'', cb_parent_task = ''k'', cb_request = ''r'', cb_max_total_tokens = 1000,
      cb_max_tool_calls = 4, cb_max_agent_rounds = 2, cb_max_children = Some 8, cb_required_sources = [],
      cb_owner_instance = None\<rparr>"

definition sample_sha :: "digest_payload \<Rightarrow> string" where
  "sample_sha q = (case q of (_, generation, _) \<Rightarrow> replicate 64 (if generation = 0 then CHR ''0'' else CHR ''1''))"

definition sample_ops :: "db_op list" where
  "sample_ops =
     [GetOrCreate ''t'' ''m'' default_limits (Some QUICK), GetOrCreate ''c'' ''m'' default_limits (Some QUICK),
      BindChild ''c'' sample_binding, ReserveBudget ''t'' 1 2 None]"

lemma sample_row:
  "dget (sd_budgets (fold (db_step sample_sha) sample_ops sample_db)) ''t'' =
     Some ((fresh_budget ''m'' default_limits)\<lparr>tb_model_turns := 1, tb_tool_calls := 2, tb_tier := QUICK,
        tb_lease_turns := 4, tb_lease_tools := 8, tb_baseline := replicate 64 CHR ''0''\<rparr>)"
  by code_simp


text \<open>What an accepted reservation on one row stores, and that other rows keep theirs.\<close>

lemma granted_counters:
  assumes "granted_from sha p allow cur b st"
  shows "tb_limits b = tb_limits cur" "tb_input_tokens b = tb_input_tokens cur"
    "tb_output_tokens b = tb_output_tokens cur"
  using assms by (auto simp: granted_from_def renew_lease_kept) (subst renew_lease_SomeD(1), assumption, simp)+

lemma reserve_connection_charges:
  assumes r: "reserve_connection sha t turns tools p allow db = Inr (db', res)" and acc: "accepted res"
    and row: "dget (sd_budgets db) t = Some row"
  obtains row' where "dget (sd_budgets db') t = Some row'"
    "tb_model_turns row' = tb_model_turns row + turns" "tb_tool_calls row' = tb_tool_calls row + tools"
    "\<not> allow \<Longrightarrow> tb_lease_turns row' = tb_lease_turns row \<and> tb_lease_tools row' = tb_lease_tools row \<and> tb_renewals row' = tb_renewals row"
    "\<And>t'. t' \<noteq> t \<Longrightarrow> dget (sd_budgets db') t' = dget (sd_budgets db) t'"
    "row' = stored_row (br_budget res)"
  using r
proof (cases rule: reserve_connection_InrD)
  case (granted cur b)
  have cur: "cur = stored_row row" using granted(1) row by (elim load_budget_InrD) simp
  obtain u where db': "db' = db\<lparr>sd_budgets := dput t (stored_row (br_budget res)) (sd_budgets db), sd_lineage_usage := u\<rparr>"
    using granted(6) by (elim store_budget_InrD)
  have "\<not> allow \<Longrightarrow> tb_lease_turns b = tb_lease_turns cur \<and> tb_lease_tools b = tb_lease_tools cur \<and> tb_renewals b = tb_renewals cur"
    using granted(3) by (auto simp: granted_from_def)
  then show ?thesis
    by (intro that [of "stored_row (br_budget res)"]) (auto simp: db' granted(5) cur)
qed (use acc in simp)

text \<open>
  C19: a reservation on a child thread bound to a parent is all or nothing. When it is refused,
  by the child's own limits, by the parent's hard limits or by the parent's soft lease, the database is
  unchanged; when it is accepted, both rows have grown by exactly the requested turns and tool calls,
  and the parent's lease was not renewed on the child's behalf.
\<close>

theorem bound_reserve_is_atomic:
  assumes "reserve_budget sha child turns tools p db = Inr (db', res)"
    and "binding db child = Inr (Some b)" and "cb_owner_thread b \<noteq> child"
    and "dget (sd_budgets db) child = Some crow" "dget (sd_budgets db) (cb_owner_thread b) = Some prow"
  shows "if accepted res
     then \<exists>crow' prow'. dget (sd_budgets db') child = Some crow'
            \<and> dget (sd_budgets db') (cb_owner_thread b) = Some prow'
            \<and> tb_model_turns crow' = tb_model_turns crow + turns \<and> tb_tool_calls crow' = tb_tool_calls crow + tools
            \<and> tb_model_turns prow' = tb_model_turns prow + turns \<and> tb_tool_calls prow' = tb_tool_calls prow + tools
            \<and> tb_lease_turns prow' = tb_lease_turns prow \<and> tb_renewals prow' = tb_renewals prow
     else db' = db"
proof -
  obtain q where "reserve_txn sha child turns tools q db = Inr (db', res)"
    using assms(1) by (elim reserve_budget_InrD)
  then show ?thesis
  proof (cases rule: reserve_txn_InrD)
    case (shared b' db1 own)
    then have b': "b' = b" using assms(2) by simp
    obtain c1 where c1: "dget (sd_budgets db1) child = Some c1" "tb_model_turns c1 = tb_model_turns crow + turns"
      "tb_tool_calls c1 = tb_tool_calls crow + tools" "dget (sd_budgets db1) (cb_owner_thread b) = Some prow"
      using reserve_connection_charges [OF shared(4,2) assms(4)] assms(3,5) by metis
    obtain p1 where "dget (sd_budgets db') (cb_owner_thread b) = Some p1"
      "tb_model_turns p1 = tb_model_turns prow + turns" "tb_tool_calls p1 = tb_tool_calls prow + tools"
      "tb_lease_turns p1 = tb_lease_turns prow" "tb_renewals p1 = tb_renewals prow"
      "dget (sd_budgets db') child = Some c1"
      using reserve_connection_charges [OF shared(5)[unfolded b'] shared(3) c1(4)] assms(3) c1(1) by metis
    then show ?thesis using c1 shared(2) by auto
  qed (use assms(2) in auto)
qed

definition sample_bound_db :: session_db where
  "sample_bound_db = fold (db_step sample_sha) sample_ops sample_db"

lemma sample_bound_accepts:
  "okP (\<lambda>(db', res). accepted res) (reserve_budget sample_sha ''c'' 1 1 None sample_bound_db)"
  "okP (someP (\<lambda>b. cb_owner_thread b = ''t'')) (binding sample_bound_db ''c'')"
  "someP (\<lambda>row. tb_model_turns row = 0) (dget (sd_budgets sample_bound_db) ''c'')"
  "someP (\<lambda>row. tb_model_turns row = 1) (dget (sd_budgets sample_bound_db) ''t'')"
  by code_simp+

theorem bound_reserve_is_atomic_witness:
  "\<exists>db' res crow' prow'. reserve_budget sample_sha ''c'' 1 1 None sample_bound_db = Inr (db', res)
     \<and> dget (sd_budgets db') ''c'' = Some crow' \<and> tb_model_turns crow' = 1
     \<and> dget (sd_budgets db') ''t'' = Some prow' \<and> tb_model_turns prow' = 2"
proof -
  obtain db' res where r: "reserve_budget sample_sha ''c'' 1 1 None sample_bound_db = Inr (db', res)" "accepted res"
    using sample_bound_accepts(1) by (elim okP_E) auto
  obtain b where b: "binding sample_bound_db ''c'' = Inr (Some b)" "cb_owner_thread b = ''t''"
    using sample_bound_accepts(2) by (elim okP_E someP_E) auto
  obtain crow where c: "dget (sd_budgets sample_bound_db) ''c'' = Some crow" "tb_model_turns crow = 0"
    using sample_bound_accepts(3) by (elim someP_E) auto
  obtain prow where p: "dget (sd_budgets sample_bound_db) ''t'' = Some prow" "tb_model_turns prow = 1"
    using sample_bound_accepts(4) by (elim someP_E) auto
  have "cb_owner_thread b \<noteq> ''c''" using b by simp
  then show ?thesis
    using bound_reserve_is_atomic [OF r(1) b(1) _ c(1)] b(2) p c(2) r by fastforce
qed

section \<open>The decision of a reservation\<close>

text \<open>
  The contract of \<open>reserve\<close> on one row, without the bookkeeping: what is exhausted and when a
  renewal is granted. \<open>next_lease\<close> is the lease one renewal away.
\<close>

definition next_lease :: "task_budget \<Rightarrow> (int \<times> int) option" where
  "next_lease b =
     (let up = (\<lambda>l. Some (max (tb_lease_turns b) (fst l), max (tb_lease_tools b) (snd l)))
      in case tb_tier b of
           QUICK \<Rightarrow> up (lease_limits STANDARD (tb_limits b))
         | STANDARD \<Rightarrow> up (lease_limits DEEP (tb_limits b))
         | DEEP \<Rightarrow> if tb_final b then None
                   else up (el_max_agent_rounds (tb_limits b), el_max_tool_calls (tb_limits b)))"

definition reserve_decision :: "task_budget \<Rightarrow> int \<Rightarrow> int \<Rightarrow> int \<Rightarrow> string \<Rightarrow> reserve_status" where
  "reserve_decision b turns tools spent digest =
     (if tb_model_turns b + turns > el_max_agent_rounds (tb_limits b) \<or>
         tb_tool_calls b + tools > el_max_tool_calls (tb_limits b) \<or>
         spent \<ge> el_max_total_tokens (tb_limits b) then HARD_EXHAUSTED
      else if \<not> over_lease b turns tools b then RESERVED
      else if tb_baseline b = '''' \<or> tb_baseline b = digest then LEASE_EXHAUSTED
      else case next_lease b of
             None \<Rightarrow> LEASE_EXHAUSTED
           | Some (lt, ll) \<Rightarrow> if tb_model_turns b + turns > lt \<or> tb_tool_calls b + tools > ll
                             then LEASE_EXHAUSTED else RENEWED)"

lemma renew_lease_next:
  assumes "renew_lease sha b p = Inr nx"
  shows "next_lease b = map_option (\<lambda>b'. (tb_lease_turns b', tb_lease_tools b')) nx"
  using assms
  by (auto simp: renew_lease_def next_lease_def Let_def bindR_Inr_iff check_task_budget_Inr
      split: lease_tier.splits if_splits)

lemma write_reservation_total:
  assumes "check_task_budget b = Inr b" "\<not> over_lease cur turns tools b"
    and "0 \<le> tb_model_turns cur + turns" "0 \<le> tb_tool_calls cur + tools"
    and store: "\<And>b. okR (store_budget t b db)"
  shows "\<exists>db' b'. write_reservation t turns tools cur db b st why = Inr (db', \<lparr>br_budget = b', br_status = st, br_reason = why\<rparr>)"
proof -
  let ?b = "b\<lparr>tb_model_turns := tb_model_turns cur + turns, tb_tool_calls := tb_tool_calls cur + tools\<rparr>"
  have "check_task_budget ?b = Inr ?b"
    using assms(1-4) by (auto simp: check_task_budget_Inr counters_ok_def over_lease_def)
  then show ?thesis using store [of ?b] by (auto simp: write_reservation_def okR_iff bindR_Inr_iff)
qed

lemma reserve_connection_total:
  assumes ok: "row_ok cur" and load: "load_budget db t = Inr cur" and th: "require_thread db t = Inr ()"
    and nn: "0 \<le> turns" "0 \<le> tools" and p: "check_snapshot p = Inr p"
    and sha: "is_sha256 (snapshot_digest sha p)" and store: "\<And>b. okR (store_budget t b db)"
  shows "\<exists>db' res. reserve_connection sha t turns tools p True db = Inr (db', res)
     \<and> br_status res = reserve_decision cur turns tools (token_spent db t None) (snapshot_digest sha p)"
proof -
  define digest where "digest = snapshot_digest sha p"
  define bl where "bl = (if tb_baseline cur = '''' then digest else tb_baseline cur)"
  let ?new = "cur\<lparr>tb_baseline := bl\<rparr>"
  note D = reserve_connection_def th load bindR_simps Let_def digest_def [symmetric] bl_def [symmetric]
  have chk: "check_task_budget ?new = Inr ?new"
    using ok sha by (auto simp: row_ok_def budget_ok_def check_task_budget_Inr counters_ok_def bl_def digest_def is_sha256_def)
  have pos: "0 \<le> tb_model_turns cur + turns" "0 \<le> tb_tool_calls cur + tools"
    using ok nn by (auto simp: row_ok_def budget_ok_def check_task_budget_Inr counters_ok_def)
  show ?thesis
  proof (cases "tb_model_turns cur + turns > el_max_agent_rounds (tb_limits cur) \<or>
           tb_tool_calls cur + tools > el_max_tool_calls (tb_limits cur) \<or>
           token_spent db t None \<ge> el_max_total_tokens (tb_limits cur)")
    case True
    then show ?thesis unfolding D by (simp add: reserve_decision_def exhausted_def)
  next
    case hard: False
    show ?thesis
    proof (cases "over_lease cur turns tools cur")
      case False
      then have "\<not> over_lease cur turns tools ?new" by (simp add: over_lease_def)
      from write_reservation_total [OF chk this pos store]
      show ?thesis using hard False unfolding D by (fastforce simp: chk reserve_decision_def)
    next
      case over: True
      show ?thesis
      proof (cases "digest = bl")
        case True
        then have "tb_baseline cur = '''' \<or> tb_baseline cur = digest"
          by (metis bl_def)
        then show ?thesis using hard over True chk unfolding D
          by (auto simp: reserve_decision_def exhausted_def simp flip: digest_def)
      next
        case False
        then have nb: "tb_baseline cur \<noteq> ''''" by (metis bl_def)
        then have same: "?new = cur" by (simp add: bl_def)
        obtain nx where nx: "renew_lease sha cur p = Inr nx"
          using renew_lease_total [OF _ sha p] ok by (auto simp: row_ok_def)
        note N = renew_lease_next [OF nx]
        have ne: "digest \<noteq> tb_baseline cur" using False nb by (simp add: bl_def)
        show ?thesis
        proof (cases nx)
          case None
          then show ?thesis using hard over False chk nx nb N unfolding D same
            by (auto simp: reserve_decision_def exhausted_def)
        next
          case (Some e)
          show ?thesis
          proof (cases "over_lease cur turns tools e")
            case True
            then show ?thesis using hard over False chk nx nb N Some unfolding D same
              by (auto simp: reserve_decision_def exhausted_def over_lease_def)
          next
            case fit: False
            have "check_task_budget e = Inr e"
              using renew_lease_SomeD(3) nx Some by blast
            from write_reservation_total [OF this fit pos store, where st = RENEWED and why = "Some (ps_reason p)"]
            obtain db' b' where w: "write_reservation t turns tools cur db e RENEWED (Some (ps_reason p)) =
                Inr (db', \<lparr>br_budget = b', br_status = RENEWED, br_reason = Some (ps_reason p)\<rparr>)" by blast
            have "reserve_connection sha t turns tools p True db = write_reservation t turns tools cur db e RENEWED (Some (ps_reason p))"
              using hard over False chk nx Some fit unfolding D same by auto
            moreover have "reserve_decision cur turns tools (token_spent db t None) digest = RENEWED"
              using hard over nb ne N Some fit by (auto simp: reserve_decision_def over_lease_def)
            ultimately show ?thesis using w by (auto simp: digest_def)
          qed
        qed
      qed
    qed
  qed
qed


definition sample_progress :: progress_snapshot where
  "sample_progress = initial_snapshot\<lparr>ps_code_generation := 1, ps_reason := ''edit''\<rparr>"

lemma sample_reserve_ready:
  "someP (\<lambda>row. row_ok row \<and> stored_row row = row) (dget (sd_budgets sample_bound_db) ''t'')"
  "require_thread sample_bound_db ''t'' = Inr ()" "binding sample_bound_db ''t'' = Inr None"
  "check_snapshot sample_progress = Inr sample_progress"
  "is_sha256 (snapshot_digest sample_sha sample_progress)"
  by code_simp+

lemma no_lineage_store:
  "find (\<lambda>r. tr_thread r = t) (sd_tasks db) = Some r \<Longrightarrow> tr_lineage r = None \<Longrightarrow> okR (store_budget t b db)"
  by (simp add: store_budget_def sync_lineage_usage_def)

lemma sample_store: "okR (store_budget ''t'' b sample_bound_db)"
proof -
  have "sd_tasks sample_bound_db = sd_tasks sample_db" by code_simp
  then show ?thesis by (simp add: no_lineage_store sample_db_def)
qed


lemma sample_renewed:
  "okP (\<lambda>(db', res). br_status res = RENEWED \<and> tb_tier (br_budget res) = STANDARD)
     (reserve_budget sample_sha ''t'' 4 0 (Some sample_progress) sample_bound_db)"
  by code_simp

end
