(* ===== verification/Regex.thy ===== *)
theory Regex
  imports Prelude
begin

text \<open>
  The part of Python's \<open>re\<close> that \<open>policy/_command_risk.py\<close> uses, as an executable backtracking
  matcher. A position is the text already consumed (reversed), the rest, and the last capture.
  \<open>ends\<close> lists where a match can end, in the order the engine tries them, so its head is the match
  Python returns. Repetition occurs only over one character class (\<open>\s+\<close>, \<open>[^;|]*\<close>), which is
  \<open>Many\<close>. \<open>\w\<close>, \<open>\s\<close> and \<open>\d\<close> are the classes of \<open>str\<close> patterns; literals ignore case.
  \<open>ends_matches\<close> shows the matcher against the declarative meaning of the patterns.
\<close>

type_synonym rpos = "string \<times> string \<times> string option"

datatype rx =
    Eps
  | One "char \<Rightarrow> bool"
  | Many "char \<Rightarrow> bool"
  | Cat rx rx
  | Alt rx rx
  | Bol
  | Eol
  | Wb
  | NotAfter "char \<Rightarrow> bool"
  | Look rx
  | Cap rx

definition is_word :: "char \<Rightarrow> bool" where
  "is_word c = (is_upper c \<or> is_lower c \<or> is_digit c \<or> c = CHR ''_'' \<or>
     code_of c \<in> {170, 178, 179, 181, 185, 186, 188, 189, 190} \<or>
     (192 \<le> code_of c \<and> code_of c \<noteq> 215 \<and> code_of c \<noteq> 247))"

definition word_at :: "string \<Rightarrow> bool" where
  "word_at s = (case s of [] \<Rightarrow> False | c # _ \<Rightarrow> is_word c)"

primrec many_ends :: "(char \<Rightarrow> bool) \<Rightarrow> string \<Rightarrow> string \<Rightarrow> string option \<Rightarrow> rpos list" where
  "many_ends c [] l k = [(l, [], k)]"
| "many_ends c (x # xs) l k = (if c x then many_ends c xs (x # l) k else []) @ [(l, x # xs, k)]"

fun ends :: "rx \<Rightarrow> rpos \<Rightarrow> rpos list" where
  "ends Eps p = [p]"
| "ends (One c) (l, s, k) = (case s of [] \<Rightarrow> [] | x # xs \<Rightarrow> if c x then [(x # l, xs, k)] else [])"
| "ends (Many c) (l, s, k) = many_ends c s l k"
| "ends (Cat r q) p = concat (map (ends q) (ends r p))"
| "ends (Alt r q) p = ends r p @ ends q p"
| "ends Bol (l, s, k) = (if l = [] then [(l, s, k)] else [])"
| "ends Eol (l, s, k) = (if s = [] \<or> s = [CHR 0x0A] then [(l, s, k)] else [])"
| "ends Wb (l, s, k) = (if word_at l \<noteq> word_at s then [(l, s, k)] else [])"
| "ends (NotAfter c) (l, s, k) = (case l of x # _ \<Rightarrow> if c x then [] else [(l, s, k)] | [] \<Rightarrow> [(l, s, k)])"
| "ends (Look r) p = (if ends r p = [] then [] else [p])"
| "ends (Cap r) (l, s, k) =
     map (\<lambda>(l', s', _). (l', s', Some (rev (take (length l' - length l) l')))) (ends r (l, s, k))"

text \<open>\<open>search\<close>: is there a match starting anywhere; \<open>finditer\<close>: the captures of the successive matches.\<close>

fun search :: "rx \<Rightarrow> string \<Rightarrow> string \<Rightarrow> bool" where
  "search r l [] = (ends r (l, [], None) \<noteq> [])"
| "search r l (x # xs) = (ends r (l, x # xs, None) \<noteq> [] \<or> search r (x # l) xs)"

function finditer :: "rx \<Rightarrow> string \<Rightarrow> string \<Rightarrow> string option list" where
  "finditer r l s =
     (case ends r (l, s, None) of
        (l', s', k) # _ \<Rightarrow>
          if length s' < length s then k # finditer r l' s'
          else k # (case s of [] \<Rightarrow> [] | x # xs \<Rightarrow> finditer r (x # l) xs)
      | [] \<Rightarrow> (case s of [] \<Rightarrow> [] | x # xs \<Rightarrow> finditer r (x # l) xs))"
  by pat_completeness auto
termination
  by (relation "measure (\<lambda>(r, l, s). length s)") auto

definition re_search :: "rx \<Rightarrow> string \<Rightarrow> bool" where
  "re_search r s = search r [] s"

definition re_finditer :: "rx \<Rightarrow> string \<Rightarrow> string option list" where
  "re_finditer r s = finditer r [] s"

section \<open>Abbreviations for patterns\<close>

definition same_letter :: "char \<Rightarrow> char \<Rightarrow> bool" where
  "same_letter a b = (lower_char a = lower_char b)"

primrec lit :: "string \<Rightarrow> rx" where
  "lit [] = Eps"
| "lit (c # cs) = Cat (One (same_letter c)) (lit cs)"

definition cats :: "rx list \<Rightarrow> rx" where
  "cats rs = foldr Cat rs Eps"

fun alts :: "rx list \<Rightarrow> rx" where
  "alts [] = Alt Eps Eps"
| "alts [r] = r"
| "alts (r # rs) = Alt r (alts rs)"

definition opt :: "rx \<Rightarrow> rx" where
  "opt r = Alt r Eps"

definition many1 :: "(char \<Rightarrow> bool) \<Rightarrow> rx" where
  "many1 c = Cat (One c) (Many c)"

definition words_alt :: "string list \<Rightarrow> rx" where
  "words_alt ws = alts (map lit ws)"

definition letter :: "char \<Rightarrow> bool" where
  "letter c = (is_upper c \<or> is_lower c)"

definition word :: "rx \<Rightarrow> rx" where
  "word r = cats [Wb, r, Wb]"

section \<open>What the matcher decides\<close>

text \<open>The declarative meaning: \<open>matches r p q\<close>, a match of \<open>r\<close> at \<open>p\<close> may end at \<open>q\<close>.\<close>

inductive matches :: "rx \<Rightarrow> rpos \<Rightarrow> rpos \<Rightarrow> bool" where
  m_eps: "matches Eps p p"
| m_one: "c x \<Longrightarrow> matches (One c) (l, x # xs, k) (x # l, xs, k)"
| m_none: "matches (Many c) p p"
| m_more: "c x \<Longrightarrow> matches (Many c) (x # l, xs, k) q \<Longrightarrow> matches (Many c) (l, x # xs, k) q"
| m_cat: "matches r p q \<Longrightarrow> matches r' q t \<Longrightarrow> matches (Cat r r') p t"
| m_left: "matches r p q \<Longrightarrow> matches (Alt r r') p q"
| m_right: "matches r' p q \<Longrightarrow> matches (Alt r r') p q"
| m_bol: "matches Bol ([], s, k) ([], s, k)"
| m_eol: "s = [] \<or> s = [CHR 0x0A] \<Longrightarrow> matches Eol (l, s, k) (l, s, k)"
| m_wb: "word_at l \<noteq> word_at s \<Longrightarrow> matches Wb (l, s, k) (l, s, k)"
| m_not: "(\<And>x l'. l = x # l' \<Longrightarrow> \<not> c x) \<Longrightarrow> matches (NotAfter c) (l, s, k) (l, s, k)"
| m_look: "matches r p q \<Longrightarrow> matches (Look r) p p"
| m_cap: "matches r (l, s, k) (l', s', k') \<Longrightarrow>
    matches (Cap r) (l, s, k) (l', s', Some (rev (take (length l' - length l) l')))"

inductive_simps matches_simps [simp]:
  "matches Eps p q" "matches (One c) p q" "matches (Cat r r') p q" "matches (Alt r r') p q"
  "matches Bol p q" "matches Eol p q" "matches Wb p q" "matches (NotAfter c) p q"
  "matches (Look r) p q" "matches (Cap r) p q"

lemma many_ends_sound: "q \<in> set (many_ends c s l k) \<Longrightarrow> matches (Many c) (l, s, k) q"
  by (induction s arbitrary: l) (auto split: if_splits intro: matches.intros)

lemma many_ends_start: "(l, s, k) \<in> set (many_ends c s l k)"
  by (cases s) auto

lemma many_ends_complete:
  "matches r p q \<Longrightarrow> r = Many c \<Longrightarrow> q \<in> set (many_ends c (fst (snd p)) (fst p) (snd (snd p)))"
  by (induction r p q rule: matches.induct) (auto simp: many_ends_start)

lemma ends_matches: "set (ends r p) = {q. matches r p q}"
proof (induction r p rule: ends.induct)
  case (3 c l s k)
  then show ?case using many_ends_sound [of _ c s l k] many_ends_complete [of "Many c" "(l, s, k)"] by auto
next
  case (10 r p)
  then show ?case by (cases "ends r p") auto
next
  case (11 r l s k)
  then show ?case by force
qed (auto split: list.splits)

lemma ends_nonempty_iff: "ends r p \<noteq> [] \<longleftrightarrow> (\<exists>q. matches r p q)"
  by (metis (no_types, lifting) Collect_empty_eq ends_matches set_empty)

lemma search_iff: "search r l s \<longleftrightarrow> (\<exists>a b q. s = a @ b \<and> matches r (rev a @ l, b, None) q)"
proof (induction s arbitrary: l)
  case (Cons x xs)
  have "(\<exists>a b q. x # xs = a @ b \<and> matches r (rev a @ l, b, None) q) \<longleftrightarrow>
     (\<exists>q. matches r (l, x # xs, None) q) \<or> (\<exists>a b q. xs = a @ b \<and> matches r (rev a @ x # l, b, None) q)"
    by (auto simp: Cons_eq_append_conv) (metis append.left_neutral append_Cons rev.simps rev_rev_ident append_assoc | fastforce)+
  then show ?case by (simp add: Cons.IH ends_nonempty_iff)
qed (simp add: ends_nonempty_iff)

lemma re_search_iff: "re_search r s \<longleftrightarrow> (\<exists>a b q. s = a @ b \<and> matches r (rev a, b, None) q)"
  by (simp add: re_search_def search_iff)

lemma matches_lit:
  "matches (lit w) (l, s, k) q \<longleftrightarrow>
     (\<exists>v t. s = v @ t \<and> map lower_char v = map lower_char w \<and> q = (rev v @ l, t, k))"
proof (induction w arbitrary: l s)
  case (Cons c w)
  have "matches (lit (c # w)) (l, s, k) q \<longleftrightarrow>
      (\<exists>x xs. s = x # xs \<and> lower_char c = lower_char x \<and> matches (lit w) (x # l, xs, k) q)"
    by (auto simp: same_letter_def)
  also have "\<dots> \<longleftrightarrow> (\<exists>x v t. s = x # v @ t \<and> lower_char c = lower_char x \<and>
      map lower_char v = map lower_char w \<and> q = (rev v @ x # l, t, k))"
    by (simp add: Cons.IH) blast
  also have "\<dots> \<longleftrightarrow> (\<exists>v t. s = v @ t \<and> map lower_char v = map lower_char (c # w) \<and> q = (rev v @ l, t, k))"
  proof (intro iffI; elim exE conjE)
    fix x v t assume "s = x # v @ t" "lower_char c = lower_char x" "map lower_char v = map lower_char w"
      "q = (rev v @ x # l, t, k)"
    then show "\<exists>v t. s = v @ t \<and> map lower_char v = map lower_char (c # w) \<and> q = (rev v @ l, t, k)"
      by (intro exI [of _ "x # v"] exI [of _ t]) simp
  next
    fix v t assume a: "s = v @ t" "map lower_char v = map lower_char (c # w)" "q = (rev v @ l, t, k)"
    then obtain x v' where "v = x # v'" by (cases v) auto
    then show "\<exists>x v t. s = x # v @ t \<and> lower_char c = lower_char x \<and>
      map lower_char v = map lower_char w \<and> q = (rev v @ x # l, t, k)"
      using a by (intro exI [of _ x] exI [of _ v'] exI [of _ t]) simp
  qed
  finally show ?case .
qed auto

lemma matches_cats_Cons [simp]: "matches (cats (r # rs)) p q \<longleftrightarrow> (\<exists>t. matches r p t \<and> matches (cats rs) t q)"
  by (simp add: cats_def)

lemma matches_cats_Nil [simp]: "matches (cats []) p q \<longleftrightarrow> q = p"
  by (auto simp: cats_def)

end
