(* ===== verification/Paths.thy ===== *)
theory Paths
  imports Regex
begin

text \<open>
  Path classification: \<open>src/src/code_agent/policy/_path_classification.py\<close>. The pure path types of
  \<open>pathlib\<close> (Python 3.12) are parsed triples of drive, root and parts; \<open>ntpath.normpath\<close> and
  \<open>commonpath\<close> are the functions of that library. Two things depend on the machine and are
  parameters: \<open>nt\<close> says whether \<open>os.name\<close> is \<open>nt\<close> (native paths are then Windows paths), and
  \<open>resolve\<close> is \<open>Path.resolve(strict=False)\<close>, which follows the links of the file system.
\<close>

section \<open>Pure paths\<close>

record pure_path =
  pp_drive :: string
  pp_root :: string
  pp_tail :: "string list"

abbreviation bsl :: char where "bsl \<equiv> CHR 0x5C"

definition to_backslash :: "string \<Rightarrow> string" where
  "to_backslash s = map (\<lambda>c. if c = CHR ''/'' then bsl else c) s"

definition to_slash :: "string \<Rightarrow> string" where
  "to_slash s = map (\<lambda>c. if c = bsl then CHR ''/'' else c) s"

text \<open>\<open>ntpath.splitroot\<close> on a path whose separators are already backslashes.\<close>

definition nt_splitroot :: "string \<Rightarrow> string \<times> string \<times> string" where
  "nt_splitroot p =
     (if take 1 p = [bsl] then
        (if take 1 (drop 1 p) = [bsl] then
           (let start = (if casefold (take 8 p) = [bsl, bsl, CHR ''?'', bsl] @ ''unc'' @ [bsl] then 8 else 2);
                server = takeWhile (\<lambda>c. c \<noteq> bsl) (drop start p);
                after = drop (start + length server) p;
                share = takeWhile (\<lambda>c. c \<noteq> bsl) (drop 1 after);
                rest = drop (1 + length share) after
            in if after = [] \<or> rest = [] then (p, [], [])
               else (take (start + length server + 1 + length share) p, [bsl], drop 1 rest))
         else ([], [bsl], drop 1 p))
      else if take 1 (drop 1 p) = '':'' then
        (if take 1 (drop 2 p) = [bsl] then (take 2 p, [bsl], drop 3 p) else (take 2 p, [], drop 2 p))
      else ([], [], p))"

definition path_parts_of :: "char \<Rightarrow> string \<Rightarrow> string list" where
  "path_parts_of sep rel = filter (\<lambda>x. x \<noteq> [] \<and> x \<noteq> ''.'') (split_on sep rel)"

definition win_path :: "string \<Rightarrow> pure_path" where
  "win_path raw =
     (let p = to_backslash raw; (drv, root, rel) = nt_splitroot p; ps = split_on bsl drv;
          root' = (if root = [] \<and> take 1 drv = [bsl] \<and> last drv \<noteq> bsl \<and>
                      (length ps = 4 \<and> ps ! 2 \<notin> {[], ''?'', ''.'', ''?.''} \<or> length ps = 6)
                   then [bsl] else root)
      in \<lparr>pp_drive = drv, pp_root = root', pp_tail = path_parts_of bsl rel\<rparr>)"

definition posix_path :: "string \<Rightarrow> pure_path" where
  "posix_path raw =
     (let root = (if take 1 raw \<noteq> ''/'' then []
                  else if take 2 raw = ''//'' \<and> take 3 raw \<noteq> ''///'' then ''//'' else ''/'')
      in \<lparr>pp_drive = [], pp_root = root, pp_tail = path_parts_of (CHR ''/'') (drop (length root) raw)\<rparr>)"

definition native_path :: "bool \<Rightarrow> string \<Rightarrow> pure_path" where
  "native_path nt raw = (if nt then win_path raw else posix_path raw)"

definition path_str :: "char \<Rightarrow> pure_path \<Rightarrow> string" where
  "path_str sep p =
     (if pp_drive p \<noteq> [] \<or> pp_root p \<noteq> [] then pp_drive p @ pp_root p @ join_with [sep] (pp_tail p)
      else if sep = bsl \<and> pp_tail p \<noteq> [] \<and> fst (nt_splitroot (hd (pp_tail p))) \<noteq> []
      then join_with [sep] (''.'' # pp_tail p)
      else if pp_tail p = [] then ''.'' else join_with [sep] (pp_tail p))"

definition native_sep :: "bool \<Rightarrow> char" where
  "native_sep nt = (if nt then bsl else CHR ''/'')"

text \<open>\<open>parts\<close> puts the anchor first; a Windows path is absolute when it has a drive and a root.\<close>

definition path_parts :: "pure_path \<Rightarrow> string list" where
  "path_parts p = (if pp_drive p \<noteq> [] \<or> pp_root p \<noteq> [] then (pp_drive p @ pp_root p) # pp_tail p else pp_tail p)"

definition path_name :: "pure_path \<Rightarrow> string" where
  "path_name p = (if pp_tail p = [] then [] else last (pp_tail p))"

definition win_absolute :: "pure_path \<Rightarrow> bool" where
  "win_absolute p = (pp_drive p \<noteq> [] \<and> pp_root p \<noteq> [])"

definition native_absolute :: "bool \<Rightarrow> pure_path \<Rightarrow> bool" where
  "native_absolute nt p = (if nt then win_absolute p else pp_root p \<noteq> [])"

definition path_join :: "bool \<Rightarrow> pure_path \<Rightarrow> pure_path \<Rightarrow> pure_path" where
  "path_join nt a b =
     (if pp_root b \<noteq> [] then
        (if pp_drive b \<noteq> [] \<or> pp_drive a = [] then b else b\<lparr>pp_drive := pp_drive a\<rparr>)
      else if pp_drive b \<noteq> [] \<and> casefold (pp_drive b) \<noteq> casefold (pp_drive a) then b
      else \<lparr>pp_drive = (if pp_drive b \<noteq> [] then pp_drive b else pp_drive a), pp_root = pp_root a,
            pp_tail = pp_tail a @ pp_tail b\<rparr>)"

text \<open>\<open>a.relative_to(b)\<close> succeeds when \<open>b\<close> equals \<open>a\<close> or one of its parents; Windows ignores case.\<close>

definition path_key :: "bool \<Rightarrow> pure_path \<Rightarrow> string" where
  "path_key nt p = (if nt then casefold (path_str bsl p) else path_str (CHR ''/'') p)"

definition relative_to_ok :: "bool \<Rightarrow> pure_path \<Rightarrow> pure_path \<Rightarrow> bool" where
  "relative_to_ok nt a b =
     list_ex (\<lambda>n. path_key nt (a\<lparr>pp_tail := take n (pp_tail a)\<rparr>) = path_key nt b)
       [0..<Suc (length (pp_tail a))]"

section \<open>Path functions on text\<close>

fun common_prefix :: "string list \<Rightarrow> string list \<Rightarrow> nat" where
  "common_prefix (x # xs) (y # ys) = (if x = y then Suc (common_prefix xs ys) else 0)"
| "common_prefix _ _ = 0"

definition nt_commonpath :: "string \<Rightarrow> string \<Rightarrow> string result" where
  "nt_commonpath a b =
     (let (d1, r1, p1) = nt_splitroot (casefold (to_backslash a));
          (d2, r2, p2) = nt_splitroot (casefold (to_backslash b));
          (d, r, p) = nt_splitroot (to_backslash a)
      in if r1 \<noteq> r2 then raiseR ValueError (''Can'' @ [CHR 0x27] @ ''t mix absolute and relative paths'')
         else if d1 \<noteq> d2 then raiseR ValueError (''Paths don'' @ [CHR 0x27] @ ''t have the same drive'')
         else Inr (d @ r @ join_with [bsl]
           (take (common_prefix (path_parts_of bsl p1) (path_parts_of bsl p2)) (path_parts_of bsl p))))"

definition posix_commonpath :: "string \<Rightarrow> string \<Rightarrow> string result" where
  "posix_commonpath a b =
     (if (take 1 a = ''/'') \<noteq> (take 1 b = ''/'')
      then raiseR ValueError (''Can'' @ [CHR 0x27] @ ''t mix absolute and relative paths'')
      else (let p = path_parts_of (CHR ''/'') a; q = path_parts_of (CHR ''/'') b
            in Inr ((if take 1 a = ''/'' then ''/'' else []) @ join_with ''/'' (take (common_prefix p q) p))))"

definition normcase :: "bool \<Rightarrow> string \<Rightarrow> string" where
  "normcase nt s = (if nt then casefold (to_backslash s) else s)"

fun norm_comps :: "bool \<Rightarrow> string list \<Rightarrow> string list \<Rightarrow> string list" where
  "norm_comps rooted kept [] = rev kept"
| "norm_comps rooted kept (c # cs) =
     (if c = [] \<or> c = ''.'' then norm_comps rooted kept cs
      else if c = ''..'' then
        (case kept of
           k # ks \<Rightarrow> if k \<noteq> ''..'' then norm_comps rooted ks cs else norm_comps rooted (c # kept) cs
         | [] \<Rightarrow> if rooted then norm_comps rooted [] cs else norm_comps rooted [c] cs)
      else norm_comps rooted (c # kept) cs)"

definition nt_normpath :: "string \<Rightarrow> string" where
  "nt_normpath raw =
     (let (drv, root, rel) = nt_splitroot (to_backslash raw);
          comps = norm_comps (root \<noteq> []) [] (split_on bsl rel)
      in drv @ root @ join_with [bsl] (if drv @ root = [] \<and> comps = [] then [''.''] else comps))"

section \<open>Outside the workspace\<close>

definition native_path_is_outside ::
  "bool \<Rightarrow> (pure_path \<Rightarrow> pure_path) \<Rightarrow> string \<Rightarrow> pure_path \<Rightarrow> bool" where
  "native_path_is_outside nt resolve raw workspace_root =
     (let root = resolve workspace_root;
          candidate = native_path nt (if nt then raw else to_slash raw);
          absolute = (if native_absolute nt candidate then candidate else path_join nt root candidate);
          final = resolve absolute;
          root_str = path_str (native_sep nt) root; final_str = path_str (native_sep nt) final
      in if \<not> relative_to_ok nt final root then True
         else case (if nt then nt_commonpath root_str final_str else posix_commonpath root_str final_str) of
                Inl _ \<Rightarrow> True
              | Inr common \<Rightarrow> normcase nt common \<noteq> normcase nt root_str)"

definition pure_windows_path_is_outside :: "bool \<Rightarrow> string \<Rightarrow> pure_path \<Rightarrow> bool" where
  "pure_windows_path_is_outside nt raw workspace_root =
     (let root = win_path (nt_normpath (path_str (native_sep nt) workspace_root));
          candidate = win_path (nt_normpath raw)
      in if \<not> win_absolute root then True
         else if \<not> relative_to_ok True candidate root then True
         else case nt_commonpath (path_str bsl root) (path_str bsl candidate) of
                Inl _ \<Rightarrow> True
              | Inr common \<Rightarrow> normcase True common \<noteq> normcase True (path_str bsl root))"

definition path_is_outside ::
  "bool \<Rightarrow> (pure_path \<Rightarrow> pure_path) \<Rightarrow> string \<Rightarrow> pure_path option \<Rightarrow> bool" where
  "path_is_outside nt resolve raw0 workspace_root =
     (let raw = py_strip raw0 in
      if raw = [] then False
      else let windows = win_path raw;
               native = native_path nt (if nt then raw else to_slash raw);
               has_parent = (''..'' \<in> set (path_parts windows) \<or> ''..'' \<in> set (path_parts native))
           in case workspace_root of
                None \<Rightarrow> win_absolute windows \<or> native_absolute nt native \<or> has_parent
              | Some root \<Rightarrow>
                  if win_absolute windows \<and> \<not> nt then pure_windows_path_is_outside nt raw root
                  else native_path_is_outside nt resolve raw root)"

section \<open>Path keys and values in arguments\<close>

text \<open>\<open>_is_path_key\<close>: split camel case and separators into words.\<close>

fun camel_split :: "string \<Rightarrow> string" where
  "camel_split (a # b # cs) =
     (if (is_lower a \<or> is_digit a) \<and> is_upper b then a # CHR ''_'' # camel_split (b # cs)
      else a # camel_split (b # cs))"
| "camel_split cs = cs"

definition path_key_words :: "string list" where
  "path_key_words = [''path'', ''cwd'', ''file'', ''directory'', ''root'', ''source'', ''destination'', ''target'']"

definition is_path_key :: "string \<Rightarrow> bool" where
  "is_path_key key =
     list_ex (\<lambda>w. w \<in> set path_key_words)
       (split_on (CHR ''_'') (map (\<lambda>c. if letter c \<or> is_digit c then c else CHR ''_'')
          (casefold (camel_split key))))"

definition protected_path_names :: "string list" where
  "protected_path_names = [''.env'', ''.git'', ''.chaos-agent'', ''.code-agent'', ''chaos-agent-workspaces'']"

definition private_key_names :: rx where
  "private_key_names =
     cats [Alt Bol (One (\<lambda>c. c \<in> {CHR ''_'', CHR ''-''})),
           alts [lit ''id_rsa'', lit ''id_ecdsa'', lit ''id_ed25519'',
                 Cat (lit ''private'') (opt (Cat (opt (One (\<lambda>c. c \<in> {CHR ''_'', CHR ''-''}))) (lit ''key'')))],
           opt (Cat (lit ''.'') (many1 (\<lambda>c. letter c \<or> is_digit c))), Eol]"

definition path_text_protected :: "string \<Rightarrow> bool" where
  "path_text_protected v =
     (list_ex (\<lambda>p. casefold p \<in> set protected_path_names) (path_parts (win_path v)) \<or>
      re_search private_key_names (path_name (win_path v)))"

text \<open>
  The two recursive walks over JSON arguments. \<open>walk leaf hit\<close> is their common shape: \<open>leaf\<close> decides a
  text under a path key, \<open>hit\<close> a key with its value on the spot.
\<close>

function (sequential)
  targets :: "(string \<Rightarrow> bool) \<Rightarrow> (string \<Rightarrow> json \<Rightarrow> bool) \<Rightarrow> (string \<times> json) list \<Rightarrow> bool"
  and path_value :: "(string \<Rightarrow> bool) \<Rightarrow> (string \<Rightarrow> json \<Rightarrow> bool) \<Rightarrow> json \<Rightarrow> bool"
where
  "targets leaf hit [] = False"
| "targets leaf hit ((key, v) # rest) =
     (hit key v \<or> (is_path_key key \<and> path_value leaf hit v) \<or>
      (case v of
         JObj m \<Rightarrow> targets leaf hit m
       | JArr vs \<Rightarrow> list_ex (\<lambda>i. case i of JObj m \<Rightarrow> targets leaf hit m | _ \<Rightarrow> False) vs
       | _ \<Rightarrow> False) \<or>
      targets leaf hit rest)"
| "path_value leaf hit (JStr s) = leaf s"
| "path_value leaf hit (JObj m) = targets leaf hit m"
| "path_value leaf hit (JArr vs) = list_ex (path_value leaf hit) vs"
| "path_value leaf hit v = False"
  by pat_completeness auto
termination
  by (relation "measure (\<lambda>x. case x of Inl (_, _, m) \<Rightarrow> size_list (size_prod (\<lambda>_. 0) size) m
                                      | Inr (_, _, v) \<Rightarrow> size v)")
     (auto dest!: size_list_estimation'[of _ _ _ size, OF _ order_refl])

definition outside_flag :: "string \<Rightarrow> json \<Rightarrow> bool" where
  "outside_flag key v =
     (map (\<lambda>c. if c = CHR ''-'' then CHR ''_'' else c) (casefold key) \<in> {''outside_workspace'', ''allow_outside_workspace''}
      \<and> v = JBool True)"

definition targets_outside_workspace ::
  "bool \<Rightarrow> (pure_path \<Rightarrow> pure_path) \<Rightarrow> (string \<times> json) list \<Rightarrow> pure_path option \<Rightarrow> bool" where
  "targets_outside_workspace nt resolve arguments root =
     targets (\<lambda>s. path_is_outside nt resolve s root) outside_flag arguments"

definition targets_protected :: "(string \<times> json) list \<Rightarrow> bool" where
  "targets_protected arguments = targets path_text_protected (\<lambda>_ _. False) arguments"

section \<open>What the walks find\<close>

text \<open>
  \<open>path_text m s\<close>: the text \<open>s\<close> stands somewhere below a path key of the arguments \<open>m\<close>, through
  any nesting of objects and arrays.
\<close>

inductive path_text :: "(string \<times> json) list \<Rightarrow> string \<Rightarrow> bool"
  and value_text :: "json \<Rightarrow> string \<Rightarrow> bool" where
  "(k, v) \<in> set m \<Longrightarrow> is_path_key k \<Longrightarrow> value_text v s \<Longrightarrow> path_text m s"
| "(k, JObj m') \<in> set m \<Longrightarrow> path_text m' s \<Longrightarrow> path_text m s"
| "(k, JArr vs) \<in> set m \<Longrightarrow> JObj m' \<in> set vs \<Longrightarrow> path_text m' s \<Longrightarrow> path_text m s"
| "value_text (JStr s) s"
| "path_text m s \<Longrightarrow> value_text (JObj m) s"
| "v \<in> set vs \<Longrightarrow> value_text v s \<Longrightarrow> value_text (JArr vs) s"

inductive_cases value_textE: "value_text (JStr t) s" "value_text (JObj m) s" "value_text (JArr vs) s"
  "value_text JNull s" "value_text (JBool b) s" "value_text (JInt i) s" "value_text (JFloat r k) s"

lemma path_text_Cons: "path_text rest s \<Longrightarrow> path_text (kv # rest) s"
  by (erule path_text.cases) (auto intro: path_text_value_text.intros)

lemma targets_sound:
  assumes "\<And>k v. \<not> hit k v"
  shows "targets leaf hit m \<Longrightarrow> \<exists>s. path_text m s \<and> leaf s"
    and "path_value leaf hit v \<Longrightarrow> \<exists>s. value_text v s \<and> leaf s"
  using assms
proof (induction leaf hit m and leaf hit v rule: targets_path_value.induct)
  case (2 leaf hit key v rest)
  let ?m = "(key, v) # rest"
  have k: "(key, v) \<in> set ?m" by simp
  have nh: "\<not> hit key v" by (rule 2(6))
  from 2(5) nh consider (key) "is_path_key key" "path_value leaf hit v"
    | (obj) m where "v = JObj m" "targets leaf hit m"
    | (arr) vs m where "v = JArr vs" "JObj m \<in> set vs" "targets leaf hit m"
    | (rest) "targets leaf hit rest"
    by (auto simp: list_ex_iff simp del: path_value.simps split: json.splits) (metis json.exhaust)
  then show ?case
  proof cases
    case key
    then obtain s where "value_text v s" "leaf s" using 2(1,6) by blast
    then show ?thesis using path_text_value_text.intros(1) [OF k] key by blast
  next
    case obj
    then obtain s where "path_text m s" "leaf s" using 2(3,6) by blast
    then show ?thesis using path_text_value_text.intros(2) [of key m ?m] obj by auto
  next
    case arr
    then obtain s where "path_text m s" "leaf s" using 2(2,6) by blast
    then show ?thesis using path_text_value_text.intros(3) [of key vs ?m m] arr by auto
  next
    case rest
    then show ?thesis using 2(4,6) path_text_Cons by blast
  qed
qed (fastforce simp: list_ex_iff intro: path_text_value_text.intros)+

lemma targets_member:
  assumes "(k, v) \<in> set m"
  shows "hit k v \<Longrightarrow> targets leaf hit m"
    and "is_path_key k \<Longrightarrow> path_value leaf hit v \<Longrightarrow> targets leaf hit m"
    and "v = JObj m' \<Longrightarrow> targets leaf hit m' \<Longrightarrow> targets leaf hit m"
    and "v = JArr vs \<Longrightarrow> JObj m' \<in> set vs \<Longrightarrow> targets leaf hit m' \<Longrightarrow> targets leaf hit m"
  using assms by (induction m) (auto simp: list_ex_iff split: json.splits)

lemma targets_complete:
  "path_text m s \<Longrightarrow> leaf s \<Longrightarrow> targets leaf hit m"
  "value_text v s \<Longrightarrow> leaf s \<Longrightarrow> path_value leaf hit v"
  by (induction rule: path_text_value_text.inducts)
     (auto simp: list_ex_iff intro: targets_member)

text \<open>
  the walk over tool arguments reports a protected target exactly when some text below a
  path key, at any depth of nested objects and arrays, has a protected component (\<open>.git\<close>, \<open>.env\<close>, the
  agent's own directories, in any case) or a private-key file name; and any such text that leaves the
  workspace is reported as outside.
\<close>

theorem targets_protected_iff:
  "targets_protected m \<longleftrightarrow> (\<exists>s. path_text m s \<and> path_text_protected s)"
  unfolding targets_protected_def
  using targets_sound(1) [of "\<lambda>_ _. False"] targets_complete(1) by blast

lemma targets_outside_found:
  "path_text m s \<Longrightarrow> path_is_outside nt resolve s root \<Longrightarrow> targets_outside_workspace nt resolve m root"
  unfolding targets_outside_workspace_def by (rule targets_complete(1))

lemma protected_samples:
  "targets_protected [(''edits'', JArr [JObj [(''file_path'', JStr ''src/.Git/config'')]])]"
  "targets_protected [(''targetPath'', JStr ''keys/deploy_id_rsa.pub'')]"
  "\<not> targets_protected [(''query'', JStr ''.git''), (''path'', JStr ''src/main.py'')]"
  by code_simp+

section \<open>Inside the workspace on POSIX\<close>

text \<open>What \<open>resolve\<close> returns on POSIX: an absolute path of real components.\<close>

definition posix_real :: "pure_path \<Rightarrow> bool" where
  "posix_real p \<longleftrightarrow> pp_drive p = [] \<and> pp_root p = ''/'' \<and>
     list_all (\<lambda>x. x \<noteq> [] \<and> x \<noteq> ''.'' \<and> CHR ''/'' \<notin> set x) (pp_tail p)"

lemma path_parts_of_join:
  assumes "list_all (\<lambda>x. x \<noteq> [] \<and> x \<noteq> ''.'' \<and> c \<notin> set x) ps"
  shows "path_parts_of c (join_with [c] ps) = ps"
proof (cases "ps = []")
  case False
  then have "split_on c (join_with [c] ps) = ps" using assms by (intro split_join) (auto simp: list_all_iff)
  then show ?thesis using assms by (simp add: path_parts_of_def filter_id_conv list_all_iff)
qed (simp add: path_parts_of_def)

lemma path_parts_of_sep: "path_parts_of c (c # s) = path_parts_of c s"
  by (simp add: path_parts_of_def)

lemma posix_real_str: "posix_real p \<Longrightarrow> path_str (CHR ''/'') p = CHR ''/'' # join_with ''/'' (pp_tail p)"
  by (simp add: posix_real_def path_str_def)

lemma path_parts_of_str:
  assumes "posix_real p"
  shows "path_parts_of (CHR ''/'') (path_str (CHR ''/'') p) = pp_tail p"
proof -
  have "path_parts_of (CHR ''/'') (path_str (CHR ''/'') p) = path_parts_of (CHR ''/'') (join_with ''/'' (pp_tail p))"
    by (simp only: posix_real_str [OF assms] path_parts_of_sep)
  also have "\<dots> = pp_tail p"
    by (rule path_parts_of_join) (use assms in \<open>simp add: posix_real_def\<close>)
  finally show ?thesis .
qed

lemma posix_real_take: "posix_real p \<Longrightarrow> posix_real (p\<lparr>pp_tail := take n (pp_tail p)\<rparr>)"
  by (auto simp: posix_real_def list_all_iff dest: in_set_takeD)

lemma posix_key_inj:
  assumes "posix_real a" "posix_real b"
  shows "path_key False a = path_key False b \<longleftrightarrow> pp_tail a = pp_tail b"
proof
  assume "path_key False a = path_key False b"
  then show "pp_tail a = pp_tail b"
    using path_parts_of_str [OF assms(1)] path_parts_of_str [OF assms(2)] by (simp only: path_key_def if_False)
next
  assume "pp_tail a = pp_tail b"
  then show "path_key False a = path_key False b"
    by (simp only: path_key_def if_False posix_real_str [OF assms(1)] posix_real_str [OF assms(2)])
qed

lemma posix_relative_iff:
  assumes "posix_real a" "posix_real b"
  shows "relative_to_ok False a b \<longleftrightarrow> prefix (pp_tail b) (pp_tail a)"
proof -
  have "path_key False (a\<lparr>pp_tail := take n (pp_tail a)\<rparr>) = path_key False b \<longleftrightarrow> take n (pp_tail a) = pp_tail b" for n
    using posix_key_inj [OF posix_real_take [OF assms(1), of n] assms(2)] by simp
  then have "relative_to_ok False a b \<longleftrightarrow> (\<exists>n \<in> {0..<Suc (length (pp_tail a))}. take n (pp_tail a) = pp_tail b)"
    by (simp only: relative_to_ok_def list_ex_iff set_upt)
  also have "\<dots> \<longleftrightarrow> (\<exists>n \<le> length (pp_tail a). take n (pp_tail a) = pp_tail b)"
    by (metis atLeastLessThan_iff le_0_eq less_Suc_eq_le nle_le)
  also have "\<dots> \<longleftrightarrow> prefix (pp_tail b) (pp_tail a)"
    by (metis append_eq_conv_conj prefix_def prefix_length_le take_is_prefix)
  finally show ?thesis .
qed

lemma common_prefix_prefix: "prefix xs ys \<Longrightarrow> common_prefix xs ys = length xs"
  by (induction xs ys rule: common_prefix.induct) (auto simp: prefix_def)


text \<open>A concrete resolver: no links, and every \<open>..\<close> removes the component before it.\<close>

definition plain_resolve :: "pure_path \<Rightarrow> pure_path" where
  "plain_resolve p =
     \<lparr>pp_drive = [], pp_root = ''/'',
      pp_tail = filter (\<lambda>x. x \<noteq> [] \<and> x \<noteq> ''.'' \<and> CHR ''/'' \<notin> set x) (norm_comps True [] (pp_tail p))\<rparr>"

lemma plain_resolve_real: "posix_real (plain_resolve p)"
  by (auto simp: posix_real_def plain_resolve_def list_all_iff)


end
