(* ===== verification/Command_Risk.thy ===== *)
theory Command_Risk
  imports Paths
begin

text \<open>
  Command risk signals: \<open>src/src/code_agent/policy/_command_risk.py\<close>. Every pattern of the file is
  written out in the pattern language of \<open>Regex\<close>; a named group is \<open>Cap\<close>. \<open>list2cmdline\<close> is the
  function of \<open>subprocess\<close>.
\<close>

section \<open>Patterns\<close>

abbreviation spaces1 :: rx where "spaces1 \<equiv> many1 is_space"

abbreviation exe_opt :: rx where "exe_opt \<equiv> opt (lit ''.exe'')"

definition not_separator :: "char \<Rightarrow> bool" where
  "not_separator c = (c \<notin> set '';&|'' \<and> c \<noteq> CHR 0x0D \<and> c \<noteq> CHR 0x0A)"

definition network_patterns :: "rx list" where
  "network_patterns =
     [word (Cat (lit ''curl'') exe_opt), word (lit ''iwr''), word (lit ''invoke-webrequest''),
      word (lit ''irm''), word (lit ''invoke-restmethod''), word (Cat (lit ''wget'') exe_opt),
      word (lit ''start-bitstransfer''),
      word (cats [lit ''git'', spaces1, words_alt [''clone'', ''fetch'', ''pull'']]),
      word (cats [lit ''pip'', opt (Cat (lit ''3'') (opt (Cat (lit ''.'') (many1 is_digit)))), spaces1, lit ''install'']),
      word (cats [lit ''uv'', spaces1, words_alt [''add'', ''sync'']]),
      word (cats [words_alt [''npm'', ''pnpm''], spaces1, words_alt [''install'', ''i'', ''ci'', ''add'', ''update'']]),
      word (cats [lit ''yarn'', spaces1, words_alt [''install'', ''add'', ''upgrade'']])]"

definition flag_with :: "string \<Rightarrow> rx" where
  "flag_with c = Look (Cat (Many letter) (lit c))"

definition critical_patterns :: "rx list" where
  "critical_patterns =
     [cats [Wb, lit ''git'', spaces1, lit ''reset'', Wb, Many not_separator, lit ''--hard'', Wb],
      cats [Wb, lit ''git'', spaces1, lit ''clean'', spaces1, lit ''-'', flag_with ''f'', flag_with ''d'', many1 letter, Wb],
      cats [Wb, lit ''rm'', spaces1, lit ''-'', flag_with ''r'', flag_with ''f'', many1 letter, Wb],
      cats [word (words_alt [''del'', ''rmdir'']), Many not_separator, lit ''/s'', Wb],
      word (Cat (lit ''format'') (opt (lit ''.com''))), word (Cat (lit ''diskpart'') exe_opt),
      word (Cat (lit ''shutdown'') exe_opt), word (lit ''stop-computer''),
      word (Cat (lit ''runas'') exe_opt), word (lit ''sudo''), word (lit ''set-executionpolicy'')]"

definition remove_item :: rx where
  "remove_item =
     Cat (word (words_alt [''remove-item'', ''rm'', ''ri'', ''del'', ''erase'', ''rd'', ''rmdir'']))
         (Cap (Many not_separator))"

definition flag_pattern :: "string list \<Rightarrow> rx" where
  "flag_pattern names =
     cats [Alt Bol (One is_space), lit ''-'', words_alt names,
           opt (Cat (lit '':'') (words_alt [''$true'', ''true'', ''1''])), Look (Alt (One is_space) Eol)]"

definition recurse_flag :: rx where
  "recurse_flag = flag_pattern [''r'', ''re'', ''rec'', ''recu'', ''recur'', ''recurs'', ''recurse'']"

definition force_flag :: rx where
  "force_flag = flag_pattern [''f'', ''fo'', ''for'', ''forc'', ''force'']"

definition powershell_invocation :: rx where
  "powershell_invocation =
     Cat (word (Cat (words_alt [''powershell'', ''pwsh'']) exe_opt)) (Cap (Many not_separator))"

definition powershell_flag :: rx where
  "powershell_flag = cats [Alt Bol (One is_space), lit ''-'', Cap (many1 letter), Wb]"

definition shell_launchers :: "string list" where
  "shell_launchers =
     [''pwsh'', ''pwsh.exe'', ''powershell'', ''powershell.exe'', ''cmd'', ''cmd.exe'',
      ''bash'', ''bash.exe'', ''sh'', ''sh.exe'', ''wsl'', ''wsl.exe'']"

definition slash :: "char \<Rightarrow> bool" where
  "slash c = (c = bsl \<or> c = CHR ''/'')"

definition path_head :: rx where
  "path_head = alts [cats [One letter, lit '':'', One slash], lit [bsl, bsl], Cat (lit ''..'') (One slash)]"

definition quoted_path :: "char \<Rightarrow> rx" where
  "quoted_path q =
     cats [One (\<lambda>c. c = q), Cap (Cat path_head (many1 (\<lambda>c. c \<noteq> q \<and> c \<noteq> CHR 0x0D \<and> c \<noteq> CHR 0x0A))),
           One (\<lambda>c. c = q)]"

definition command_path :: rx where
  "command_path =
     Cat (NotAfter (\<lambda>c. letter c \<or> is_digit c))
       (alts [quoted_path (CHR 0x22), quoted_path (CHR 0x27),
              Cap (Cat path_head (many1 (\<lambda>c. \<not> is_space c \<and> c \<notin> set '';&|'')))])"

definition protected_edge :: "char \<Rightarrow> bool" where
  "protected_edge c = (slash c \<or> is_space c \<or> c = CHR 0x27 \<or> c = CHR 0x22)"

definition command_protected :: rx where
  "command_protected =
     cats [Alt Bol (One protected_edge),
           alts [lit ''.env'', lit ''.git'', lit ''.chaos-agent'', lit ''.code-agent'',
                 lit ''chaos-agent-workspaces'', lit ''id_rsa'', lit ''id_ecdsa'', lit ''id_ed25519'',
                 cats [lit ''private'', opt (One (\<lambda>c. c = CHR ''_'' \<or> c = CHR ''-'')), lit ''key'']],
           Alt Eol (One protected_edge)]"

section \<open>Signals\<close>

record command_signals =
  cs_network :: bool
  cs_critical :: bool
  cs_protected :: bool
  cs_paths :: "string list"

definition matches_any :: "string \<Rightarrow> rx list \<Rightarrow> bool" where
  "matches_any command patterns = list_ex (\<lambda>r. re_search r command) patterns"

definition capture :: "string option \<Rightarrow> string" where
  "capture k = (case k of None \<Rightarrow> [] | Some s \<Rightarrow> s)"

definition encoded_flag :: "string \<Rightarrow> bool" where
  "encoded_flag name = (name \<in> {''e'', ''ec''} \<or> (2 \<le> length name \<and> starts_with ''encodedcommand'' name))"

definition is_critical :: "string \<Rightarrow> bool" where
  "is_critical command =
     (matches_any command critical_patterns \<or>
      list_ex (\<lambda>inv. list_ex (\<lambda>flag. encoded_flag (casefold (capture flag)))
                      (re_finditer powershell_flag (capture inv)))
        (re_finditer powershell_invocation command) \<or>
      list_ex (\<lambda>inv. re_search recurse_flag (capture inv) \<and> re_search force_flag (capture inv))
        (re_finditer remove_item command))"

definition command_risk :: "string \<Rightarrow> command_signals" where
  "command_risk command =
     \<lparr>cs_network = matches_any command network_patterns, cs_critical = is_critical command,
      cs_protected = re_search command_protected command,
      cs_paths = map capture (re_finditer command_path command)\<rparr>"

text \<open>
  \<open>list2cmdline\<close>: \<open>bs\<close> counts the backslashes not yet written, which are doubled only before a quote
  (and, for a quoted argument, written twice at its end).
\<close>

fun quote_arg :: "bool \<Rightarrow> nat \<Rightarrow> string \<Rightarrow> string" where
  "quote_arg need bs [] = replicate bs bsl @ (if need then replicate bs bsl @ [CHR 0x22] else [])"
| "quote_arg need bs (c # cs) =
     (if c = bsl then quote_arg need (Suc bs) cs
      else if c = CHR 0x22 then replicate (2 * bs) bsl @ [bsl, CHR 0x22] @ quote_arg need 0 cs
      else replicate bs bsl @ c # quote_arg need 0 cs)"

definition list2cmdline :: "string list \<Rightarrow> string" where
  "list2cmdline args =
     foldl (\<lambda>acc arg.
         let need = (CHR 0x20 \<in> set arg \<or> CHR 0x09 \<in> set arg \<or> arg = [])
         in acc @ (if acc = [] then [] else '' '') @ (if need then [CHR 0x22] else []) @ quote_arg need 0 arg)
       [] args"

definition dedup :: "'a list \<Rightarrow> 'a list" where
  "dedup xs = rev (remdups (rev xs))"

definition process_risk :: "bool \<Rightarrow> string \<Rightarrow> string list \<Rightarrow> command_signals" where
  "process_risk nt program arguments =
     (let executable = casefold (path_name (win_path program));
          policy_name = (if ends_with executable ''.exe'' then take (length executable - 4) executable else executable);
          command = list2cmdline (policy_name # arguments);
          shell_launcher = (executable \<in> set shell_launchers \<or> ends_with executable ''.cmd'' \<or> ends_with executable ''.bat'');
          result = command_risk command;
          native_paths = filter (\<lambda>v. native_absolute nt (native_path nt v)) arguments
      in \<lparr>cs_network = cs_network result, cs_critical = (cs_critical result \<or> shell_launcher),
          cs_protected = cs_protected result, cs_paths = dedup (cs_paths result @ native_paths)\<rparr>)"

section \<open>Facts about the signals\<close>

lemma word_lit_found:
  assumes "casefold w' = casefold w" "w \<noteq> []" "word_at w'" "word_at (rev w')"
    and "\<not> word_at (rev pre)" "\<not> word_at post"
  shows "re_search (word (lit w)) (pre @ w' @ post)"
proof -
  have w': "w' \<noteq> []" using assms(3) by (auto simp: word_at_def)
  have 1: "matches Wb (rev pre, w' @ post, None) (rev pre, w' @ post, None)"
    using assms(3,5) w' by (auto simp: word_at_def split: list.splits)
  have 2: "matches (lit w) (rev pre, w' @ post, None) (rev w' @ rev pre, post, None)"
    using assms(1) by (auto simp: matches_lit casefold_def)
  have 3: "matches Wb (rev w' @ rev pre, post, None) (rev w' @ rev pre, post, None)"
    using assms(4,6) w' by (auto simp: word_at_def split: list.splits)
  have "matches (word (lit w)) (rev pre, w' @ post, None) (rev w' @ rev pre, post, None)"
    unfolding word_def matches_cats_Cons matches_cats_Nil using 1 2 3 by blast
  then show ?thesis unfolding re_search_iff by blast
qed

lemma code_of_lower: "code_of (lower_char c) = (if is_upper c then code_of c + 32 else code_of c)"
  by (auto simp: lower_char_def is_upper_def code_of_def)

lemma is_word_lower [simp]: "is_word (lower_char c) = is_word c"
proof (cases "is_upper c")
  case True
  then have "is_lower (lower_char c)" by (simp add: is_lower_def code_of_lower) (simp add: is_upper_def)
  then show ?thesis using True by (simp add: is_word_def)
qed (simp add: lower_char_def)

lemma word_at_casefold: "word_at (casefold s) = word_at s"
  by (cases s) (auto simp: casefold_def word_at_def)

lemma casefold_idem: "casefold (casefold s) = casefold s"
  by (auto simp: casefold_def lower_char_def is_upper_def code_of_def)

definition forbidden_words :: "string list" where
  "forbidden_words = [''sudo'', ''stop-computer'', ''set-executionpolicy'']"

lemma forbidden_word_critical:
  assumes "w \<in> set forbidden_words" "casefold w' = w" "\<not> word_at (rev pre)" "\<not> word_at post"
  shows "is_critical (pre @ w' @ post)"
proof -
  have "word_at w" "word_at (rev w)" "w \<noteq> []"
    using assms(1) by (auto simp: forbidden_words_def word_at_def is_word_def is_lower_def code_of_def)
  then have edge: "word_at w'" "word_at (rev w')" "w \<noteq> []"
    using assms(2) word_at_casefold [of w'] word_at_casefold [of "rev w'"] by (auto simp: casefold_def rev_map)
  have "re_search (word (lit w)) (pre @ w' @ post)"
    using assms edge by (intro word_lit_found) (auto simp: casefold_idem)
  moreover have "word (lit w) \<in> set critical_patterns"
    using assms(1) by (auto simp: critical_patterns_def forbidden_words_def)
  ultimately show ?thesis
    by (auto simp: is_critical_def matches_any_def list_ex_iff)
qed

lemma risk_samples:
  "re_search (critical_patterns ! 0) ''GIT  reset --hard''"
  "\<not> re_search (critical_patterns ! 0) ''git reset;--hard''"
  "list2cmdline [''a b'', ''c'' @ [bsl], []] = [CHR 0x22] @ ''a b'' @ [CHR 0x22] @ '' c'' @ [bsl] @ '' '' @ [CHR 0x22, CHR 0x22]"
  by code_simp+

end
