(* ===== verification/Task.thy ===== *)
theory Task
  imports Prelude
begin

text \<open>
  Tasks: \<open>src/src/code_agent/core/task.py\<close>. Statuses and the transition table, the contract with the
  guards of its constructor, and the JSON forms. A timestamp is an instant; \<open>isoformat\<close> and
  \<open>fromisoformat\<close> of \<open>datetime\<close> are the parameters \<open>to_iso\<close> and \<open>from_iso\<close>.
\<close>

section \<open>Statuses\<close>

datatype task_status =
    T_CREATED | T_RUNNING | T_VERIFYING | T_WAITING_DECISION | T_PAUSED | T_COMPLETED
  | T_ACCEPTED_PARTIAL | T_FAILED | T_INTERRUPTED | T_SUPERSEDED

fun status_value :: "task_status \<Rightarrow> string" where
  "status_value T_CREATED = ''created''"
| "status_value T_RUNNING = ''running''"
| "status_value T_VERIFYING = ''verifying''"
| "status_value T_WAITING_DECISION = ''waiting_decision''"
| "status_value T_PAUSED = ''paused''"
| "status_value T_COMPLETED = ''completed''"
| "status_value T_ACCEPTED_PARTIAL = ''accepted_partial''"
| "status_value T_FAILED = ''failed''"
| "status_value T_INTERRUPTED = ''interrupted''"
| "status_value T_SUPERSEDED = ''superseded''"

definition all_statuses :: "task_status list" where
  "all_statuses = [T_CREATED, T_RUNNING, T_VERIFYING, T_WAITING_DECISION, T_PAUSED, T_COMPLETED,
     T_ACCEPTED_PARTIAL, T_FAILED, T_INTERRUPTED, T_SUPERSEDED]"

text \<open>\<open>TaskStatus(value)\<close>.\<close>

definition status_of_value :: "string \<Rightarrow> task_status result" where
  "status_of_value v =
     (case find (\<lambda>s. status_value s = v) all_statuses of
        None \<Rightarrow> raiseR ValueError ''not a valid TaskStatus'' | Some s \<Rightarrow> Inr s)"

definition is_terminal :: "task_status \<Rightarrow> bool" where
  "is_terminal s = (s \<in> {T_COMPLETED, T_ACCEPTED_PARTIAL, T_FAILED, T_SUPERSEDED})"

fun allowed_next :: "task_status \<Rightarrow> task_status list" where
  "allowed_next T_CREATED = [T_RUNNING, T_PAUSED, T_FAILED, T_INTERRUPTED, T_WAITING_DECISION]"
| "allowed_next T_RUNNING = [T_VERIFYING, T_PAUSED, T_WAITING_DECISION, T_COMPLETED, T_FAILED, T_INTERRUPTED, T_SUPERSEDED]"
| "allowed_next T_VERIFYING = [T_RUNNING, T_PAUSED, T_WAITING_DECISION, T_ACCEPTED_PARTIAL, T_COMPLETED, T_FAILED,
     T_INTERRUPTED, T_SUPERSEDED]"
| "allowed_next T_PAUSED = [T_RUNNING, T_WAITING_DECISION, T_SUPERSEDED]"
| "allowed_next T_INTERRUPTED = [T_RUNNING, T_WAITING_DECISION, T_SUPERSEDED]"
| "allowed_next T_WAITING_DECISION = [T_RUNNING, T_ACCEPTED_PARTIAL, T_FAILED, T_SUPERSEDED]"
| "allowed_next _ = []"

section \<open>Contracts\<close>

datatype task_intent = ANALYZE | MODIFY

fun intent_value :: "task_intent \<Rightarrow> string" where
  "intent_value ANALYZE = ''analyze''"
| "intent_value MODIFY = ''modify''"

definition intent_of_value :: "string \<Rightarrow> task_intent result" where
  "intent_of_value v =
     (if v = ''analyze'' then Inr ANALYZE else if v = ''modify'' then Inr MODIFY
      else raiseR ValueError ''not a valid TaskIntent'')"

definition task_text :: "string \<Rightarrow> string \<Rightarrow> string result" where
  "task_text name v = text_check 1024 (name @ '' must be non-blank text of at most 1024 characters'') v"

definition task_positive :: "string \<Rightarrow> json \<Rightarrow> int result" where
  "task_positive name v =
     (case v of JInt i \<Rightarrow> if i < 1 then raiseR ValueError (name @ '' must be a positive integer'') else Inr i
      | _ \<Rightarrow> raiseR ValueError (name @ '' must be a positive integer''))"

record authorization =
  at_workspace_root :: string
  at_write :: bool
  at_execute :: bool
  at_network :: bool
  at_outside :: bool

definition mk_authorization :: "authorization \<Rightarrow> authorization result" where
  "mk_authorization a = bindR (task_text ''workspace_root'' (at_workspace_root a)) (\<lambda>_. Inr a)"

definition authorization_to_dict :: "authorization \<Rightarrow> jdict" where
  "authorization_to_dict a =
     [(''workspace_root'', JStr (at_workspace_root a)), (''allow_workspace_write'', JBool (at_write a)),
      (''allow_local_execute'', JBool (at_execute a)), (''allow_network'', JBool (at_network a)),
      (''allow_outside_workspace'', JBool (at_outside a))]"

definition authorization_keys :: "string list" where
  "authorization_keys = [''workspace_root'', ''allow_workspace_write'', ''allow_local_execute'', ''allow_network'', ''allow_outside_workspace'']"

definition authorization_from_dict :: "jdict \<Rightarrow> authorization result" where
  "authorization_from_dict d =
     (if list_ex (\<lambda>k. k \<notin> set authorization_keys) (dkeys d) \<or> dget d ''workspace_root'' = None
      then raiseR TypeError ''unexpected or missing argument''
      else bindR (as_str ''workspace_root must be text'' (get_or ''workspace_root'' JNull d)) (\<lambda>root.
        bindR (as_bool ''must be a boolean'' (get_or ''allow_workspace_write'' (JBool True) d)) (\<lambda>w.
        bindR (as_bool ''must be a boolean'' (get_or ''allow_local_execute'' (JBool True) d)) (\<lambda>x.
        bindR (as_bool ''must be a boolean'' (get_or ''allow_network'' (JBool False) d)) (\<lambda>n.
        bindR (as_bool ''must be a boolean'' (get_or ''allow_outside_workspace'' (JBool False) d)) (\<lambda>out.
          mk_authorization \<lparr>at_workspace_root = root, at_write = w, at_execute = x, at_network = n, at_outside = out\<rparr>))))))"

text \<open>\<open>_freeze_context_selection\<close>: the facts are checked and kept as they are.\<close>

definition context_keys :: "string list" where
  "context_keys = [''version'', ''strategy'', ''policy'', ''context_window'', ''api_input_tokens'',
     ''max_output_tokens'', ''host_prompt_tokens'', ''safety_tokens'', ''counter_version'']"

definition policy_keys :: "string list" where
  "policy_keys = [''strategy'', ''work_tokens'', ''prepare_ratio'', ''rotate_ratio'', ''safety_tokens'',
     ''task_tokens'', ''handoff_tokens'', ''keep_groups'']"

fun number_of :: "json \<Rightarrow> (int \<times> nat) option" where
  "number_of (JInt i) = Some (i, 0)"
| "number_of (JFloat m k) = Some (m, k)"
| "number_of _ = None"

definition num_less :: "int \<times> nat \<Rightarrow> int \<times> nat \<Rightarrow> bool" where
  "num_less a b = (fst a * 2 ^ snd b < fst b * 2 ^ snd a)"

definition ratios_ok :: "json \<Rightarrow> json \<Rightarrow> bool" where
  "ratios_ok p r =
     (case (number_of p, number_of r) of
        (Some a, Some b) \<Rightarrow> num_less (0, 0) a \<and> num_less a b \<and> num_less b (1, 0)
      | _ \<Rightarrow> False)"

definition positives :: "string list \<Rightarrow> jdict \<Rightarrow> unit result" where
  "positives ks d = foldR (\<lambda>k u. bindR (task_positive k (get_or k JNull d)) (\<lambda>_. Inr u)) ks ()"

definition check_managed_policy :: "string \<Rightarrow> int \<Rightarrow> json \<Rightarrow> unit result" where
  "check_managed_policy strategy safety policy =
     (case policy of
        JObj p \<Rightarrow>
          if set (dkeys p) \<noteq> set policy_keys \<or> get_or ''strategy'' JNull p \<noteq> JStr strategy
          then raiseR ValueError ''managed context policy facts are incomplete''
          else bindR (positives [''work_tokens'', ''task_tokens'', ''handoff_tokens'', ''keep_groups''] p) (\<lambda>_.
            if get_or ''safety_tokens'' JNull p \<noteq> JInt safety
            then raiseR ValueError ''context safety must match the managed policy''
            else if \<not> ratios_ok (get_or ''prepare_ratio'' JNull p) (get_or ''rotate_ratio'' JNull p)
            then raiseR ValueError ''invalid managed context ratios''
            else Inr ())
      | _ \<Rightarrow> raiseR ValueError ''managed context policy facts are incomplete'')"

definition freeze_context_selection :: "json \<Rightarrow> json result" where
  "freeze_context_selection value =
     (case value of
        JObj d \<Rightarrow>
          if set (dkeys d) \<noteq> set context_keys
          then raiseR ValueError ''context selection requires exactly the supported budget facts''
          else if get_or ''version'' JNull d \<noteq> JInt 1 then raiseR ValueError ''unsupported context selection version''
          else (case get_or ''strategy'' JNull d of
            JStr strategy \<Rightarrow>
              if strategy \<notin> {''semantic'', ''summary'', ''boundary'', ''persistent''}
              then raiseR ValueError ''unsupported context selection strategy''
              else bindR (task_positive ''context_window'' (get_or ''context_window'' JNull d)) (\<lambda>window.
                bindR (task_positive ''max_output_tokens'' (get_or ''max_output_tokens'' JNull d)) (\<lambda>output.
                bindR (task_positive ''host_prompt_tokens'' (get_or ''host_prompt_tokens'' JNull d)) (\<lambda>prompt.
                bindR (if get_or ''api_input_tokens'' JNull d = JNull then Inr 0
                       else task_positive ''api_input_tokens'' (get_or ''api_input_tokens'' JNull d)) (\<lambda>_.
                bindR (as_int ''context safety must be a non-negative integer'' (get_or ''safety_tokens'' JNull d)) (\<lambda>safety.
                if safety < 0 then raiseR ValueError ''context safety must be a non-negative integer''
                else if output + safety \<ge> window \<or> prompt \<le> safety
                then raiseR ValueError ''context selection reserves leave no input capacity''
                else if get_or ''counter_version'' JNull d \<noteq> JStr ''prepared-json-v1''
                then raiseR ValueError ''unsupported context counter version''
                else if strategy = ''semantic''
                then (if get_or ''policy'' JNull d \<noteq> JNull
                      then raiseR ValueError ''semantic context cannot carry a managed policy'' else Inr value)
                else bindR (check_managed_policy strategy safety (get_or ''policy'' JNull d)) (\<lambda>_. Inr value))))))
          | JArr _ \<Rightarrow> raiseR TypeError ''unhashable type''
          | JObj _ \<Rightarrow> raiseR TypeError ''unhashable type''
          | _ \<Rightarrow> raiseR ValueError ''unsupported context selection strategy'')
      | _ \<Rightarrow> raiseR ValueError ''context selection requires exactly the supported budget facts'')"

record task_contract =
  tc_objective :: string
  tc_authorization :: authorization
  tc_max_active_seconds :: int
  tc_max_repair_cycles :: int
  tc_max_repeated_failures :: int
  tc_intent :: task_intent
  tc_profile :: "string option list"
  tc_runtime :: "string option list"
  tc_interaction_mode :: string
  tc_context :: "json option"

text \<open>
  \<open>tc_profile\<close> is \<open>profile_id, model, protocol, endpoint_host\<close>; \<open>tc_runtime\<close> is \<open>agent_topology,
  reasoning_effort, runtime_mode, runtime_selection_digest\<close>, the two tuples the constructor checks.
\<close>

definition facts_complete :: "string option list \<Rightarrow> bool" where
  "facts_complete fs = list_all (\<lambda>f. case f of None \<Rightarrow> False | Some s \<Rightarrow> \<not> blank s) fs"

definition facts_any :: "string option list \<Rightarrow> bool" where
  "facts_any fs = list_ex (\<lambda>f. f \<noteq> None) fs"

definition check_runtime :: "task_contract \<Rightarrow> unit result" where
  "check_runtime c =
     (if \<not> facts_any (tc_runtime c) then Inr ()
      else if \<not> facts_complete (tc_runtime c)
      then raiseR ValueError ''runtime selection audit facts must be complete non-blank text''
      else if \<not> facts_complete (tc_profile c)
      then raiseR ValueError ''runtime selection requires complete profile audit facts''
      else case tc_runtime c of
        [topology, effort, mode, digest] \<Rightarrow>
          if topology \<notin> {Some ''single'', Some ''team''} then raiseR ValueError ''agent_topology must be single or team''
          else if effort \<notin> {Some ''low'', Some ''medium'', Some ''high'', Some ''xhigh'', Some ''max''}
          then raiseR ValueError ''unsupported reasoning_effort''
          else if mode \<notin> {Some ''low'', Some ''medium'', Some ''high'', Some ''ultra''}
          then raiseR ValueError ''unsupported runtime_mode''
          else if \<not> (case digest of None \<Rightarrow> False | Some x \<Rightarrow> is_sha256 x)
          then raiseR ValueError ''runtime_selection_digest must be a SHA-256 hex digest''
          else Inr ()
      | _ \<Rightarrow> raiseR TypeError ''runtime facts'')"

definition mk_contract :: "task_contract \<Rightarrow> task_contract result" where
  "mk_contract c =
     bindR (task_text ''objective'' (tc_objective c)) (\<lambda>_.
     bindR (case tc_context c of None \<Rightarrow> Inr JNull | Some v \<Rightarrow> freeze_context_selection v) (\<lambda>_.
     if tc_interaction_mode c \<notin> {''ask'', ''code'', ''plan''}
     then raiseR ValueError ''interaction_mode must be ask, code, or plan''
     else if facts_any (tc_profile c) \<and> \<not> facts_complete (tc_profile c)
     then raiseR ValueError ''profile audit facts must be complete non-blank text''
     else bindR (check_runtime c) (\<lambda>_.
     bindR (task_positive ''max_active_seconds'' (JInt (tc_max_active_seconds c))) (\<lambda>_.
     bindR (task_positive ''max_repair_cycles'' (JInt (tc_max_repair_cycles c))) (\<lambda>_.
     bindR (task_positive ''max_repeated_failure_signatures'' (JInt (tc_max_repeated_failures c))) (\<lambda>_. Inr c))))))"

definition profile_names :: "string list" where
  "profile_names = [''profile_id'', ''model'', ''protocol'', ''endpoint_host'']"

definition runtime_names :: "string list" where
  "runtime_names = [''agent_topology'', ''reasoning_effort'', ''runtime_mode'', ''runtime_selection_digest'']"

definition contract_to_dict :: "task_contract \<Rightarrow> jdict" where
  "contract_to_dict c =
     [(''objective'', JStr (tc_objective c)), (''authorization'', JObj (authorization_to_dict (tc_authorization c))),
      (''max_active_seconds'', JInt (tc_max_active_seconds c)), (''max_repair_cycles'', JInt (tc_max_repair_cycles c)),
      (''max_repeated_failure_signatures'', JInt (tc_max_repeated_failures c)),
      (''intent'', JStr (intent_value (tc_intent c)))]
     @ zip profile_names (map opt_json (tc_profile c)) @ zip runtime_names (map opt_json (tc_runtime c))
     @ [(''interaction_mode'', JStr (tc_interaction_mode c)),
        (''context_selection'', case tc_context c of None \<Rightarrow> JNull | Some v \<Rightarrow> v)]"

definition texts_from :: "string \<Rightarrow> string list \<Rightarrow> jdict \<Rightarrow> string option list result" where
  "texts_from msg names d =
     foldR (\<lambda>n acc. bindR (as_str_opt msg (get_or n JNull d)) (\<lambda>v. Inr (acc @ [v]))) names []"

definition contract_from_dict :: "jdict \<Rightarrow> task_contract result" where
  "contract_from_dict d =
     bindR (bindR (field_of ''objective'' d) (as_str ''objective must be text'')) (\<lambda>objective.
     bindR (bindR (field_of ''authorization'' d) (as_obj ''authorization must be a mapping'')) (\<lambda>ad.
     bindR (authorization_from_dict ad) (\<lambda>auth.
     bindR (as_int ''max_active_seconds must be a positive integer'' (get_or ''max_active_seconds'' (JInt 1200) d)) (\<lambda>active.
     bindR (as_int ''max_repair_cycles must be a positive integer'' (get_or ''max_repair_cycles'' (JInt 3) d)) (\<lambda>repair.
     bindR (as_int ''must be a positive integer'' (get_or ''max_repeated_failure_signatures'' (JInt 3) d)) (\<lambda>repeated.
     bindR (as_str ''not a valid TaskIntent'' (get_or ''intent'' (JStr ''modify'') d)) (\<lambda>iv.
     bindR (intent_of_value iv) (\<lambda>intent.
     bindR (texts_from ''profile audit facts must be complete non-blank text'' profile_names d) (\<lambda>profile.
     bindR (texts_from ''runtime selection audit facts must be complete non-blank text'' runtime_names d) (\<lambda>runtime.
     bindR (as_str ''interaction_mode must be ask, code, or plan'' (get_or ''interaction_mode'' (JStr ''code'') d)) (\<lambda>mode.
       mk_contract \<lparr>tc_objective = objective, tc_authorization = auth, tc_max_active_seconds = active,
         tc_max_repair_cycles = repair, tc_max_repeated_failures = repeated, tc_intent = intent,
         tc_profile = profile, tc_runtime = runtime, tc_interaction_mode = mode,
         tc_context = (let v = get_or ''context_selection'' JNull d in if v = JNull then None else Some v)\<rparr>)))))))))))"

section \<open>Records\<close>

record task_record =
  tk_id :: string
  tk_thread :: string
  tk_contract :: task_contract
  tk_status :: task_status
  tk_stop_reason :: "string option"
  tk_created :: int
  tk_updated :: int

definition opt_text :: "string \<Rightarrow> string option \<Rightarrow> string option result" where
  "opt_text name v = (case v of None \<Rightarrow> Inr None | Some s \<Rightarrow> bindR (task_text name s) (\<lambda>s. Inr (Some s)))"

definition mk_task :: "task_record \<Rightarrow> task_record result" where
  "mk_task t =
     bindR (task_text ''id'' (tk_id t)) (\<lambda>_. bindR (task_text ''thread_id'' (tk_thread t)) (\<lambda>_.
     bindR (opt_text ''stop_reason'' (tk_stop_reason t)) (\<lambda>_.
     if tk_updated t < tk_created t
     then raiseR ValueError ''task timestamps must be ordered and timezone-aware'' else Inr t)))"

definition new_task :: "string \<Rightarrow> int \<Rightarrow> string \<Rightarrow> task_contract \<Rightarrow> task_record result" where
  "new_task fresh now thread c =
     mk_task \<lparr>tk_id = fresh, tk_thread = thread, tk_contract = c, tk_status = T_CREATED, tk_stop_reason = None,
              tk_created = now, tk_updated = now\<rparr>"

definition transition :: "int \<Rightarrow> task_status \<Rightarrow> string option \<Rightarrow> task_record \<Rightarrow> task_record result" where
  "transition now status reason t =
     (if is_terminal (tk_status t) \<or> status \<notin> set (allowed_next (tk_status t))
      then raiseR ValueError (''illegal task transition: '' @ status_value (tk_status t) @ '' -> '' @ status_value status)
      else bindR (opt_text ''reason'' reason) (\<lambda>r.
        mk_task (t\<lparr>tk_status := status, tk_stop_reason := r, tk_updated := now\<rparr>)))"

definition task_to_dict :: "(int \<Rightarrow> string) \<Rightarrow> task_record \<Rightarrow> jdict" where
  "task_to_dict to_iso t =
     [(''id'', JStr (tk_id t)), (''thread_id'', JStr (tk_thread t)), (''contract'', JObj (contract_to_dict (tk_contract t))),
      (''status'', JStr (status_value (tk_status t))), (''stop_reason'', opt_json (tk_stop_reason t)),
      (''created_at'', JStr (to_iso (tk_created t))), (''updated_at'', JStr (to_iso (tk_updated t)))]"

text \<open>\<open>value.replace("Z", "+00:00")\<close>.\<close>

definition iso_offset :: "string \<Rightarrow> string" where
  "iso_offset s = concat (map (\<lambda>c. if c = CHR ''Z'' then ''+00:00'' else [c]) s)"

definition task_from_dict :: "(string \<Rightarrow> int result) \<Rightarrow> jdict \<Rightarrow> task_record result" where
  "task_from_dict from_iso d =
     bindR (bindR (field_of ''created_at'' d) (as_str ''created_at'')) (\<lambda>created.
     bindR (bindR (field_of ''updated_at'' d) (as_str ''updated_at'')) (\<lambda>updated.
     bindR (bindR (field_of ''id'' d) (as_str ''id must be text'')) (\<lambda>i.
     bindR (bindR (field_of ''thread_id'' d) (as_str ''thread_id must be text'')) (\<lambda>th.
     bindR (bindR (field_of ''contract'' d) (as_obj ''contract'')) (\<lambda>cd.
     bindR (contract_from_dict cd) (\<lambda>c.
     bindR (bindR (field_of ''status'' d) (as_str ''not a valid TaskStatus'')) (\<lambda>sv.
     bindR (status_of_value sv) (\<lambda>s.
     bindR (as_str_opt ''stop_reason must be text'' (get_or ''stop_reason'' JNull d)) (\<lambda>r.
     bindR (from_iso (iso_offset created)) (\<lambda>ct. bindR (from_iso (iso_offset updated)) (\<lambda>ut.
       mk_task \<lparr>tk_id = i, tk_thread = th, tk_contract = c, tk_status = s, tk_stop_reason = r,
                tk_created = ct, tk_updated = ut\<rparr>)))))))))))"

section \<open>JSON round trips\<close>

lemma status_of_value_value [simp]: "status_of_value (status_value s) = Inr s"
  by (cases s) (simp_all add: status_of_value_def all_statuses_def)

lemma intent_of_value_value [simp]: "intent_of_value (intent_value i) = Inr i"
  by (cases i) (simp_all add: intent_of_value_def)

lemma task_text_Inr [simp]: "task_text n v = Inr w \<longleftrightarrow> w = v \<and> \<not> blank v \<and> length v \<le> 1024"
  by (simp add: task_text_def)

lemma mk_authorization_Inr:
  "mk_authorization a = Inr b \<longleftrightarrow> b = a \<and> \<not> blank (at_workspace_root a) \<and> length (at_workspace_root a) \<le> 1024"
  by (auto simp: mk_authorization_def bindR_Inr_iff)

lemma authorization_reload:
  "mk_authorization a = Inr a \<Longrightarrow> authorization_from_dict (authorization_to_dict a) = Inr a"
  by (cases a)
     (simp add: authorization_from_dict_def authorization_to_dict_def authorization_keys_def dkeys_def)

lemma opt_json_inj [simp]: "opt_json v = JNull \<longleftrightarrow> v = None"
  by (cases v) (simp_all add: opt_json_def)

lemma length4: "length xs = 4 \<longleftrightarrow> (\<exists>a b c d. xs = [a, b, c, d])"
  by (auto simp: numeral_eq_Suc length_Suc_conv)

lemma texts_reload:
  assumes "length (tc_profile c) = 4" "length (tc_runtime c) = 4"
  shows "texts_from m profile_names (contract_to_dict c) = Inr (tc_profile c)"
    and "texts_from m runtime_names (contract_to_dict c) = Inr (tc_runtime c)"
  using assms
  by (auto simp: length4 texts_from_def contract_to_dict_def profile_names_def runtime_names_def)

lemma contract_fields:
  "field_of ''objective'' (contract_to_dict c) = Inr (JStr (tc_objective c))"
  "field_of ''authorization'' (contract_to_dict c) = Inr (JObj (authorization_to_dict (tc_authorization c)))"
  "get_or ''max_active_seconds'' x (contract_to_dict c) = JInt (tc_max_active_seconds c)"
  "get_or ''max_repair_cycles'' x (contract_to_dict c) = JInt (tc_max_repair_cycles c)"
  "get_or ''max_repeated_failure_signatures'' x (contract_to_dict c) = JInt (tc_max_repeated_failures c)"
  "get_or ''intent'' x (contract_to_dict c) = JStr (intent_value (tc_intent c))"
  by (simp_all add: contract_to_dict_def)

lemma contract_last_fields:
  assumes "length (tc_profile c) = 4" "length (tc_runtime c) = 4"
  shows "get_or ''interaction_mode'' x (contract_to_dict c) = JStr (tc_interaction_mode c)"
    and "get_or ''context_selection'' x (contract_to_dict c) = (case tc_context c of None \<Rightarrow> JNull | Some v \<Rightarrow> v)"
  using assms by (auto simp: length4 contract_to_dict_def profile_names_def runtime_names_def)

lemma mk_contract_InrD:
  assumes "mk_contract c = Inr d"
  shows "d = c" and "tc_context c \<noteq> Some JNull"
  using assms by (auto simp: mk_contract_def bindR_Inr_iff freeze_context_selection_def split: if_splits)

text \<open>A contract as the constructor makes it from its fields: both fact tuples have four entries.\<close>

definition contract_ok :: "task_contract \<Rightarrow> bool" where
  "contract_ok c = (mk_contract c = Inr c \<and> mk_authorization (tc_authorization c) = Inr (tc_authorization c)
     \<and> length (tc_profile c) = 4 \<and> length (tc_runtime c) = 4)"

lemma contract_reload:
  assumes "contract_ok c"
  shows "contract_from_dict (contract_to_dict c) = Inr c"
proof -
  have ctx: "(let v = get_or ''context_selection'' JNull (contract_to_dict c) in if v = JNull then None else Some v)
      = tc_context c"
    using assms mk_contract_InrD(2) [of c c]
    by (auto simp: contract_ok_def contract_last_fields Let_def split: option.splits)
  have eta: "\<lparr>tc_objective = tc_objective c, tc_authorization = tc_authorization c,
      tc_max_active_seconds = tc_max_active_seconds c, tc_max_repair_cycles = tc_max_repair_cycles c,
      tc_max_repeated_failures = tc_max_repeated_failures c, tc_intent = tc_intent c, tc_profile = tc_profile c,
      tc_runtime = tc_runtime c, tc_interaction_mode = tc_interaction_mode c, tc_context = tc_context c\<rparr> = c"
    by simp
  show ?thesis
    using assms
    by (simp add: contract_from_dict_def contract_fields authorization_reload contract_ok_def texts_reload
        contract_last_fields(1) ctx eta)
qed

lemma iso_offset_plain: "CHR ''Z'' \<notin> set s \<Longrightarrow> iso_offset s = s"
  by (induction s) (auto simp: iso_offset_def)

lemma mk_task_InrD: "mk_task t = Inr u \<Longrightarrow> u = t \<and> tk_created t \<le> tk_updated t"
  by (auto simp: mk_task_def bindR_Inr_iff split: if_splits)

text \<open>
  A task record, its contract included, survives its JSON form: \<open>from_dict\<close> of \<open>to_dict\<close> gives
  the record back. The hypotheses on timestamps are what \<open>datetime\<close> documents for UTC instants:
  \<open>isoformat\<close> writes the offset as \<open>+00:00\<close> and \<open>fromisoformat\<close> reads it back.
\<close>

theorem task_record_reloads:
  assumes "mk_task t = Inr t" and "contract_ok (tk_contract t)"
    and "\<And>i. from_iso (to_iso i) = Inr i" and "\<And>i. CHR ''Z'' \<notin> set (to_iso i)"
  shows "task_from_dict from_iso (task_to_dict to_iso t) = Inr t"
  using assms
  by (cases t) (simp add: task_from_dict_def task_to_dict_def contract_reload iso_offset_plain)

text \<open>A concrete clock: an instant is written as that many \<open>+\<close> or \<open>-\<close> signs.\<close>

definition sample_iso :: "int \<Rightarrow> string" where
  "sample_iso i = (if 0 \<le> i then replicate (nat i) CHR ''+'' else replicate (nat (- i)) CHR ''-'')"

definition sample_from_iso :: "string \<Rightarrow> int result" where
  "sample_from_iso s = Inr (if CHR ''-'' \<in> set s then - int (length s) else int (length s))"

definition sample_contract :: task_contract where
  "sample_contract = \<lparr>tc_objective = ''fix it'', tc_authorization = \<lparr>at_workspace_root = ''/w'', at_write = True,
     at_execute = True, at_network = False, at_outside = False\<rparr>, tc_max_active_seconds = 1200,
     tc_max_repair_cycles = 3, tc_max_repeated_failures = 3, tc_intent = MODIFY,
     tc_profile = [Some ''p'', Some ''m'', Some ''openai'', Some ''host''],
     tc_runtime = [None, None, None, None], tc_interaction_mode = ''code'',
     tc_context = Some (JObj [(''version'', JInt 1), (''strategy'', JStr ''semantic''), (''policy'', JNull),
       (''context_window'', JInt 1000), (''api_input_tokens'', JNull), (''max_output_tokens'', JInt 100),
       (''host_prompt_tokens'', JInt 700), (''safety_tokens'', JInt 10),
       (''counter_version'', JStr ''prepared-json-v1'')])\<rparr>"

definition sample_task :: task_record where
  "sample_task = \<lparr>tk_id = ''a'', tk_thread = ''t'', tk_contract = sample_contract, tk_status = T_PAUSED,
     tk_stop_reason = Some ''token budget'', tk_created = 5, tk_updated = 9\<rparr>"

lemma sample_contract_ok: "contract_ok sample_contract"
  unfolding contract_ok_def by (intro conjI) code_simp+

theorem task_record_reloads_witness:
  "task_from_dict sample_from_iso (task_to_dict sample_iso sample_task) = Inr sample_task"
proof (rule task_record_reloads)
  show "mk_task sample_task = Inr sample_task" by code_simp
  show "contract_ok (tk_contract sample_task)" by (simp add: sample_task_def sample_contract_ok)
  show "sample_from_iso (sample_iso i) = Inr i" for i
    by (auto simp: sample_iso_def sample_from_iso_def)
  show "CHR ''Z'' \<notin> set (sample_iso i)" for i
    by (auto simp: sample_iso_def)
qed

section \<open>Life cycle\<close>

text \<open>A caller that asks for status changes one after another; a refused change leaves the task as it is.\<close>

definition try_transition :: "int \<times> task_status \<times> string option \<Rightarrow> task_record \<Rightarrow> task_record" where
  "try_transition a t = (case a of (now, s, r) \<Rightarrow> (case transition now s r t of Inl _ \<Rightarrow> t | Inr u \<Rightarrow> u))"

definition may_follow :: "task_status \<Rightarrow> task_status \<Rightarrow> bool" where
  "may_follow s u = (\<not> is_terminal s \<and> u \<in> set (allowed_next s))"

interpretation task_statuses: status_graph may_follow is_terminal
  by unfold_locales (simp add: may_follow_def)

lemma task_transition_InrD:
  assumes "transition now s r t = Inr u"
  shows "may_follow (tk_status t) s" and "u = t\<lparr>tk_status := s, tk_stop_reason := r, tk_updated := now\<rparr>"
    and "tk_created t \<le> now"
  using assms
  by (auto simp: transition_def may_follow_def bindR_Inr_iff opt_text_def dest!: mk_task_InrD
      split: if_splits option.splits)

definition same_identity :: "task_record \<Rightarrow> task_record \<Rightarrow> bool" where
  "same_identity t u = (tk_id u = tk_id t \<and> tk_thread u = tk_thread t \<and> tk_contract u = tk_contract t
     \<and> tk_created u = tk_created t)"

definition later_task :: "task_record \<Rightarrow> task_record \<Rightarrow> bool" where
  "later_task t u = (same_identity t u \<and> rtranclp may_follow (tk_status t) (tk_status u)
     \<and> (is_terminal (tk_status t) \<longrightarrow> u = t))"

lemma try_transition_cases:
  "try_transition a t = t \<or> may_follow (tk_status t) (tk_status (try_transition a t))
     \<and> same_identity t (try_transition a t) \<and> tk_created t \<le> tk_updated (try_transition a t)"
proof -
  obtain now s r where a: "a = (now, s, r)" by (cases a)
  show ?thesis
  proof (cases "transition now s r t")
    case (Inr u)
    then show ?thesis
      using task_transition_InrD [OF Inr] by (auto simp: a try_transition_def same_identity_def)
  qed (simp add: a try_transition_def)
qed

lemma try_transition_later: "later_task t (try_transition a t)"
  using try_transition_cases [of a t]
  by (auto simp: later_task_def same_identity_def dest: task_statuses.final_stuck)

lemma later_task_trans: "later_task t u \<Longrightarrow> later_task u v \<Longrightarrow> later_task t v"
  by (auto simp: later_task_def same_identity_def)

interpretation task_machine: monotone_machine try_transition "\<lambda>t. tk_created t \<le> tk_updated t" later_task
proof unfold_locales
  show "tk_created t \<le> tk_updated t \<Longrightarrow> tk_created (try_transition a t) \<le> tk_updated (try_transition a t)" for a t
    using try_transition_cases [of a t] by (auto simp: same_identity_def)
next
  show "later_task t t" for t by (simp add: later_task_def same_identity_def)
next
  show "later_task t u \<Longrightarrow> later_task u v \<Longrightarrow> later_task t v" for t u v by (rule later_task_trans)
  show "later_task t (try_transition a t)" for a t by (rule try_transition_later)
qed

text \<open>
  C31: Over any sequence of requested status changes a task keeps its identity, thread, contract and
  creation time, its timestamps stay ordered, its status only moves along the table, and a task in a
  terminal status does not change at all.
\<close>

theorem task_life_cycle:
  assumes "tk_created t \<le> tk_updated t"
  shows "(let u = fold try_transition as t in
      tk_id u = tk_id t \<and> tk_thread u = tk_thread t \<and> tk_contract u = tk_contract t \<and> tk_created u = tk_created t
      \<and> tk_created u \<le> tk_updated u \<and> rtranclp may_follow (tk_status t) (tk_status u)
      \<and> (is_terminal (tk_status t) \<longrightarrow> u = t))"
  using task_machine.run_inv [OF assms, of as] task_machine.run_le [OF assms, of as]
  by (simp add: later_task_def same_identity_def Let_def)

theorem task_life_cycle_witness:
  "(let u = fold try_transition [(10, T_RUNNING, None), (11, T_CREATED, None), (12, T_COMPLETED, None), (13, T_RUNNING, None)] sample_task
    in tk_updated u = 12 \<and> tk_status u = T_COMPLETED \<and> tk_created u \<le> tk_updated u)"
proof -
  let ?as = "[(10, T_RUNNING, None), (11, T_CREATED, None), (12, T_COMPLETED, None), (13, T_RUNNING, None)]"
  have ordered: "tk_created sample_task \<le> tk_updated sample_task" by code_simp
  have "(let u = fold try_transition ?as sample_task in tk_updated u = 12 \<and> tk_status u = T_COMPLETED)"
    by code_simp
  then show ?thesis
    using task_life_cycle [OF ordered, of ?as] by (auto simp: Let_def)
qed

end
