(* ===== verification/Values.thy ===== *)
theory Values
  imports Limits
begin

text \<open>
  The values that cross the engine's boundaries: \<open>src/src/code_agent/core/models.py\<close> (tool calls, usage,
  messages, model events, context bundles), \<open>core/_action_models.py\<close> (action requests and results,
  tool definitions), \<open>core/attachments.py\<close> and \<open>core/events.py\<close>. Each has the guards of its constructor
  (\<open>mk_...\<close>) and its JSON form (\<open>..._to_dict\<close>, \<open>..._from_dict\<close>); the lemmas show that every value a
  constructor accepts is read back from its JSON form.
\<close>

section \<open>Identifiers and names\<close>

definition validate_identifier :: "string \<Rightarrow> string \<Rightarrow> string result" where
  "validate_identifier label v =
     (if blank v then raiseR ValueError (label @ '' must not be blank'')
      else if 256 < length v then raiseR ValueError (label @ '' must be at most 256 characters'')
      else Inr v)"

definition is_alpha :: "char \<Rightarrow> bool" where
  "is_alpha c = (is_upper c \<or> is_lower c)"

text \<open>\<open>[A-Za-z_][A-Za-z0-9_.-]{0,127}\<close>.\<close>

definition name_ok :: "string \<Rightarrow> bool" where
  "name_ok v = (case v of [] \<Rightarrow> False
     | c # s \<Rightarrow> (is_alpha c \<or> c = CHR ''_'') \<and> length s \<le> 127
         \<and> list_all (\<lambda>c. is_alpha c \<or> is_digit c \<or> c \<in> set ''_.-'') s)"

definition validate_name :: "string \<Rightarrow> string \<Rightarrow> string result" where
  "validate_name label v =
     (if name_ok v then Inr v else raiseR ValueError (label @ '' must start with a letter or underscore''))"

definition token_count :: "string \<Rightarrow> int \<Rightarrow> int result" where
  "token_count label v = (if v < 0 then raiseR ValueError (label @ '' must not be negative'') else Inr v)"

definition optR :: "('a \<Rightarrow> 'a result) \<Rightarrow> 'a option \<Rightarrow> 'a option result" where
  "optR f v = (case v of None \<Rightarrow> Inr None | Some x \<Rightarrow> bindR (f x) (\<lambda>y. Inr (Some y)))"

section \<open>Calls, requests and results\<close>

record tool_call =
  tl_id :: string
  tl_name :: string
  tl_arguments :: jdict

definition mk_tool_call :: "tool_call \<Rightarrow> tool_call result" where
  "mk_tool_call c = bindR (validate_identifier ''id'' (tl_id c)) (\<lambda>_.
     bindR (validate_name ''name'' (tl_name c)) (\<lambda>_. Inr c))"

definition tool_call_to_dict :: "tool_call \<Rightarrow> jdict" where
  "tool_call_to_dict c = [(''id'', JStr (tl_id c)), (''name'', JStr (tl_name c)), (''arguments'', JObj (tl_arguments c))]"

definition tool_call_from_dict :: "jdict \<Rightarrow> tool_call result" where
  "tool_call_from_dict d =
     bindR (bindR (field_of ''id'' d) (as_text ''id must be a string'')) (\<lambda>i.
     bindR (bindR (field_of ''name'' d) (as_text ''name must be a string'')) (\<lambda>n.
     bindR (bindR (field_of ''arguments'' d) (as_obj ''arguments must be a mapping'')) (\<lambda>a.
       mk_tool_call \<lparr>tl_id = i, tl_name = n, tl_arguments = a\<rparr>)))"

record action_request =
  aq_id :: string
  aq_name :: string
  aq_arguments :: jdict

definition mk_action_request :: "action_request \<Rightarrow> action_request result" where
  "mk_action_request q = bindR (validate_identifier ''id'' (aq_id q)) (\<lambda>_.
     bindR (validate_name ''name'' (aq_name q)) (\<lambda>_. Inr q))"

definition action_request_to_dict :: "action_request \<Rightarrow> jdict" where
  "action_request_to_dict q = [(''id'', JStr (aq_id q)), (''name'', JStr (aq_name q)), (''arguments'', JObj (aq_arguments q))]"

definition action_request_from_dict :: "jdict \<Rightarrow> action_request result" where
  "action_request_from_dict d =
     bindR (bindR (field_of ''id'' d) (as_text ''id must be a string'')) (\<lambda>i.
     bindR (bindR (field_of ''name'' d) (as_text ''name must be a string'')) (\<lambda>n.
     bindR (bindR (field_of ''arguments'' d) (as_obj ''arguments must be a mapping'')) (\<lambda>a.
       mk_action_request \<lparr>aq_id = i, aq_name = n, aq_arguments = a\<rparr>)))"

record action_result =
  ar_request_id :: string
  ar_name :: string
  ar_output :: json
  ar_is_error :: bool
  ar_metadata :: jdict

definition mk_action_result :: "action_result \<Rightarrow> action_result result" where
  "mk_action_result r = bindR (validate_identifier ''request_id'' (ar_request_id r)) (\<lambda>_.
     bindR (validate_name ''name'' (ar_name r)) (\<lambda>_. Inr r))"

definition action_result_to_dict :: "action_result \<Rightarrow> jdict" where
  "action_result_to_dict r =
     [(''request_id'', JStr (ar_request_id r)), (''name'', JStr (ar_name r)), (''output'', ar_output r),
      (''is_error'', JBool (ar_is_error r)), (''metadata'', JObj (ar_metadata r))]"

definition action_result_from_dict :: "jdict \<Rightarrow> action_result result" where
  "action_result_from_dict d =
     bindR (bindR (field_of ''request_id'' d) (as_text ''request_id must be a string'')) (\<lambda>i.
     bindR (bindR (field_of ''name'' d) (as_text ''name must be a string'')) (\<lambda>n.
     bindR (field_of ''output'' d) (\<lambda>out.
     bindR (as_bool ''is_error must be a bool'' (get_or ''is_error'' (JBool False) d)) (\<lambda>e.
     bindR (as_obj ''metadata must be a mapping'' (get_or ''metadata'' (JObj []) d)) (\<lambda>m.
       mk_action_result \<lparr>ar_request_id = i, ar_name = n, ar_output = out, ar_is_error = e, ar_metadata = m\<rparr>)))))"

record tool_definition =
  td_name :: string
  td_description :: string
  td_parameters :: jdict

definition mk_tool_definition :: "tool_definition \<Rightarrow> tool_definition result" where
  "mk_tool_definition t = bindR (validate_name ''name'' (td_name t)) (\<lambda>_. Inr t)"

definition tool_definition_to_dict :: "tool_definition \<Rightarrow> jdict" where
  "tool_definition_to_dict t =
     [(''name'', JStr (td_name t)), (''description'', JStr (td_description t)), (''parameters'', JObj (td_parameters t))]"

definition tool_definition_from_dict :: "jdict \<Rightarrow> tool_definition result" where
  "tool_definition_from_dict d =
     bindR (bindR (field_of ''name'' d) (as_text ''name must be a string'')) (\<lambda>n.
     bindR (bindR (field_of ''description'' d) (as_text ''description must be a string'')) (\<lambda>t.
     bindR (bindR (field_of ''parameters'' d) (as_obj ''parameters must be a mapping'')) (\<lambda>p.
       mk_tool_definition \<lparr>td_name = n, td_description = t, td_parameters = p\<rparr>)))"

section \<open>Attachments\<close>

record attachment =
  am_sha256 :: string
  am_media_type :: string
  am_size :: int
  am_display_name :: string
  am_width :: "int option"
  am_height :: "int option"

definition max_message_attachments :: nat where
  "max_message_attachments = 8"

definition max_message_attachment_bytes :: int where
  "max_message_attachment_bytes = 32 * 1024 * 1024"

definition positive_int :: "string \<Rightarrow> int \<Rightarrow> int result" where
  "positive_int label v = (if v \<le> 0 then raiseR ValueError (label @ '' must be positive'') else Inr v)"

definition display_name_ok :: "string \<Rightarrow> bool" where
  "display_name_ok v = (v \<noteq> [] \<and> length v \<le> 128 \<and> v \<noteq> ''.'' \<and> v \<noteq> ''..''
     \<and> list_all (\<lambda>c. c \<noteq> CHR ''/'' \<and> c \<noteq> CHR 92 \<and> 32 \<le> code_of c) v)"

definition mk_attachment :: "attachment \<Rightarrow> attachment result" where
  "mk_attachment a =
     (if \<not> is_sha256 (am_sha256 a) then raiseR ValueError ''sha256 must be a lowercase SHA-256 digest''
      else if am_media_type a \<notin> {''image/png'', ''text/plain''} then raiseR ValueError ''media_type is not supported''
      else bindR (positive_int ''size_bytes'' (am_size a)) (\<lambda>_.
        if \<not> display_name_ok (am_display_name a)
        then raiseR ValueError ''display_name must be a safe bounded file name''
        else if am_media_type a = ''image/png''
        then (case (am_width a, am_height a) of
                (Some w, Some h) \<Rightarrow> bindR (positive_int ''width'' w) (\<lambda>_. bindR (positive_int ''height'' h) (\<lambda>_. Inr a))
              | _ \<Rightarrow> raiseR ValueError ''image attachments require dimensions'')
        else if am_width a \<noteq> None \<or> am_height a \<noteq> None
        then raiseR ValueError ''text attachments cannot have image dimensions''
        else Inr a))"

definition int_json :: "int option \<Rightarrow> json" where
  "int_json v = (case v of None \<Rightarrow> JNull | Some i \<Rightarrow> JInt i)"

definition as_int_opt :: "string \<Rightarrow> json \<Rightarrow> int option result" where
  "as_int_opt msg v = (case v of JNull \<Rightarrow> Inr None | JInt i \<Rightarrow> Inr (Some i) | _ \<Rightarrow> raiseR TypeError msg)"

definition attachment_to_dict :: "attachment \<Rightarrow> jdict" where
  "attachment_to_dict a =
     [(''sha256'', JStr (am_sha256 a)), (''media_type'', JStr (am_media_type a)), (''size_bytes'', JInt (am_size a)),
      (''display_name'', JStr (am_display_name a))]
     @ (if am_width a \<noteq> None then [(''width'', int_json (am_width a)), (''height'', int_json (am_height a))] else [])"

definition attachment_from_dict :: "jdict \<Rightarrow> attachment result" where
  "attachment_from_dict d =
     bindR (bindR (field_of ''sha256'' d) (as_str ''sha256 must be a lowercase SHA-256 digest'')) (\<lambda>s.
     bindR (bindR (field_of ''media_type'' d) (as_str ''media_type is not supported'')) (\<lambda>m.
     bindR (bindR (field_of ''size_bytes'' d) (as_count ''size_bytes must be an integer'')) (\<lambda>n.
     bindR (bindR (field_of ''display_name'' d) (as_text ''display_name must be a string'')) (\<lambda>t.
     bindR (as_int_opt ''width must be an integer'' (get_or ''width'' JNull d)) (\<lambda>w.
     bindR (as_int_opt ''height must be an integer'' (get_or ''height'' JNull d)) (\<lambda>h.
       mk_attachment \<lparr>am_sha256 = s, am_media_type = m, am_size = n, am_display_name = t, am_width = w, am_height = h\<rparr>))))))"

definition freeze_attachments :: "attachment list \<Rightarrow> attachment list result" where
  "freeze_attachments as =
     (if max_message_attachments < length as then raiseR ValueError ''messages support at most 8 attachments''
      else if max_message_attachment_bytes < sum_list (map am_size as)
      then raiseR ValueError ''message attachment bytes exceed the configured limit''
      else if \<not> distinct (map am_sha256 as) then raiseR ValueError ''message attachments must not repeat content''
      else Inr as)"

section \<open>Messages\<close>

record chat_message =
  ms_role :: string
  ms_content :: string
  ms_name :: "string option"
  ms_tool_calls :: "tool_call list"
  ms_tool_call_id :: "string option"
  ms_attachments :: "attachment list"

definition message_roles :: "string list" where
  "message_roles = [''system'', ''developer'', ''user'', ''assistant'', ''tool'']"

definition mk_message :: "chat_message \<Rightarrow> chat_message result" where
  "mk_message m =
     (if ms_role m \<notin> set message_roles then raiseR ValueError ''unsupported message role''
      else bindR (optR (validate_name ''name'') (ms_name m)) (\<lambda>_.
        bindR (optR (validate_identifier ''tool_call_id'') (ms_tool_call_id m)) (\<lambda>_.
        bindR (freeze_attachments (ms_attachments m)) (\<lambda>as.
          if as \<noteq> [] \<and> ms_role m \<noteq> ''user''
          then raiseR ValueError ''attachments are allowed only on user messages'' else Inr m))))"

definition some_if :: "bool \<Rightarrow> 'a \<Rightarrow> 'a option" where
  "some_if b x = (if b then Some x else None)"

definition message_to_dict :: "chat_message \<Rightarrow> jdict" where
  "message_to_dict m =
     [(''role'', JStr (ms_role m)), (''content'', JStr (ms_content m))]
     @ opt_field ''name'' (map_option JStr (ms_name m))
     @ opt_field ''tool_calls''
         (some_if (ms_tool_calls m \<noteq> []) (JArr (map (\<lambda>c. JObj (tool_call_to_dict c)) (ms_tool_calls m))))
     @ opt_field ''tool_call_id'' (map_option JStr (ms_tool_call_id m))
     @ opt_field ''attachments''
         (some_if (ms_attachments m \<noteq> []) (JArr (map (\<lambda>a. JObj (attachment_to_dict a)) (ms_attachments m))))"

text \<open>\<open>tuple(cls.from_dict(item) for item in values)\<close>.\<close>

definition items_from :: "(jdict \<Rightarrow> 'a result) \<Rightarrow> json \<Rightarrow> 'a list result" where
  "items_from f v = bindR (tuple_of v) (mapR (\<lambda>x. bindR (as_obj ''not a mapping'' x) f))"

definition message_from_dict :: "jdict \<Rightarrow> chat_message result" where
  "message_from_dict d =
     bindR (bindR (field_of ''role'' d) (as_text ''role must be a string'')) (\<lambda>r.
     bindR (as_text ''content must be a string'' (get_or ''content'' (JStr []) d)) (\<lambda>t.
     bindR (as_text_opt ''name must be a string'' (get_or ''name'' JNull d)) (\<lambda>n.
     bindR (items_from tool_call_from_dict (get_or ''tool_calls'' (JArr []) d)) (\<lambda>cs.
     bindR (as_text_opt ''tool_call_id must be a string'' (get_or ''tool_call_id'' JNull d)) (\<lambda>i.
     bindR (items_from attachment_from_dict (get_or ''attachments'' (JArr []) d)) (\<lambda>as.
       mk_message \<lparr>ms_role = r, ms_content = t, ms_name = n, ms_tool_calls = cs, ms_tool_call_id = i,
                   ms_attachments = as\<rparr>))))))"
section \<open>Usage, model events, context bundles\<close>

definition usage_to_dict :: "usage \<Rightarrow> jdict" where
  "usage_to_dict u =
     [(''input_tokens'', JInt (us_input u)), (''output_tokens'', JInt (us_output u)),
      (''cached_input_tokens'', JInt (us_cached_input u))]
     @ opt_field ''cache_write_input_tokens'' (map_option JInt (us_cache_write u))
     @ opt_field ''cache_read_known'' (some_if (us_cache_read_known u) (JBool True))"

definition mk_usage_checked :: "usage \<Rightarrow> usage result" where
  "mk_usage_checked u =
     bindR (token_count ''input_tokens'' (us_input u)) (\<lambda>_.
     bindR (token_count ''output_tokens'' (us_output u)) (\<lambda>_.
     bindR (token_count ''cached_input_tokens'' (us_cached_input u)) (\<lambda>_.
     bindR (optR (token_count ''cache_write_input_tokens'') (us_cache_write u)) (\<lambda>_. Inr u))))"

definition usage_from_dict :: "jdict \<Rightarrow> usage result" where
  "usage_from_dict d =
     bindR (as_count ''input_tokens must be an integer'' (get_or ''input_tokens'' (JInt 0) d)) (\<lambda>i.
     bindR (as_count ''output_tokens must be an integer'' (get_or ''output_tokens'' (JInt 0) d)) (\<lambda>out.
     bindR (as_count ''cached_input_tokens must be an integer'' (get_or ''cached_input_tokens'' (JInt 0) d)) (\<lambda>c.
     bindR (as_int_opt ''must be an integer'' (get_or ''cache_write_input_tokens'' JNull d)) (\<lambda>w.
     bindR (as_bool ''cache_read_known must be a boolean'' (get_or ''cache_read_known'' (JBool False) d)) (\<lambda>k.
       mk_usage_checked \<lparr>us_input = i, us_output = out, us_cached_input = c, us_cache_write = w, us_cache_read_known = k\<rparr>)))))"

datatype model_event_kind = TEXT_DELTA | REASONING_DELTA | TOOL_CALL_EVENT | USAGE_EVENT | MODEL_COMPLETED

fun model_kind_value :: "model_event_kind \<Rightarrow> string" where
  "model_kind_value TEXT_DELTA = ''text_delta''"
| "model_kind_value REASONING_DELTA = ''reasoning_delta''"
| "model_kind_value TOOL_CALL_EVENT = ''tool_call''"
| "model_kind_value USAGE_EVENT = ''usage''"
| "model_kind_value MODEL_COMPLETED = ''completed''"

definition model_kind_of :: "string \<Rightarrow> model_event_kind result" where
  "model_kind_of v =
     (case find (\<lambda>k. model_kind_value k = v) [TEXT_DELTA, REASONING_DELTA, TOOL_CALL_EVENT, USAGE_EVENT, MODEL_COMPLETED] of
        None \<Rightarrow> raiseR ValueError ''not a valid ModelEventKind'' | Some k \<Rightarrow> Inr k)"

record model_event =
  me_kind :: model_event_kind
  me_text :: "string option"
  me_tool_call :: "tool_call option"
  me_usage :: "usage option"

fun expected_payload :: "model_event_kind \<Rightarrow> string list" where
  "expected_payload TEXT_DELTA = [''text'']"
| "expected_payload REASONING_DELTA = [''text'']"
| "expected_payload TOOL_CALL_EVENT = [''tool_call'']"
| "expected_payload USAGE_EVENT = [''usage'']"
| "expected_payload MODEL_COMPLETED = []"

definition present_payload :: "model_event \<Rightarrow> string list" where
  "present_payload e = (if me_text e \<noteq> None then [''text''] else []) @ (if me_tool_call e \<noteq> None then [''tool_call''] else [])
     @ (if me_usage e \<noteq> None then [''usage''] else [])"

definition mk_model_event :: "model_event \<Rightarrow> model_event result" where
  "mk_model_event e =
     (if present_payload e = expected_payload (me_kind e) then Inr e
      else raiseR ValueError (model_kind_value (me_kind e) @ '' event has incompatible payload''))"

definition model_event_to_dict :: "model_event \<Rightarrow> jdict" where
  "model_event_to_dict e = [(''kind'', JStr (model_kind_value (me_kind e)))]
     @ opt_field ''text'' (map_option JStr (me_text e))
     @ opt_field ''tool_call'' (map_option (\<lambda>c. JObj (tool_call_to_dict c)) (me_tool_call e))
     @ opt_field ''usage'' (map_option (\<lambda>u. JObj (usage_to_dict u)) (me_usage e))"

text \<open>\<open>X.from_dict(data) if data else None\<close>: a false value counts as absent.\<close>

definition json_true :: "json \<Rightarrow> bool" where
  "json_true v = (case v of JNull \<Rightarrow> False | JBool b \<Rightarrow> b | JInt i \<Rightarrow> i \<noteq> 0 | JFloat m k \<Rightarrow> m \<noteq> 0
     | JStr s \<Rightarrow> s \<noteq> [] | JArr xs \<Rightarrow> xs \<noteq> [] | JObj d \<Rightarrow> d \<noteq> [])"

definition if_given :: "(jdict \<Rightarrow> 'a result) \<Rightarrow> json \<Rightarrow> 'a option result" where
  "if_given f v = (if json_true v then bindR (bindR (as_obj ''not a mapping'' v) f) (\<lambda>x. Inr (Some x)) else Inr None)"

definition model_event_from_dict :: "jdict \<Rightarrow> model_event result" where
  "model_event_from_dict d =
     bindR (bindR (bindR (field_of ''kind'' d) (as_str ''not a valid ModelEventKind'')) model_kind_of) (\<lambda>k.
     bindR (if_given tool_call_from_dict (get_or ''tool_call'' JNull d)) (\<lambda>c.
     bindR (if_given usage_from_dict (get_or ''usage'' JNull d)) (\<lambda>u.
     bindR (as_text_opt ''text must be a string'' (get_or ''text'' JNull d)) (\<lambda>t.
       mk_model_event \<lparr>me_kind = k, me_text = t, me_tool_call = c, me_usage = u\<rparr>))))"

record context_bundle =
  cb_system_prompt :: string
  cb_messages :: "chat_message list"
  cb_measurements :: "(string \<times> int) list"

definition context_measurement_keys :: "string list" where
  "context_measurement_keys =
     [''prompt_tokens'', ''prompt_budget_tokens'', ''prompt_safety_tokens'', ''prompt_estimated_tokens'',
      ''repo_context_budget_tokens'', ''repo_context_estimated_tokens'', ''rule_tokens'', ''tool_tokens'',
      ''task_state_tokens'', ''repo_map_tokens'', ''message_tokens'', ''removed_message_count'', ''cache_hits'',
      ''cache_misses'', ''semantic_triggered'', ''semantic_fallback'', ''semantic_source_count'',
      ''window_input_cap'', ''window_number'', ''window_preparing'', ''context_tokens_remaining'',
      ''task_tokens_spent'', ''task_tokens_reserved'', ''task_token_limit'']"

definition mk_context_bundle :: "context_bundle \<Rightarrow> context_bundle result" where
  "mk_context_bundle b =
     (if list_ex (\<lambda>k. k \<notin> set context_measurement_keys) (dkeys (cb_measurements b))
      then raiseR ValueError ''measurements contains an unsupported counter''
      else bindR (mapR (\<lambda>(k, v). token_count (''measurements.'' @ k) v) (cb_measurements b)) (\<lambda>_. Inr b))"

definition context_bundle_to_dict :: "context_bundle \<Rightarrow> jdict" where
  "context_bundle_to_dict b =
     [(''system_prompt'', JStr (cb_system_prompt b)),
      (''messages'', JArr (map (\<lambda>m. JObj (message_to_dict m)) (cb_messages b))),
      (''measurements'', JObj (map (\<lambda>(k, v). (k, JInt v)) (cb_measurements b)))]"

definition context_bundle_from_dict :: "jdict \<Rightarrow> context_bundle result" where
  "context_bundle_from_dict d =
     bindR (bindR (field_of ''system_prompt'' d) (as_text ''system_prompt must be a string'')) (\<lambda>p.
     bindR (items_from message_from_dict (get_or ''messages'' (JArr []) d)) (\<lambda>ms.
     bindR (bindR (as_obj ''not a mapping'' (get_or ''measurements'' (JObj []) d))
              (mapR (\<lambda>(k, v). bindR (as_count ''must be an integer'' v) (\<lambda>i. Inr (k, i))))) (\<lambda>xs.
       mk_context_bundle \<lparr>cb_system_prompt = p, cb_messages = ms, cb_measurements = xs\<rparr>)))"

section \<open>Agent events\<close>

datatype event_kind =
    TASK_CREATED | TASK_STATUS_CHANGED | TASK_CHECKPOINT_CREATED | TASK_BUDGET_WARNING | TASK_PAUSED
  | TASK_DECISION_REQUIRED | TASK_FOLLOWUPS_PROMOTED | TASK_RESULT | RUN_STARTED | TURN_STARTED | CONTEXT_BUILT
  | MODEL_STARTED | MODEL_EVENT | PHASE_COMPLETED | ACTION_REQUESTED | ACTION_STARTED | ACTION_COMPLETED
  | ACTION_OUTCOME_RESOLVED | MESSAGE_ADDED | ERROR | CANCELLED | COMPLETED

fun event_kind_value :: "event_kind \<Rightarrow> string" where
  "event_kind_value TASK_CREATED = ''task_created''"
| "event_kind_value TASK_STATUS_CHANGED = ''task_status_changed''"
| "event_kind_value TASK_CHECKPOINT_CREATED = ''task_checkpoint_created''"
| "event_kind_value TASK_BUDGET_WARNING = ''task_budget_warning''"
| "event_kind_value TASK_PAUSED = ''task_paused''"
| "event_kind_value TASK_DECISION_REQUIRED = ''task_decision_required''"
| "event_kind_value TASK_FOLLOWUPS_PROMOTED = ''task_followups_promoted''"
| "event_kind_value TASK_RESULT = ''task_result''"
| "event_kind_value RUN_STARTED = ''run_started''"
| "event_kind_value TURN_STARTED = ''turn_started''"
| "event_kind_value CONTEXT_BUILT = ''context_built''"
| "event_kind_value MODEL_STARTED = ''model_started''"
| "event_kind_value MODEL_EVENT = ''model_event''"
| "event_kind_value PHASE_COMPLETED = ''phase_completed''"
| "event_kind_value ACTION_REQUESTED = ''action_requested''"
| "event_kind_value ACTION_STARTED = ''action_started''"
| "event_kind_value ACTION_COMPLETED = ''action_completed''"
| "event_kind_value ACTION_OUTCOME_RESOLVED = ''action_outcome_resolved''"
| "event_kind_value MESSAGE_ADDED = ''message_added''"
| "event_kind_value ERROR = ''error''"
| "event_kind_value CANCELLED = ''cancelled''"
| "event_kind_value COMPLETED = ''completed''"

definition event_kinds :: "event_kind list" where
  "event_kinds =
     [TASK_CREATED, TASK_STATUS_CHANGED, TASK_CHECKPOINT_CREATED, TASK_BUDGET_WARNING, TASK_PAUSED,
      TASK_DECISION_REQUIRED, TASK_FOLLOWUPS_PROMOTED, TASK_RESULT, RUN_STARTED, TURN_STARTED, CONTEXT_BUILT,
      MODEL_STARTED, MODEL_EVENT, PHASE_COMPLETED, ACTION_REQUESTED, ACTION_STARTED, ACTION_COMPLETED,
      ACTION_OUTCOME_RESOLVED, MESSAGE_ADDED, ERROR, CANCELLED, COMPLETED]"

definition event_kind_of :: "string \<Rightarrow> event_kind result" where
  "event_kind_of v = (case find (\<lambda>k. event_kind_value k = v) event_kinds of
     None \<Rightarrow> raiseR ValueError ''not a valid EventKind'' | Some k \<Rightarrow> Inr k)"

text \<open>A timestamp is an instant; \<open>to_iso\<close> and \<open>from_iso\<close> stand for \<open>isoformat\<close> and \<open>fromisoformat\<close> in UTC.\<close>

record agent_event =
  ev_kind :: event_kind
  ev_payload :: jdict
  ev_timestamp :: int

definition event_to_dict :: "(int \<Rightarrow> string) \<Rightarrow> agent_event \<Rightarrow> jdict" where
  "event_to_dict to_iso e =
     [(''kind'', JStr (event_kind_value (ev_kind e))), (''payload'', JObj (ev_payload e)),
      (''timestamp'', JStr (replace_all ''+00:00'' ''Z'' (to_iso (ev_timestamp e))))]"

definition event_from_dict :: "(string \<Rightarrow> int result) \<Rightarrow> jdict \<Rightarrow> agent_event result" where
  "event_from_dict from_iso d =
     bindR (bindR (field_of ''timestamp'' d) (as_text ''timestamp'')) (\<lambda>ts.
     bindR (bindR (bindR (field_of ''kind'' d) (as_str ''not a valid EventKind'')) event_kind_of) (\<lambda>k.
     bindR (as_obj ''payload must be a mapping'' (get_or ''payload'' (JObj []) d)) (\<lambda>p.
     bindR (from_iso (if ends_with ts ''Z'' then butlast ts @ ''+00:00'' else ts)) (\<lambda>t.
       Inr \<lparr>ev_kind = k, ev_payload = p, ev_timestamp = t\<rparr>))))"

section \<open>Reloading\<close>

lemma validate_simps [simp]:
  "validate_identifier l v = Inr w \<longleftrightarrow> w = v \<and> \<not> blank v \<and> length v \<le> 256"
  "validate_name l v = Inr w \<longleftrightarrow> w = v \<and> name_ok v"
  "token_count l i = Inr j \<longleftrightarrow> j = i \<and> 0 \<le> i"
  "positive_int l i = Inr j \<longleftrightarrow> j = i \<and> 0 < i"
  by (auto simp: validate_identifier_def validate_name_def token_count_def positive_int_def)

lemma optR_simps [simp]: "optR f None = Inr None" "optR f (Some x) = bindR (f x) (\<lambda>y. Inr (Some y))"
  by (simp_all add: optR_def)

lemma as_int_opt_simps [simp]: "as_int_opt m (JInt i) = Inr (Some i)" "as_int_opt m JNull = Inr None"
    "as_int_opt m (int_json v) = Inr v"
  by (simp_all add: as_int_opt_def int_json_def split: option.split)

lemma some_if_simps [simp]: "some_if True x = Some x" "some_if False x = None"
  by (simp_all add: some_if_def)

lemma tool_call_reload: "mk_tool_call c = Inr c \<Longrightarrow> tool_call_from_dict (tool_call_to_dict c) = Inr c"
  by (cases c) (simp add: tool_call_from_dict_def tool_call_to_dict_def)

lemma action_request_reload: "mk_action_request q = Inr q \<Longrightarrow> action_request_from_dict (action_request_to_dict q) = Inr q"
  by (cases q) (simp add: action_request_from_dict_def action_request_to_dict_def)

lemma action_result_reload: "mk_action_result r = Inr r \<Longrightarrow> action_result_from_dict (action_result_to_dict r) = Inr r"
  by (cases r) (simp add: action_result_from_dict_def action_result_to_dict_def)

lemma tool_definition_reload:
  "mk_tool_definition t = Inr t \<Longrightarrow> tool_definition_from_dict (tool_definition_to_dict t) = Inr t"
  by (cases t) (simp add: tool_definition_from_dict_def tool_definition_to_dict_def)

lemma mk_attachment_dims: "mk_attachment a = Inr b \<Longrightarrow> am_width a = None \<longleftrightarrow> am_height a = None"
  by (auto simp: mk_attachment_def bindR_Inr_iff split: if_splits option.splits)

lemma attachment_reload:
  assumes "mk_attachment a = Inr a"
  shows "attachment_from_dict (attachment_to_dict a) = Inr a"
proof -
  have eta: "a = \<lparr>am_sha256 = am_sha256 a, am_media_type = am_media_type a, am_size = am_size a,
      am_display_name = am_display_name a, am_width = am_width a, am_height = am_height a\<rparr>"
    by simp
  have "attachment_from_dict (attachment_to_dict a) = mk_attachment a"
    using mk_attachment_dims [OF assms]
    by (subst (2) eta) (cases "am_width a"; cases "am_height a"; simp add: attachment_from_dict_def attachment_to_dict_def)
  then show ?thesis using assms by simp
qed

lemma usage_reload:
  assumes "mk_usage_checked u = Inr u"
  shows "usage_from_dict (usage_to_dict u) = Inr u"
  using assms
  by (cases u; cases "us_cache_write u"; cases "us_cache_read_known u")
     (simp_all add: usage_from_dict_def usage_to_dict_def)

lemma items_reload:
  "(\<And>x. x \<in> set xs \<Longrightarrow> f (g x) = Inr x) \<Longrightarrow> items_from f (JArr (map (\<lambda>x. JObj (g x)) xs)) = Inr xs"
  by (simp add: items_from_def mapR_map comp_def)

lemma message_fields:
  "field_of ''role'' (message_to_dict m) = Inr (JStr (ms_role m))"
  "get_or ''content'' x (message_to_dict m) = JStr (ms_content m)"
  "get_or ''name'' JNull (message_to_dict m) = opt_json (ms_name m)"
  "get_or ''tool_calls'' (JArr []) (message_to_dict m) = JArr (map (\<lambda>c. JObj (tool_call_to_dict c)) (ms_tool_calls m))"
  "get_or ''tool_call_id'' JNull (message_to_dict m) = opt_json (ms_tool_call_id m)"
  "get_or ''attachments'' (JArr []) (message_to_dict m) = JArr (map (\<lambda>a. JObj (attachment_to_dict a)) (ms_attachments m))"
  by (auto simp: message_to_dict_def field_of_def get_or_def opt_json_def opt_field_def some_if_def split: option.splits)

text \<open>A value all of whose parts passed their constructors.\<close>

definition message_ok :: "chat_message \<Rightarrow> bool" where
  "message_ok m = (mk_message m = Inr m \<and> list_all (\<lambda>c. mk_tool_call c = Inr c) (ms_tool_calls m)
     \<and> list_all (\<lambda>a. mk_attachment a = Inr a) (ms_attachments m))"

lemma message_reload:
  assumes "message_ok m"
  shows "message_from_dict (message_to_dict m) = Inr m"
proof -
  have eta: "\<lparr>ms_role = ms_role m, ms_content = ms_content m, ms_name = ms_name m, ms_tool_calls = ms_tool_calls m,
      ms_tool_call_id = ms_tool_call_id m, ms_attachments = ms_attachments m\<rparr> = m"
    by simp
  show ?thesis
    using assms
    by (simp add: message_from_dict_def message_fields message_ok_def eta items_reload tool_call_reload
        attachment_reload list_all_iff)
qed

lemma model_kind_of_value [simp]: "model_kind_of (model_kind_value k) = Inr k"
  by (cases k) (simp_all add: model_kind_of_def)

lemma if_given_simps [simp]:
  "if_given f JNull = Inr None" "d \<noteq> [] \<Longrightarrow> if_given f (JObj d) = bindR (f d) (\<lambda>x. Inr (Some x))"
  by (simp_all add: if_given_def json_true_def)

definition model_event_ok :: "model_event \<Rightarrow> bool" where
  "model_event_ok e = (mk_model_event e = Inr e \<and> (\<forall>c \<in> set_option (me_tool_call e). mk_tool_call c = Inr c)
     \<and> (\<forall>u \<in> set_option (me_usage e). mk_usage_checked u = Inr u))"

lemma dict_not_Nil [simp]: "tool_call_to_dict c \<noteq> []" "usage_to_dict u \<noteq> []"
  by (simp_all add: tool_call_to_dict_def usage_to_dict_def)

lemma model_event_reload:
  assumes "model_event_ok e"
  shows "model_event_from_dict (model_event_to_dict e) = Inr e"
  using assms
  by (cases e; cases "me_text e"; cases "me_tool_call e"; cases "me_usage e")
     (simp_all add: model_event_from_dict_def model_event_to_dict_def model_event_ok_def tool_call_reload usage_reload)

lemma counts_reload:
  "mapR (\<lambda>(k, v). bindR (as_count m v) (\<lambda>i. Inr (k, i))) (map (\<lambda>(k, v). (k, JInt v)) xs) = Inr xs"
  by (induction xs) auto

definition context_bundle_ok :: "context_bundle \<Rightarrow> bool" where
  "context_bundle_ok b = (mk_context_bundle b = Inr b \<and> list_all message_ok (cb_messages b))"

text \<open>
  A context bundle survives its JSON form, with every message in it and every tool call and attachment
  of a message: what the constructors accepted is read back unchanged. The same holds of a model event.
\<close>

theorem context_bundle_reloads:
  "(context_bundle_ok b \<longrightarrow> context_bundle_from_dict (context_bundle_to_dict b) = Inr b) \<and>
   (model_event_ok e \<longrightarrow> model_event_from_dict (model_event_to_dict e) = Inr e)"
proof (intro conjI impI)
  assume ok: "context_bundle_ok b"
  have eta: "\<lparr>cb_system_prompt = cb_system_prompt b, cb_messages = cb_messages b, cb_measurements = cb_measurements b\<rparr> = b"
    by simp
  show "context_bundle_from_dict (context_bundle_to_dict b) = Inr b"
    using ok
    by (simp add: context_bundle_from_dict_def context_bundle_to_dict_def context_bundle_ok_def items_reload
        message_reload list_all_iff counts_reload eta)
qed (rule model_event_reload)

definition sample_bundle :: context_bundle where
  "sample_bundle = \<lparr>cb_system_prompt = ''be brief'',
     cb_messages = [\<lparr>ms_role = ''user'', ms_content = ''look'', ms_name = None, ms_tool_calls = [], ms_tool_call_id = None,
        ms_attachments = [\<lparr>am_sha256 = replicate 64 CHR ''a'', am_media_type = ''image/png'', am_size = 10,
          am_display_name = ''a.png'', am_width = Some 2, am_height = Some 3\<rparr>]\<rparr>,
       \<lparr>ms_role = ''assistant'', ms_content = '''', ms_name = None,
        ms_tool_calls = [\<lparr>tl_id = ''c1'', tl_name = ''read_file'', tl_arguments = [(''path'', JStr ''a'')]\<rparr>],
        ms_tool_call_id = None, ms_attachments = []\<rparr>,
       \<lparr>ms_role = ''tool'', ms_content = ''text'', ms_name = Some ''read_file'', ms_tool_calls = [],
        ms_tool_call_id = Some ''c1'', ms_attachments = []\<rparr>],
     cb_measurements = [(''rule_tokens'', 5)]\<rparr>"

definition sample_event :: model_event where
  "sample_event = \<lparr>me_kind = USAGE_EVENT, me_text = None, me_tool_call = None,
     me_usage = Some \<lparr>us_input = 7, us_output = 2, us_cached_input = 1, us_cache_write = Some 3, us_cache_read_known = True\<rparr>\<rparr>"

lemma samples_ok: "context_bundle_ok sample_bundle" "model_event_ok sample_event"
  by code_simp+

theorem context_bundle_reloads_witness:
  "context_bundle_from_dict (context_bundle_to_dict sample_bundle) = Inr sample_bundle \<and>
   model_event_from_dict (model_event_to_dict sample_event) = Inr sample_event"
  using context_bundle_reloads [of sample_bundle sample_event] samples_ok by simp

lemma event_kind_of_value [simp]: "event_kind_of (event_kind_value k) = Inr k"
  by (cases k) (simp_all add: event_kind_of_def event_kinds_def)

lemma zulu_form: "CHR ''+'' \<notin> set s \<Longrightarrow> replace_all ''+00:00'' ''Z'' (s @ ''+00:00'') = s @ ''Z''"
  by (simp add: replace_all_plain starts_with_def)

text \<open>
  An event survives the JSON form of the journal, which writes UTC instants with a \<open>Z\<close> suffix. The
  hypotheses are what \<open>datetime\<close> documents for UTC: \<open>isoformat\<close> ends with \<open>+00:00\<close> and has no other
  plus sign, and \<open>fromisoformat\<close> reads it back.
\<close>

theorem event_reloads:
  assumes "\<And>t. from_iso (to_iso t) = Inr t"
    and "\<And>t. \<exists>base. to_iso t = base @ ''+00:00'' \<and> CHR ''+'' \<notin> set base"
  shows "event_from_dict from_iso (event_to_dict to_iso e) = Inr e"
proof -
  obtain base where base: "to_iso (ev_timestamp e) = base @ ''+00:00''" "CHR ''+'' \<notin> set base"
    using assms(2) by blast
  have rd: "from_iso (base @ ''+00:00'') = Inr (ev_timestamp e)"
    using assms(1) [of "ev_timestamp e"] base(1) by simp
  have eta: "\<lparr>ev_kind = ev_kind e, ev_payload = ev_payload e, ev_timestamp = ev_timestamp e\<rparr> = e" by simp
  show ?thesis
    using base rd eta
    by (simp add: event_from_dict_def event_to_dict_def zulu_form ends_with_def)
qed

definition offset_iso :: "int \<Rightarrow> string" where
  "offset_iso i = (if 0 \<le> i then replicate (nat i) CHR ''1'' else replicate (nat (- i)) CHR ''-'') @ ''+00:00''"

definition offset_from_iso :: "string \<Rightarrow> int result" where
  "offset_from_iso s = Inr (if CHR ''-'' \<in> set s then - (int (length s) - 6) else int (length s) - 6)"

theorem event_reloads_witness:
  "event_from_dict offset_from_iso (event_to_dict offset_iso \<lparr>ev_kind = CANCELLED, ev_payload = [], ev_timestamp = -4\<rparr>)
   = Inr \<lparr>ev_kind = CANCELLED, ev_payload = [], ev_timestamp = -4\<rparr>"
proof (rule event_reloads)
  show "offset_from_iso (offset_iso t) = Inr t" for t
    by (auto simp: offset_iso_def offset_from_iso_def)
  show "\<exists>base. offset_iso t = base @ ''+00:00'' \<and> CHR ''+'' \<notin> set base" for t
    by (cases "0 \<le> t") (auto simp: offset_iso_def)
qed

end
