(* ===== verification/Policy.thy ===== *)
theory Policy
  imports Command_Risk Task Values
begin

text \<open>
  The action policy: \<open>src/src/code_agent/policy/models.py\<close> (modes, capabilities, outcomes),
  \<open>classifier.py\<close> (what an action can do and how risky it is) and \<open>engine.py\<close> (allow, ask or deny).
  A capability set is a list without order: the code only tests membership, adds elements and compares
  with a constant, so it is a set here. \<open>nt\<close> and \<open>resolve\<close> are the machine parameters of \<open>Paths\<close>.
  A configured MCP risk is any text, as the mapping's values are not checked.
\<close>

section \<open>Values\<close>

datatype approval_mode = UNRESTRICTED | PLAN | ASK_MODE | AUTO | ELEVATED | FULL_LOCAL

datatype capability =
    READ | WRITE | EXECUTE | NETWORK | OUTSIDE_WORKSPACE | RAW_SHELL | RAW_PROCESS
  | VERIFICATION | PROTECTED_PATH | EXPLICIT_APPROVAL

datatype outcome = ALLOW | ASK | DENY

datatype risk_level = LOW | MEDIUM | HIGH | CRITICAL

record policy_decision =
  pd_outcome :: outcome
  pd_risk :: risk_level
  pd_reason :: string
  pd_capabilities :: "capability set"

record classification =
  cl_capabilities :: "capability set"
  cl_risk :: risk_level
  cl_reason :: string
  cl_known :: bool

record policy_config =
  pc_mode :: approval_mode
  pc_allow_network :: bool
  pc_workspace_root :: "pure_path option"
  pc_mcp_risks :: "(string \<times> string) list"

section \<open>Classification\<close>

definition history_tools :: "string list" where
  "history_tools = map (\<lambda>op. ''history_'' @ op) [''list_windows'', ''list_items'', ''read_item'', ''search_contents'']"

definition note_read_tools :: "string list" where
  "note_read_tools = map (\<lambda>op. ''notes_'' @ op) [''list_files'', ''read_file'', ''search_contents'']"

definition note_write_tools :: "string list" where
  "note_write_tools = [''notes_write_file'', ''notes_append_to_file'']"

definition persistent_tools :: "string list" where
  "persistent_tools = history_tools @ note_read_tools @ note_write_tools @ [''new_context'', ''get_context_remaining'']"

definition read_tools :: "string list" where
  "read_tools =
     [''load_tool_contract'', ''read_file'', ''read_code_slices'', ''list_files'', ''search_text'',
      ''git_status'', ''git_diff'', ''plan_workspace_edits_v1'', ''context_history'']
     @ history_tools @ note_read_tools @ [''get_context_remaining'']"

definition write_tools :: "string list" where
  "write_tools =
     [''write_file'', ''replace_text'', ''create_checkpoint'', ''restore_checkpoint'',
      ''apply_workspace_edit_plan_v1'', ''context_note'', ''new_context''] @ note_write_tools"

definition network_tools :: "string list" where
  "network_tools = [''web_retrieve'', ''web_search'', ''web_fetch'', ''site_api'', ''browser_fetch'']"

definition edit_plan_risk_flags :: "string list" where
  "edit_plan_risk_flags =
     [''dirty'', ''dirty_baseline'', ''non_git_existing'', ''untracked_existing'', ''delete'', ''move'', ''case_only_move'']"

definition requires_explicit_edit_plan_approval :: "string list \<Rightarrow> bool result" where
  "requires_explicit_edit_plan_approval flags =
     (if list_ex (\<lambda>f. f \<notin> set edit_plan_risk_flags) flags
      then raiseR ValueError ''risk_flags contain an unknown edit-plan risk''
      else Inr (flags \<noteq> []))"

definition classified :: "capability set \<Rightarrow> risk_level \<Rightarrow> string \<Rightarrow> classification" where
  "classified caps risk reason = \<lparr>cl_capabilities = caps, cl_risk = risk, cl_reason = reason, cl_known = True\<rparr>"

definition unknown_tool :: "string \<Rightarrow> classification" where
  "unknown_tool reason = \<lparr>cl_capabilities = {}, cl_risk = CRITICAL, cl_reason = reason, cl_known = False\<rparr>"

definition py_rstrip_chars :: "string \<Rightarrow> string \<Rightarrow> string" where
  "py_rstrip_chars chars s = rev (dropWhile (\<lambda>c. c \<in> set chars) (rev s))"

definition apply_command_boundaries ::
  "bool \<Rightarrow> (pure_path \<Rightarrow> pure_path) \<Rightarrow> capability set \<Rightarrow> command_signals \<Rightarrow> pure_path option \<Rightarrow> capability set" where
  "apply_command_boundaries nt resolve caps signals root =
     caps \<union> (if cs_protected signals then {PROTECTED_PATH} else {})
          \<union> (if list_ex (\<lambda>p. path_is_outside nt resolve (py_rstrip_chars '',)]'' p) root) (cs_paths signals)
             then {OUTSIDE_WORKSPACE} else {})
          \<union> (if cs_network signals then {NETWORK} else {})"

definition boundary_reason :: "string \<Rightarrow> string \<Rightarrow> capability set \<Rightarrow> string" where
  "boundary_reason subject otherwise caps =
     (if PROTECTED_PATH \<in> caps then subject @ '' targets a protected path''
      else if OUTSIDE_WORKSPACE \<in> caps then subject @ '' targets outside the workspace''
      else if NETWORK \<in> caps then subject @ '' includes a network-capable operation''
      else otherwise)"

definition classify_command ::
  "bool \<Rightarrow> (pure_path \<Rightarrow> pure_path) \<Rightarrow> (string \<times> json) list \<Rightarrow> pure_path option \<Rightarrow> classification" where
  "classify_command nt resolve arguments root =
     (case dget arguments ''command'' of
        Some (JStr command) \<Rightarrow>
          if blank command
          then classified {EXECUTE, RAW_SHELL} CRITICAL ''run_command requires a non-blank string command''
          else
            let signals = command_risk command;
                caps = apply_command_boundaries nt resolve {EXECUTE, RAW_SHELL} signals root
            in if cs_critical signals
               then classified caps CRITICAL ''command includes a destructive or elevated operation''
               else classified caps HIGH (boundary_reason ''command'' ''recognized raw local command'' caps)
      | _ \<Rightarrow> classified {EXECUTE, RAW_SHELL} CRITICAL ''run_command requires a non-blank string command'')"

fun string_args :: "json list \<Rightarrow> string list option" where
  "string_args [] = Some []"
| "string_args (JStr s # rest) = map_option (Cons s) (string_args rest)"
| "string_args _ = None"

definition classify_process ::
  "bool \<Rightarrow> (pure_path \<Rightarrow> pure_path) \<Rightarrow> (string \<times> json) list \<Rightarrow> pure_path option \<Rightarrow> classification" where
  "classify_process nt resolve arguments root =
     (let bad = classified {EXECUTE, RAW_PROCESS} CRITICAL ''run_process_v1 requires program text and string args''
      in case (dget arguments ''program'', dget arguments ''args'') of
           (Some (JStr program), Some (JArr raw)) \<Rightarrow>
             (case string_args raw of
                None \<Rightarrow> bad
              | Some args \<Rightarrow>
                  if blank program then bad
                  else
                    let signals = process_risk nt program args;
                        caps = apply_command_boundaries nt resolve {EXECUTE, RAW_PROCESS} signals root
                    in if cs_critical signals
                       then classified caps CRITICAL ''structured process includes a shell or critical operation''
                       else classified caps HIGH
                              (boundary_reason ''structured process'' ''recognized structured local process'' caps))
         | _ \<Rightarrow> bad)"

definition mcp_classification :: "string \<Rightarrow> classification" where
  "mcp_classification risk =
     (if risk = ''read'' then classified {READ} LOW ''configured MCP tool''
      else if risk = ''write'' then classified {WRITE} MEDIUM ''configured MCP tool''
      else if risk = ''network'' then classified {NETWORK} HIGH ''configured MCP tool''
      else if risk = ''critical'' then classified {} CRITICAL ''configured MCP tool''
      else unknown_tool ''MCP tool has an unknown risk mapping'')"

definition classify_named_action ::
  "bool \<Rightarrow> (pure_path \<Rightarrow> pure_path) \<Rightarrow> string \<Rightarrow> action_request \<Rightarrow> pure_path option
   \<Rightarrow> (string \<times> string) list \<Rightarrow> classification" where
  "classify_named_action nt resolve name request root mcp_risks =
     (case dget mcp_risks name of
        Some risk \<Rightarrow> mcp_classification risk
      | None \<Rightarrow>
          if name \<in> set read_tools then classified {READ} LOW ''recognized read-only tool''
          else if name \<in> set write_tools then classified {WRITE} MEDIUM ''recognized workspace write tool''
          else if name \<in> set network_tools then classified {NETWORK} HIGH ''recognized bounded web access tool''
          else if name = ''run_command'' then classify_command nt resolve (aq_arguments request) root
          else if name = ''run_process_v1'' then classify_process nt resolve (aq_arguments request) root
          else if name = ''run_verification''
          then classified {EXECUTE, VERIFICATION} MEDIUM ''recognized structured local verification''
          else unknown_tool (''unknown tool: '' @ aq_name request))"

definition classify_action ::
  "bool \<Rightarrow> (pure_path \<Rightarrow> pure_path) \<Rightarrow> action_request \<Rightarrow> pure_path option
   \<Rightarrow> (string \<times> string) list \<Rightarrow> classification" where
  "classify_action nt resolve request root mcp_risks =
     (let c = classify_named_action nt resolve (casefold (aq_name request)) request root mcp_risks
      in if \<not> cl_known c \<or> cl_risk c = CRITICAL then c
         else if aq_name request \<in> set persistent_tools then c
         else
           let outside = targets_outside_workspace nt resolve (aq_arguments request) root;
               protected = targets_protected (aq_arguments request);
               caps = cl_capabilities c \<union> (if outside then {OUTSIDE_WORKSPACE} else {})
                        \<union> (if protected then {PROTECTED_PATH} else {});
               risk = (if outside \<or> protected then HIGH else cl_risk c);
               reason = (if protected then ''request targets a protected path''
                         else if outside then ''request explicitly targets outside the workspace''
                         else cl_reason c)
           in classified caps risk reason)"

section \<open>Decisions\<close>

definition decision :: "outcome \<Rightarrow> classification \<Rightarrow> string \<Rightarrow> policy_decision" where
  "decision out c reason =
     \<lparr>pd_outcome = out, pd_risk = cl_risk c, pd_reason = reason @ ''; classifier: '' @ cl_reason c,
      pd_capabilities = cl_capabilities c\<rparr>"

definition boundary_decision :: "classification \<Rightarrow> policy_decision option" where
  "boundary_decision c =
     (if \<not> cl_known c then Some (decision DENY c ''denied because the tool is unknown'')
      else if cl_risk c = CRITICAL
      then Some (decision DENY c ''denied because critical-risk actions are never approved'')
      else if PROTECTED_PATH \<in> cl_capabilities c
      then Some (decision ASK c ''approval required for a protected path'')
      else None)"

definition explicit_edit_decision ::
  "classification \<Rightarrow> bool \<Rightarrow> bool \<Rightarrow> approval_mode \<Rightarrow> policy_decision option" where
  "explicit_edit_decision c required trusted mode =
     (if \<not> required \<or> mode = PLAN \<or> trusted then None
      else Some (decision ASK
             (classified (cl_capabilities c \<union> {EXPLICIT_APPROVAL}) HIGH
                ''trusted edit plan includes protected existing-file or destructive risk'')
             ''explicit user approval required for the edit plan''))"

definition ask_decision :: "classification \<Rightarrow> bool \<Rightarrow> bool \<Rightarrow> policy_decision" where
  "ask_decision c read_only outside =
     (if outside then
        (if read_only then decision ASK c ''approval required for a single read outside the workspace''
         else decision DENY c ''denied because ask mode does not permit writes outside the workspace'')
      else if read_only then decision ALLOW c ''allowed because the action is read-only''
      else decision ASK c ''approval required by ask mode for a non-read action'')"

definition auto_decision :: "policy_config \<Rightarrow> classification \<Rightarrow> bool \<Rightarrow> bool \<Rightarrow> bool \<Rightarrow> policy_decision" where
  "auto_decision cfg c read_only outside network =
     (if outside then decision ASK c ''approval required for access outside the workspace''
      else if read_only then decision ALLOW c ''allowed because the action is read-only''
      else if EXECUTE \<in> cl_capabilities c
      then decision ASK c ''approval required for every command execution''
      else if cl_risk c = HIGH then decision ASK c ''approval required for a high-risk action''
      else if network \<and> \<not> pc_allow_network cfg
      then decision ASK c ''approval required because network access is disabled by configuration''
      else decision ALLOW c ''allowed by auto mode for a recognized non-critical action'')"

definition mode_decision :: "policy_config \<Rightarrow> classification \<Rightarrow> bool \<Rightarrow> bool \<Rightarrow> bool \<Rightarrow> policy_decision" where
  "mode_decision cfg c trusted outside network =
     (let read_only = (cl_capabilities c - {OUTSIDE_WORKSPACE} = {READ}) in
      if pc_mode cfg = PLAN then
        (if read_only \<and> \<not> outside
         then decision ALLOW c ''allowed because plan mode permits read-only actions''
         else decision DENY c ''denied because plan mode permits read-only actions only'')
      else if trusted then decision ALLOW c ''allowed by trusted current-workspace authorization''
      else if pc_mode cfg = ASK_MODE then ask_decision c read_only outside
      else if pc_mode cfg = FULL_LOCAL then
        (if outside \<or> network
         then decision ASK c ''approval required at the local workspace boundary''
         else decision ALLOW c ''allowed by full-local mode for a non-critical typed action'')
      else auto_decision cfg c read_only outside network)"

definition trusted_workspace_action ::
  "bool \<Rightarrow> (pure_path \<Rightarrow> pure_path) \<Rightarrow> policy_config \<Rightarrow> classification \<Rightarrow> authorization option \<Rightarrow> bool" where
  "trusted_workspace_action nt resolve cfg c auth =
     (if pc_workspace_root cfg = None \<or>
         cl_capabilities c \<inter> {NETWORK, OUTSIDE_WORKSPACE, PROTECTED_PATH} \<noteq> {}
      then False
      else case auth of
             None \<Rightarrow> pc_mode cfg \<in> {AUTO, FULL_LOCAL}
           | Some a \<Rightarrow>
               if map_option (path_key nt) (pc_workspace_root cfg)
                    \<noteq> Some (path_key nt (resolve (native_path nt (at_workspace_root a)))) then False
               else if EXECUTE \<in> cl_capabilities c then at_execute a
               else if WRITE \<in> cl_capabilities c then at_write a
               else READ \<in> cl_capabilities c)"

definition new_policy_config :: "(pure_path \<Rightarrow> pure_path) \<Rightarrow> policy_config \<Rightarrow> policy_config" where
  "new_policy_config resolve cfg = cfg\<lparr>pc_workspace_root := map_option resolve (pc_workspace_root cfg)\<rparr>"

definition evaluate ::
  "bool \<Rightarrow> (pure_path \<Rightarrow> pure_path) \<Rightarrow> policy_config \<Rightarrow> action_request \<Rightarrow> authorization option
   \<Rightarrow> string list \<Rightarrow> string option \<Rightarrow> policy_decision result" where
  "evaluate nt resolve cfg request auth risk_flags rule =
     (let c = classify_action nt resolve request (pc_workspace_root cfg) (pc_mcp_risks cfg);
          name = casefold (aq_name request)
      in bindR (requires_explicit_edit_plan_approval risk_flags) (\<lambda>explicit.
      if explicit \<and> name \<noteq> ''apply_workspace_edit_plan_v1''
      then raiseR ValueError ''trusted edit risks require the edit-plan apply tool''
      else case boundary_decision c of
        Some d \<Rightarrow> Inr d
      | None \<Rightarrow>
          (case rule of
             Some r \<Rightarrow>
               if name \<noteq> ''run_process_v1''
               then raiseR ValueError ''permanent process rules require run_process_v1''
               else if blank r then raiseR ValueError ''permanent process rule id must be non-blank text''
               else Inr (decision ALLOW c (''allowed by permanent command rule '' @ r))
           | None \<Rightarrow>
               let outside = (OUTSIDE_WORKSPACE \<in> cl_capabilities c);
                   network = (NETWORK \<in> cl_capabilities c);
                   trusted = trusted_workspace_action nt resolve cfg c auth
               in case explicit_edit_decision c explicit trusted (pc_mode cfg) of
                    Some d \<Rightarrow> Inr d
                  | None \<Rightarrow>
                      if pc_mode cfg = UNRESTRICTED
                      then Inr (decision ALLOW c ''allowed by unrestricted mode without approval'')
                      else Inr (mode_decision cfg c trusted outside network))))"

section \<open>What the decisions guarantee\<close>

lemma classified_simps [simp]:
  "cl_capabilities (classified cs r w) = cs" "cl_risk (classified cs r w) = r" "cl_known (classified cs r w)"
  "\<not> cl_known (unknown_tool w)" "cl_risk (unknown_tool w) = CRITICAL" "cl_capabilities (unknown_tool w) = {}"
  by (simp_all add: classified_def unknown_tool_def)

lemma decision_simps [simp]:
  "pd_outcome (decision out c w) = out" "pd_capabilities (decision out c w) = cl_capabilities c"
  "pd_risk (decision out c w) = cl_risk c"
  by (simp_all add: decision_def)

definition network_is_high :: "classification \<Rightarrow> bool" where
  "network_is_high c \<longleftrightarrow> (NETWORK \<in> cl_capabilities c \<longrightarrow> cl_risk c \<in> {HIGH, CRITICAL})"

lemma network_is_high_classified:
  "r = HIGH \<or> r = CRITICAL \<or> NETWORK \<notin> cs \<Longrightarrow> network_is_high (classified cs r w)"
  by (auto simp: network_is_high_def)

lemma classify_command_high: "network_is_high (classify_command nt resolve args root)"
  by (auto simp: classify_command_def Let_def intro!: network_is_high_classified split: option.split json.split)

lemma classify_process_high: "network_is_high (classify_process nt resolve args root)"
  by (auto simp: classify_process_def Let_def intro!: network_is_high_classified split: option.split json.split)

lemma network_if: "network_is_high a \<Longrightarrow> network_is_high b \<Longrightarrow> network_is_high (if P then a else b)"
  by simp

lemma unknown_tool_high: "network_is_high (unknown_tool w)"
  by (simp add: network_is_high_def)

lemmas high_intros = network_if network_is_high_classified unknown_tool_high
  classify_command_high classify_process_high

lemma mcp_high: "network_is_high (mcp_classification r)"
  unfolding mcp_classification_def by (intro high_intros) simp_all

lemma classify_named_high: "network_is_high (classify_named_action nt resolve name rq root mcp)"
proof (cases "dget mcp name")
  case None
  show ?thesis
    unfolding classify_named_action_def None option.case by (intro high_intros) simp_all
qed (simp add: classify_named_action_def mcp_high)

lemma classify_action_high: "network_is_high (classify_action nt resolve rq root mcp)"
  using classify_named_high [of nt resolve "casefold (aq_name rq)" rq root mcp]
  by (auto simp: classify_action_def Let_def network_is_high_def)

lemma boundary_decision_not_allow: "boundary_decision c = Some d \<Longrightarrow> pd_outcome d \<noteq> ALLOW"
  by (auto simp: boundary_decision_def split: if_splits)

lemma boundary_decision_None:
  "boundary_decision c = None \<longleftrightarrow> cl_known c \<and> cl_risk c \<noteq> CRITICAL \<and> PROTECTED_PATH \<notin> cl_capabilities c"
  by (auto simp: boundary_decision_def)

lemma explicit_not_allow: "explicit_edit_decision c req tr m = Some d \<Longrightarrow> pd_outcome d \<noteq> ALLOW"
  by (auto simp: explicit_edit_decision_def split: if_splits)

lemma trusted_local:
  "trusted_workspace_action nt resolve cfg c auth \<Longrightarrow>
     NETWORK \<notin> cl_capabilities c \<and> OUTSIDE_WORKSPACE \<notin> cl_capabilities c"
  by (auto simp: trusted_workspace_action_def split: if_splits)

lemma mode_allow:
  assumes "pd_outcome (mode_decision cfg c trusted outside network) = ALLOW"
    and "outside = (OUTSIDE_WORKSPACE \<in> cl_capabilities c)" "network = (NETWORK \<in> cl_capabilities c)"
    and "trusted \<Longrightarrow> \<not> outside \<and> \<not> network" "network_is_high c" "cl_risk c \<noteq> CRITICAL"
  shows "\<not> outside" "\<not> network"
    "pc_mode cfg = PLAN \<Longrightarrow> cl_capabilities c = {READ}"
    "EXECUTE \<in> cl_capabilities c \<Longrightarrow> trusted \<or> pc_mode cfg = FULL_LOCAL"
  using assms
  by (auto simp: mode_decision_def ask_decision_def auto_decision_def Let_def network_is_high_def split: if_splits)

text \<open>How an \<open>ALLOW\<close> can come about: by a rule, by the unrestricted mode, or by the mode's own table.\<close>

lemma evaluate_allowE:
  assumes "evaluate nt resolve cfg rq auth flags rule = Inr d" "pd_outcome d = ALLOW"
    and c: "c = classify_action nt resolve rq (pc_workspace_root cfg) (pc_mcp_risks cfg)"
  obtains (rule) r where "boundary_decision c = None" "rule = Some r" "casefold (aq_name rq) = ''run_process_v1''"
  | (unrestricted) "boundary_decision c = None" "rule = None" "pc_mode cfg = UNRESTRICTED"
  | (mode) "boundary_decision c = None" "rule = None" "pc_mode cfg \<noteq> UNRESTRICTED"
      "d = mode_decision cfg c (trusted_workspace_action nt resolve cfg c auth)
             (OUTSIDE_WORKSPACE \<in> cl_capabilities c) (NETWORK \<in> cl_capabilities c)"
proof (cases "boundary_decision c")
  case (Some b)
  then show ?thesis using assms boundary_decision_not_allow [OF Some]
    by (auto simp: evaluate_def Let_def bindR_Inr_iff split: if_splits)
next
  case None
  obtain e where e: "requires_explicit_edit_plan_approval flags = Inr e"
    using assms(1) by (cases "requires_explicit_edit_plan_approval flags") (auto simp: evaluate_def Let_def)
  show ?thesis
  proof (cases rule)
    case (Some r)
    then show ?thesis using assms(1) None rule
      by (auto simp: evaluate_def Let_def e c split: if_splits)
  next
    case norule: None
    let ?t = "trusted_workspace_action nt resolve cfg c auth"
    show ?thesis
    proof (cases "explicit_edit_decision c e ?t (pc_mode cfg)")
      case (Some x)
      then show ?thesis using assms(1,2) None norule explicit_not_allow [OF Some]
        by (auto simp: evaluate_def Let_def e c split: if_splits)
    next
      case noedit: None
      then show ?thesis using assms(1) None norule unrestricted mode
        by (auto simp: evaluate_def Let_def e c split: if_splits)
    qed
  qed
qed


definition plan_config :: policy_config where
  "plan_config = \<lparr>pc_mode = PLAN, pc_allow_network = True, pc_workspace_root = Some (posix_path ''/ws''), pc_mcp_risks = []\<rparr>"

definition read_request :: action_request where
  "read_request = \<lparr>aq_id = ''1'', aq_name = ''read_file'', aq_arguments = [(''path'', JStr ''src/a.py'')]\<rparr>"

lemma read_request_facts:
  "casefold (aq_name read_request) = ''read_file''" "dget [] ''read_file'' = None" "''read_file'' \<in> set read_tools"
  "aq_name read_request \<notin> set persistent_tools"
  "\<not> targets_protected (aq_arguments read_request)"
  "\<not> targets_outside_workspace False plain_resolve (aq_arguments read_request) (Some (posix_path ''/ws''))"
  by code_simp+

lemma read_request_class:
  "classify_action False plain_resolve read_request (Some (posix_path ''/ws'')) []
     = classified {READ} LOW ''recognized read-only tool''"
  by (simp add: classify_action_def classify_named_action_def read_request_facts Let_def) (simp add: classified_def)

lemma read_request_allowed:
  "evaluate False plain_resolve plan_config read_request None [] None =
     Inr (decision ALLOW (classified {READ} LOW ''recognized read-only tool'')
            ''allowed because plan mode permits read-only actions'')"
  by (simp add: evaluate_def plan_config_def read_request_class requires_explicit_edit_plan_approval_def
      boundary_decision_def explicit_edit_decision_def mode_decision_def)


text \<open>
  A shell command that contains \<open>sudo\<close>, \<open>stop-computer\<close> or \<open>set-executionpolicy\<close> as a word,
  in any letter case and with anything before and after it, is denied: in every mode, under every task
  authorization, with any permanent rule, whatever the workspace.
\<close>

theorem forbidden_words_denied:
  assumes "w \<in> set forbidden_words" "casefold w' = w"
    and "\<not> word_at (rev pre)" "\<not> word_at post"
    and "dget (pc_mcp_risks cfg) ''run_command'' = None"
  shows "\<exists>d. evaluate nt resolve cfg
      \<lparr>aq_id = i, aq_name = ''run_command'', aq_arguments = [(''command'', JStr (pre @ w' @ post))]\<rparr>
      auth [] rule = Inr d \<and> pd_outcome d = DENY"
proof -
  let ?rq = "\<lparr>aq_id = i, aq_name = ''run_command'', aq_arguments = [(''command'', JStr (pre @ w' @ post))]\<rparr>"
  let ?c = "classify_action nt resolve ?rq (pc_workspace_root cfg) (pc_mcp_risks cfg)"
  have name: "casefold ''run_command'' = ''run_command''" "''run_command'' \<notin> set read_tools"
    "''run_command'' \<notin> set write_tools" "''run_command'' \<notin> set network_tools"
    by code_simp+
  have "is_critical (pre @ w' @ post)" using assms(1-4) by (rule forbidden_word_critical)
  then have "cl_risk (classify_command nt resolve (aq_arguments ?rq) (pc_workspace_root cfg)) = CRITICAL"
    by (simp add: classify_command_def Let_def command_risk_def)
  then have crit: "cl_risk ?c = CRITICAL"
    by (simp add: classify_action_def classify_named_action_def name assms(5) Let_def)
  have "\<exists>d. boundary_decision ?c = Some d \<and> pd_outcome d = DENY"
    using crit by (simp add: boundary_decision_def)
  then show ?thesis
    by (auto simp: evaluate_def Let_def requires_explicit_edit_plan_approval_def)
qed

theorem forbidden_words_denied_witness:
  "\<exists>d. evaluate False plain_resolve (plan_config\<lparr>pc_mode := UNRESTRICTED\<rparr>)
      \<lparr>aq_id = ''1'', aq_name = ''run_command'', aq_arguments = [(''command'', JStr ''echo hi; SUDO rm x'')]\<rparr>
      None [] (Some ''rule'') = Inr d \<and> pd_outcome d = DENY"
proof -
  have "''sudo'' \<in> set forbidden_words" "casefold ''SUDO'' = ''sudo''"
    "\<not> word_at (rev ''echo hi; '')" "\<not> word_at '' rm x''"
    "dget (pc_mcp_risks (plan_config\<lparr>pc_mode := UNRESTRICTED\<rparr>)) ''run_command'' = None"
    by code_simp+
  from forbidden_words_denied [OF this, of False plain_resolve "''1''" None "Some ''rule''"]
  show ?thesis by simp
qed

text \<open>
  The configuration switch \<open>allow_network\<close> never changes a decision. Every action with the
  network capability is classified high or critical risk, and the high-risk question of the automatic
  modes comes before the switch is read.
\<close>

theorem network_switch_is_inert:
  "evaluate nt resolve (cfg\<lparr>pc_allow_network := x\<rparr>) rq auth flags rule =
   evaluate nt resolve cfg rq auth flags rule"
proof -
  let ?c = "classify_action nt resolve rq (pc_workspace_root cfg) (pc_mcp_risks cfg)"
  let ?cfg = "cfg\<lparr>pc_allow_network := x\<rparr>"
  have hi: "network_is_high ?c" by (rule classify_action_high)
  have tr: "trusted_workspace_action nt resolve ?cfg c a = trusted_workspace_action nt resolve cfg c a" for c a
    by (cases a) (simp_all add: trusted_workspace_action_def)
  have md: "mode_decision ?cfg ?c t u (NETWORK \<in> cl_capabilities ?c) = mode_decision cfg ?c t u (NETWORK \<in> cl_capabilities ?c)"
    if "boundary_decision ?c = None" for t u
    using hi that
    by (auto simp: mode_decision_def auto_decision_def network_is_high_def Let_def boundary_decision_None)
  have same: "pc_workspace_root ?cfg = pc_workspace_root cfg" "pc_mcp_risks ?cfg = pc_mcp_risks cfg"
    "pc_mode ?cfg = pc_mode cfg" by simp_all
  show ?thesis
  proof (cases "boundary_decision ?c")
    case None
    show ?thesis
      by (simp only: evaluate_def Let_def tr same None option.case md [OF None])
  next
    case (Some d)
    show ?thesis by (simp only: evaluate_def Let_def same Some option.case)
  qed
qed

end
