(* ===== verification/Workflow.thy ===== *)
theory Workflow
  imports Prelude
begin

text \<open>
  The workflow graph: \<open>src/src/code_agent/workflows/models.py\<close> (values with the guards of their
  \<open>__post_init__\<close>) and \<open>graph.py\<close> (\<open>WorkflowGraph\<close>: nodes in insertion order, edges, the transition
  table, the depth-first cycle check). Times are UTC instants as integers; an absent \<open>at\<close> argument is
  the clock reading \<open>now\<close>. \<open>reachable\<close> terminates because a node is expanded only once.
\<close>

section \<open>Values\<close>

datatype node_status =
    PLANNED | QUEUED | RUNNING | BLOCKED | WAITING_DECISION | VERIFYING | COMPLETED | FAILED | CANCELLED

datatype workflow_status = WF_ACTIVE | WF_COMPLETED | WF_FAILED | WF_CANCELLED

datatype edge_kind = REQUIRES | PRODUCES | REVIEW_OF

record workflow =
  wf_id :: string
  wf_root_thread :: string
  wf_task :: string
  wf_title :: string
  wf_status :: workflow_status
  wf_created :: int
  wf_updated :: int

record workflow_node =
  wn_id :: string
  wn_workflow :: string
  wn_kind :: string
  wn_title :: string
  wn_status :: node_status
  wn_thread :: "string option"
  wn_role :: string
  wn_inputs :: "string list"
  wn_outputs :: "string list"
  wn_evidence :: "string list"
  wn_checkpoint :: "string option"
  wn_created :: int
  wn_started :: "int option"
  wn_completed :: "int option"

record workflow_edge =
  we_workflow :: string
  we_source :: string
  we_target :: string
  we_kind :: edge_kind

definition bounded :: "nat \<Rightarrow> string \<Rightarrow> bool" where
  "bounded n s = (\<not> blank s \<and> length s \<le> n)"

definition bounded_opt :: "nat \<Rightarrow> string option \<Rightarrow> bool" where
  "bounded_opt n s = (case s of None \<Rightarrow> True | Some x \<Rightarrow> bounded n x)"

definition refs_ok :: "string list \<Rightarrow> bool" where
  "refs_ok rs = (list_all (bounded 512) rs \<and> length rs \<le> 128 \<and> distinct rs)"

definition terminal_status :: "node_status \<Rightarrow> bool" where
  "terminal_status s = (s \<in> {COMPLETED, FAILED, CANCELLED})"

definition mk_workflow :: "workflow \<Rightarrow> int option \<Rightarrow> workflow result" where
  "mk_workflow w updated =
     (if \<not> (bounded 256 (wf_id w) \<and> bounded 256 (wf_root_thread w) \<and> bounded 256 (wf_task w) \<and> bounded 512 (wf_title w))
      then raiseR ValueError ''must be non-blank bounded text''
      else let u = (case updated of None \<Rightarrow> wf_created w | Some x \<Rightarrow> x)
           in if u < wf_created w then raiseR ValueError ''updated_at must not precede created_at''
              else Inr (w\<lparr>wf_updated := u\<rparr>))"

definition mk_node :: "workflow_node \<Rightarrow> workflow_node result" where
  "mk_node n =
     (if \<not> (bounded 256 (wn_id n) \<and> bounded 256 (wn_workflow n) \<and> bounded 256 (wn_kind n) \<and>
            bounded 256 (wn_role n) \<and> bounded 512 (wn_title n) \<and>
            bounded_opt 256 (wn_thread n) \<and> bounded_opt 512 (wn_checkpoint n))
      then raiseR ValueError ''must be non-blank bounded text''
      else if \<not> (refs_ok (wn_inputs n) \<and> refs_ok (wn_outputs n) \<and> refs_ok (wn_evidence n))
      then raiseR ValueError ''must be unique and bounded''
      else if (case wn_started n of None \<Rightarrow> False | Some s \<Rightarrow> s < wn_created n)
      then raiseR ValueError ''started_at must not precede created_at''
      else if (case wn_completed n of None \<Rightarrow> False
               | Some c \<Rightarrow> c < (case wn_started n of None \<Rightarrow> wn_created n | Some s \<Rightarrow> s))
      then raiseR ValueError ''completed_at must not precede node activity''
      else if terminal_status (wn_status n) \<noteq> (wn_completed n \<noteq> None)
      then raiseR ValueError ''terminal status and completed_at must agree''
      else Inr n)"

definition mk_edge :: "workflow_edge \<Rightarrow> workflow_edge result" where
  "mk_edge e =
     (if bounded 256 (we_workflow e) \<and> bounded 256 (we_source e) \<and> bounded 256 (we_target e)
      then Inr e else raiseR ValueError ''must be non-blank bounded text'')"

section \<open>The graph\<close>

fun transitions :: "node_status \<Rightarrow> node_status list" where
  "transitions PLANNED = [QUEUED, CANCELLED]"
| "transitions QUEUED = [RUNNING, FAILED, CANCELLED]"
| "transitions RUNNING = [BLOCKED, WAITING_DECISION, VERIFYING, COMPLETED, FAILED, CANCELLED]"
| "transitions BLOCKED = [QUEUED, RUNNING, FAILED, CANCELLED]"
| "transitions WAITING_DECISION = [RUNNING, FAILED, CANCELLED]"
| "transitions VERIFYING = [RUNNING, WAITING_DECISION, COMPLETED, FAILED, CANCELLED]"
| "transitions COMPLETED = [VERIFYING]"
| "transitions FAILED = []"
| "transitions CANCELLED = []"

record workflow_graph =
  wg_workflow :: workflow
  wg_nodes :: "(string \<times> workflow_node) list"
  wg_edges :: "workflow_edge list"

definition add_node :: "workflow_node \<Rightarrow> workflow_graph \<Rightarrow> workflow_graph result" where
  "add_node n g =
     (if wn_workflow n \<noteq> wf_id (wg_workflow g) then raiseR ValueError ''node belongs to another workflow''
      else if (case dget (wg_nodes g) (wn_id n) of None \<Rightarrow> False | Some prior \<Rightarrow> prior \<noteq> n)
      then raiseR ValueError ''node id already has different content''
      else Inr (g\<lparr>wg_nodes := dput (wn_id n) n (wg_nodes g)\<rparr>))"

definition targets_of :: "workflow_edge list \<Rightarrow> string \<Rightarrow> string list" where
  "targets_of es n = map we_target (filter (\<lambda>e. we_source e = n) es)"

definition sources_left :: "workflow_edge list \<Rightarrow> string list \<Rightarrow> nat" where
  "sources_left es visited = card (set (map we_source es) - set visited)"

lemma sources_left_less:
  assumes "targets_of es n \<noteq> []" "n \<notin> set visited"
  shows "sources_left es (n # visited) < sources_left es visited"
proof -
  have "n \<in> set (map we_source es) - set visited"
    using assms by (auto simp: targets_of_def filter_empty_conv)
  then have "set (map we_source es) - set (n # visited) \<subset> set (map we_source es) - set visited" by auto
  then show ?thesis by (auto simp: sources_left_def intro!: psubset_card_mono)
qed

lemma sources_left_le: "sources_left es (n # visited) \<le> sources_left es visited"
  by (auto simp: sources_left_def intro!: card_mono)

text \<open>The stack is a list whose head is the end the code pops from and extends.\<close>

function reach_loop :: "workflow_edge list \<Rightarrow> string \<Rightarrow> string list \<Rightarrow> string list \<Rightarrow> bool" where
  "reach_loop es target [] visited = False"
| "reach_loop es target (n # rest) visited =
     (if n = target then True
      else if n \<in> set visited then reach_loop es target rest visited
      else reach_loop es target (rev (targets_of es n) @ rest) (n # visited))"
  by pat_completeness auto
termination
proof (relation "measures [\<lambda>(es, t, p, v). sources_left es v, \<lambda>(es, t, p, v). length p]", goal_cases)
  case (3 es target n rest visited)
  then show ?case
    using sources_left_less [of es n visited] sources_left_le [of es n visited]
    by (cases "targets_of es n = []") (auto simp: le_less)
qed auto

definition reachable :: "workflow_edge list \<Rightarrow> string \<Rightarrow> string \<Rightarrow> bool" where
  "reachable es start target = reach_loop es target [start] []"

definition add_edge :: "workflow_edge \<Rightarrow> workflow_graph \<Rightarrow> workflow_graph result" where
  "add_edge e g =
     (if we_workflow e \<noteq> wf_id (wg_workflow g) then raiseR ValueError ''edge belongs to another workflow''
      else if dget (wg_nodes g) (we_source e) = None \<or> dget (wg_nodes g) (we_target e) = None
      then raiseR KeyError ''workflow edge endpoint is missing''
      else if we_source e = we_target e then raiseR WorkflowCycleError ''workflow edge cannot point to itself''
      else if reachable (wg_edges g) (we_target e) (we_source e)
      then raiseR WorkflowCycleError ''workflow edge would create a cycle''
      else Inr (if e \<in> set (wg_edges g) then g else g\<lparr>wg_edges := wg_edges g @ [e]\<rparr>))"

definition transition_node ::
  "int \<Rightarrow> string \<Rightarrow> node_status \<Rightarrow> int option \<Rightarrow> workflow_graph \<Rightarrow> (workflow_graph \<times> workflow_node) result" where
  "transition_node now k status at g =
     (case dget (wg_nodes g) k of
        None \<Rightarrow> raiseR KeyError ''workflow node not found''
      | Some current \<Rightarrow>
          if status = wn_status current then Inr (g, current)
          else if status \<notin> set (transitions (wn_status current))
          then raiseR WorkflowTransitionError ''cannot transition''
          else
            let timestamp = (case at of None \<Rightarrow> now | Some t \<Rightarrow> t);
                started = (if status = RUNNING \<and> wn_started current = None then Some timestamp
                           else wn_started current)
            in bindR (mk_node (current\<lparr>wn_status := status, wn_started := started,
                        wn_completed := (if terminal_status status then Some timestamp else None)\<rparr>)) (\<lambda>n.
                 Inr (g\<lparr>wg_nodes := dput k n (wg_nodes g)\<rparr>, n)))"

definition update_node :: "workflow_node \<Rightarrow> workflow_graph \<Rightarrow> workflow_graph result" where
  "update_node n g =
     (case dget (wg_nodes g) (wn_id n) of
        None \<Rightarrow> raiseR KeyError ''workflow node not found''
      | Some c \<Rightarrow>
          if wn_workflow n \<noteq> wn_workflow c \<or> wn_status n \<noteq> wn_status c \<or> wn_created n \<noteq> wn_created c \<or>
             wn_started n \<noteq> wn_started c \<or> wn_completed n \<noteq> wn_completed c
          then raiseR ValueError ''metadata update cannot change node identity or state''
          else Inr (g\<lparr>wg_nodes := dput (wn_id n) n (wg_nodes g)\<rparr>))"

definition new_graph :: "workflow \<Rightarrow> workflow_node list \<Rightarrow> workflow_edge list \<Rightarrow> workflow_graph result" where
  "new_graph w nodes edges =
     bindR (foldR add_node nodes \<lparr>wg_workflow = w, wg_nodes = [], wg_edges = []\<rparr>) (foldR add_edge edges)"

definition snapshot :: "workflow_graph \<Rightarrow> workflow \<times> workflow_node list \<times> workflow_edge list" where
  "snapshot g = (wg_workflow g, dvals (wg_nodes g), wg_edges g)"

datatype graph_op =
    AddNode workflow_node
  | AddEdge workflow_edge
  | Transition int string node_status "int option"
  | UpdateNode workflow_node

definition keep :: "'s \<Rightarrow> 's result \<Rightarrow> 's" where
  "keep s r = (case r of Inl _ \<Rightarrow> s | Inr s' \<Rightarrow> s')"

text \<open>A raising method leaves the graph as it was; arguments are values their constructors accepted.\<close>

fun graph_step :: "graph_op \<Rightarrow> workflow_graph \<Rightarrow> workflow_graph" where
  "graph_step (AddNode n) g = keep g (bindR (mk_node n) (\<lambda>n. add_node n g))"
| "graph_step (AddEdge e) g = keep g (bindR (mk_edge e) (\<lambda>e. add_edge e g))"
| "graph_step (Transition now k s at) g = keep g (bindR (transition_node now k s at g) (\<lambda>(g', _). Inr g'))"
| "graph_step (UpdateNode n) g = keep g (bindR (mk_node n) (\<lambda>n. update_node n g))"

section \<open>The cycle check\<close>

definition edge_rel :: "workflow_edge list \<Rightarrow> (string \<times> string) set" where
  "edge_rel es = {(we_source e, we_target e) |e. e \<in> set es}"

lemma targets_of_rel: "set (targets_of es n) = edge_rel es `` {n}"
  by (auto simp: targets_of_def edge_rel_def)

lemma reach_loop_sound:
  "reach_loop es target pending visited \<Longrightarrow> \<exists>p \<in> set pending. (p, target) \<in> (edge_rel es)\<^sup>*"
proof (induction es target pending visited rule: reach_loop.induct)
  case (2 es target n rest visited)
  consider "n = target" | "n \<noteq> target" "n \<in> set visited" | "n \<noteq> target" "n \<notin> set visited" by blast
  then show ?case
  proof cases
    case 3
    then obtain p where p: "p \<in> set (rev (targets_of es n) @ rest)" "(p, target) \<in> (edge_rel es)\<^sup>*"
      using 2(2,3) by auto
    then consider "(n, p) \<in> edge_rel es" | "p \<in> set rest" by (auto simp: targets_of_rel)
    then show ?thesis using p(2) by cases (auto intro: converse_rtrancl_into_rtrancl)
  qed (use 2 in auto)
qed simp

definition expanded :: "workflow_edge list \<Rightarrow> string \<Rightarrow> string list \<Rightarrow> string list \<Rightarrow> bool" where
  "expanded es target pending visited \<longleftrightarrow> target \<notin> set visited \<and>
     (\<forall>v \<in> set visited. edge_rel es `` {v} \<subseteq> set visited \<union> set pending)"

lemma reach_loop_complete:
  "\<not> reach_loop es target pending visited \<Longrightarrow> expanded es target pending visited \<Longrightarrow>
   \<exists>V. set pending \<union> set visited \<subseteq> V \<and> target \<notin> V \<and> (\<forall>v \<in> V. edge_rel es `` {v} \<subseteq> V)"
proof (induction es target pending visited rule: reach_loop.induct)
  case (1 es target visited)
  then show ?case by (intro exI [of _ "set visited"]) (auto simp: expanded_def)
next
  case (2 es target n rest visited)
  have ne: "n \<noteq> target" using 2(3) by auto
  show ?case
  proof (cases "n \<in> set visited")
    case True
    then have "expanded es target rest visited" using 2(4) by (auto simp: expanded_def)
    moreover have "\<not> reach_loop es target rest visited" using 2(3) ne True by simp
    ultimately obtain V where "set rest \<union> set visited \<subseteq> V \<and> target \<notin> V \<and> (\<forall>v \<in> V. edge_rel es `` {v} \<subseteq> V)"
      using 2(1) [OF ne True] by metis
    then show ?thesis using True by (intro exI [of _ V]) auto
  next
    case False
    have "expanded es target (rev (targets_of es n) @ rest) (n # visited)"
      using 2(4) ne by (auto simp: expanded_def targets_of_rel)
    moreover have "\<not> reach_loop es target (rev (targets_of es n) @ rest) (n # visited)"
      using 2(3) ne False by simp
    ultimately obtain V where "set (rev (targets_of es n) @ rest) \<union> set (n # visited) \<subseteq> V \<and> target \<notin> V \<and>
        (\<forall>v \<in> V. edge_rel es `` {v} \<subseteq> V)"
      using 2(2) [OF ne False] by metis
    then show ?thesis by (intro exI [of _ V]) auto
  qed
qed

lemma reachable_iff: "reachable es s t \<longleftrightarrow> (s, t) \<in> (edge_rel es)\<^sup>*"
proof
  assume "reachable es s t"
  then show "(s, t) \<in> (edge_rel es)\<^sup>*" using reach_loop_sound [of es t "[s]" "[]"] by (simp add: reachable_def)
next
  assume st: "(s, t) \<in> (edge_rel es)\<^sup>*"
  show "reachable es s t"
  proof (rule ccontr)
    assume "\<not> reachable es s t"
    then obtain V where V: "s \<in> V" "t \<notin> V" "\<forall>v \<in> V. edge_rel es `` {v} \<subseteq> V"
      using reach_loop_complete [of es t "[s]" "[]"] by (auto simp: reachable_def expanded_def)
    from st have "t \<in> V" using V(1) by (induction rule: rtrancl_induct) (use V(3) in auto)
    then show False using V by simp
  qed
qed

section \<open>The invariant of the graph\<close>

definition node_ok :: "workflow_node \<Rightarrow> bool" where
  "node_ok n = okR (mk_node n)"

lemma mk_node_iff [simp]: "mk_node n = Inr m \<longleftrightarrow> m = n \<and> node_ok n"
proof -
  have same: "mk_node n = Inr m \<Longrightarrow> m = n" for m
    by (simp add: mk_node_def split: if_split_asm)
  show ?thesis unfolding node_ok_def okR_iff using same by metis
qed

lemma mk_edge_iff: "mk_edge e = Inr e' \<Longrightarrow> e' = e"
  by (auto simp: mk_edge_def split: if_splits)

lemma node_okD:
  assumes "node_ok n"
  shows "terminal_status (wn_status n) \<longleftrightarrow> wn_completed n \<noteq> None"
    and "wn_completed n = Some c \<Longrightarrow> wn_created n \<le> c \<and> (\<forall>s. wn_started n = Some s \<longrightarrow> s \<le> c)"
  using assms by (simp_all add: node_ok_def mk_node_def split: if_splits option.splits)

definition graph_inv :: "workflow_graph \<Rightarrow> bool" where
  "graph_inv g \<longleftrightarrow>
     list_all (\<lambda>(k, n). wn_id n = k \<and> node_ok n \<and> wn_workflow n = wf_id (wg_workflow g)) (wg_nodes g) \<and>
     list_all (\<lambda>e. dget (wg_nodes g) (we_source e) \<noteq> None \<and> dget (wg_nodes g) (we_target e) \<noteq> None \<and>
                   we_workflow e = wf_id (wg_workflow g)) (wg_edges g) \<and>
     distinct (dkeys (wg_nodes g)) \<and> distinct (wg_edges g) \<and> acyclic (edge_rel (wg_edges g))"

lemma graph_inv_put:
  assumes "graph_inv g" "wn_id n = k" "node_ok n" "wn_workflow n = wf_id (wg_workflow g)"
  shows "graph_inv (g\<lparr>wg_nodes := dput k n (wg_nodes g)\<rparr>)"
proof -
  have "list_all (\<lambda>(k, n). wn_id n = k \<and> node_ok n \<and> wn_workflow n = wf_id (wg_workflow g)) (dput k n (wg_nodes g))"
    using assms dput_set [of k n "wg_nodes g"] by (auto simp: graph_inv_def list_all_iff)
  then show ?thesis using assms(1) by (auto simp: graph_inv_def list_all_iff distinct_dput)
qed

lemma graph_inv_node:
  assumes "graph_inv g" "dget (wg_nodes g) k = Some n"
  shows "wn_id n = k" "node_ok n" "wn_workflow n = wf_id (wg_workflow g)"
  using assms by (auto simp: graph_inv_def list_all_iff dest!: dget_Some_in)

lemma add_node_inv: "graph_inv g \<Longrightarrow> node_ok n \<Longrightarrow> add_node n g = Inr g' \<Longrightarrow> graph_inv g'"
  by (auto simp: add_node_def intro!: graph_inv_put split: if_splits)

text \<open>
  An edge is accepted exactly when its ends exist in the same workflow and the graph with it has no
  cycle.
\<close>

lemma edge_rel_snoc: "edge_rel (es @ [e]) = insert (we_source e, we_target e) (edge_rel es)"
  by (auto simp: edge_rel_def)

lemma add_edge_cycle_iff:
  assumes "acyclic (edge_rel es)"
  shows "we_source e \<noteq> we_target e \<and> \<not> reachable es (we_target e) (we_source e) \<longleftrightarrow>
     acyclic (edge_rel (es @ [e]))"
proof -
  have "we_source e \<noteq> we_target e" if "(we_target e, we_source e) \<notin> (edge_rel es)\<^sup>*" using that by auto
  then show ?thesis using assms by (auto simp: edge_rel_snoc acyclic_insert reachable_iff)
qed

lemma add_edge_inv: "graph_inv g \<Longrightarrow> add_edge e g = Inr g' \<Longrightarrow> graph_inv g'"
  using add_edge_cycle_iff [of "wg_edges g" e]
  by (auto simp: add_edge_def graph_inv_def split: if_splits)

lemma transition_InrD:
  assumes "transition_node now k s at g = Inr (g', n)"
  shows "(g' = g \<and> dget (wg_nodes g) k = Some n \<and> wn_status n = s) \<or>
    (\<exists>c. dget (wg_nodes g) k = Some c \<and> s \<in> set (transitions (wn_status c)) \<and> wn_status n = s \<and>
       wn_id n = wn_id c \<and> wn_workflow n = wn_workflow c \<and> node_ok n \<and>
       g' = g\<lparr>wg_nodes := dput k n (wg_nodes g)\<rparr>)"
proof -
  obtain c where c: "dget (wg_nodes g) k = Some c"
    using assms by (auto simp: transition_node_def split: option.splits)
  show ?thesis
    using assms
    by (auto simp: transition_node_def c Let_def bindR_Inr_iff split: if_splits)
qed

lemma transition_inv:
  assumes "graph_inv g" "transition_node now k s at g = Inr (g', n)"
  shows "graph_inv g'"
  using transition_InrD [OF assms(2)] assms(1) graph_inv_node [OF assms(1)]
  by (auto intro!: graph_inv_put)

lemma update_inv:
  assumes "graph_inv g" "node_ok n" "update_node n g = Inr g'"
  shows "graph_inv g'"
  using assms graph_inv_node [OF assms(1)]
  by (auto simp: update_node_def intro!: graph_inv_put split: option.splits if_splits)

lemma keep_bind:
  assumes "P s" "\<And>x s'. r = Inr x \<Longrightarrow> f x = Inr s' \<Longrightarrow> P s'"
  shows "P (keep s (bindR r f))"
  using assms by (cases r) (auto simp: keep_def split: sum.splits)

lemma graph_step_inv: "graph_inv g \<Longrightarrow> graph_inv (graph_step op g)"
proof (induction op g rule: graph_step.induct)
  case (1 n g)
  show ?case unfolding graph_step.simps
    by (rule keep_bind [where P = graph_inv, OF 1]) (metis mk_node_iff add_node_inv 1)
next
  case (2 e g)
  show ?case unfolding graph_step.simps
    by (rule keep_bind [where P = graph_inv, OF 2]) (metis add_edge_inv 2)
next
  case (3 now k s at g)
  show ?case unfolding graph_step.simps
    by (rule keep_bind [where P = graph_inv, OF 3]) (use 3 transition_inv in \<open>fastforce split: prod.splits\<close>)
next
  case (4 n g)
  show ?case unfolding graph_step.simps
    by (rule keep_bind [where P = graph_inv, OF 4]) (metis mk_node_iff update_inv 4)
qed

text \<open>Between two states of the graph every node has moved along the transition table only.\<close>

definition may_become :: "node_status \<Rightarrow> node_status \<Rightarrow> bool" where
  "may_become s t = (t \<in> set (transitions s))"

definition graph_le :: "workflow_graph \<Rightarrow> workflow_graph \<Rightarrow> bool" where
  "graph_le g g' \<longleftrightarrow> (\<forall>k n. dget (wg_nodes g) k = Some n \<longrightarrow>
     (\<exists>n'. dget (wg_nodes g') k = Some n' \<and> may_become\<^sup>*\<^sup>* (wn_status n) (wn_status n') \<and> wn_created n' = wn_created n))"

lemma transition_created:
  assumes "transition_node now k s at g = Inr (g', n)" "dget (wg_nodes g) k = Some c"
  shows "wn_created n = wn_created c"
  using assms by (auto simp: transition_node_def Let_def bindR_Inr_iff split: if_splits)

lemma graph_le_put:
  assumes "\<And>c. dget (wg_nodes g) k = Some c \<Longrightarrow> may_become\<^sup>*\<^sup>* (wn_status c) (wn_status n) \<and> wn_created n = wn_created c"
  shows "graph_le g (g\<lparr>wg_nodes := dput k n (wg_nodes g)\<rparr>)"
  using assms by (auto simp: graph_le_def)

lemma graph_le_refl [simp]: "graph_le g g"
  by (auto simp: graph_le_def)

lemma graph_le_trans: "graph_le a b \<Longrightarrow> graph_le b c \<Longrightarrow> graph_le a c"
  unfolding graph_le_def by (metis rtranclp_trans)

lemma transition_le: "transition_node now k s at g = Inr (g', n) \<Longrightarrow> graph_le g g'"
  using transition_InrD [of now k s at g g' n] transition_created [of now k s at g g' n]
  by (auto intro!: graph_le_put r_into_rtranclp simp: may_become_def)

lemma add_node_le: "add_node n g = Inr g' \<Longrightarrow> graph_le g g'"
  by (auto simp: add_node_def intro!: graph_le_put split: if_splits)

lemma update_le: "update_node n g = Inr g' \<Longrightarrow> graph_le g g'"
  by (auto simp: update_node_def intro!: graph_le_put split: if_splits option.splits)

lemma add_edge_le: "add_edge e g = Inr g' \<Longrightarrow> graph_le g g'"
  by (auto simp: add_edge_def graph_le_def split: if_splits)

lemma graph_step_le: "graph_le g (graph_step op g)"
proof (induction op g rule: graph_step.induct)
  case (1 n g)
  show ?case unfolding graph_step.simps by (rule keep_bind [where P = "graph_le g"]) (simp, erule add_node_le)
next
  case (2 e g)
  show ?case unfolding graph_step.simps by (rule keep_bind [where P = "graph_le g"]) (simp, erule add_edge_le)
next
  case (3 now k s at g)
  show ?case unfolding graph_step.simps
    by (rule keep_bind [where P = "graph_le g"]) (simp, use transition_le in \<open>fastforce split: prod.splits\<close>)
next
  case (4 n g)
  show ?case unfolding graph_step.simps by (rule keep_bind [where P = "graph_le g"]) (simp, erule update_le)
qed

interpretation workflow_machine: monotone_machine graph_step graph_inv graph_le
  by unfold_locales (auto simp: graph_step_inv graph_step_le intro: graph_le_trans)

definition node_final :: "node_status \<Rightarrow> bool" where
  "node_final s = (s \<in> {FAILED, CANCELLED})"

interpretation node_lifecycle: status_graph may_become node_final
  by unfold_locales (auto simp: may_become_def node_final_def)

abbreviation fresh_graph :: "workflow \<Rightarrow> workflow_graph" where
  "fresh_graph w \<equiv> \<lparr>wg_workflow = w, wg_nodes = [], wg_edges = []\<rparr>"

lemma fresh_graph_inv: "graph_inv (fresh_graph w)"
  by (simp add: graph_inv_def edge_rel_def acyclic_def dkeys_def)

definition times_agree :: "workflow_node \<Rightarrow> bool" where
  "times_agree n =
     (case wn_completed n of
        None \<Rightarrow> \<not> terminal_status (wn_status n)
      | Some c \<Rightarrow> terminal_status (wn_status n) \<and> wn_created n \<le> c \<and>
                  (case wn_started n of None \<Rightarrow> True | Some s \<Rightarrow> s \<le> c))"

lemma node_ok_times: "node_ok n \<Longrightarrow> times_agree n"
  using node_okD(1) [of n] node_okD(2) [of n] by (auto simp: times_agree_def split: option.splits)

text \<open>
  C22: after any sequence of node, edge, transition and metadata operations on a fresh graph
  (each possibly refused), the dependency relation has no cycle, every edge joins existing nodes of the
  workflow, and every node has a completion time exactly when its status is terminal, not before its
  start or its creation.
\<close>

theorem workflow_graph_stays_valid:
  "let g = fold graph_step ops (fresh_graph w) in
     acyclic (edge_rel (wg_edges g)) \<and>
     list_all (\<lambda>e. we_source e \<in> set (dkeys (wg_nodes g)) \<and> we_target e \<in> set (dkeys (wg_nodes g))) (wg_edges g) \<and>
     list_all (\<lambda>(k, n). wn_id n = k \<and> times_agree n) (wg_nodes g)"
proof -
  let ?g = "fold graph_step ops (fresh_graph w)"
  have inv: "graph_inv ?g" by (rule workflow_machine.run_inv [OF fresh_graph_inv])
  have "k \<in> set (dkeys (wg_nodes ?g))" if "dget (wg_nodes ?g) k \<noteq> None" for k
    using that by (auto simp: dget_None_iff)
  then have "list_all (\<lambda>e. we_source e \<in> set (dkeys (wg_nodes ?g)) \<and> we_target e \<in> set (dkeys (wg_nodes ?g))) (wg_edges ?g)"
    using inv by (auto simp: graph_inv_def list_all_iff)
  moreover have "list_all (\<lambda>(k, n). wn_id n = k \<and> times_agree n) (wg_nodes ?g)"
    using inv by (auto simp: graph_inv_def list_all_iff intro: node_ok_times)
  ultimately show ?thesis using inv by (simp add: graph_inv_def Let_def)
qed

text \<open>
  C18: on every graph the operations can build, an edge of the same workflow between existing
  nodes is accepted exactly when the graph with it still has no cycle; the depth-first search neither
  misses a cycle nor refuses a harmless edge.
\<close>

theorem add_edge_accepts_iff_acyclic:
  "let g = fold graph_step ops (fresh_graph w) in
     okR (add_edge e g) \<longleftrightarrow>
       we_workflow e = wf_id (wg_workflow g) \<and> dget (wg_nodes g) (we_source e) \<noteq> None \<and>
       dget (wg_nodes g) (we_target e) \<noteq> None \<and> acyclic (edge_rel (wg_edges g @ [e]))"
proof -
  let ?g = "fold graph_step ops (fresh_graph w)"
  have "acyclic (edge_rel (wg_edges ?g))"
    using workflow_machine.run_inv [OF fresh_graph_inv] by (simp add: graph_inv_def)
  from add_edge_cycle_iff [OF this, of e] show ?thesis
    by (auto simp: add_edge_def Let_def)
qed

text \<open>
  a node that has failed or was cancelled keeps that status through every later
  sequence of operations, and stays in the graph.
\<close>

theorem final_nodes_stay_final:
  assumes "dget (wg_nodes (fold graph_step ops (fresh_graph w))) k = Some n" "node_final (wn_status n)"
  shows "\<exists>n'. dget (wg_nodes (fold graph_step (ops @ later) (fresh_graph w))) k = Some n' \<and> wn_status n' = wn_status n"
proof -
  let ?g = "fold graph_step ops (fresh_graph w)"
  have "graph_le ?g (fold graph_step later ?g)"
    by (intro workflow_machine.run_le workflow_machine.run_inv fresh_graph_inv)
  then obtain n' where "dget (wg_nodes (fold graph_step later ?g)) k = Some n'"
    "may_become\<^sup>*\<^sup>* (wn_status n) (wn_status n')"
    using assms(1) unfolding graph_le_def by blast
  then show ?thesis using node_lifecycle.final_absorbing [OF _ assms(2)] by auto
qed

definition sample_workflow :: workflow where
  "sample_workflow = \<lparr>wf_id = ''w'', wf_root_thread = ''t'', wf_task = ''k'', wf_title = ''x'', wf_status = WF_ACTIVE,
     wf_created = 0, wf_updated = 0\<rparr>"

definition sample_node :: "string \<Rightarrow> workflow_node" where
  "sample_node i = \<lparr>wn_id = i, wn_workflow = ''w'', wn_kind = ''step'', wn_title = ''x'', wn_status = PLANNED,
     wn_thread = None, wn_role = ''main'', wn_inputs = [], wn_outputs = [], wn_evidence = [], wn_checkpoint = None,
     wn_created = 0, wn_started = None, wn_completed = None\<rparr>"

definition sample_graph_ops :: "graph_op list" where
  "sample_graph_ops = [AddNode (sample_node ''a''), AddNode (sample_node ''b''),
     AddEdge \<lparr>we_workflow = ''w'', we_source = ''a'', we_target = ''b'', we_kind = REQUIRES\<rparr>,
     AddEdge \<lparr>we_workflow = ''w'', we_source = ''b'', we_target = ''a'', we_kind = REQUIRES\<rparr>,
     Transition 5 ''a'' CANCELLED None]"

lemma sample_graph_cancelled:
  "someP (\<lambda>n. wn_status n = CANCELLED) (dget (wg_nodes (fold graph_step sample_graph_ops (fresh_graph sample_workflow))) ''a'')"
  "length (wg_edges (fold graph_step sample_graph_ops (fresh_graph sample_workflow))) = 1"
  by code_simp+

theorem final_nodes_stay_final_witness:
  "\<exists>n'. dget (wg_nodes (fold graph_step (sample_graph_ops @ [Transition 9 ''a'' RUNNING None]) (fresh_graph sample_workflow))) ''a''
     = Some n' \<and> wn_status n' = CANCELLED"
proof -
  obtain n where n: "dget (wg_nodes (fold graph_step sample_graph_ops (fresh_graph sample_workflow))) ''a'' = Some n"
    "wn_status n = CANCELLED"
    using sample_graph_cancelled(1) by (elim someP_E)
  have "node_final (wn_status n)" by (simp add: n(2) node_final_def)
  from final_nodes_stay_final [OF n(1) this] show ?thesis unfolding n(2) by blast
qed

end
