(* ===== verification/Workflow_Service.thy ===== *)
theory Workflow_Service
  imports Workflow
begin

text \<open>
  The projection of host observations onto workflow graphs: \<open>src/src/code_agent/workflows/observations.py\<close>
  and \<open>service.py\<close>. The store is what its protocol says: the last snapshot saved for a task, an ordered
  dictionary by task id. One observation reads the clock \<open>now\<close>. Listeners cannot influence the result
  (their exceptions are swallowed) and are left out. A title longer than the bound is cut; the ellipsis
  character is outside the model's alphabet and stands as a full stop.
\<close>

section \<open>Observations\<close>

datatype observation =
    TaskCreated (ob_task: string) (ob_thread: string) (ob_title: string)
  | ChildRun (ob_task: string) (ob_run: string) (ob_thread: string) (ob_role: string) (ob_title: string) node_status
  | Verification (ob_task: string) (ob_node: string) bool "string list"
  | EvidenceInvalidated (ob_task: string) (ob_node: string)
  | Delivery (ob_task: string) (ob_node: string) node_status
  | Recovery (ob_task: string) "string list"

type_synonym wf_snapshot = "workflow \<times> workflow_node list \<times> workflow_edge list"

type_synonym wf_store = "(string \<times> wf_snapshot) list"

definition text_arg :: "string \<Rightarrow> string result" where
  "text_arg v = (if blank v then raiseR ValueError ''must be non-blank text'' else Inr v)"

definition main_id :: "string \<Rightarrow> string" where
  "main_id task = ''main:'' @ task"

definition child_title :: "string \<Rightarrow> string result" where
  "child_title v = bindR (text_arg v) (\<lambda>t. Inr (if length t \<le> 512 then t else take 511 t @ ''.''))"

text \<open>What the dataclass fills in for a new node.\<close>

definition default_node :: "int \<Rightarrow> string \<Rightarrow> string \<Rightarrow> string \<Rightarrow> string \<Rightarrow> workflow_node" where
  "default_node now i workflow kind title =
     \<lparr>wn_id = i, wn_workflow = workflow, wn_kind = kind, wn_title = title, wn_status = PLANNED,
      wn_thread = None, wn_role = ''main'', wn_inputs = [], wn_outputs = [], wn_evidence = [],
      wn_checkpoint = None, wn_created = now, wn_started = None, wn_completed = None\<rparr>"

definition insert_node :: "workflow_node \<Rightarrow> workflow_graph \<Rightarrow> workflow_graph result" where
  "insert_node n g = bindR (mk_node n) (\<lambda>n. add_node n g)"

definition insert_edge :: "workflow_edge \<Rightarrow> workflow_graph \<Rightarrow> workflow_graph result" where
  "insert_edge e g = bindR (mk_edge e) (\<lambda>e. add_edge e g)"

definition node_of :: "string \<Rightarrow> workflow_graph \<Rightarrow> workflow_node result" where
  "node_of k g =
     (case find (\<lambda>n. wn_id n = k) (dvals (wg_nodes g)) of
        None \<Rightarrow> raiseR RuntimeError ''StopIteration'' | Some n \<Rightarrow> Inr n)"

definition has_node :: "string \<Rightarrow> workflow_graph \<Rightarrow> bool" where
  "has_node k g = list_ex (\<lambda>n. wn_id n = k) (dvals (wg_nodes g))"

section \<open>Advancing a node\<close>

fun advance_path :: "node_status \<Rightarrow> node_status list option" where
  "advance_path QUEUED = Some [QUEUED]"
| "advance_path RUNNING = Some [QUEUED, RUNNING]"
| "advance_path VERIFYING = Some [QUEUED, RUNNING, VERIFYING]"
| "advance_path COMPLETED = Some [QUEUED, RUNNING, COMPLETED]"
| "advance_path FAILED = Some [QUEUED, RUNNING, FAILED]"
| "advance_path CANCELLED = Some [CANCELLED]"
| "advance_path s = None"

definition is_value_error :: "exn \<Rightarrow> bool" where
  "is_value_error e = (case e of Exn c _ \<Rightarrow> c \<in> {ValueError, WorkflowCycleError, WorkflowTransitionError})"

fun advance_along :: "int \<Rightarrow> string \<Rightarrow> node_status \<Rightarrow> node_status list \<Rightarrow> workflow_graph \<Rightarrow> workflow_graph result" where
  "advance_along now k target [] g = Inr g"
| "advance_along now k target (s # path) g =
     bindR (node_of k g) (\<lambda>n.
     if wn_status n = s then advance_along now k target path g
     else case transition_node now k s None g of
            Inr (g', _) \<Rightarrow> advance_along now k target path g'
          | Inl e \<Rightarrow> if is_value_error e \<and> s \<noteq> target then advance_along now k target path g else Inl e)"

definition advance :: "int \<Rightarrow> string \<Rightarrow> node_status \<Rightarrow> workflow_graph \<Rightarrow> workflow_graph result" where
  "advance now k target g =
     bindR (node_of k g) (\<lambda>n.
     if wn_status n = target then Inr g
     else case advance_path target of
            None \<Rightarrow> bindR (transition_node now k target None g) (\<lambda>(g', _). Inr g')
          | Some path \<Rightarrow> advance_along now k target path g)"

section \<open>One observation\<close>

definition load_graph :: "wf_store \<Rightarrow> string \<Rightarrow> workflow_graph result" where
  "load_graph st task =
     bindR (text_arg task) (\<lambda>t.
     case dget st t of
       None \<Rightarrow> raiseR KeyError ''workflow task not found''
     | Some (w, nodes, edges) \<Rightarrow> new_graph w nodes edges)"

definition add_dependent_node ::
  "int \<Rightarrow> string \<Rightarrow> string \<Rightarrow> string \<Rightarrow> string \<Rightarrow> workflow_graph \<Rightarrow> workflow_graph result" where
  "add_dependent_node now k kind title source g =
     bindR (text_arg k) (\<lambda>_.
     bindR (insert_node (default_node now k (wf_id (wg_workflow g)) kind title) g)
       (insert_edge \<lparr>we_workflow = wf_id (wg_workflow g), we_source = source, we_target = k, we_kind = REQUIRES\<rparr>))"

definition set_evidence :: "string \<Rightarrow> string list \<Rightarrow> workflow_graph \<Rightarrow> workflow_graph result" where
  "set_evidence k refs g =
     bindR (node_of k g) (\<lambda>n. bindR (mk_node (n\<lparr>wn_evidence := refs\<rparr>)) (\<lambda>n. update_node n g))"

definition task_created :: "int \<Rightarrow> wf_store \<Rightarrow> string \<Rightarrow> string \<Rightarrow> string \<Rightarrow> wf_snapshot result" where
  "task_created now st task thread title =
     (case dget st task of
        Some existing \<Rightarrow> Inr existing
      | None \<Rightarrow>
          bindR (text_arg task) (\<lambda>_. bindR (text_arg thread) (\<lambda>_. bindR (text_arg title) (\<lambda>_.
          bindR (mk_workflow \<lparr>wf_id = ''workflow:'' @ task, wf_root_thread = thread, wf_task = task,
                   wf_title = title, wf_status = WF_ACTIVE, wf_created = now, wf_updated = now\<rparr> None) (\<lambda>w.
          bindR (insert_node ((default_node now (main_id task) (wf_id w) ''main'' title)\<lparr>wn_thread := Some thread\<rparr>)
                   \<lparr>wg_workflow = w, wg_nodes = [], wg_edges = []\<rparr>) (\<lambda>g.
          bindR (advance now (main_id task) RUNNING g) (\<lambda>g. Inr (snapshot g))))))))"

definition observe_child ::
  "int \<Rightarrow> string \<Rightarrow> string \<Rightarrow> string \<Rightarrow> string \<Rightarrow> string \<Rightarrow> node_status \<Rightarrow> workflow_graph \<Rightarrow> workflow_graph result" where
  "observe_child now task run thread role title status g =
     bindR (text_arg run) (\<lambda>_.
     bindR (if has_node run g then Inr g
            else bindR (child_title title) (\<lambda>t. bindR (text_arg thread) (\<lambda>_. bindR (text_arg role) (\<lambda>_.
              bindR (insert_node ((default_node now run (wf_id (wg_workflow g)) ''subagent'' t)
                       \<lparr>wn_thread := Some thread, wn_role := role\<rparr>) g)
                (insert_edge \<lparr>we_workflow = wf_id (wg_workflow g), we_source = main_id task,
                              we_target = run, we_kind = REQUIRES\<rparr>))))) (\<lambda>g.
     advance now run status g))"

definition observe_verification ::
  "int \<Rightarrow> string \<Rightarrow> string \<Rightarrow> bool \<Rightarrow> string list \<Rightarrow> workflow_graph \<Rightarrow> workflow_graph result" where
  "observe_verification now task k passed refs g =
     bindR (if has_node k g then Inr g
            else bindR (add_dependent_node now k ''verification'' ''Verification'' (main_id task) g)
                   (advance now k VERIFYING)) (\<lambda>g.
     bindR (advance now k (if passed then COMPLETED else FAILED) g) (\<lambda>g.
     if passed then set_evidence k refs g else Inr g))"

definition observe_invalidated :: "int \<Rightarrow> string \<Rightarrow> workflow_graph \<Rightarrow> workflow_graph result" where
  "observe_invalidated now k g = bindR (advance now k VERIFYING g) (set_evidence k [])"

definition observe_delivery ::
  "int \<Rightarrow> string \<Rightarrow> string \<Rightarrow> node_status \<Rightarrow> workflow_graph \<Rightarrow> workflow_graph result" where
  "observe_delivery now task k status g =
     (let parent = (case find (\<lambda>n. wn_kind n = ''verification'' \<and> wn_status n = COMPLETED) (dvals (wg_nodes g)) of
                      Some n \<Rightarrow> wn_id n | None \<Rightarrow> main_id task)
      in bindR (if has_node k g then Inr g else add_dependent_node now k ''delivery'' ''Delivery'' parent g)
           (advance now k status))"

definition recover_node :: "int \<Rightarrow> string list \<Rightarrow> workflow_node \<Rightarrow> workflow_graph \<Rightarrow> workflow_graph result" where
  "recover_node now live n g =
     (if (case wn_thread n of None \<Rightarrow> False | Some t \<Rightarrow> t \<in> set live) then Inr g
      else if wn_status n = RUNNING
      then bindR (transition_node now (wn_id n) BLOCKED None g) (\<lambda>(g, _).
           bindR (transition_node now (wn_id n) QUEUED None g) (\<lambda>(g, _). Inr g))
      else if wn_status n = VERIFYING
      then bindR (transition_node now (wn_id n) CANCELLED None g) (\<lambda>(g, _). Inr g)
      else Inr g)"

definition observe_recovery :: "int \<Rightarrow> string list \<Rightarrow> workflow_graph \<Rightarrow> workflow_graph result" where
  "observe_recovery now live g = foldR (recover_node now live) (dvals (wg_nodes g)) g"

definition on_graph :: "wf_store \<Rightarrow> string \<Rightarrow> (workflow_graph \<Rightarrow> workflow_graph result) \<Rightarrow> wf_snapshot result" where
  "on_graph st task f = bindR (load_graph st task) (\<lambda>g. bindR (f g) (\<lambda>g. Inr (snapshot g)))"

fun project :: "int \<Rightarrow> wf_store \<Rightarrow> observation \<Rightarrow> wf_snapshot result" where
  "project now st (TaskCreated task thread title) = task_created now st task thread title"
| "project now st (ChildRun task run thread role title status) =
     on_graph st task (observe_child now task run thread role title status)"
| "project now st (Verification task k passed refs) = on_graph st task (observe_verification now task k passed refs)"
| "project now st (EvidenceInvalidated task k) = on_graph st task (observe_invalidated now k)"
| "project now st (Delivery task k status) = on_graph st task (observe_delivery now task k status)"
| "project now st (Recovery task live) = on_graph st task (observe_recovery now live)"

definition observe :: "int \<Rightarrow> observation \<Rightarrow> wf_store \<Rightarrow> (wf_store \<times> wf_snapshot) result" where
  "observe now ob st =
     bindR (project now st ob) (\<lambda>snap. Inr (dput (wf_task (fst snap)) snap st, snap))"

section \<open>The operations keep the graph invariant\<close>

lemma node_of_dget:
  assumes "graph_inv g"
  shows "node_of k g = (case dget (wg_nodes g) k of None \<Rightarrow> raiseR RuntimeError ''StopIteration'' | Some n \<Rightarrow> Inr n)"
proof -
  have "find (\<lambda>n. wn_id n = k) (dvals ns) = dget ns k" if "list_all (\<lambda>(k, n). wn_id n = k) ns" for ns
    using that by (induction ns) (auto simp: dvals_def)
  moreover have "list_all (\<lambda>(k, n). wn_id n = k) (wg_nodes g)"
    using assms by (auto simp: graph_inv_def list_all_iff)
  ultimately have "find (\<lambda>n. wn_id n = k) (dvals (wg_nodes g)) = dget (wg_nodes g) k" by blast
  then show ?thesis by (simp only: node_of_def)
qed

lemma insert_node_inv: "graph_inv g \<Longrightarrow> insert_node n g = Inr g' \<Longrightarrow> graph_inv g'"
  by (auto simp: insert_node_def bindR_Inr_iff intro: add_node_inv)

lemma insert_edge_inv: "graph_inv g \<Longrightarrow> insert_edge e g = Inr g' \<Longrightarrow> graph_inv g'"
  by (auto simp: insert_edge_def bindR_Inr_iff intro: add_edge_inv)

lemma set_evidence_inv: "graph_inv g \<Longrightarrow> set_evidence k refs g = Inr g' \<Longrightarrow> graph_inv g'"
  by (auto simp: set_evidence_def bindR_Inr_iff intro: update_inv)

lemma advance_along_inv: "graph_inv g \<Longrightarrow> advance_along now k target path g = Inr g' \<Longrightarrow> graph_inv g'"
proof (induction now k target path g rule: advance_along.induct)
  case (2 now k target s path g)
  obtain n where n: "node_of k g = Inr n" using 2(5) by (auto simp: bindR_Inr_iff)
  show ?case
  proof (cases "wn_status n = s")
    case True
    then show ?thesis using 2(1) [of n] 2(4,5) n by simp
  next
    case False
    show ?thesis
    proof (cases "transition_node now k s None g")
      case (Inr r)
      obtain g1 m where r: "r = (g1, m)" by (cases r)
      have "graph_inv g1" using transition_inv [OF 2(4)] Inr r by simp
      moreover have "advance_along now k target path g1 = Inr g'" using 2(5) n False Inr r by simp
      ultimately show ?thesis using 2(3) False Inr r by blast
    next
      case (Inl e)
      then show ?thesis using 2(2) [of n e] 2(4,5) n False by (auto split: if_splits)
    qed
  qed
qed simp

lemma advance_inv: "graph_inv g \<Longrightarrow> advance now k target g = Inr g' \<Longrightarrow> graph_inv g'"
  by (auto simp: advance_def bindR_Inr_iff split: if_splits option.splits prod.splits
      intro: advance_along_inv transition_inv)

lemmas service_inv = insert_node_inv insert_edge_inv set_evidence_inv advance_inv

lemma add_dependent_inv: "graph_inv g \<Longrightarrow> add_dependent_node now k kind title source g = Inr g' \<Longrightarrow> graph_inv g'"
  by (auto simp: add_dependent_node_def bindR_Inr_iff dest: service_inv)

lemma observe_child_inv: "graph_inv g \<Longrightarrow> observe_child now task run th role title s g = Inr g' \<Longrightarrow> graph_inv g'"
  by (auto simp: observe_child_def bindR_Inr_iff split: if_splits dest: service_inv) (metis service_inv)

lemma observe_verification_inv: "graph_inv g \<Longrightarrow> observe_verification now task k p refs g = Inr g' \<Longrightarrow> graph_inv g'"
  by (auto simp: observe_verification_def bindR_Inr_iff split: if_splits dest: service_inv add_dependent_inv)
     (metis service_inv add_dependent_inv)+

lemma observe_invalidated_inv: "graph_inv g \<Longrightarrow> observe_invalidated now k g = Inr g' \<Longrightarrow> graph_inv g'"
  by (auto simp: observe_invalidated_def bindR_Inr_iff dest: service_inv)

lemma observe_delivery_inv: "graph_inv g \<Longrightarrow> observe_delivery now task k s g = Inr g' \<Longrightarrow> graph_inv g'"
  by (auto simp: observe_delivery_def Let_def bindR_Inr_iff split: if_splits dest: service_inv add_dependent_inv)

lemma recover_node_inv: "graph_inv g \<Longrightarrow> recover_node now live n g = Inr g' \<Longrightarrow> graph_inv g'"
  by (auto simp: recover_node_def bindR_Inr_iff split: if_splits prod.splits intro: transition_inv)

lemma observe_recovery_inv: "graph_inv g \<Longrightarrow> observe_recovery now live g = Inr g' \<Longrightarrow> graph_inv g'"
  unfolding observe_recovery_def
  using foldR_invariant [of graph_inv "recover_node now live" g "dvals (wg_nodes g)" g'] recover_node_inv by blast

section \<open>Reloading a snapshot\<close>

lemma reload_nodes:
  assumes "list_all (\<lambda>(k, n). wn_id n = k \<and> wn_workflow n = wf_id w) ns" "distinct (dkeys (pre @ ns))"
  shows "foldR add_node (dvals ns) \<lparr>wg_workflow = w, wg_nodes = pre, wg_edges = es\<rparr>
    = Inr \<lparr>wg_workflow = w, wg_nodes = pre @ ns, wg_edges = es\<rparr>"
  using assms
proof (induction ns arbitrary: pre)
  case (Cons p ns)
  obtain n where p: "p = (wn_id n, n)" "wn_workflow n = wf_id w" using Cons.prems(1) by (cases p) auto
  have new: "dget pre (wn_id n) = None" using Cons.prems(2) p by (auto simp: dget_None_iff dkeys_def)
  have "foldR add_node (dvals ns) \<lparr>wg_workflow = w, wg_nodes = pre @ [p], wg_edges = es\<rparr>
      = Inr \<lparr>wg_workflow = w, wg_nodes = (pre @ [p]) @ ns, wg_edges = es\<rparr>"
    by (rule Cons.IH) (use Cons.prems in auto)
  moreover have "add_node n \<lparr>wg_workflow = w, wg_nodes = pre, wg_edges = es\<rparr> =
      Inr \<lparr>wg_workflow = w, wg_nodes = pre @ [p], wg_edges = es\<rparr>"
    by (simp add: p add_node_def new dput_new)
  ultimately show ?case by (simp add: p dvals_def)
qed (simp add: dvals_def)

lemma reload_edges:
  assumes "acyclic (edge_rel (pre @ es))" "distinct (pre @ es)"
    and "list_all (\<lambda>e. dget ns (we_source e) \<noteq> None \<and> dget ns (we_target e) \<noteq> None \<and> we_workflow e = wf_id w) es"
  shows "foldR add_edge es \<lparr>wg_workflow = w, wg_nodes = ns, wg_edges = pre\<rparr>
    = Inr \<lparr>wg_workflow = w, wg_nodes = ns, wg_edges = pre @ es\<rparr>"
  using assms
proof (induction es arbitrary: pre)
  case (Cons e es)
  have sub: "acyclic (edge_rel (pre @ [e]))" "acyclic (edge_rel pre)"
    using Cons.prems(1) by (auto simp: edge_rel_def elim!: acyclic_subset)
  then have "we_source e \<noteq> we_target e \<and> \<not> reachable pre (we_target e) (we_source e)"
    using add_edge_cycle_iff [OF sub(2)] by blast
  then have "add_edge e \<lparr>wg_workflow = w, wg_nodes = ns, wg_edges = pre\<rparr> =
      Inr \<lparr>wg_workflow = w, wg_nodes = ns, wg_edges = pre @ [e]\<rparr>"
    using Cons.prems(2,3) by (auto simp: add_edge_def)
  moreover have "foldR add_edge es \<lparr>wg_workflow = w, wg_nodes = ns, wg_edges = pre @ [e]\<rparr>
      = Inr \<lparr>wg_workflow = w, wg_nodes = ns, wg_edges = (pre @ [e]) @ es\<rparr>"
    by (rule Cons.IH) (use Cons.prems in auto)
  ultimately show ?case by simp
qed simp

lemma reload_graph:
  assumes "graph_inv g"
  shows "new_graph (wg_workflow g) (dvals (wg_nodes g)) (wg_edges g) = Inr g"
proof -
  have "foldR add_node (dvals (wg_nodes g)) \<lparr>wg_workflow = wg_workflow g, wg_nodes = [], wg_edges = []\<rparr>
     = Inr \<lparr>wg_workflow = wg_workflow g, wg_nodes = wg_nodes g, wg_edges = []\<rparr>"
    using reload_nodes [of "wg_workflow g" "wg_nodes g" "[]" "[]"] assms
    by (auto simp: graph_inv_def list_all_iff)
  moreover have "foldR add_edge (wg_edges g) \<lparr>wg_workflow = wg_workflow g, wg_nodes = wg_nodes g, wg_edges = []\<rparr>
     = Inr \<lparr>wg_workflow = wg_workflow g, wg_nodes = wg_nodes g, wg_edges = wg_edges g\<rparr>"
    using reload_edges [of "[]" "wg_edges g" "wg_nodes g" "wg_workflow g"] assms
    by (simp add: graph_inv_def)
  ultimately show ?thesis by (simp add: new_graph_def)
qed

section \<open>The store\<close>

definition snapshot_inv :: "string \<Rightarrow> wf_snapshot \<Rightarrow> bool" where
  "snapshot_inv task snap \<longleftrightarrow> (\<exists>g. graph_inv g \<and> snap = snapshot g \<and> wf_task (wg_workflow g) = task)"

definition store_inv :: "wf_store \<Rightarrow> bool" where
  "store_inv st = list_all (\<lambda>(task, snap). snapshot_inv task snap) st"

definition same_task :: "workflow_graph \<Rightarrow> workflow_graph \<Rightarrow> bool" where
  "same_task g g' = (wg_workflow g' = wg_workflow g)"

text \<open>A step of the service: a refused observation saves nothing.\<close>

definition observe_step :: "int \<times> observation \<Rightarrow> wf_store \<Rightarrow> wf_store" where
  "observe_step p st = (case observe (fst p) (snd p) st of Inl _ \<Rightarrow> st | Inr (st', _) \<Rightarrow> st')"

lemma store_invD: "store_inv st \<Longrightarrow> dget st task = Some snap \<Longrightarrow> snapshot_inv task snap"
  by (auto simp: store_inv_def list_all_iff dest!: dget_Some_in)

lemma load_graph_inv:
  assumes "store_inv st" "load_graph st task = Inr g"
  shows "graph_inv g"
proof -
  obtain w ns es where s: "dget st task = Some (w, ns, es)" "new_graph w ns es = Inr g"
    using assms(2) by (auto simp: load_graph_def bindR_Inr_iff text_arg_def split: option.splits if_splits)
  then obtain g0 where g0: "graph_inv g0" "(w, ns, es) = snapshot g0"
    using store_invD [OF assms(1) s(1)] by (auto simp: snapshot_inv_def)
  then show ?thesis using reload_graph [OF g0(1)] s(2) by (simp add: snapshot_def)
qed

lemma on_graph_inv:
  assumes "store_inv st" "on_graph st task f = Inr snap"
    and "\<And>g g'. graph_inv g \<Longrightarrow> f g = Inr g' \<Longrightarrow> graph_inv g'"
  shows "\<exists>g. graph_inv g \<and> snap = snapshot g"
  using assms load_graph_inv [OF assms(1), of task] by (auto simp: on_graph_def bindR_Inr_iff)

lemma task_created_inv:
  assumes "store_inv st" "task_created now st task thread title = Inr snap"
  shows "\<exists>g. graph_inv g \<and> snap = snapshot g"
proof (cases "dget st task")
  case (Some existing)
  then show ?thesis using assms
    by (auto simp: task_created_def store_inv_def list_all_iff snapshot_inv_def dest!: dget_Some_in)
next
  case None
  obtain w n g1 g where "insert_node n (fresh_graph w) = Inr g1" "advance now (main_id task) RUNNING g1 = Inr g" "snap = snapshot g"
    using assms(2) None by (auto simp: task_created_def bindR_Inr_iff)
  then show ?thesis using service_inv fresh_graph_inv by metis
qed

lemma project_inv:
  assumes "store_inv st" "project now st ob = Inr snap"
  shows "\<exists>g. graph_inv g \<and> snap = snapshot g"
proof (cases ob)
  case (TaskCreated t th ti)
  then show ?thesis using assms task_created_inv by auto
next
  case (ChildRun t r th ro ti s)
  then show ?thesis using assms(2) by (auto intro: on_graph_inv [OF assms(1)] observe_child_inv)
next
  case (Verification t k p r)
  then show ?thesis using assms(2) by (auto intro: on_graph_inv [OF assms(1)] observe_verification_inv)
next
  case (EvidenceInvalidated t k)
  then show ?thesis using assms(2) by (auto intro: on_graph_inv [OF assms(1)] observe_invalidated_inv)
next
  case (Delivery t k s)
  then show ?thesis using assms(2) by (auto intro: on_graph_inv [OF assms(1)] observe_delivery_inv)
next
  case (Recovery t l)
  then show ?thesis using assms(2) by (auto intro: on_graph_inv [OF assms(1)] observe_recovery_inv)
qed

lemma observe_step_inv: "store_inv st \<Longrightarrow> store_inv (observe_step p st)"
proof (cases "observe (fst p) (snd p) st")
  case (Inr r)
  assume inv: "store_inv st"
  obtain snap where s: "project (fst p) st (snd p) = Inr snap" "r = (dput (wf_task (fst snap)) snap st, snap)"
    using Inr by (auto simp: observe_def bindR_Inr_iff)
  have "snapshot_inv (wf_task (fst snap)) snap"
    using project_inv [OF inv s(1)] by (auto simp: snapshot_inv_def snapshot_def)
  then show ?thesis using inv Inr s(2) dput_set [of "wf_task (fst snap)" snap st]
    by (auto simp: observe_step_def store_inv_def list_all_iff)
qed (simp add: observe_step_def)

interpretation workflow_service: state_machine observe_step store_inv
  by unfold_locales (rule observe_step_inv)

lemma snapshot_reloads:
  assumes "snapshot_inv task (w, nodes, edges)"
  shows "wf_task w = task \<and>
    okP (\<lambda>g. snapshot g = (w, nodes, edges) \<and> acyclic (edge_rel edges)) (new_graph w nodes edges)"
proof -
  obtain g where g: "graph_inv g" "snapshot g = (w, nodes, edges)" "wf_task (wg_workflow g) = task"
    using assms by (auto simp: snapshot_inv_def)
  then have "w = wg_workflow g" "nodes = dvals (wg_nodes g)" "edges = wg_edges g" by (auto simp: snapshot_def)
  then show ?thesis using g reload_graph [OF g(1)] by (simp add: okP_def graph_inv_def)
qed

text \<open>
  C23: whatever observations reach the service (in any order, for any tasks, accepted or
  refused), every stored snapshot can be loaded again: rebuilding the graph through all the checks of the
  constructors succeeds, and its snapshot is the stored one, an acyclic graph.
\<close>

theorem stored_snapshots_reload:
  "list_all (\<lambda>(task, (w, nodes, edges)). wf_task w = task \<and>
      okP (\<lambda>g. snapshot g = (w, nodes, edges) \<and> acyclic (edge_rel edges)) (new_graph w nodes edges))
    (fold observe_step obs [])"
proof -
  have "store_inv (fold observe_step obs [])"
    by (rule workflow_service.run_inv) (simp add: store_inv_def)
  then show ?thesis by (auto simp: store_inv_def list_all_iff dest!: snapshot_reloads)
qed

section \<open>Recovery\<close>

definition thread_live :: "string list \<Rightarrow> workflow_node \<Rightarrow> bool" where
  "thread_live live n = (case wn_thread n of None \<Rightarrow> False | Some t \<Rightarrow> t \<in> set live)"

definition settled :: "string list \<Rightarrow> workflow_node \<Rightarrow> bool" where
  "settled live n = (thread_live live n \<or> (wn_status n \<noteq> RUNNING \<and> wn_status n \<noteq> VERIFYING))"

lemma transition_other:
  assumes "transition_node now k s at g = Inr (g', n)"
  shows "dget (wg_nodes g') k = Some n \<and> wn_status n = s \<and> (\<forall>k'. k' \<noteq> k \<longrightarrow> dget (wg_nodes g') k' = dget (wg_nodes g) k')"
  using transition_InrD [OF assms] by auto

lemma recover_node_effect:
  assumes "recover_node now live n g = Inr g'" "dget (wg_nodes g) (wn_id n) = Some n"
  shows "(\<exists>m. dget (wg_nodes g') (wn_id n) = Some m \<and> settled live m) \<and>
    (\<forall>k. k \<noteq> wn_id n \<longrightarrow> dget (wg_nodes g') k = dget (wg_nodes g) k)"
proof -
  consider "thread_live live n" "g' = g"
    | g1 m1 m2 where "transition_node now (wn_id n) BLOCKED None g = Inr (g1, m1)"
        "transition_node now (wn_id n) QUEUED None g1 = Inr (g', m2)"
    | m1 where "transition_node now (wn_id n) CANCELLED None g = Inr (g', m1)"
    | "wn_status n \<noteq> RUNNING" "wn_status n \<noteq> VERIFYING" "g' = g"
    using assms(1) by (auto simp: recover_node_def thread_live_def bindR_Inr_iff split: if_splits)
  then show ?thesis
  proof cases
    case (2 g1 m1 m2)
    then show ?thesis using transition_other by (metis node_status.distinct settled_def)
  next
    case (3 m1)
    then show ?thesis using transition_other by (metis node_status.distinct settled_def)
  qed (use assms(2) in \<open>auto simp: settled_def\<close>)
qed

lemma recover_all:
  assumes "foldR (recover_node now live) ns g = Inr g'"
    and "\<And>n. n \<in> set ns \<Longrightarrow> dget (wg_nodes g) (wn_id n) = Some n" "distinct (map wn_id ns)"
    and "dget (wg_nodes g') k = Some m"
  shows "(k \<in> set (map wn_id ns) \<longrightarrow> settled live m) \<and> (k \<notin> set (map wn_id ns) \<longrightarrow> dget (wg_nodes g) k = Some m)"
  using assms
proof (induction ns arbitrary: g)
  case (Cons n ns)
  obtain g1 where g1: "recover_node now live n g = Inr g1" "foldR (recover_node now live) ns g1 = Inr g'"
    using Cons.prems(1) by (auto simp: bindR_Inr_iff)
  obtain m1 where E: "dget (wg_nodes g1) (wn_id n) = Some m1" "settled live m1"
    "\<And>k. k \<noteq> wn_id n \<Longrightarrow> dget (wg_nodes g1) k = dget (wg_nodes g) k"
    using recover_node_effect [OF g1(1)] Cons.prems(2) by auto
  have "(k \<in> set (map wn_id ns) \<longrightarrow> settled live m) \<and> (k \<notin> set (map wn_id ns) \<longrightarrow> dget (wg_nodes g1) k = Some m)"
  proof (rule Cons.IH [OF g1(2)])
    fix na assume na: "na \<in> set ns"
    then have "wn_id na \<in> wn_id ` set ns" by blast
    then have "wn_id na \<noteq> wn_id n" using Cons.prems(3) by auto
    then show "dget (wg_nodes g1) (wn_id na) = Some na" using E(3) Cons.prems(2) na by simp
  qed (use Cons.prems in auto)
  then show ?case using E Cons.prems(3) by (cases "k = wn_id n") auto
qed simp

text \<open>
  C24: when a restart has been observed, no node of the recovered graph still counts as running or
  verifying unless its thread is one of those reported alive.
\<close>

theorem recovery_leaves_no_orphans:
  assumes "graph_inv g" "observe_recovery now live g = Inr g'"
    and "dget (wg_nodes g') k = Some m" "wn_status m = RUNNING \<or> wn_status m = VERIFYING"
  shows "thread_live live m"
proof -
  have ids: "map wn_id (dvals (wg_nodes g)) = dkeys (wg_nodes g)"
    using assms(1) by (auto simp: graph_inv_def list_all_iff dvals_def dkeys_def)
  have dist: "distinct (dkeys (wg_nodes g))" using assms(1) by (simp add: graph_inv_def)
  have stored: "dget (wg_nodes g) (wn_id n) = Some n" if "n \<in> set (dvals (wg_nodes g))" for n
    using that assms(1) dist by (auto simp: dvals_def dget_in_iff graph_inv_def list_all_iff)
  have R: "(k \<in> set (dkeys (wg_nodes g)) \<longrightarrow> settled live m) \<and>
      (k \<notin> set (dkeys (wg_nodes g)) \<longrightarrow> dget (wg_nodes g) k = Some m)"
    using recover_all [OF assms(2) [unfolded observe_recovery_def] stored _ assms(3)] dist by (simp add: ids)
  then have "settled live m" by (metis dget_None_iff option.distinct(1))
  then show ?thesis using assms(4) by (auto simp: settled_def)
qed

definition recovery_graph :: workflow_graph where
  "recovery_graph = fold graph_step
     [AddNode ((sample_node ''a'')\<lparr>wn_thread := Some ''t1''\<rparr>), Transition 1 ''a'' QUEUED None, Transition 2 ''a'' RUNNING None,
      AddNode ((sample_node ''b'')\<lparr>wn_thread := Some ''t2''\<rparr>), Transition 1 ''b'' QUEUED None, Transition 2 ''b'' RUNNING None]
     (fresh_graph sample_workflow)"

lemma recovery_graph_inv: "graph_inv recovery_graph"
  unfolding recovery_graph_def by (rule workflow_machine.run_inv [OF fresh_graph_inv])

lemma recovery_sample:
  "okP (\<lambda>g. someP (\<lambda>m. wn_status m = RUNNING) (dget (wg_nodes g) ''a'') \<and>
            someP (\<lambda>m. wn_status m = QUEUED) (dget (wg_nodes g) ''b''))
     (observe_recovery 9 [''t1''] recovery_graph)"
  by code_simp

theorem recovery_leaves_no_orphans_witness:
  "\<exists>g' m. observe_recovery 9 [''t1''] recovery_graph = Inr g' \<and> dget (wg_nodes g') ''a'' = Some m \<and> thread_live [''t1''] m"
proof -
  obtain g' m where g: "observe_recovery 9 [''t1''] recovery_graph = Inr g'" "dget (wg_nodes g') ''a'' = Some m"
    "wn_status m = RUNNING"
    using recovery_sample by (auto elim!: okP_E someP_E)
  then show ?thesis using recovery_leaves_no_orphans [OF recovery_graph_inv g(1,2)] by blast
qed

end
