(* ===== verification/Json_Text.thy ===== *)
theory Json_Text
  imports Prelude
begin

text \<open>
  \<open>json.dumps\<close> as the program calls it: the options \<open>ensure_ascii\<close>, \<open>sort_keys\<close> and \<open>separators\<close>. The text of
  a float is the parameter \<open>ft\<close> (Python's \<open>float.__repr__\<close>); everything else is written out.
\<close>

record dump_options =
  dm_ascii :: bool
  dm_sorted :: bool
  dm_item_sep :: string
  dm_key_sep :: string

definition hex_digit :: "nat \<Rightarrow> char" where
  "hex_digit n = (if n < 10 then char_of (48 + n) else char_of (87 + n))"

definition escape_char :: "bool \<Rightarrow> char \<Rightarrow> string" where
  "escape_char ascii c =
     (if c = CHR 34 then [CHR 92, CHR 34]
      else if c = CHR 92 then [CHR 92, CHR 92]
      else if code_of c = 10 then [CHR 92, CHR ''n'']
      else if code_of c = 13 then [CHR 92, CHR ''r'']
      else if code_of c = 9 then [CHR 92, CHR ''t'']
      else if code_of c = 12 then [CHR 92, CHR ''f'']
      else if code_of c = 8 then [CHR 92, CHR ''b'']
      else if code_of c < 32 \<or> (ascii \<and> 126 < code_of c)
      then [CHR 92, CHR ''u'', CHR ''0'', CHR ''0'', hex_digit (code_of c div 16), hex_digit (code_of c mod 16)]
      else [c])"

definition quoted :: "bool \<Rightarrow> string \<Rightarrow> string" where
  "quoted ascii s = CHR 34 # concat (map (escape_char ascii) s) @ [CHR 34]"

text \<open>Python compares texts by code point.\<close>

fun text_le :: "string \<Rightarrow> string \<Rightarrow> bool" where
  "text_le [] t = True"
| "text_le (c # s) [] = False"
| "text_le (c # s) (d # t) = (code_of c < code_of d \<or> (c = d \<and> text_le s t))"

fun insert_key :: "string \<times> 'v \<Rightarrow> (string \<times> 'v) list \<Rightarrow> (string \<times> 'v) list" where
  "insert_key p [] = [p]"
| "insert_key p (q # d) = (if text_le (fst p) (fst q) then p # q # d else q # insert_key p d)"

definition sort_keys :: "(string \<times> 'v) list \<Rightarrow> (string \<times> 'v) list" where
  "sort_keys d = foldr insert_key d []"

fun dumps :: "(int \<Rightarrow> nat \<Rightarrow> string) \<Rightarrow> dump_options \<Rightarrow> json \<Rightarrow> string" where
  "dumps ft opt JNull = ''null''"
| "dumps ft opt (JBool b) = (if b then ''true'' else ''false'')"
| "dumps ft opt (JInt i) = int_text i"
| "dumps ft opt (JFloat m k) = ft m k"
| "dumps ft opt (JStr s) = quoted (dm_ascii opt) s"
| "dumps ft opt (JArr xs) = ''['' @ join_with (dm_item_sep opt) (map (dumps ft opt) xs) @ '']''"
| "dumps ft opt (JObj d) =
     (let items = map (\<lambda>(k, v). (k, dumps ft opt v)) d
      in ''{'' @ join_with (dm_item_sep opt)
           (map (\<lambda>(k, t). quoted (dm_ascii opt) k @ dm_key_sep opt @ t) (if dm_sorted opt then sort_keys items else items)) @ ''}'')"

definition compact_text :: dump_options where
  "compact_text = \<lparr>dm_ascii = False, dm_sorted = False, dm_item_sep = '','', dm_key_sep = '':''\<rparr>"

definition canonical_text :: dump_options where
  "canonical_text = \<lparr>dm_ascii = False, dm_sorted = True, dm_item_sep = '','', dm_key_sep = '':''\<rparr>"

definition sorted_text :: dump_options where
  "sorted_text = \<lparr>dm_ascii = True, dm_sorted = True, dm_item_sep = '', '', dm_key_sep = '': ''\<rparr>"

end
