(* ===== verification/Task_State.thy ===== *)
theory Task_State
  imports Values Json_Text
begin

text \<open>
  The durable state of a task: \<open>src/src/code_agent/core/task_state.py\<close>. Bounded lists of facts with the
  guards of the constructors, the merge of a model's update, and the reducer that turns one finished
  action into facts. \<open>ft\<close> is the float text of \<open>Json_Text\<close>, needed for the text of a process call only.
\<close>

section \<open>State\<close>

definition max_values :: nat where
  "max_values = 32"

definition max_string_length :: nat where
  "max_string_length = 1024"

definition fact_text :: "string \<Rightarrow> bool \<Rightarrow> string \<Rightarrow> string result" where
  "fact_text label allow_empty v =
     (if \<not> allow_empty \<and> v = [] then raiseR ValueError (label @ '' must not be empty'')
      else if max_string_length < length v then raiseR ValueError (label @ '' must be at most 1024 characters'')
      else Inr v)"

definition fact_texts :: "string \<Rightarrow> string list \<Rightarrow> string list result" where
  "fact_texts label vs = bindR (mapR (fact_text label False) vs) (\<lambda>ws.
     if max_values < length ws then raiseR ValueError (label @ '' must contain at most 32 values'') else Inr ws)"

definition append_fact :: "'a list \<Rightarrow> 'a \<Rightarrow> 'a list" where
  "append_fact vs v = (if v \<in> set vs then vs else drop (length vs + 1 - max_values) (vs @ [v]))"

record command_fact =
  cf_command :: string
  cf_returncode :: "int option"
  cf_reason :: string

definition mk_command_fact :: "command_fact \<Rightarrow> command_fact result" where
  "mk_command_fact c = bindR (fact_text ''command'' False (cf_command c)) (\<lambda>_.
     bindR (fact_text ''reason'' False (cf_reason c)) (\<lambda>_. Inr c))"

definition command_fact_to_dict :: "command_fact \<Rightarrow> jdict" where
  "command_fact_to_dict c =
     [(''command'', JStr (cf_command c)), (''returncode'', int_json (cf_returncode c)), (''reason'', JStr (cf_reason c))]"

definition command_fact_from_dict :: "jdict \<Rightarrow> command_fact result" where
  "command_fact_from_dict d =
     bindR (bindR (field_of ''command'' d) (as_text ''command must be a string'')) (\<lambda>c.
     bindR (as_int_opt ''returncode must be an integer or None'' (get_or ''returncode'' JNull d)) (\<lambda>n.
     bindR (bindR (field_of ''reason'' d) (as_text ''reason must be a string'')) (\<lambda>r.
       mk_command_fact \<lparr>cf_command = c, cf_returncode = n, cf_reason = r\<rparr>)))"

record task_state =
  ts_objective :: string
  ts_files_read :: "string list"
  ts_files_changed :: "string list"
  ts_failed_commands :: "command_fact list"
  ts_verified_facts :: "string list"
  ts_working_notes :: "string list"
  ts_open_questions :: "string list"
  ts_code_generation :: int
  ts_subject_hash :: string

definition mk_state :: "task_state \<Rightarrow> task_state result" where
  "mk_state s =
     bindR (fact_text ''objective'' True (ts_objective s)) (\<lambda>_.
     bindR (fact_texts ''files_read'' (ts_files_read s)) (\<lambda>_.
     bindR (fact_texts ''files_changed'' (ts_files_changed s)) (\<lambda>_.
     bindR (fact_texts ''verified_facts'' (ts_verified_facts s)) (\<lambda>_.
     bindR (fact_texts ''working_notes'' (ts_working_notes s)) (\<lambda>_.
     bindR (fact_texts ''open_questions'' (ts_open_questions s)) (\<lambda>_.
     if max_values < length (ts_failed_commands s)
     then raiseR ValueError ''failed_commands must contain at most 32 values''
     else if ts_code_generation s < 0 then raiseR ValueError ''code_generation must be non-negative''
     else bindR (fact_text ''subject_hash'' True (ts_subject_hash s)) (\<lambda>_. Inr s)))))))"

definition empty_state :: task_state where
  "empty_state = \<lparr>ts_objective = '''', ts_files_read = [], ts_files_changed = [], ts_failed_commands = [],
     ts_verified_facts = [], ts_working_notes = [], ts_open_questions = [], ts_code_generation = 0, ts_subject_hash = ''''\<rparr>"

section \<open>Updates from the model\<close>

record state_update =
  su_verified_facts :: "string list"
  su_working_notes :: "string list"
  su_open_questions :: "string list"

definition mk_update :: "state_update \<Rightarrow> state_update result" where
  "mk_update u =
     bindR (fact_texts ''verified_facts'' (su_verified_facts u)) (\<lambda>_.
     bindR (fact_texts ''working_notes'' (su_working_notes u)) (\<lambda>_.
     bindR (fact_texts ''open_questions'' (su_open_questions u)) (\<lambda>_. Inr u)))"

definition texts_json :: "string list \<Rightarrow> json" where
  "texts_json vs = JArr (map JStr vs)"

text \<open>\<open>_texts\<close> on a value read from a dictionary: only a list is accepted.\<close>

definition as_texts :: "string \<Rightarrow> json \<Rightarrow> string list result" where
  "as_texts label v = (case v of JArr xs \<Rightarrow> mapR (as_text (label @ '' must be a string'')) xs
     | _ \<Rightarrow> raiseR TypeError (label @ '' must be a sequence''))"

definition update_to_dict :: "state_update \<Rightarrow> jdict" where
  "update_to_dict u = [(''verified_facts'', texts_json (su_verified_facts u)),
     (''working_notes'', texts_json (su_working_notes u)), (''open_questions'', texts_json (su_open_questions u))]"

definition update_from_dict :: "jdict \<Rightarrow> state_update result" where
  "update_from_dict d =
     bindR (as_texts ''verified_facts'' (get_or ''verified_facts'' (JArr []) d)) (\<lambda>f.
     bindR (as_texts ''working_notes'' (get_or ''working_notes'' (JArr []) d)) (\<lambda>n.
     bindR (as_texts ''open_questions'' (get_or ''open_questions'' (JArr []) d)) (\<lambda>q.
       mk_update \<lparr>su_verified_facts = f, su_working_notes = n, su_open_questions = q\<rparr>)))"

definition merge_facts :: "string list \<Rightarrow> string list \<Rightarrow> string list" where
  "merge_facts existing added = foldl append_fact existing added"

definition with_update :: "state_update \<Rightarrow> task_state \<Rightarrow> task_state result" where
  "with_update u s = mk_state (s\<lparr>ts_verified_facts := merge_facts (ts_verified_facts s) (su_verified_facts u),
     ts_working_notes := merge_facts (ts_working_notes s) (su_working_notes u),
     ts_open_questions := merge_facts (ts_open_questions s) (su_open_questions u)\<rparr>)"

section \<open>JSON form\<close>

definition state_to_dict :: "task_state \<Rightarrow> jdict" where
  "state_to_dict s =
     [(''objective'', JStr (ts_objective s)), (''files_read'', texts_json (ts_files_read s)),
      (''files_changed'', texts_json (ts_files_changed s)),
      (''failed_commands'', JArr (map (\<lambda>c. JObj (command_fact_to_dict c)) (ts_failed_commands s))),
      (''verified_facts'', texts_json (ts_verified_facts s)), (''working_notes'', texts_json (ts_working_notes s)),
      (''open_questions'', texts_json (ts_open_questions s)), (''code_generation'', JInt (ts_code_generation s)),
      (''subject_hash'', JStr (ts_subject_hash s))]"

definition state_from_dict :: "jdict \<Rightarrow> task_state result" where
  "state_from_dict d =
     bindR (as_text ''objective must be a string'' (get_or ''objective'' (JStr []) d)) (\<lambda>ob.
     bindR (as_texts ''files_read'' (get_or ''files_read'' (JArr []) d)) (\<lambda>fr.
     bindR (as_texts ''files_changed'' (get_or ''files_changed'' (JArr []) d)) (\<lambda>fc.
     bindR (items_from command_fact_from_dict (get_or ''failed_commands'' (JArr []) d)) (\<lambda>cs.
     bindR (as_texts ''verified_facts'' (get_or ''verified_facts'' (JArr []) d)) (\<lambda>vf.
     bindR (as_texts ''working_notes'' (get_or ''working_notes'' (JArr []) d)) (\<lambda>wn.
     bindR (as_texts ''open_questions'' (get_or ''open_questions'' (JArr []) d)) (\<lambda>oq.
     bindR (as_int ''code_generation must be non-negative'' (get_or ''code_generation'' (JInt 0) d)) (\<lambda>g.
     bindR (as_text ''subject_hash must be a string'' (get_or ''subject_hash'' (JStr []) d)) (\<lambda>h.
       mk_state \<lparr>ts_objective = ob, ts_files_read = fr, ts_files_changed = fc, ts_failed_commands = cs,
         ts_verified_facts = vf, ts_working_notes = wn, ts_open_questions = oq, ts_code_generation = g,
         ts_subject_hash = h\<rparr>)))))))))"

section \<open>The reducer\<close>

definition get :: "string \<Rightarrow> json \<Rightarrow> json" where
  "get k v = (case v of JObj d \<Rightarrow> get_or k JNull d | _ \<Rightarrow> JNull)"

definition as_list :: "json \<Rightarrow> json list option" where
  "as_list v = (case v of JArr xs \<Rightarrow> Some xs | _ \<Rightarrow> None)"

definition execution_attempted :: "action_result \<Rightarrow> bool" where
  "execution_attempted r = (get_or ''execution_attempted'' JNull (ar_metadata r) = JBool True)"

text \<open>\<open>_returncode\<close>: the first of metadata and output that has a return code decides.\<close>

definition returncode_of :: "action_result \<Rightarrow> int option" where
  "returncode_of r =
     (let m = get_or ''returncode'' JNull (ar_metadata r); v = (if m = JNull then get ''returncode'' (ar_output r) else m)
      in case v of JInt i \<Rightarrow> Some i | _ \<Rightarrow> None)"

definition command_fact_text :: "(int \<Rightarrow> nat \<Rightarrow> string) \<Rightarrow> action_request \<Rightarrow> string" where
  "command_fact_text ft q =
     take max_string_length
       (if aq_name q = ''run_command''
        then (case get_or ''command'' (JStr ''run_command'') (aq_arguments q) of JStr s \<Rightarrow> s | _ \<Rightarrow> ''run_command'')
        else (case (get_or ''program'' JNull (aq_arguments q), get_or ''args'' JNull (aq_arguments q)) of
                (JStr p, JArr as) \<Rightarrow> dumps ft compact_text (JArr (JStr p # as))
              | _ \<Rightarrow> dumps ft compact_text (JArr [JStr ''run_process_v1''])))"

definition read_note :: "string \<Rightarrow> string" where
  "read_note p = ''Read file: '' @ p"

definition changed_note :: "string \<Rightarrow> string" where
  "changed_note p = ''Changed file: '' @ p"

definition doubt_note :: "string \<Rightarrow> string" where
  "doubt_note p = ''Workspace may have changed: '' @ p"

text \<open>The two loops over reported paths.\<close>

fun note_slices :: "json list \<Rightarrow> string list \<Rightarrow> string list \<Rightarrow> string list \<times> string list" where
  "note_slices [] files facts = (files, facts)"
| "note_slices (x # xs) files facts =
     (case get ''path'' x of
        JStr p \<Rightarrow> if p \<noteq> [] then note_slices xs (append_fact files p) (append_fact facts (read_note p))
                  else note_slices xs files facts
      | _ \<Rightarrow> note_slices xs files facts)"

fun note_changes :: "bool \<Rightarrow> json list \<Rightarrow> string list \<Rightarrow> string list \<Rightarrow> string list
    \<Rightarrow> string list \<times> string list \<times> string list" where
  "note_changes err [] changed facts notes = (changed, facts, notes)"
| "note_changes err (x # xs) changed facts notes =
     (case x of
        JStr p \<Rightarrow>
          if p = [] then note_changes err xs changed facts notes
          else if err then note_changes err xs (append_fact changed p) facts
                             (append_fact notes (doubt_note p))
          else note_changes err xs (append_fact changed p) (append_fact facts (changed_note p)) notes
      | _ \<Rightarrow> note_changes err xs changed facts notes)"

definition reduce_command :: "(int \<Rightarrow> nat \<Rightarrow> string) \<Rightarrow> task_state \<Rightarrow> action_request \<Rightarrow> action_result \<Rightarrow> task_state result" where
  "reduce_command ft s q r =
     (if aq_name q \<in> {''run_command'', ''run_process_v1''} \<and> execution_attempted r
         \<and> (ar_is_error r \<or> (returncode_of r \<noteq> None \<and> returncode_of r \<noteq> Some 0))
      then bindR (mk_command_fact \<lparr>cf_command = command_fact_text ft q, cf_returncode = returncode_of r,
                    cf_reason = ''command failed''\<rparr>) (\<lambda>fact.
        if fact \<in> set (ts_failed_commands s) then Inr s
        else mk_state (s\<lparr>ts_failed_commands := append_fact (ts_failed_commands s) fact\<rparr>))
      else Inr s)"

definition reduce_task_state :: "(int \<Rightarrow> nat \<Rightarrow> string) \<Rightarrow> task_state \<Rightarrow> action_request \<Rightarrow> action_result \<Rightarrow> task_state result" where
  "reduce_task_state ft s q r =
     (let path = get_or ''path'' JNull (aq_arguments q); name = aq_name q; err = ar_is_error r in
      case (if \<not> err \<and> name = ''read_file'' then path else JNull) of
        JStr p \<Rightarrow> mk_state (s\<lparr>ts_files_read := append_fact (ts_files_read s) p,
                     ts_verified_facts := append_fact (ts_verified_facts s) (read_note p)\<rparr>)
      | _ \<Rightarrow>
      (case (if \<not> err \<and> name = ''read_code_slices'' then as_list (get ''slices'' (ar_output r)) else None) of
        Some xs \<Rightarrow>
          (case note_slices xs (ts_files_read s) (ts_verified_facts s) of
             (files, facts) \<Rightarrow> mk_state (s\<lparr>ts_files_read := files, ts_verified_facts := facts\<rparr>))
      | None \<Rightarrow>
      (case (if \<not> err \<and> name \<in> {''write_file'', ''replace_text''} then path else JNull) of
        JStr p \<Rightarrow> mk_state (s\<lparr>ts_files_changed := append_fact (ts_files_changed s) p,
                     ts_verified_facts := append_fact (ts_verified_facts s) (changed_note p)\<rparr>)
      | _ \<Rightarrow>
      (case (if name = ''apply_workspace_edit_plan_v1''
                \<and> get ''workspace_may_have_changed'' (ar_output r) = JBool True
             then as_list (get ''paths'' (ar_output r)) else None) of
        Some xs \<Rightarrow>
          (case note_changes err xs (ts_files_changed s) (ts_verified_facts s) (ts_working_notes s) of
             (changed, facts, notes) \<Rightarrow>
               mk_state (s\<lparr>ts_files_changed := changed, ts_verified_facts := facts, ts_working_notes := notes\<rparr>))
      | None \<Rightarrow> reduce_command ft s q r))))"

section \<open>Bounds\<close>

definition text_ok :: "string \<Rightarrow> bool" where
  "text_ok v = (v \<noteq> [] \<and> length v \<le> max_string_length)"

definition texts_ok :: "string list \<Rightarrow> bool" where
  "texts_ok vs = (length vs \<le> max_values \<and> list_all text_ok vs)"

lemma fact_text_Inr [simp]:
  "fact_text l e v = Inr w \<longleftrightarrow> w = v \<and> (e \<or> v \<noteq> []) \<and> length v \<le> max_string_length"
  by (auto simp: fact_text_def)

lemma fact_texts_Inr [simp]: "fact_texts l vs = Inr ws \<longleftrightarrow> ws = vs \<and> texts_ok vs"
proof -
  have "list_all2 (\<lambda>x y. y = x \<and> x \<noteq> [] \<and> length x \<le> max_string_length) vs us
      \<longleftrightarrow> us = vs \<and> list_all text_ok vs" for us
    by (induction vs arbitrary: us) (auto simp: list_all2_Cons1 text_ok_def)
  then show ?thesis by (auto simp: fact_texts_def bindR_Inr_iff mapR_Inr_iff texts_ok_def)
qed

definition state_bounded :: "task_state \<Rightarrow> bool" where
  "state_bounded s = (length (ts_objective s) \<le> max_string_length \<and> texts_ok (ts_files_read s)
     \<and> texts_ok (ts_files_changed s) \<and> texts_ok (ts_verified_facts s) \<and> texts_ok (ts_working_notes s)
     \<and> texts_ok (ts_open_questions s) \<and> length (ts_failed_commands s) \<le> max_values
     \<and> 0 \<le> ts_code_generation s \<and> length (ts_subject_hash s) \<le> max_string_length)"

lemma mk_state_Inr [simp]: "mk_state s = Inr t \<longleftrightarrow> t = s \<and> state_bounded s"
  by (auto simp: mk_state_def bindR_Inr_iff state_bounded_def)

lemma Inr_mk_state [simp]: "Inr t = mk_state s \<longleftrightarrow> t = s \<and> state_bounded s"
  by (simp add: eq_commute [of "Inr t"])

lemma mk_command_fact_Inr [simp]:
  "mk_command_fact c = Inr d \<longleftrightarrow> d = c \<and> text_ok (cf_command c) \<and> text_ok (cf_reason c)"
  by (auto simp: mk_command_fact_def bindR_Inr_iff text_ok_def)

lemma length_append_fact: "length vs \<le> max_values \<Longrightarrow> length (append_fact vs v) \<le> max_values"
  by (auto simp: append_fact_def max_values_def)

lemma set_append_fact: "set (append_fact vs v) \<subseteq> insert v (set vs)"
  by (auto simp: append_fact_def dest: in_set_dropD)

lemma append_fact_member: "v \<in> set (append_fact vs v)"
  by (auto simp: append_fact_def max_values_def)

lemma texts_ok_append [simp]: "texts_ok vs \<Longrightarrow> text_ok v \<Longrightarrow> texts_ok (append_fact vs v)"
  using set_append_fact [of vs v] by (auto simp: texts_ok_def length_append_fact list_all_iff)

lemma texts_ok_merge: "texts_ok vs \<Longrightarrow> texts_ok ws \<Longrightarrow> texts_ok (merge_facts vs ws)"
proof -
  have "list_all text_ok ws \<Longrightarrow> texts_ok vs \<Longrightarrow> texts_ok (merge_facts vs ws)"
    by (induction ws arbitrary: vs) (auto simp: merge_facts_def)
  then show "texts_ok vs \<Longrightarrow> texts_ok ws \<Longrightarrow> texts_ok (merge_facts vs ws)" by (simp add: texts_ok_def)
qed

text \<open>
  An update that its own constructor accepts can always be merged: the merged state is within the
  bounds again, and the newest entry of each list is kept.
\<close>

theorem with_update_returns:
  assumes "state_bounded s" and "mk_update u = Inr u"
  shows "\<exists>t. with_update u s = Inr t \<and> state_bounded t
    \<and> (su_verified_facts u \<noteq> [] \<longrightarrow> last (su_verified_facts u) \<in> set (ts_verified_facts t))"
proof -
  have u: "texts_ok (su_verified_facts u)" "texts_ok (su_working_notes u)" "texts_ok (su_open_questions u)"
    using assms(2) by (auto simp: mk_update_def bindR_Inr_iff)
  have newest: "last ws \<in> set (merge_facts vs ws)" if "ws \<noteq> []" for ws vs :: "string list"
    using that by (cases ws rule: rev_cases) (auto simp: merge_facts_def append_fact_member)
  show ?thesis
    using assms(1) u newest
    by (simp add: with_update_def state_bounded_def texts_ok_merge)
qed

definition sample_update :: state_update where
  "sample_update = \<lparr>su_verified_facts = [''tests pass''], su_working_notes = [], su_open_questions = [''why'']\<rparr>"

theorem with_update_returns_witness:
  "\<exists>t. with_update sample_update empty_state = Inr t \<and> ''tests pass'' \<in> set (ts_verified_facts t)"
proof -
  have "state_bounded empty_state" "mk_update sample_update = Inr sample_update" by code_simp+
  from with_update_returns [OF this] show ?thesis by (auto simp: sample_update_def)
qed

section \<open>What the reducer records\<close>

text \<open>The texts the reducer prefixes still fit when the path leaves room for the longest prefix.\<close>

definition path_fits :: "string \<Rightarrow> bool" where
  "path_fits p = (length p + 28 \<le> max_string_length)"

definition paths_fit :: "action_request \<Rightarrow> action_result \<Rightarrow> bool" where
  "paths_fit q r =
     (case get_or ''path'' JNull (aq_arguments q) of JStr p \<Rightarrow> p \<noteq> [] \<and> path_fits p | _ \<Rightarrow> True)"

definition slices_fit :: "json list \<Rightarrow> bool" where
  "slices_fit xs = list_all (\<lambda>x. case get ''path'' x of JStr p \<Rightarrow> path_fits p | _ \<Rightarrow> True) xs"

definition changes_fit :: "json list \<Rightarrow> bool" where
  "changes_fit xs = list_all (\<lambda>x. case x of JStr p \<Rightarrow> path_fits p | _ \<Rightarrow> True) xs"

definition outputs_fit :: "action_result \<Rightarrow> bool" where
  "outputs_fit r = ((case get ''slices'' (ar_output r) of JArr xs \<Rightarrow> slices_fit xs | _ \<Rightarrow> True)
     \<and> (case get ''paths'' (ar_output r) of JArr xs \<Rightarrow> changes_fit xs | _ \<Rightarrow> True))"

lemma fits_text_ok:
  assumes "p \<noteq> []" "path_fits p"
  shows "text_ok p" "text_ok (read_note p)" "text_ok (changed_note p)" "text_ok (doubt_note p)"
  using assms by (auto simp: text_ok_def path_fits_def read_note_def changed_note_def doubt_note_def)

lemma note_slices_ok:
  "texts_ok files \<Longrightarrow> texts_ok facts \<Longrightarrow> slices_fit xs \<Longrightarrow> note_slices xs files facts = (files', facts')
   \<Longrightarrow> texts_ok files' \<and> texts_ok facts'"
  by (induction xs files facts rule: note_slices.induct)
     (auto simp: slices_fit_def fits_text_ok split: json.splits if_splits)

lemma note_changes_ok:
  "texts_ok c \<Longrightarrow> texts_ok f \<Longrightarrow> texts_ok n \<Longrightarrow> changes_fit xs \<Longrightarrow> note_changes e xs c f n = (c', f', n')
   \<Longrightarrow> texts_ok c' \<and> texts_ok f' \<and> texts_ok n'"
  by (induction e xs c f n rule: note_changes.induct)
     (auto simp: changes_fit_def fits_text_ok split: json.splits if_splits)

lemma note_changes_from:
  "note_changes e xs c f n = (c', f', n') \<Longrightarrow> set c' \<subseteq> set c \<union> {p. JStr p \<in> set xs}"
proof (induction e xs c f n rule: note_changes.induct)
  case (2 err x xs changed facts ns)
  show ?case
  proof (cases x)
    case (JStr p)
    with 2 set_append_fact [of changed p] show ?thesis by (cases err) (auto split: if_splits)
  qed (use 2 in auto)
qed simp

lemma text_ok_take: "v \<noteq> [] \<Longrightarrow> text_ok (take max_string_length v)"
  by (auto simp: text_ok_def max_string_length_def)

lemma process_text_not_Nil: "dumps ft compact_text (JArr xs) \<noteq> []"
  by simp

text \<open>A command's text, when it is given as a text, is not the empty one.\<close>

definition command_given :: "action_request \<Rightarrow> bool" where
  "command_given q = (get_or ''command'' JNull (aq_arguments q) \<noteq> JStr [])"

lemma command_fact_text_ok: "command_given q \<Longrightarrow> text_ok (command_fact_text ft q)"
  unfolding command_fact_text_def
  by (intro text_ok_take)
     (auto simp: command_given_def get_or_def split: json.splits option.splits)

lemma reduce_command_returns:
  assumes "state_bounded s" "command_given q"
  shows "\<exists>t. reduce_command ft s q r = Inr t \<and> state_bounded t"
proof -
  let ?f = "\<lparr>cf_command = command_fact_text ft q, cf_returncode = returncode_of r, cf_reason = ''command failed''\<rparr>"
  have "text_ok ''command failed''" by (simp add: text_ok_def max_string_length_def)
  then have f: "mk_command_fact ?f = Inr ?f"
    using assms command_fact_text_ok [of q ft] by simp
  have "state_bounded (s\<lparr>ts_failed_commands := append_fact (ts_failed_commands s) ?f\<rparr>)"
    using assms(1) by (simp add: state_bounded_def length_append_fact)
  then show ?thesis
    using assms(1) by (simp add: reduce_command_def f)
qed

lemma reduce_cases:
  obtains
    (read) p where "\<not> ar_is_error r" "aq_name q = ''read_file''" "get_or ''path'' JNull (aq_arguments q) = JStr p"
      "reduce_task_state ft s q r = mk_state (s\<lparr>ts_files_read := append_fact (ts_files_read s) p,
         ts_verified_facts := append_fact (ts_verified_facts s) (read_note p)\<rparr>)"
  | (slices) xs files facts where "get ''slices'' (ar_output r) = JArr xs"
      "note_slices xs (ts_files_read s) (ts_verified_facts s) = (files, facts)"
      "reduce_task_state ft s q r = mk_state (s\<lparr>ts_files_read := files, ts_verified_facts := facts\<rparr>)"
  | (written) p where "\<not> ar_is_error r" "aq_name q \<in> {''write_file'', ''replace_text''}"
      "get_or ''path'' JNull (aq_arguments q) = JStr p"
      "reduce_task_state ft s q r = mk_state (s\<lparr>ts_files_changed := append_fact (ts_files_changed s) p,
         ts_verified_facts := append_fact (ts_verified_facts s) (changed_note p)\<rparr>)"
  | (plan) xs changed facts ns where "aq_name q = ''apply_workspace_edit_plan_v1''"
      "get ''workspace_may_have_changed'' (ar_output r) = JBool True" "get ''paths'' (ar_output r) = JArr xs"
      "note_changes (ar_is_error r) xs (ts_files_changed s) (ts_verified_facts s) (ts_working_notes s) = (changed, facts, ns)"
      "reduce_task_state ft s q r = mk_state (s\<lparr>ts_files_changed := changed, ts_verified_facts := facts, ts_working_notes := ns\<rparr>)"
  | (command) "reduce_task_state ft s q r = reduce_command ft s q r"
proof -
  let ?path = "get_or ''path'' JNull (aq_arguments q)"
  let ?slices = "as_list (get ''slices'' (ar_output r))" and ?paths = "as_list (get ''paths'' (ar_output r))"
  have arr: "as_list v = Some xs \<Longrightarrow> v = JArr xs" for v xs by (cases v) (auto simp: as_list_def)
  consider (a) "\<not> ar_is_error r" "aq_name q = ''read_file''" | (b) "\<not> ar_is_error r" "aq_name q = ''read_code_slices''"
    | (c) "\<not> ar_is_error r" "aq_name q \<in> {''write_file'', ''replace_text''}"
    | (d) "aq_name q = ''apply_workspace_edit_plan_v1''" "get ''workspace_may_have_changed'' (ar_output r) = JBool True"
    | (e) "\<not> (\<not> ar_is_error r \<and> aq_name q \<in> {''read_file'', ''read_code_slices'', ''write_file'', ''replace_text''})"
        "\<not> (aq_name q = ''apply_workspace_edit_plan_v1'' \<and> get ''workspace_may_have_changed'' (ar_output r) = JBool True)"
    by blast
  then show thesis
  proof cases
    case a
    then show ?thesis using read [of _] command by (cases ?path) (simp_all add: reduce_task_state_def)
  next
    case b
    then show ?thesis
    proof (cases ?slices)
      case (Some xs)
      obtain files facts where n: "note_slices xs (ts_files_read s) (ts_verified_facts s) = (files, facts)" by fastforce
      show ?thesis using b Some arr [OF Some] n by (intro slices) (simp_all add: reduce_task_state_def)
    qed (use b command in \<open>simp add: reduce_task_state_def\<close>)
  next
    case c
    then have "aq_name q \<noteq> ''read_file''" "aq_name q \<noteq> ''read_code_slices''"
      "aq_name q \<noteq> ''apply_workspace_edit_plan_v1''" by auto
    with c show ?thesis using written [of _] command by (cases ?path) (simp_all add: reduce_task_state_def)
  next
    case d
    then show ?thesis
    proof (cases ?paths)
      case (Some xs)
      obtain changed facts ns where
        n: "note_changes (ar_is_error r) xs (ts_files_changed s) (ts_verified_facts s) (ts_working_notes s) = (changed, facts, ns)"
        by (metis prod_cases3)
      show ?thesis using d Some arr [OF Some] n by (intro plan) (simp_all add: reduce_task_state_def)
    qed (use d command in \<open>simp add: reduce_task_state_def\<close>)
  next
    case e
    then have "aq_name q \<in> {''read_file'', ''read_code_slices'', ''write_file'', ''replace_text''} \<Longrightarrow> ar_is_error r" by blast
    with e show ?thesis by (intro command) (auto simp: reduce_task_state_def Let_def split del: if_split)
  qed
qed

text \<open>A journal that reduces finished actions one after another; a refused fact leaves the state as it is.\<close>

definition reduce_step :: "(int \<Rightarrow> nat \<Rightarrow> string) \<Rightarrow> action_request \<times> action_result \<Rightarrow> task_state \<Rightarrow> task_state" where
  "reduce_step ft a s = (case a of (q, r) \<Rightarrow> (case reduce_task_state ft s q r of Inl _ \<Rightarrow> s | Inr t \<Rightarrow> t))"

lemma reduce_bounded:
  assumes "state_bounded s" "reduce_task_state ft s q r = Inr t"
  shows "state_bounded t"
  using assms
  by (cases rule: reduce_cases [where ft = ft and s = s and q = q and r = r])
     (auto simp: reduce_command_def bindR_Inr_iff split: if_splits)

interpretation task_facts: state_machine "reduce_step ft" state_bounded
  by unfold_locales (auto simp: reduce_step_def reduce_bounded split: prod.splits sum.splits)


text \<open>
  C29: The reducer does not raise on a state within bounds when the paths leave room for the longest note
  (28 characters) and a command is not the empty text; the result is within bounds.
\<close>

theorem reduce_returns:
  assumes "state_bounded s" "paths_fit q r" "outputs_fit r" "command_given q"
  shows "\<exists>t. reduce_task_state ft s q r = Inr t \<and> state_bounded t"
  using reduce_cases [where ft = ft and s = s and q = q and r = r]
proof cases
  case (read p)
  with assms(1,2) fits_text_ok [of p] show ?thesis by (simp add: paths_fit_def state_bounded_def)
next
  case (slices xs files facts)
  with assms(1,3) note_slices_ok [OF _ _ _ slices(2)] show ?thesis by (simp add: outputs_fit_def state_bounded_def)
next
  case (written p)
  with assms(1,2) fits_text_ok [of p] show ?thesis by (simp add: paths_fit_def state_bounded_def)
next
  case (plan xs changed facts ns)
  with assms(1,3) note_changes_ok [OF _ _ _ _ plan(4)] show ?thesis by (simp add: outputs_fit_def state_bounded_def)
next
  case command
  with assms(1,4) show ?thesis by (simp add: reduce_command_returns)
qed

definition write_request :: action_request where
  "write_request = \<lparr>aq_id = ''1'', aq_name = ''write_file'', aq_arguments = [(''path'', JStr ''src/a.py'')]\<rparr>"

definition write_result :: action_result where
  "write_result = \<lparr>ar_request_id = ''1'', ar_name = ''write_file'', ar_output = JObj [], ar_is_error = False, ar_metadata = []\<rparr>"

theorem reduce_returns_witness:
  "\<exists>t. reduce_task_state (\<lambda>_ _. []) empty_state write_request write_result = Inr t \<and> state_bounded t"
proof (rule reduce_returns)
  show "state_bounded empty_state" by code_simp
  show "paths_fit write_request write_result" by code_simp
  show "outputs_fit write_result" by code_simp
  show "command_given write_request" by code_simp
qed

text \<open>
  C28: Facts are earned. A path is new among the changed files only if a successful write named it, or an
  edit plan reported that it may have changed it; a command is new among the failed ones only if it was
  executed and failed; reading and every other action change neither list.
\<close>

theorem facts_are_earned:
  assumes "reduce_task_state ft s q r = Inr t"
  shows "(x \<in> set (ts_files_changed t) - set (ts_files_changed s) \<longrightarrow>
      (\<not> ar_is_error r \<and> aq_name q \<in> {''write_file'', ''replace_text''} \<and> get_or ''path'' JNull (aq_arguments q) = JStr x)
      \<or> (aq_name q = ''apply_workspace_edit_plan_v1'' \<and> get ''workspace_may_have_changed'' (ar_output r) = JBool True
         \<and> (\<exists>xs. get ''paths'' (ar_output r) = JArr xs \<and> JStr x \<in> set xs)))
    \<and> (c \<in> set (ts_failed_commands t) - set (ts_failed_commands s) \<longrightarrow>
      aq_name q \<in> {''run_command'', ''run_process_v1''} \<and> execution_attempted r
      \<and> (ar_is_error r \<or> (\<exists>n. returncode_of r = Some n \<and> n \<noteq> 0))
      \<and> cf_returncode c = returncode_of r)"
  using reduce_cases [where ft = ft and s = s and q = q and r = r]
proof cases
  case (written p)
  with assms set_append_fact [of "ts_files_changed s" p] show ?thesis by auto
next
  case (plan xs changed facts ns)
  with assms note_changes_from [OF plan(4)] show ?thesis by auto
next
  case command
  let ?f = "\<lparr>cf_command = command_fact_text ft q, cf_returncode = returncode_of r, cf_reason = ''command failed''\<rparr>"
  from assms command have "t = s \<or> (aq_name q \<in> {''run_command'', ''run_process_v1''} \<and> execution_attempted r
      \<and> (ar_is_error r \<or> (returncode_of r \<noteq> None \<and> returncode_of r \<noteq> Some 0))
      \<and> t = s\<lparr>ts_failed_commands := append_fact (ts_failed_commands s) ?f\<rparr>)"
    by (auto simp: reduce_command_def bindR_Inr_iff split: if_splits)
  with set_append_fact [of "ts_failed_commands s" ?f] show ?thesis by auto
qed (use assms in auto)

theorem facts_are_earned_witness:
  "\<exists>t. reduce_task_state (\<lambda>_ _. []) empty_state write_request write_result = Inr t \<and> ''src/a.py'' \<in> set (ts_files_changed t)
    \<and> (''src/a.py'' \<in> set (ts_files_changed t) - set (ts_files_changed empty_state) \<longrightarrow>
        \<not> ar_is_error write_result \<or> (\<exists>xs. get ''paths'' (ar_output write_result) = JArr xs))"
proof -
  have "okP (\<lambda>t. ''src/a.py'' \<in> set (ts_files_changed t)) (reduce_task_state (\<lambda>_ _. []) empty_state write_request write_result)"
    by code_simp
  then obtain t where t: "reduce_task_state (\<lambda>_ _. []) empty_state write_request write_result = Inr t"
      "''src/a.py'' \<in> set (ts_files_changed t)"
    by (rule okP_E)
  with facts_are_earned [OF t(1), of "''src/a.py''"] show ?thesis by blast
qed

section \<open>Reloading\<close>

lemma as_texts_reload [simp]: "as_texts l (texts_json vs) = Inr vs"
  by (simp add: as_texts_def texts_json_def mapR_map)

lemma command_fact_reload: "mk_command_fact c = Inr c \<Longrightarrow> command_fact_from_dict (command_fact_to_dict c) = Inr c"
  by (cases c) (simp add: command_fact_from_dict_def command_fact_to_dict_def)

text \<open>
  A task state within its bounds, whose commands passed their constructor, survives its JSON form, and
  so does an update.
\<close>

theorem task_state_reloads:
  "(state_bounded s \<and> list_all (\<lambda>c. mk_command_fact c = Inr c) (ts_failed_commands s)
     \<longrightarrow> state_from_dict (state_to_dict s) = Inr s) \<and>
   (mk_update u = Inr u \<longrightarrow> update_from_dict (update_to_dict u) = Inr u)"
proof (intro conjI impI)
  assume ok: "state_bounded s \<and> list_all (\<lambda>c. mk_command_fact c = Inr c) (ts_failed_commands s)"
  have commands: "items_from command_fact_from_dict (JArr (map (\<lambda>c. JObj (command_fact_to_dict c)) (ts_failed_commands s)))
      = Inr (ts_failed_commands s)"
    using ok by (intro items_reload command_fact_reload) (simp add: list_all_iff)
  show "state_from_dict (state_to_dict s) = Inr s"
    using ok commands by (simp add: state_from_dict_def state_to_dict_def state_bounded_def)
next
  assume "mk_update u = Inr u"
  then show "update_from_dict (update_to_dict u) = Inr u"
    by (cases u) (simp add: update_from_dict_def update_to_dict_def)
qed

theorem task_state_reloads_witness:
  "state_from_dict (state_to_dict empty_state) = Inr empty_state \<and> update_from_dict (update_to_dict sample_update) = Inr sample_update"
proof -
  have "state_bounded empty_state" "list_all (\<lambda>c. mk_command_fact c = Inr c) (ts_failed_commands empty_state)"
    "mk_update sample_update = Inr sample_update" by code_simp+
  then show ?thesis using task_state_reloads [of empty_state sample_update] by simp
qed

end
