(* ===== verification/Task_Result.thy ===== *)
theory Task_Result
  imports Task Task_State
begin

text \<open>
  What a finished run reports: \<open>src/src/code_agent/core/task_result.py\<close>. The bounded result value with its
  exit code, the projection of a stored task, and the collector that reads a run's events. A dictionary
  key of an unhashable value raises \<open>TypeError\<close> in a membership test, as in Python.
\<close>

section \<open>Results\<close>

record task_result =
  tr_execution :: string
  tr_changes :: string
  tr_verification :: string
  tr_remaining :: "string list"
  tr_stop_code :: "string option"
  tr_stop_reason :: "string option"

definition executions :: "string list" where
  "executions = [''completed'', ''accepted_partial'', ''failed'', ''cancelled'', ''waiting_decision'', ''paused'',
     ''interrupted'', ''unknown'']"

definition verifications :: "string list" where
  "verifications = [''verified'', ''unverified'', ''partial'', ''unknown'']"

definition default_result :: task_result where
  "default_result = \<lparr>tr_execution = ''unknown'', tr_changes = ''unknown'', tr_verification = ''unknown'',
     tr_remaining = [], tr_stop_code = Some ''missing_terminal'', tr_stop_reason = None\<rparr>"

definition short_text :: "string option \<Rightarrow> bool" where
  "short_text v = (case v of None \<Rightarrow> True | Some s \<Rightarrow> length s \<le> 1024)"

definition mk_result :: "task_result \<Rightarrow> task_result result" where
  "mk_result r =
     (if tr_execution r \<notin> set executions \<or> tr_changes r \<notin> {''changed'', ''unchanged'', ''unknown''}
      then raiseR ValueError ''invalid result status''
      else if tr_verification r \<notin> set verifications then raiseR ValueError ''invalid verification status''
      else if 32 < length (tr_remaining r) \<or> list_ex (\<lambda>x. 1024 < length x) (tr_remaining r)
      then raiseR ValueError ''remaining must be bounded text''
      else if \<not> short_text (tr_stop_code r) \<or> \<not> short_text (tr_stop_reason r)
      then raiseR ValueError ''result reason must be bounded text''
      else Inr r)"

definition result_to_dict :: "task_result \<Rightarrow> jdict" where
  "result_to_dict r =
     [(''version'', JInt 1), (''execution_status'', JStr (tr_execution r)), (''changes'', JStr (tr_changes r)),
      (''verification_status'', JStr (tr_verification r)), (''remaining'', texts_json (tr_remaining r)),
      (''stop_code'', opt_json (tr_stop_code r)), (''stop_reason'', opt_json (tr_stop_reason r))]"

fun hashable :: "json \<Rightarrow> bool" where
  "hashable (JObj d) = False"
| "hashable (JArr xs) = list_all hashable xs"
| "hashable _ = True"

definition as_key :: "string \<Rightarrow> json \<Rightarrow> string result" where
  "as_key msg v = (if \<not> hashable v then raiseR TypeError ''unhashable type'' else as_str msg v)"

definition equals_one :: "json \<Rightarrow> bool" where
  "equals_one v = (case v of JInt i \<Rightarrow> i = 1 | JBool b \<Rightarrow> b | JFloat m k \<Rightarrow> m = 2 ^ k | _ \<Rightarrow> False)"

definition result_from_dict :: "jdict \<Rightarrow> task_result result" where
  "result_from_dict d =
     (if \<not> equals_one (get_or ''version'' (JInt 1) d) then raiseR ValueError ''unsupported task result version''
      else bindR (as_key ''invalid result status'' (get_or ''execution_status'' (JStr ''unknown'') d)) (\<lambda>e.
        bindR (as_key ''invalid result status'' (get_or ''changes'' (JStr ''unknown'') d)) (\<lambda>c.
        bindR (as_key ''invalid verification status'' (get_or ''verification_status'' (JStr ''unknown'') d)) (\<lambda>v.
        bindR (bindR (tuple_of (get_or ''remaining'' (JArr []) d)) (mapR (as_str ''remaining must be bounded text''))) (\<lambda>m.
        bindR (as_str_opt ''result reason must be bounded text'' (get_or ''stop_code'' (JStr ''missing_terminal'') d)) (\<lambda>sc.
        bindR (as_str_opt ''result reason must be bounded text'' (get_or ''stop_reason'' JNull d)) (\<lambda>sr.
          mk_result \<lparr>tr_execution = e, tr_changes = c, tr_verification = v, tr_remaining = m, tr_stop_code = sc,
            tr_stop_reason = sr\<rparr>)))))))"

definition exit_code :: "bool \<Rightarrow> task_result \<Rightarrow> int" where
  "exit_code require_verified r =
     (if tr_execution r = ''completed'' then (if require_verified \<and> tr_verification r \<noteq> ''verified'' then 5 else 0)
      else if tr_execution r = ''failed'' then 1
      else if tr_execution r = ''cancelled'' then 130
      else if tr_execution r = ''waiting_decision'' then 3
      else if tr_execution r = ''accepted_partial'' then 5
      else 4)"

definition result_from_task :: "task_record \<Rightarrow> task_state option \<Rightarrow> string \<Rightarrow> string list \<Rightarrow> string option
    \<Rightarrow> task_result result" where
  "result_from_task t state verification remaining stop_code =
     (let status = status_value (tk_status t); known = (status \<in> set executions) in
      mk_result \<lparr>tr_execution = (if known then status else ''interrupted''),
        tr_changes = (case state of None \<Rightarrow> ''unknown''
          | Some s \<Rightarrow> if ts_files_changed s \<noteq> [] then ''changed'' else ''unchanged''),
        tr_verification = verification, tr_remaining = remaining,
        tr_stop_code = (case stop_code of Some (c # cs) \<Rightarrow> Some (c # cs)
          | _ \<Rightarrow> Some (if known then status else ''missing_terminal'')),
        tr_stop_reason = tk_stop_reason t\<rparr>)"

section \<open>The collector\<close>

record collector =
  rc_result :: task_result
  rc_task_id :: json
  rc_thread_id :: json
  rc_cancelled :: bool

definition new_collector :: collector where
  "new_collector = \<lparr>rc_result = default_result, rc_task_id = JNull, rc_thread_id = JNull, rc_cancelled = False\<rparr>"

definition plain_result :: "string \<Rightarrow> json \<Rightarrow> task_result result" where
  "plain_result status reason =
     bindR (as_str_opt ''result reason must be bounded text'' reason) (\<lambda>r.
       mk_result (default_result\<lparr>tr_execution := status, tr_stop_code := Some status, tr_stop_reason := r\<rparr>))"

definition set_result :: "collector \<Rightarrow> task_result result \<Rightarrow> collector \<times> unit result" where
  "set_result c r = (case r of Inl e \<Rightarrow> (c, Inl e) | Inr x \<Rightarrow> (c\<lparr>rc_result := x\<rparr>, Inr ()))"

definition result_events :: "event_kind list" where
  "result_events = [COMPLETED, TASK_RESULT, TASK_STATUS_CHANGED, TASK_PAUSED, TASK_DECISION_REQUIRED]"

text \<open>The three parts of \<open>observe\<close>: the collector each leaves behind, and whether it raised on the way.\<close>

definition structured_result :: "collector \<Rightarrow> jdict \<Rightarrow> collector \<times> unit result" where
  "structured_result c d =
     (case result_from_dict d of
        Inl err \<Rightarrow> (c, Inl err)
      | Inr r \<Rightarrow> (if rc_cancelled c then c else c\<lparr>rc_result := r\<rparr>, Inr ()))"

definition status_result :: "collector \<Rightarrow> json \<Rightarrow> json \<Rightarrow> collector \<times> unit result" where
  "status_result c status reason =
     (if \<not> hashable status then (c, raiseR TypeError ''unhashable type'')
      else (case status of
          JStr s \<Rightarrow> if s \<in> set executions then set_result c (plain_result s reason) else (c, Inr ())
        | _ \<Rightarrow> (c, Inr ())))"

definition legacy_result :: "collector \<Rightarrow> event_kind \<Rightarrow> jdict \<Rightarrow> collector \<times> unit result" where
  "legacy_result c k p =
     (if rc_cancelled c then (c, Inr ())
      else if k = COMPLETED
      then set_result c (mk_result (default_result\<lparr>tr_execution := ''completed'', tr_stop_code := Some ''completed''\<rparr>))
      else if k = ERROR
      then set_result c (mk_result (default_result\<lparr>tr_execution := ''failed'', tr_stop_code := Some ''execution_error''\<rparr>))
      else if k \<in> {TASK_STATUS_CHANGED, TASK_PAUSED, TASK_DECISION_REQUIRED}
      then status_result c
             (get_or ''status'' (if k = TASK_DECISION_REQUIRED then JStr ''waiting_decision'' else JNull) p)
             (get_or ''reason'' JNull p)
      else (c, Inr ()))"

definition observe_event :: "agent_event \<Rightarrow> collector \<Rightarrow> collector \<times> unit result" where
  "observe_event e c0 =
     (let p = ev_payload e; k = ev_kind e;
          c = c0\<lparr>rc_task_id := get_or ''task_id'' (rc_task_id c0) p, rc_thread_id := get_or ''thread_id'' (rc_thread_id c0) p\<rparr>
      in if k = CANCELLED
         then set_result (c\<lparr>rc_cancelled := True\<rparr>) (plain_result ''cancelled'' (get_or ''reason'' JNull p))
         else (case (if k \<in> set result_events then get_or ''result'' JNull p else JNull) of
           JObj d \<Rightarrow> structured_result c d
         | _ \<Rightarrow> legacy_result c k p))"

definition reconcile :: "task_result \<Rightarrow> collector \<Rightarrow> task_result result" where
  "reconcile durable c =
     (if rc_cancelled c
      then mk_result \<lparr>tr_execution = ''cancelled'', tr_changes = tr_changes durable,
             tr_verification = tr_verification durable, tr_remaining = tr_remaining durable,
             tr_stop_code = Some ''cancelled'', tr_stop_reason = tr_stop_reason (rc_result c)\<rparr>
      else Inr durable)"

section \<open>Lemmas\<close>

lemma mk_result_InrD: "mk_result r = Inr s \<Longrightarrow> s = r \<and> mk_result r = Inr r"
  by (auto simp: mk_result_def split: if_splits)

lemma mk_result_texts:
  assumes "mk_result r = Inr r"
  shows "tr_execution r \<in> set executions" "tr_changes r \<in> {''changed'', ''unchanged'', ''unknown''}"
    "tr_verification r \<in> set verifications" "length (tr_remaining r) \<le> 32"
    "\<not> list_ex (\<lambda>x. 1024 < length x) (tr_remaining r)" "short_text (tr_stop_code r)" "short_text (tr_stop_reason r)"
  using assms unfolding mk_result_def by (auto split: if_splits)

lemma as_key_str [simp]: "as_key m (JStr s) = Inr s"
  by (simp add: as_key_def)

lemma equals_one_1 [simp]: "equals_one (JInt 1)"
  by (simp add: equals_one_def)

lemma remaining_reload [simp]: "bindR (tuple_of (texts_json vs)) (mapR (as_str m)) = Inr vs"
  by (simp add: texts_json_def mapR_map)

text \<open>
  A result survives its JSON form, and its exit code is 0 exactly when the run completed, and, where
  verification is demanded, was verified.
\<close>

theorem result_reloads:
  assumes "mk_result r = Inr r"
  shows "result_from_dict (result_to_dict r) = Inr r
    \<and> (exit_code b r = 0 \<longleftrightarrow> tr_execution r = ''completed'' \<and> (b \<longrightarrow> tr_verification r = ''verified''))"
proof -
  have eta: "\<lparr>tr_execution = tr_execution r, tr_changes = tr_changes r, tr_verification = tr_verification r,
      tr_remaining = tr_remaining r, tr_stop_code = tr_stop_code r, tr_stop_reason = tr_stop_reason r\<rparr> = r" by simp
  have "result_from_dict (result_to_dict r) = mk_result r"
    by (simp add: result_from_dict_def result_to_dict_def eta)
  with assms show ?thesis by (simp add: exit_code_def)
qed

theorem result_reloads_witness:
  "result_from_dict (result_to_dict default_result) = Inr default_result"
proof -
  have "mk_result default_result = Inr default_result" by code_simp
  from result_reloads [OF this] show ?thesis by simp
qed

definition collect :: "agent_event \<Rightarrow> collector \<Rightarrow> collector" where
  "collect e c = fst (observe_event e c)"

definition collector_ok :: "collector \<Rightarrow> bool" where
  "collector_ok c = (mk_result (rc_result c) = Inr (rc_result c))"

lemma result_from_dict_ok: "result_from_dict d = Inr r \<Longrightarrow> mk_result r = Inr r"
  by (auto simp: result_from_dict_def bindR_Inr_iff dest: mk_result_InrD split: if_splits)

lemma plain_result_ok: "plain_result s v = Inr r \<Longrightarrow> mk_result r = Inr r \<and> tr_verification r = ''unknown''"
  by (auto simp: plain_result_def default_result_def bindR_Inr_iff dest: mk_result_InrD)

text \<open>What one event leaves behind: the old result, or a valid one that claims no verification unless it came in the event.\<close>

definition good_result :: "bool \<Rightarrow> collector \<Rightarrow> collector \<Rightarrow> bool" where
  "good_result given c c' = (rc_cancelled c' = rc_cancelled c \<and> (rc_result c' = rc_result c
     \<or> (mk_result (rc_result c') = Inr (rc_result c') \<and> (given \<or> tr_verification (rc_result c') = ''unknown''))))"

lemma good_set_plain: "good_result g c (fst (set_result c (plain_result s v)))"
  by (cases "plain_result s v") (auto simp: set_result_def good_result_def dest: plain_result_ok)

lemma good_set_default:
  "good_result g c (fst (set_result c (mk_result (default_result\<lparr>tr_execution := s, tr_stop_code := Some t\<rparr>))))"
  by (cases "mk_result (default_result\<lparr>tr_execution := s, tr_stop_code := Some t\<rparr>)")
     (auto simp: set_result_def good_result_def default_result_def dest: mk_result_InrD)

lemma good_refl: "good_result g c c"
  by (simp add: good_result_def)

lemma good_structured: "good_result True c (fst (structured_result c d))"
  by (cases "result_from_dict d") (auto simp: structured_result_def good_result_def dest: result_from_dict_ok)

lemma good_legacy: "good_result g c (fst (legacy_result c k p))"
  by (auto simp: legacy_result_def status_result_def good_refl good_set_default good_set_plain split: json.split)

lemma good_observe:
  "good_result (\<exists>d. get_or ''result'' JNull (ev_payload e) = JObj d)
     (c\<lparr>rc_cancelled := rc_cancelled c \<or> ev_kind e = CANCELLED\<rparr>) (collect e c)"
proof -
  let ?c = "c\<lparr>rc_task_id := get_or ''task_id'' (rc_task_id c) (ev_payload e), rc_thread_id := get_or ''thread_id'' (rc_thread_id c) (ev_payload e)\<rparr>"
  let ?v = "if ev_kind e \<in> set result_events then get_or ''result'' JNull (ev_payload e) else JNull"
  show ?thesis
  proof (cases "ev_kind e = CANCELLED")
    case True
    then show ?thesis
      using good_set_plain [of False "?c\<lparr>rc_cancelled := True\<rparr>" "''cancelled''" "get_or ''reason'' JNull (ev_payload e)"]
      by (auto simp: collect_def observe_event_def Let_def good_result_def)
  next
    case False
    show ?thesis
    proof (cases "\<exists>d. ?v = JObj d")
      case True
      then obtain d where d: "?v = JObj d" by blast
      then have "get_or ''result'' JNull (ev_payload e) = JObj d" by (simp split: if_splits)
      moreover have "collect e c = fst (structured_result ?c d)"
        using False d by (simp add: collect_def observe_event_def Let_def)
      ultimately show ?thesis using False good_structured [of ?c d] by (simp add: good_result_def)
    next
      case no: False
      have "collect e c = fst (legacy_result ?c (ev_kind e) (ev_payload e))"
        using False no by (cases ?v) (simp_all add: collect_def observe_event_def Let_def)
      with False good_legacy [of False ?c "ev_kind e" "ev_payload e"] show ?thesis by (auto simp: good_result_def)
    qed
  qed
qed

lemma collect_cases:
  "rc_cancelled (collect e c) \<longleftrightarrow> rc_cancelled c \<or> ev_kind e = CANCELLED"
  "rc_result (collect e c) = rc_result c
   \<or> (mk_result (rc_result (collect e c)) = Inr (rc_result (collect e c))
      \<and> (tr_verification (rc_result (collect e c)) = ''unknown'' \<or> (\<exists>d. get_or ''result'' JNull (ev_payload e) = JObj d)))"
  using good_observe [of e c] by (auto simp: good_result_def)

interpretation result_collector: state_machine collect collector_ok
proof unfold_locales
  show "collector_ok c \<Longrightarrow> collector_ok (collect e c)" for e c
    using collect_cases(2) [of e c] by (auto simp: collector_ok_def)
qed

lemma collected_ok: "collector_ok (fold collect es new_collector)"
  by (rule result_collector.run_inv) code_simp

lemma collected_cancelled: "rc_cancelled (fold collect es c) \<longleftrightarrow> rc_cancelled c \<or> (\<exists>e \<in> set es. ev_kind e = CANCELLED)"
  by (induction es arbitrary: c) (auto simp: collect_cases(1))

text \<open>
  C27: A cancelled run stays cancelled: once a cancellation was observed, whatever comes before or after it,
  even malformed events that make the collector raise, reconciling with the stored result gives the exit
  code 130, and keeps what the stored result says of changes and verification.
\<close>

theorem cancelled_run_exits_130:
  assumes "mk_result durable = Inr durable" and "\<exists>e \<in> set es. ev_kind e = CANCELLED"
  shows "\<exists>r. reconcile durable (fold collect es new_collector) = Inr r \<and> exit_code b r = 130
    \<and> tr_changes r = tr_changes durable \<and> tr_verification r = tr_verification durable"
proof -
  let ?c = "fold collect es new_collector"
  have "rc_cancelled ?c" using assms(2) by (simp add: collected_cancelled)
  moreover have "short_text (tr_stop_reason (rc_result ?c))"
    using collected_ok [of es] mk_result_texts(7) by (simp add: collector_ok_def)
  ultimately show ?thesis
    using mk_result_texts [OF assms(1)]
    by (auto simp: reconcile_def mk_result_def exit_code_def executions_def short_text_def)
qed

theorem cancelled_run_exits_130_witness:
  "\<exists>r. reconcile default_result (fold collect [\<lparr>ev_kind = CANCELLED, ev_payload = [(''reason'', JInt 3)], ev_timestamp = 0\<rparr>,
      \<lparr>ev_kind = COMPLETED, ev_payload = [], ev_timestamp = 1\<rparr>] new_collector) = Inr r \<and> exit_code True r = 130"
proof -
  have "mk_result default_result = Inr default_result" by code_simp
  from cancelled_run_exits_130 [OF this,
      of "[\<lparr>ev_kind = CANCELLED, ev_payload = [(''reason'', JInt 3)], ev_timestamp = 0\<rparr>,
      \<lparr>ev_kind = COMPLETED, ev_payload = [], ev_timestamp = 1\<rparr>]" True]
  show ?thesis by auto
qed

text \<open>
  Events prove execution only: without a structured result in some event, the collected verification
  status is unknown, so the exit code that demands verification is not 0.
\<close>

theorem events_prove_no_verification:
  assumes "\<forall>e \<in> set es. \<not> (\<exists>d. get_or ''result'' JNull (ev_payload e) = JObj d)"
  shows "tr_verification (rc_result (fold collect es new_collector)) = ''unknown''
    \<and> exit_code True (rc_result (fold collect es new_collector)) \<noteq> 0"
proof -
  have "tr_verification (rc_result (fold collect es c)) = ''unknown''"
    if "tr_verification (rc_result c) = ''unknown''" for c
    using assms that
  proof (induction es arbitrary: c)
    case (Cons e es)
    have "tr_verification (rc_result (collect e c)) = ''unknown''"
      using collect_cases(2) [of e c] Cons.prems by auto
    with Cons show ?case by simp
  qed simp
  from this [of new_collector] show ?thesis
    by (simp add: new_collector_def default_result_def exit_code_def)
qed

theorem events_prove_no_verification_witness:
  "exit_code True (rc_result (fold collect [\<lparr>ev_kind = COMPLETED, ev_payload = [], ev_timestamp = 1\<rparr>] new_collector)) \<noteq> 0
   \<and> exit_code False (rc_result (fold collect [\<lparr>ev_kind = COMPLETED, ev_payload = [], ev_timestamp = 1\<rparr>] new_collector)) = 0"
proof -
  have "exit_code False (rc_result (fold collect [\<lparr>ev_kind = COMPLETED, ev_payload = [], ev_timestamp = 1\<rparr>] new_collector)) = 0"
    by code_simp
  then show ?thesis
    using events_prove_no_verification [of "[\<lparr>ev_kind = COMPLETED, ev_payload = [], ev_timestamp = 1\<rparr>]"] by simp
qed

end
