(* ===== verification/Completion.thy ===== *)
theory Completion
  imports Task Limits
begin

text \<open>
  When a task counts as done: \<open>src/src/code_agent/core/completion_contract.py\<close> (acceptance criteria, their
  revisions, and the assessment of verification candidates), \<open>core/verification_state.py\<close> (what follows an
  assessment), \<open>core/task_verification.py\<close> (the bounded assessment value) and \<open>core/task_supervisor.py\<close>
  (when a task pauses). The supervisor's clock readings are microseconds, as \<open>datetime\<close> counts them.
\<close>

section \<open>Criteria\<close>

datatype requirement = REQUIRED | OPTIONAL

datatype strength = USER | SELF_AUTHORED | INTEGRITY

datatype completion_kind = VERIFIED | PARTIAL | UNVERIFIED

definition bounded_text :: "string \<Rightarrow> nat \<Rightarrow> string \<Rightarrow> string result" where
  "bounded_text name maximum v = text_check maximum (name @ '' must be bounded non-blank text'') v"

record criterion =
  cr_identifier :: string
  cr_description :: string
  cr_requirement :: requirement
  cr_strength :: strength

definition mk_criterion :: "criterion \<Rightarrow> criterion result" where
  "mk_criterion c =
     bindR (bounded_text ''identifier'' 128 (cr_identifier c)) (\<lambda>_.
     bindR (bounded_text ''description'' 2000 (cr_description c)) (\<lambda>_.
     if cr_strength c = INTEGRITY \<and> cr_requirement c \<noteq> REQUIRED
     then raiseR ValueError ''integrity criteria must be required'' else Inr c))"

record revision =
  rv_revision :: int
  rv_intent :: task_intent
  rv_criteria :: "criterion list"

definition mk_revision :: "revision \<Rightarrow> revision result" where
  "mk_revision v =
     (if rv_revision v < 1 then raiseR ValueError ''revision must be a positive integer''
      else if rv_criteria v = [] \<or> 32 < length (rv_criteria v)
      then raiseR ValueError ''criteria must contain 1 to 32 typed criteria''
      else if \<not> distinct (map cr_identifier (rv_criteria v))
      then raiseR ValueError ''criterion identifiers must be unique''
      else Inr v)"

definition user_required :: "revision \<Rightarrow> string list" where
  "user_required v = map cr_identifier
     (filter (\<lambda>c. cr_strength c = USER \<and> cr_requirement c = REQUIRED) (rv_criteria v))"

definition criterion_of :: "revision \<Rightarrow> string \<Rightarrow> criterion option" where
  "criterion_of v i = find (\<lambda>c. cr_identifier c = i) (rv_criteria v)"

definition revise :: "criterion list \<Rightarrow> revision \<Rightarrow> revision result" where
  "revise cs v =
     bindR (mk_revision \<lparr>rv_revision = rv_revision v + 1, rv_intent = rv_intent v, rv_criteria = cs\<rparr>) (\<lambda>w.
     if list_ex (\<lambda>i. case criterion_of w i of None \<Rightarrow> True | Some c \<Rightarrow> cr_requirement c \<noteq> REQUIRED) (user_required v)
     then raiseR ValueError ''user-required criteria cannot be downgraded or removed''
     else Inr w)"

record action_effect =
  ae_generation :: int
  ae_changed_paths :: "string list"
  ae_content_hashes :: "string list"

definition mk_action_effect :: "action_effect \<Rightarrow> action_effect result" where
  "mk_action_effect e =
     (if ae_generation e < 1 then raiseR ValueError ''generation must be positive''
      else if ae_changed_paths e = [] \<or> length (ae_changed_paths e) \<noteq> length (ae_content_hashes e)
              \<or> [] \<in> set (ae_changed_paths e @ ae_content_hashes e)
      then raiseR ValueError ''action effects need matching non-blank paths and hashes''
      else Inr e)"

section \<open>Assessment\<close>

record candidate =
  cd_criterion :: string
  cd_passed :: bool
  cd_generation :: int
  cd_subject_hash :: string

definition mk_candidate :: "candidate \<Rightarrow> candidate result" where
  "mk_candidate c =
     bindR (bounded_text ''criterion_id'' 128 (cd_criterion c)) (\<lambda>_.
     if cd_generation c < 0 then raiseR ValueError ''completion candidate has invalid values''
     else bindR (bounded_text ''subject_hash'' 128 (cd_subject_hash c)) (\<lambda>_. Inr c))"

record assessment =
  as_kind :: completion_kind
  as_unmet :: "string list"

definition latest_candidates :: "int \<Rightarrow> string \<Rightarrow> candidate list \<Rightarrow> (string \<times> candidate) list" where
  "latest_candidates g h cs =
     foldl (\<lambda>d c. dput (cd_criterion c) c d) []
       (filter (\<lambda>c. cd_generation c = g \<and> cd_subject_hash c = h) cs)"

definition passed_in :: "(string \<times> candidate) list \<Rightarrow> string \<Rightarrow> bool" where
  "passed_in d i = (case dget d i of None \<Rightarrow> False | Some c \<Rightarrow> cd_passed c)"

definition assess_completion :: "revision \<Rightarrow> int \<Rightarrow> string \<Rightarrow> candidate list \<Rightarrow> assessment result" where
  "assess_completion v g h cs =
     (if g < 0 then raiseR TypeError ''contract and generation must be valid''
      else bindR (bounded_text ''subject_hash'' 128 h) (\<lambda>h.
        let latest = latest_candidates g h cs;
            unmet = map cr_identifier
              (filter (\<lambda>c. cr_requirement c = REQUIRED \<and> \<not> passed_in latest (cr_identifier c)) (rv_criteria v))
        in if unmet = [] then Inr \<lparr>as_kind = VERIFIED, as_unmet = []\<rparr>
           else Inr \<lparr>as_kind = (if list_ex cd_passed (dvals latest) then PARTIAL else UNVERIFIED), as_unmet = unmet\<rparr>))"

section \<open>What follows an assessment\<close>

datatype verifier_outcome = NOT_RUN | PASS | FAIL | UNAVAILABLE | OUTCOME_INTERRUPTED

datatype verification_action = COMPLETE | VERIFY | REPAIR | WAIT | REASSESS

record verification_transition =
  vt_status :: task_status
  vt_action :: verification_action
  vt_consume_repair :: bool

definition vtrans :: "task_status \<Rightarrow> verification_action \<Rightarrow> bool \<Rightarrow> verification_transition" where
  "vtrans s a b = \<lparr>vt_status = s, vt_action = a, vt_consume_repair = b\<rparr>"

definition decide_verification :: "task_intent \<Rightarrow> assessment \<Rightarrow> verifier_outcome \<Rightarrow> verification_transition" where
  "decide_verification intent a out =
     (if as_kind a = VERIFIED then vtrans T_COMPLETED COMPLETE False
      else if out = OUTCOME_INTERRUPTED then vtrans T_VERIFYING REASSESS False
      else if out = UNAVAILABLE then vtrans T_WAITING_DECISION WAIT False
      else if out = FAIL
      then (if intent \<noteq> MODIFY then vtrans T_COMPLETED COMPLETE False else vtrans T_RUNNING REPAIR True)
      else if intent = MODIFY then vtrans T_VERIFYING VERIFY False
      else vtrans T_COMPLETED COMPLETE False)"

definition mk_diagnostics :: "string list \<Rightarrow> string list result" where
  "mk_diagnostics ds =
     (if 8 < length ds \<or> list_ex (\<lambda>d. blank d \<or> 512 < length d) ds
      then raiseR ValueError ''verification diagnostics must be bounded non-blank text'' else Inr ds)"

section \<open>Supervision\<close>

datatype supervision_kind = CONTINUE | WARN | PAUSE

record supervisor =
  sv_max_active_seconds :: int
  sv_max_repair_cycles :: int
  sv_max_repeated :: int
  sv_started_at :: int
  sv_active_seconds :: int
  sv_run_active_seconds :: int
  sv_token_usage :: int
  sv_token_limit :: "int option"
  sv_last_failure :: "string option"
  sv_repetitions :: int
  sv_repair_cycles :: int

definition new_supervisor :: "task_contract \<Rightarrow> task_budget option \<Rightarrow> int \<Rightarrow> supervisor" where
  "new_supervisor c b started =
     \<lparr>sv_max_active_seconds = tc_max_active_seconds c, sv_max_repair_cycles = tc_max_repair_cycles c,
      sv_max_repeated = tc_max_repeated_failures c, sv_started_at = started,
      sv_active_seconds = (case b of None \<Rightarrow> 0 | Some x \<Rightarrow> tb_active_seconds x), sv_run_active_seconds = 0,
      sv_token_usage = (case b of None \<Rightarrow> 0 | Some x \<Rightarrow> tb_input_tokens x + tb_output_tokens x),
      sv_token_limit = (case b of None \<Rightarrow> None | Some x \<Rightarrow> Some (el_max_total_tokens (tb_limits x))),
      sv_last_failure = (case b of None \<Rightarrow> None | Some x \<Rightarrow> tb_last_failure x),
      sv_repetitions = (case b of None \<Rightarrow> 0 | Some x \<Rightarrow> tb_repeated_failures x),
      sv_repair_cycles = (case b of None \<Rightarrow> 0 | Some x \<Rightarrow> tb_repair_cycles x)\<rparr>"

text \<open>\<open>max(0, int(...total_seconds()))\<close>: whole seconds since the last reading.\<close>

definition elapsed_since :: "int \<Rightarrow> supervisor \<Rightarrow> int" where
  "elapsed_since now s = max 0 ((now - sv_started_at s) div 1000000)"

text \<open>The code reads the clock twice: once for the elapsed time and once for the new start.\<close>

definition checkpoint_active_seconds :: "int \<Rightarrow> int \<Rightarrow> supervisor \<Rightarrow> supervisor \<times> int" where
  "checkpoint_active_seconds now again s =
     (let e = elapsed_since now s;
          s' = s\<lparr>sv_active_seconds := sv_active_seconds s + e, sv_run_active_seconds := sv_run_active_seconds s + e,
                 sv_started_at := again\<rparr>
      in (s', sv_active_seconds s'))"

definition before_model_turn :: "int \<Rightarrow> supervisor \<Rightarrow> supervision_kind \<times> string option" where
  "before_model_turn now s =
     (if (case sv_token_limit s of None \<Rightarrow> False | Some l \<Rightarrow> l \<le> sv_token_usage s)
      then (PAUSE, Some ''token budget exceeded'')
      else if sv_max_active_seconds s \<le> sv_run_active_seconds s + elapsed_since now s
      then (PAUSE, Some ''active time budget exceeded'')
      else (CONTINUE, None))"

definition observe_validation :: "string option \<Rightarrow> int \<Rightarrow> supervisor
    \<Rightarrow> (supervisor \<times> (supervision_kind \<times> string option)) result" where
  "observe_validation fingerprint changed s =
     (if changed < 0 then raiseR ValueError ''changed_files must not be negative''
      else if fingerprint = None \<or> fingerprint = Some [] \<or> changed = 0 then Inr (s, (CONTINUE, None))
      else
        let s1 = (if fingerprint = sv_last_failure s then s\<lparr>sv_repetitions := sv_repetitions s + 1\<rparr>
                  else s\<lparr>sv_last_failure := fingerprint, sv_repetitions := 1\<rparr>);
            s2 = s1\<lparr>sv_repair_cycles := sv_repair_cycles s1 + 1\<rparr>
        in Inr (s2,
             if sv_max_repeated s2 \<le> sv_repetitions s2 then (PAUSE, Some ''repeated validation failure'')
             else if sv_max_repair_cycles s2 \<le> sv_repair_cycles s2 then (PAUSE, Some ''repair cycle budget exceeded'')
             else (CONTINUE, None)))"

section \<open>Completion is earned\<close>

definition last_matching :: "int \<Rightarrow> string \<Rightarrow> candidate list \<Rightarrow> string \<Rightarrow> candidate option" where
  "last_matching g h cs i = find (\<lambda>c. cd_generation c = g \<and> cd_subject_hash c = h \<and> cd_criterion c = i) (rev cs)"

text \<open>The reference: the last candidate for this criterion, generation and subject passed.\<close>

definition last_passed :: "int \<Rightarrow> string \<Rightarrow> candidate list \<Rightarrow> string \<Rightarrow> bool" where
  "last_passed g h cs i = (case last_matching g h cs i of None \<Rightarrow> False | Some c \<Rightarrow> cd_passed c)"

lemma dget_latest: "dget (latest_candidates g h cs) i = last_matching g h cs i"
proof (induction cs rule: rev_induct)
  case (snoc c cs)
  then show ?case by (auto simp: latest_candidates_def last_matching_def)
qed (simp add: latest_candidates_def last_matching_def)

lemma passed_in_latest: "passed_in (latest_candidates g h cs) i = last_passed g h cs i"
  by (simp add: passed_in_def last_passed_def dget_latest)

lemma assess_verified_iff:
  assumes "assess_completion v g h cs = Inr a"
  shows "as_kind a = VERIFIED \<longleftrightarrow>
    (\<forall>c \<in> set (rv_criteria v). cr_requirement c = REQUIRED \<longrightarrow> last_passed g h cs (cr_identifier c))"
  using assms
  by (auto simp: assess_completion_def bindR_Inr_iff Let_def passed_in_latest filter_empty_conv bounded_text_def
      split: if_splits)

text \<open>
  A modifying task completes exactly when, for every required criterion, the last candidate recorded
  for the current generation and subject hash passed, whatever the verifier's outcome; and every decision
  is a status the task may move to from verifying, or verifying itself.
\<close>

theorem modify_completes_iff:
  assumes "assess_completion v g h cs = Inr a"
  shows "(vt_action (decide_verification MODIFY a out) = COMPLETE \<longleftrightarrow>
      (\<forall>c \<in> set (rv_criteria v). cr_requirement c = REQUIRED \<longrightarrow> last_passed g h cs (cr_identifier c)))
    \<and> vt_status (decide_verification intent a out) \<in> insert T_VERIFYING (set (allowed_next T_VERIFYING))"
  using assess_verified_iff [OF assms]
  by (cases out) (auto simp: decide_verification_def vtrans_def)

definition sample_revision :: revision where
  "sample_revision = \<lparr>rv_revision = 1, rv_intent = MODIFY, rv_criteria =
     [\<lparr>cr_identifier = ''tests'', cr_description = ''tests pass'', cr_requirement = REQUIRED, cr_strength = USER\<rparr>,
      \<lparr>cr_identifier = ''lint'', cr_description = ''clean'', cr_requirement = OPTIONAL, cr_strength = SELF_AUTHORED\<rparr>]\<rparr>"

definition sample_candidates :: "candidate list" where
  "sample_candidates =
     [\<lparr>cd_criterion = ''tests'', cd_passed = True, cd_generation = 2, cd_subject_hash = ''h''\<rparr>,
      \<lparr>cd_criterion = ''tests'', cd_passed = False, cd_generation = 2, cd_subject_hash = ''h''\<rparr>]"

theorem modify_completes_iff_witness:
  "\<exists>a. assess_completion sample_revision 2 ''h'' sample_candidates = Inr a
    \<and> vt_action (decide_verification MODIFY a PASS) \<noteq> COMPLETE"
proof -
  have "okP (\<lambda>_. True) (assess_completion sample_revision 2 ''h'' sample_candidates)" by code_simp
  then obtain a where a: "assess_completion sample_revision 2 ''h'' sample_candidates = Inr a" by (rule okP_E)
  have "\<not> (\<forall>c \<in> set (rv_criteria sample_revision). cr_requirement c = REQUIRED
      \<longrightarrow> last_passed 2 ''h'' sample_candidates (cr_identifier c))" by code_simp
  with modify_completes_iff [OF a, of PASS MODIFY] a show ?thesis by blast
qed

section \<open>Revisions\<close>

lemma revise_InrD:
  assumes "revise cs v = Inr w"
  shows "mk_revision w = Inr w" and "rv_revision w = rv_revision v + 1" and "rv_intent w = rv_intent v"
    and "\<And>i. i \<in> set (user_required v) \<Longrightarrow> \<exists>c. criterion_of w i = Some c \<and> cr_requirement c = REQUIRED"
proof -
  obtain u where u: "mk_revision \<lparr>rv_revision = rv_revision v + 1, rv_intent = rv_intent v, rv_criteria = cs\<rparr> = Inr u"
    and ex: "\<not> list_ex (\<lambda>i. case criterion_of u i of None \<Rightarrow> True | Some c \<Rightarrow> cr_requirement c \<noteq> REQUIRED) (user_required v)"
    and w: "w = u"
    using assms by (auto simp: revise_def bindR_Inr_iff split: if_splits)
  have eq: "u = \<lparr>rv_revision = rv_revision v + 1, rv_intent = rv_intent v, rv_criteria = cs\<rparr>"
    using u by (auto simp: mk_revision_def split: if_splits)
  show "mk_revision w = Inr w" "rv_revision w = rv_revision v + 1" "rv_intent w = rv_intent v"
    using u eq w by auto
  show "\<exists>c. criterion_of w i = Some c \<and> cr_requirement c = REQUIRED" if "i \<in> set (user_required v)" for i
    using ex that w by (auto simp: list_ex_iff split: option.splits)
qed

text \<open>
  One accepted revision keeps every criterion that the user required, with its requirement, raises the
  revision number by one, keeps the intent, and has 1 to 32 criteria with distinct identifiers.
\<close>

theorem revision_keeps_user_required:
  assumes "revise cs v = Inr w"
  shows "(\<forall>i \<in> set (user_required v). \<exists>c. criterion_of w i = Some c \<and> cr_requirement c = REQUIRED)
    \<and> rv_revision w = rv_revision v + 1 \<and> rv_intent w = rv_intent v
    \<and> rv_criteria w \<noteq> [] \<and> length (rv_criteria w) \<le> 32 \<and> distinct (map cr_identifier (rv_criteria w))"
  using revise_InrD [OF assms] by (auto simp: mk_revision_def split: if_splits)

theorem revision_keeps_user_required_witness:
  "\<exists>w. revise (rv_criteria sample_revision) sample_revision = Inr w
    \<and> (\<exists>c. criterion_of w ''tests'' = Some c \<and> cr_requirement c = REQUIRED)"
proof -
  have "okP (\<lambda>_. True) (revise (rv_criteria sample_revision) sample_revision)" by code_simp
  then obtain w where w: "revise (rv_criteria sample_revision) sample_revision = Inr w" by (rule okP_E)
  have "''tests'' \<in> set (user_required sample_revision)" by code_simp
  with revision_keeps_user_required [OF w] w show ?thesis by blast
qed

text \<open>The guard looks at the strength of the revision at hand only, and a revision may change it.\<close>

definition relabelled :: "revision \<Rightarrow> criterion list" where
  "relabelled v = map (\<lambda>c. c\<lparr>cr_strength := SELF_AUTHORED\<rparr>) (rv_criteria v)"

lemma criterion_of_relabelled:
  "criterion_of (v\<lparr>rv_criteria := relabelled v\<rparr>) i = map_option (\<lambda>c. c\<lparr>cr_strength := SELF_AUTHORED\<rparr>) (criterion_of v i)"
proof -
  have "find (\<lambda>c. cr_identifier c = i) (map (\<lambda>c. c\<lparr>cr_strength := SELF_AUTHORED\<rparr>) cs)
      = map_option (\<lambda>c. c\<lparr>cr_strength := SELF_AUTHORED\<rparr>) (find (\<lambda>c. cr_identifier c = i) cs)" for cs :: "criterion list"
    by (induction cs) auto
  then show ?thesis by (simp add: criterion_of_def relabelled_def)
qed

lemma criterion_of_member:
  "distinct (map cr_identifier (rv_criteria v)) \<Longrightarrow> c \<in> set (rv_criteria v) \<Longrightarrow> criterion_of v (cr_identifier c) = Some c"
proof -
  have "distinct (map cr_identifier cs) \<Longrightarrow> c \<in> set cs \<Longrightarrow> find (\<lambda>d. cr_identifier d = cr_identifier c) cs = Some c" for cs
    by (induction cs) auto
  then show "distinct (map cr_identifier (rv_criteria v)) \<Longrightarrow> c \<in> set (rv_criteria v) \<Longrightarrow> criterion_of v (cr_identifier c) = Some c"
    by (simp add: criterion_of_def)
qed

lemma revise_relabelled:
  assumes "mk_revision v = Inr v"
  shows "revise (relabelled v) v = Inr (v\<lparr>rv_revision := rv_revision v + 1, rv_criteria := relabelled v\<rparr>)"
proof -
  let ?w = "v\<lparr>rv_revision := rv_revision v + 1, rv_criteria := relabelled v\<rparr>"
  have ids: "map cr_identifier (relabelled v) = map cr_identifier (rv_criteria v)"
    by (simp add: relabelled_def comp_def)
  have len: "length (relabelled v) = length (rv_criteria v)" by (simp add: relabelled_def)
  have eta: "\<lparr>rv_revision = rv_revision v + 1, rv_intent = rv_intent v, rv_criteria = relabelled v\<rparr> = ?w" by simp
  have mk: "mk_revision ?w = Inr ?w"
    using assms ids len by (auto simp: mk_revision_def split: if_splits simp del: map_map)
  have "\<exists>c. criterion_of ?w i = Some c \<and> cr_requirement c = REQUIRED" if i: "i \<in> set (user_required v)" for i
  proof -
    have same: "criterion_of ?w i = criterion_of (v\<lparr>rv_criteria := relabelled v\<rparr>) i" by (simp add: criterion_of_def)
    obtain c where "c \<in> set (rv_criteria v)" "cr_requirement c = REQUIRED" "cr_identifier c = i"
      using i by (auto simp: user_required_def)
    moreover have "distinct (map cr_identifier (rv_criteria v))"
      using assms by (auto simp: mk_revision_def split: if_splits)
    ultimately show ?thesis
      using criterion_of_member [of v c] by (auto simp: same criterion_of_relabelled)
  qed
  then have "\<not> list_ex (\<lambda>i. case criterion_of ?w i of None \<Rightarrow> True | Some c \<Rightarrow> cr_requirement c \<noteq> REQUIRED) (user_required v)"
    by (fastforce simp: list_ex_iff split: option.splits)
  then show ?thesis using mk by (simp add: revise_def eta)
qed

text \<open>
  C33: The protection does not survive two revisions: from every valid contract a first accepted revision
  can take the user's authorship off all criteria, and after it any valid list of criteria is accepted,
  one that drops everything the user required included.
\<close>

theorem two_revisions_drop_user_criteria:
  assumes "mk_revision v = Inr v"
    and "ds \<noteq> []" "length ds \<le> 32" "distinct (map cr_identifier ds)"
  shows "\<exists>w u. revise (relabelled v) v = Inr w \<and> revise ds w = Inr u \<and> rv_criteria u = ds"
proof -
  let ?w = "v\<lparr>rv_revision := rv_revision v + 1, rv_criteria := relabelled v\<rparr>"
  have "user_required ?w = []" by (auto simp: user_required_def relabelled_def filter_empty_conv)
  moreover have "1 \<le> rv_revision v" using assms(1) by (auto simp: mk_revision_def split: if_splits)
  ultimately have "revise ds ?w = Inr \<lparr>rv_revision = rv_revision v + 2, rv_intent = rv_intent v, rv_criteria = ds\<rparr>"
    using assms(2-) by (auto simp: revise_def mk_revision_def)
  with revise_relabelled [OF assms(1)] show ?thesis by auto
qed

theorem two_revisions_drop_user_criteria_witness:
  "''tests'' \<in> set (user_required sample_revision) \<and>
   (\<exists>w u. revise (relabelled sample_revision) sample_revision = Inr w
      \<and> revise [\<lparr>cr_identifier = ''easy'', cr_description = ''easy'', cr_requirement = OPTIONAL, cr_strength = SELF_AUTHORED\<rparr>] w = Inr u
      \<and> criterion_of u ''tests'' = None)"
proof -
  let ?ds = "[\<lparr>cr_identifier = ''easy'', cr_description = ''easy'', cr_requirement = OPTIONAL, cr_strength = SELF_AUTHORED\<rparr>]"
  have "mk_revision sample_revision = Inr sample_revision" "''tests'' \<in> set (user_required sample_revision)" by code_simp+
  moreover from two_revisions_drop_user_criteria [OF this(1), of ?ds]
  have "\<exists>w u. revise (relabelled sample_revision) sample_revision = Inr w \<and> revise ?ds w = Inr u \<and> rv_criteria u = ?ds"
    by simp
  ultimately show ?thesis by (fastforce simp: criterion_of_def)
qed

section \<open>Supervision\<close>

text \<open>Repair attempts: a failing validation with its number of changed files, one after another.\<close>

primrec validations :: "(string \<times> int) list \<Rightarrow> supervisor \<Rightarrow> (supervisor \<times> supervision_kind list) result" where
  "validations [] s = Inr (s, [])"
| "validations (f # fs) s =
     bindR (observe_validation (Some (fst f)) (snd f) s) (\<lambda>(t, d).
     bindR (validations fs t) (\<lambda>(u, ds). Inr (u, fst d # ds)))"

lemma observe_failure:
  assumes "fst f \<noteq> []" "0 < snd f"
  shows "\<exists>t d. observe_validation (Some (fst f)) (snd f) s = Inr (t, d)
    \<and> sv_repair_cycles t = sv_repair_cycles s + 1 \<and> sv_max_repair_cycles t = sv_max_repair_cycles s
    \<and> (sv_max_repair_cycles s \<le> sv_repair_cycles s + 1 \<longrightarrow> fst d = PAUSE)"
  using assms by (auto simp: observe_validation_def Let_def)

text \<open>
  C32: Repair ends: once as many failing validations with changes have been seen as the contract has repair
  cycles left, the last of them pauses the task, whatever their fingerprints are.
\<close>

theorem repair_loop_pauses:
  assumes "\<forall>f \<in> set fs. fst f \<noteq> [] \<and> 0 < snd f" and "fs \<noteq> []"
    and "sv_max_repair_cycles s \<le> sv_repair_cycles s + int (length fs)"
  shows "\<exists>t ds. validations fs s = Inr (t, ds) \<and> last ds = PAUSE \<and> length ds = length fs"
  using assms
proof (induction fs arbitrary: s)
  case (Cons f fs)
  from Cons.prems have "fst f \<noteq> []" "0 < snd f" by auto
  from observe_failure [OF this, of s] obtain t d where
    t: "observe_validation (Some (fst f)) (snd f) s = Inr (t, d)" "sv_repair_cycles t = sv_repair_cycles s + 1"
      "sv_max_repair_cycles t = sv_max_repair_cycles s"
      "sv_max_repair_cycles s \<le> sv_repair_cycles s + 1 \<longrightarrow> fst d = PAUSE" by blast
  show ?case
  proof (cases "fs = []")
    case True
    with t Cons.prems show ?thesis by simp
  next
    case False
    have "\<exists>u ds. validations fs t = Inr (u, ds) \<and> last ds = PAUSE \<and> length ds = length fs"
      using Cons.prems False t by (intro Cons.IH) auto
    then obtain u ds where "validations fs t = Inr (u, ds)" "last ds = PAUSE" "length ds = length fs" by blast
    moreover from this False have "ds \<noteq> []" by auto
    ultimately show ?thesis using t by auto
  qed
qed simp

definition sample_supervisor :: supervisor where
  "sample_supervisor = new_supervisor sample_contract None 0"

theorem repair_loop_pauses_witness:
  "\<exists>t ds. validations [(''a'', 1), (''b'', 2), (''c'', 1)] sample_supervisor = Inr (t, ds) \<and> last ds = PAUSE"
proof -
  have "sv_max_repair_cycles sample_supervisor \<le> sv_repair_cycles sample_supervisor + int (length [(''a'', 1), (''b'', 2), (''c'', 1::int)])"
    by code_simp
  from repair_loop_pauses [OF _ _ this] show ?thesis by auto
qed

text \<open>Checkpoints at given readings of the clock, each read twice.\<close>

primrec checkpoints :: "(int \<times> int) list \<Rightarrow> supervisor \<Rightarrow> supervisor" where
  "checkpoints [] s = s"
| "checkpoints (c # cs) s = checkpoints cs (fst (checkpoint_active_seconds (fst c) (snd c) s))"

text \<open>The clock moves on by less than a second from one checkpoint to the next reading.\<close>

fun quick :: "int \<Rightarrow> (int \<times> int) list \<Rightarrow> bool" where
  "quick t [] = True"
| "quick t ((a, b) # cs) = (t \<le> a \<and> a < t + 1000000 \<and> a \<le> b \<and> quick b cs)"

lemma quick_checkpoint:
  "sv_started_at s \<le> a \<Longrightarrow> a < sv_started_at s + 1000000 \<Longrightarrow>
   fst (checkpoint_active_seconds a b s) = s\<lparr>sv_started_at := b\<rparr>"
  by (simp add: checkpoint_active_seconds_def elapsed_since_def Let_def)

lemma quick_checkpoints:
  "quick (sv_started_at s) cs \<Longrightarrow> checkpoints cs s = s\<lparr>sv_started_at := (if cs = [] then sv_started_at s else snd (last cs))\<rparr>"
proof (induction cs arbitrary: s)
  case (Cons c cs)
  then show ?case
    by (cases c) (simp add: quick_checkpoint)
qed simp

text \<open>
  The active-time budget never ends a run whose checkpoints come less than a second apart: each
  checkpoint drops the fraction of a second, so however many there are, no time is counted and the time
  limit does not pause the run.
\<close>

theorem quick_checkpoints_count_no_time:
  assumes "quick (sv_started_at s) cs" and "cs \<noteq> []" and "sv_run_active_seconds s < sv_max_active_seconds s"
    and "now < snd (last cs) + 1000000"
  shows "sv_run_active_seconds (checkpoints cs s) = sv_run_active_seconds s
    \<and> before_model_turn now (checkpoints cs s) \<noteq> (PAUSE, Some ''active time budget exceeded'')"
  using assms
  by (auto simp: quick_checkpoints before_model_turn_def elapsed_since_def max_def split: option.splits)

theorem quick_checkpoints_count_no_time_witness:
  "sv_run_active_seconds (checkpoints [(900000, 900000), (1800000, 1800000)] sample_supervisor) = 0
   \<and> before_model_turn 2700000 (checkpoints [(900000, 900000), (1800000, 1800000)] sample_supervisor)
       \<noteq> (PAUSE, Some ''active time budget exceeded'')"
proof -
  have a: "quick (sv_started_at sample_supervisor) [(900000, 900000), (1800000, 1800000)]"
    and b: "sv_run_active_seconds sample_supervisor < sv_max_active_seconds sample_supervisor"
    and c: "sv_run_active_seconds sample_supervisor = 0" by code_simp+
  from quick_checkpoints_count_no_time [OF a _ b, of 2700000] c show ?thesis by simp
qed

end
