(* ===== verification/Evidence_Ledger.thy ===== *)
theory Evidence_Ledger
  imports Completion Task_State Json_Text
begin

text \<open>
  Durable verification evidence: \<open>src/src/code_agent/verification/evidence.py\<close> (the evidence record and when
  it satisfies a criterion) and \<open>sessions/_evidence_ledger.py\<close> (contract revisions, verification runs,
  evidence and completions as tables, each operation one transaction: an exception leaves the tables as
  they were). A row holds the value whose JSON text the table stores. Timestamps are the texts the table
  sorts by; \<open>sha\<close> is SHA-256 in hexadecimal. Only this module writes these tables; tasks and task states
  belong to other modules, so the lemmas let them change in any way between two operations.
\<close>

section \<open>Evidence\<close>

datatype evidence_outcome =
    EV_PASS | EV_FAIL | EV_SKIPPED_BY_USER | EV_USER_CONFIRMED | EV_UNAVAILABLE | EV_ERROR | EV_UNSTABLE | EV_INTERRUPTED

datatype provenance = SYSTEM_VERIFIER | SYSTEM_PLANNER | USER_COMMAND | USER_CONFIRMATION

definition contains :: "string \<Rightarrow> string \<Rightarrow> bool" where
  "contains s p = list_ex (\<lambda>i. starts_with (drop i s) p) [0..<length s + 1]"

definition secret_markers :: "string list" where
  "secret_markers = [''api_key'', ''password'', ''secret'', ''authorization:'']"

definition bounded_diagnostic :: "string \<Rightarrow> string result" where
  "bounded_diagnostic v =
     bindR (bounded_text ''diagnostic'' 2000 v) (\<lambda>t.
       Inr (if list_ex (contains (casefold t)) secret_markers then ''[redacted diagnostic]''
            else map (\<lambda>c. if 32 \<le> code_of c \<or> code_of c \<in> {13, 10, 9} then c else CHR ''?'') t))"

record evidence =
  er_identifier :: string
  er_criterion :: string
  er_outcome :: evidence_outcome
  er_provenance :: provenance
  er_generation :: int
  er_subject_hash :: string
  er_output_hash :: string
  er_diagnostic :: string
  er_manual_only :: bool
  er_verifier_identity :: "string option"

definition mk_evidence :: "evidence \<Rightarrow> evidence result" where
  "mk_evidence r =
     bindR (bounded_text ''identifier'' 128 (er_identifier r)) (\<lambda>_.
     bindR (bounded_text ''criterion_id'' 128 (er_criterion r)) (\<lambda>_.
     bindR (bounded_text ''subject_hash'' 128 (er_subject_hash r)) (\<lambda>_.
     bindR (bounded_text ''output_hash'' 128 (er_output_hash r)) (\<lambda>_.
     if er_generation r < 0 then raiseR ValueError ''generation must be non-negative''
     else bindR (case er_verifier_identity r of None \<Rightarrow> Inr [] | Some i \<Rightarrow> bounded_text ''verifier_identity'' 128 i) (\<lambda>_.
     if er_outcome r = EV_USER_CONFIRMED \<and> (er_provenance r \<noteq> USER_CONFIRMATION \<or> \<not> er_manual_only r)
     then raiseR ValueError ''user confirmation is only valid for manual criteria''
     else if er_provenance r \<in> {SYSTEM_VERIFIER, SYSTEM_PLANNER} \<and> er_outcome r = EV_USER_CONFIRMED
     then raiseR ValueError ''system evidence cannot emit user confirmation''
     else bindR (bounded_diagnostic (er_diagnostic r)) (\<lambda>d. Inr (r\<lparr>er_diagnostic := d\<rparr>)))))))"

definition from_output :: "(string \<Rightarrow> string) \<Rightarrow> string \<Rightarrow> string \<Rightarrow> evidence_outcome \<Rightarrow> provenance \<Rightarrow> int \<Rightarrow> string
    \<Rightarrow> string \<Rightarrow> string \<Rightarrow> evidence result" where
  "from_output sha i crit outcome prov g h output diagnostic =
     mk_evidence \<lparr>er_identifier = i, er_criterion = crit, er_outcome = outcome, er_provenance = prov, er_generation = g,
       er_subject_hash = h, er_output_hash = sha output, er_diagnostic = diagnostic, er_manual_only = False,
       er_verifier_identity = None\<rparr>"

definition evidence_satisfies_required :: "evidence \<Rightarrow> bool" where
  "evidence_satisfies_required r =
     ((er_outcome r = EV_PASS \<and> er_provenance r \<in> {SYSTEM_VERIFIER, SYSTEM_PLANNER})
      \<or> (er_outcome r = EV_USER_CONFIRMED \<and> er_provenance r = USER_CONFIRMATION \<and> er_manual_only r))"

definition evidence_satisfies_current_verifier :: "evidence \<Rightarrow> bool" where
  "evidence_satisfies_current_verifier r =
     (evidence_satisfies_required r \<and> \<not> (er_provenance r = SYSTEM_VERIFIER \<and> er_verifier_identity r = None))"

section \<open>Tables\<close>

datatype run_status = RUNNING | RUN_COMPLETED | RUN_INTERRUPTED | RUN_ERROR

record owner_row =
  tw_status :: task_status
  tw_thread :: string
  tw_stop_reason :: "string option"
  tw_updated :: string

record run_row =
  rw_task :: string
  rw_generation :: int
  rw_subject_hash :: string
  rw_status :: run_status
  rw_created :: string
  rw_completed :: "string option"

record evidence_row =
  ew_id :: string
  ew_run :: string
  ew_task :: string
  ew_record :: evidence
  ew_created :: string

record completion_row =
  cw_task :: string
  cw_revision :: int
  cw_generation :: int
  cw_subject_hash :: string
  cw_created :: string

record ledger_db =
  ld_tasks :: "(string \<times> owner_row) list"
  ld_states :: "(string \<times> task_state) list"
  ld_contracts :: "(string \<times> revision) list"
  ld_runs :: "(string \<times> run_row) list"
  ld_evidence :: "evidence_row list"
  ld_completions :: "completion_row list"

definition revisions_of :: "string \<Rightarrow> ledger_db \<Rightarrow> revision list" where
  "revisions_of t db = map snd (filter (\<lambda>p. fst p = t) (ld_contracts db))"

text \<open>\<open>ORDER BY revision DESC LIMIT 1\<close>.\<close>

fun newest :: "revision list \<Rightarrow> revision option" where
  "newest [] = None"
| "newest (v # vs) = (case newest vs of None \<Rightarrow> Some v | Some w \<Rightarrow> if rv_revision w < rv_revision v then Some v else Some w)"

definition id_text :: "string \<Rightarrow> string \<Rightarrow> string result" where
  "id_text name v = (if blank v then raiseR ValueError (name @ '' must not be blank'') else Inr v)"

definition save_contract :: "string \<Rightarrow> revision \<Rightarrow> ledger_db \<Rightarrow> ledger_db result" where
  "save_contract t v db =
     bindR (id_text ''task_id'' t) (\<lambda>_.
     if dget (ld_tasks db) t = None then raiseR SessionNotFound ''task not found''
     else if list_ex (\<lambda>w. rv_revision v \<le> rv_revision w) (revisions_of t db)
     then raiseR ValueError ''contract revisions must increase''
     else Inr (db\<lparr>ld_contracts := ld_contracts db @ [(t, v)]\<rparr>))"

definition load_contract :: "string \<Rightarrow> ledger_db \<Rightarrow> revision option result" where
  "load_contract t db = bindR (id_text ''task_id'' t) (\<lambda>_. Inr (newest (revisions_of t db)))"

definition begin_run :: "string \<Rightarrow> string \<Rightarrow> int \<Rightarrow> string \<Rightarrow> string \<Rightarrow> ledger_db \<Rightarrow> ledger_db result" where
  "begin_run now run g h t db =
     bindR (id_text ''run_id'' run) (\<lambda>_. bindR (id_text ''task_id'' t) (\<lambda>_. bindR (id_text ''subject_hash'' h) (\<lambda>_.
     if g < 0 then raiseR ValueError ''generation must be non-negative''
     else if dget (ld_tasks db) t = None then raiseR SessionNotFound ''task not found''
     else if dget (ld_runs db) run \<noteq> None then raiseR IntegrityError ''UNIQUE verification_runs.id''
     else Inr (db\<lparr>ld_runs := dput run \<lparr>rw_task = t, rw_generation = g, rw_subject_hash = h, rw_status = RUNNING,
                    rw_created = now, rw_completed = None\<rparr> (ld_runs db)\<rparr>))))"

definition append_evidence :: "string \<Rightarrow> string \<Rightarrow> string \<Rightarrow> evidence \<Rightarrow> ledger_db \<Rightarrow> ledger_db result" where
  "append_evidence now run t r db =
     bindR (id_text ''run_id'' run) (\<lambda>_. bindR (id_text ''task_id'' t) (\<lambda>_.
     case dget (ld_runs db) run of
       None \<Rightarrow> raiseR SessionNotFound ''verification run not found''
     | Some w \<Rightarrow>
         if rw_task w \<noteq> t then raiseR SessionNotFound ''verification run not found''
         else if rw_status w \<noteq> RUNNING then raiseR ValueError ''only running verification runs accept evidence''
         else if er_identifier r \<in> set (map ew_id (ld_evidence db))
         then raiseR IntegrityError ''UNIQUE verification_evidence.id''
         else Inr (db\<lparr>ld_evidence := ld_evidence db @ [\<lparr>ew_id = er_identifier r, ew_run = run, ew_task = t, ew_record = r,
                        ew_created = now\<rparr>]\<rparr>)))"

fun closing_status :: "string \<Rightarrow> run_status option" where
  "closing_status v = (if v = ''completed'' then Some RUN_COMPLETED else if v = ''interrupted'' then Some RUN_INTERRUPTED
     else if v = ''error'' then Some RUN_ERROR else None)"

definition close_run :: "string \<Rightarrow> string \<Rightarrow> string \<Rightarrow> ledger_db \<Rightarrow> ledger_db result" where
  "close_run now run status db =
     bindR (id_text ''run_id'' run) (\<lambda>_. bindR (id_text ''status'' status) (\<lambda>_.
     case closing_status status of
       None \<Rightarrow> raiseR ValueError ''invalid verification run status''
     | Some st \<Rightarrow>
         (case dget (ld_runs db) run of
            None \<Rightarrow> raiseR SessionNotFound ''running verification run not found''
          | Some w \<Rightarrow>
              if rw_status w \<noteq> RUNNING then raiseR SessionNotFound ''running verification run not found''
              else Inr (db\<lparr>ld_runs := dput run (w\<lparr>rw_status := st, rw_completed := Some now\<rparr>) (ld_runs db)\<rparr>))))"

definition interrupt_open_runs :: "string \<Rightarrow> string \<Rightarrow> ledger_db \<Rightarrow> (ledger_db \<times> nat) result" where
  "interrupt_open_runs now t db =
     bindR (id_text ''task_id'' t) (\<lambda>_.
       let hit = (\<lambda>w. rw_task w = t \<and> rw_status w = RUNNING)
       in Inr (db\<lparr>ld_runs := map (\<lambda>(i, w). (i, if hit w then w\<lparr>rw_status := RUN_INTERRUPTED, rw_completed := Some now\<rparr> else w))
                        (ld_runs db)\<rparr>,
               length (filter (\<lambda>p. hit (snd p)) (ld_runs db))))"

text \<open>\<open>ORDER BY created_at, id\<close>.\<close>

definition evidence_le :: "evidence_row \<Rightarrow> evidence_row \<Rightarrow> bool" where
  "evidence_le a b = (if ew_created a = ew_created b then text_le (ew_id a) (ew_id b) else text_le (ew_created a) (ew_created b))"

fun insert_row :: "evidence_row \<Rightarrow> evidence_row list \<Rightarrow> evidence_row list" where
  "insert_row r [] = [r]"
| "insert_row r (x # xs) = (if evidence_le r x then r # x # xs else x # insert_row r xs)"

definition ordered_rows :: "evidence_row list \<Rightarrow> evidence_row list" where
  "ordered_rows rs = foldr insert_row rs []"

definition run_done :: "ledger_db \<Rightarrow> evidence_row \<Rightarrow> (run_row \<Rightarrow> bool) \<Rightarrow> bool" where
  "run_done db r P = (case dget (ld_runs db) (ew_run r) of None \<Rightarrow> False | Some w \<Rightarrow> rw_status w = RUN_COMPLETED \<and> P w)"

definition evidence_for_task :: "string \<Rightarrow> ledger_db \<Rightarrow> evidence list result" where
  "evidence_for_task t db = bindR (id_text ''task_id'' t) (\<lambda>_.
     Inr (map ew_record (ordered_rows (filter (\<lambda>r. ew_task r = t) (ld_evidence db)))))"

definition completed_evidence_for_task :: "string \<Rightarrow> ledger_db \<Rightarrow> evidence list result" where
  "completed_evidence_for_task t db = bindR (id_text ''task_id'' t) (\<lambda>_.
     Inr (map ew_record (ordered_rows (filter (\<lambda>r. ew_task r = t \<and> run_done db r (\<lambda>_. True)) (ld_evidence db)))))"

definition completion_evidence :: "string \<Rightarrow> int \<Rightarrow> string \<Rightarrow> ledger_db \<Rightarrow> evidence list" where
  "completion_evidence t g h db = map ew_record (ordered_rows
     (filter (\<lambda>r. ew_task r = t \<and> run_done db r (\<lambda>w. rw_generation w = g \<and> rw_subject_hash w = h)) (ld_evidence db)))"

definition missing_evidence :: "(string \<Rightarrow> string) \<Rightarrow> string \<Rightarrow> int \<Rightarrow> string \<Rightarrow> evidence result" where
  "missing_evidence sha i g h =
     from_output sha (''missing-'' @ i) i EV_ERROR SYSTEM_VERIFIER g h '''' ''missing evidence''"

definition require_completion_state :: "string \<Rightarrow> string \<Rightarrow> revision \<Rightarrow> int \<Rightarrow> string \<Rightarrow> ledger_db \<Rightarrow> unit result" where
  "require_completion_state t run v g h db =
     (case (dget (ld_tasks db) t, dget (ld_runs db) run, newest (revisions_of t db)) of
        (Some tw, Some w, Some latest) \<Rightarrow>
          if tw_status tw \<noteq> T_VERIFYING then raiseR ValueError ''only verifying tasks can be finalized''
          else if rw_task w \<noteq> t \<or> rw_status w \<noteq> RUN_COMPLETED
          then raiseR ValueError ''verification run is not completed''
          else if rw_generation w \<noteq> g \<or> rw_subject_hash w \<noteq> h
          then raiseR ValueError ''verification run does not match current subject''
          else (case dget (ld_states db) (tw_thread tw) of
              None \<Rightarrow> raiseR ValueError ''current task subject is unavailable''
            | Some s \<Rightarrow>
                if ts_code_generation s \<noteq> g \<or> ts_subject_hash s \<noteq> h
                then raiseR ValueError ''completion generation or subject is stale''
                else if latest \<noteq> v then raiseR ValueError ''task contract revision is stale''
                else Inr ())
      | _ \<Rightarrow> raiseR SessionNotFound ''task verification state not found'')"

text \<open>
  \<open>any(...)\<close> over the criteria: the placeholder is built for every required criterion that is reached,
  whether or not there is evidence, because it is the default argument of \<open>dict.get\<close>.
\<close>

fun incomplete :: "(string \<Rightarrow> string) \<Rightarrow> (string \<times> evidence) list \<Rightarrow> int \<Rightarrow> string \<Rightarrow> criterion list \<Rightarrow> bool result" where
  "incomplete sha latest g h [] = Inr False"
| "incomplete sha latest g h (c # cs) =
     (if cr_requirement c \<noteq> REQUIRED then incomplete sha latest g h cs
      else bindR (missing_evidence sha (cr_identifier c) g h) (\<lambda>placeholder.
        if \<not> evidence_satisfies_current_verifier
              (case dget latest (cr_identifier c) of None \<Rightarrow> placeholder | Some r \<Rightarrow> r)
        then Inr True else incomplete sha latest g h cs))"

definition latest_evidence :: "evidence list \<Rightarrow> (string \<times> evidence) list" where
  "latest_evidence rs = foldl (\<lambda>d r. dput (er_criterion r) r d) [] rs"

definition finalize_task :: "(string \<Rightarrow> string) \<Rightarrow> string \<Rightarrow> string \<Rightarrow> string \<Rightarrow> revision \<Rightarrow> int \<Rightarrow> string \<Rightarrow> ledger_db
    \<Rightarrow> ledger_db result" where
  "finalize_task sha now t run v g h db =
     bindR (id_text ''task_id'' t) (\<lambda>_. bindR (id_text ''run_id'' run) (\<lambda>_. bindR (id_text ''subject_hash'' h) (\<lambda>_.
     if g < 0 then raiseR ValueError ''generation must be non-negative''
     else bindR (require_completion_state t run v g h db) (\<lambda>_.
       bindR (incomplete sha (latest_evidence (completion_evidence t g h db)) g h (rv_criteria v)) (\<lambda>bad.
       if bad then raiseR ValueError ''required verification evidence is incomplete''
       else if t \<in> set (map cw_task (ld_completions db)) then raiseR IntegrityError ''UNIQUE task_completions.task_id''
       else (case dget (ld_tasks db) t of
           None \<Rightarrow> raiseR SessionNotFound ''task verification state not found''
         | Some tw \<Rightarrow>
             Inr (db\<lparr>ld_tasks := dput t (tw\<lparr>tw_status := T_COMPLETED, tw_stop_reason := None, tw_updated := now\<rparr>) (ld_tasks db),
                     ld_completions := ld_completions db @ [\<lparr>cw_task = t, cw_revision = rv_revision v, cw_generation = g,
                       cw_subject_hash = h, cw_created = now\<rparr>]\<rparr>)))))))"

definition latest_completed_run :: "string \<Rightarrow> int \<Rightarrow> string \<Rightarrow> ledger_db \<Rightarrow> string option result" where
  "latest_completed_run t g h db =
     bindR (id_text ''task_id'' t) (\<lambda>_. bindR (id_text ''subject_hash'' h) (\<lambda>_.
     if g < 0 then raiseR ValueError ''generation must be non-negative''
     else Inr (map_option fst (foldl (\<lambda>best (i, w).
         if rw_task w = t \<and> rw_generation w = g \<and> rw_subject_hash w = h \<and> rw_status w = RUN_COMPLETED
         then (case best of None \<Rightarrow> Some (i, w)
               | Some (j, u) \<Rightarrow>
                   if (let a = (case rw_completed w of None \<Rightarrow> [] | Some x \<Rightarrow> x); b = (case rw_completed u of None \<Rightarrow> [] | Some x \<Rightarrow> x)
                       in if a = b then text_le j i else text_le b a)
                   then Some (i, w) else best)
         else best) None (ld_runs db)))))"

section \<open>A completed task had its evidence\<close>

datatype proof_op =
    SaveContract string revision
  | BeginRun string string int string string
  | AppendEvidence string string string evidence
  | CloseRun string string string
  | InterruptRuns string string
  | FinalizeTask string string string revision int string
  | Elsewhere "(string \<times> owner_row) list" "(string \<times> task_state) list"

fun proof_op_result :: "(string \<Rightarrow> string) \<Rightarrow> proof_op \<Rightarrow> ledger_db \<Rightarrow> ledger_db result" where
  "proof_op_result sha (SaveContract t v) db = save_contract t v db"
| "proof_op_result sha (BeginRun now run g h t) db = begin_run now run g h t db"
| "proof_op_result sha (AppendEvidence now run t r) db = append_evidence now run t r db"
| "proof_op_result sha (CloseRun now run st) db = close_run now run st db"
| "proof_op_result sha (InterruptRuns now t) db = bindR (interrupt_open_runs now t db) (\<lambda>(db', n). Inr db')"
| "proof_op_result sha (FinalizeTask now t run v g h) db = finalize_task sha now t run v g h db"
| "proof_op_result sha (Elsewhere tasks states) db = Inr (db\<lparr>ld_tasks := tasks, ld_states := states\<rparr>)"

definition proof_step :: "(string \<Rightarrow> string) \<Rightarrow> proof_op \<Rightarrow> ledger_db \<Rightarrow> ledger_db" where
  "proof_step sha a db = (case proof_op_result sha a db of Inl _ \<Rightarrow> db | Inr db' \<Rightarrow> db')"

text \<open>Evidence for a criterion: recorded for the task in a completed run of this generation and subject.\<close>

definition proven :: "ledger_db \<Rightarrow> string \<Rightarrow> int \<Rightarrow> string \<Rightarrow> string \<Rightarrow> bool" where
  "proven db t g h i = (\<exists>r \<in> set (ld_evidence db). ew_task r = t \<and> er_criterion (ew_record r) = i
     \<and> evidence_satisfies_current_verifier (ew_record r)
     \<and> run_done db r (\<lambda>w. rw_generation w = g \<and> rw_subject_hash w = h))"

definition earned :: "ledger_db \<Rightarrow> completion_row \<Rightarrow> bool" where
  "earned db c = (\<exists>v. (cw_task c, v) \<in> set (ld_contracts db) \<and> rv_revision v = cw_revision c
     \<and> (\<forall>k \<in> set (rv_criteria v). cr_requirement k = REQUIRED
          \<longrightarrow> proven db (cw_task c) (cw_generation c) (cw_subject_hash c) (cr_identifier k)))"

definition proof_inv :: "ledger_db \<Rightarrow> bool" where
  "proof_inv db = ((\<forall>c \<in> set (ld_completions db). earned db c) \<and> distinct (map cw_task (ld_completions db)))"

text \<open>Rows are only added, and a completed run never changes again.\<close>

definition proof_le :: "ledger_db \<Rightarrow> ledger_db \<Rightarrow> bool" where
  "proof_le a b = (set (ld_contracts a) \<subseteq> set (ld_contracts b) \<and> set (ld_evidence a) \<subseteq> set (ld_evidence b)
     \<and> set (ld_completions a) \<subseteq> set (ld_completions b)
     \<and> (\<forall>i w. dget (ld_runs a) i = Some w \<and> rw_status w = RUN_COMPLETED \<longrightarrow> dget (ld_runs b) i = Some w))"

lemma proof_le_refl: "proof_le db db"
  by (simp add: proof_le_def)

lemma proof_le_trans: "proof_le a b \<Longrightarrow> proof_le b c \<Longrightarrow> proof_le a c"
  unfolding proof_le_def by blast

lemma run_done_mono: "proof_le a b \<Longrightarrow> run_done a r P \<Longrightarrow> run_done b r P"
  by (auto simp: proof_le_def run_done_def split: option.splits)

lemma earned_mono:
  assumes "proof_le a b" "earned a c"
  shows "earned b c"
proof -
  have "proven a t g h i \<Longrightarrow> proven b t g h i" for t g h i
    using assms(1) run_done_mono [OF assms(1)] by (auto simp: proven_def proof_le_def)
  with assms show ?thesis by (auto simp: earned_def proof_le_def)
qed

lemma dget_map_snd: "dget (map (\<lambda>(i, w). (i, f w)) d) k = map_option f (dget d k)"
  by (induction d) auto

text \<open>Every operation but \<open>finalize_task\<close> only adds rows outside the completions.\<close>

lemma save_contract_le: "save_contract t v db = Inr db' \<Longrightarrow> proof_le db db' \<and> ld_completions db' = ld_completions db"
  by (auto simp: save_contract_def bindR_Inr_iff proof_le_def split: if_splits)

lemma begin_run_le: "begin_run now run g h t db = Inr db' \<Longrightarrow> proof_le db db' \<and> ld_completions db' = ld_completions db"
  by (auto simp: begin_run_def bindR_Inr_iff proof_le_def split: if_splits)

lemma append_evidence_le:
  "append_evidence now run t r db = Inr db' \<Longrightarrow> proof_le db db' \<and> ld_completions db' = ld_completions db"
  by (auto simp: append_evidence_def bindR_Inr_iff proof_le_def split: if_splits option.splits)

lemma close_run_le: "close_run now run st db = Inr db' \<Longrightarrow> proof_le db db' \<and> ld_completions db' = ld_completions db"
  by (auto simp: close_run_def bindR_Inr_iff proof_le_def split: if_splits option.splits)

lemma interrupt_le:
  "interrupt_open_runs now t db = Inr (db', n) \<Longrightarrow> proof_le db db' \<and> ld_completions db' = ld_completions db"
  by (auto simp: interrupt_open_runs_def bindR_Inr_iff proof_le_def Let_def dget_map_snd)

lemma set_ordered_rows [simp]: "set (ordered_rows rs) = set rs"
proof -
  have "set (insert_row r xs) = insert r (set xs)" for r xs by (induction xs) auto
  then show ?thesis by (induction rs) (auto simp: ordered_rows_def)
qed

lemma latest_evidence_member:
  "dget (latest_evidence rs) i = Some r \<Longrightarrow> r \<in> set rs \<and> er_criterion r = i"
proof (induction rs arbitrary: r rule: rev_induct)
  case (snoc x xs)
  have "latest_evidence (xs @ [x]) = dput (er_criterion x) x (latest_evidence xs)" by (simp add: latest_evidence_def)
  with snoc.prems have "if i = er_criterion x then r = x else dget (latest_evidence xs) i = Some r"
    by (metis dget_dput option.inject)
  with snoc.IH [of r] show ?case by (cases "i = er_criterion x") simp_all
qed (simp add: latest_evidence_def)

lemma mk_evidence_fields:
  "mk_evidence r = Inr s \<Longrightarrow> er_identifier s = er_identifier r \<and> er_outcome s = er_outcome r \<and> length (er_identifier r) \<le> 128"
  by (auto simp: mk_evidence_def bindR_Inr_iff bounded_text_def split: if_splits)

lemma missing_not_satisfying:
  assumes "missing_evidence sha i g h = Inr p"
  shows "\<not> evidence_satisfies_current_verifier p \<and> length i \<le> 120"
proof -
  have "er_outcome p = EV_ERROR" "length (''missing-'' @ i) \<le> 128"
    using mk_evidence_fields [OF assms [unfolded missing_evidence_def from_output_def]] by simp_all
  then show ?thesis by (simp add: evidence_satisfies_current_verifier_def evidence_satisfies_required_def)
qed

lemma incomplete_False:
  assumes "incomplete sha latest g h cs = Inr False" "c \<in> set cs" "cr_requirement c = REQUIRED"
  shows "length (cr_identifier c) \<le> 120
    \<and> (\<exists>r. dget latest (cr_identifier c) = Some r \<and> evidence_satisfies_current_verifier r)"
  using assms
proof (induction sha latest g h cs rule: incomplete.induct)
  case (2 sha latest g h k ks)
  show ?case
  proof (cases "cr_requirement k = REQUIRED")
    case True
    then obtain p where p: "missing_evidence sha (cr_identifier k) g h = Inr p"
        "evidence_satisfies_current_verifier (case dget latest (cr_identifier k) of None \<Rightarrow> p | Some r \<Rightarrow> r)"
        "incomplete sha latest g h ks = Inr False"
      using 2(3) by (auto simp: bindR_Inr_iff split: if_splits)
    show ?thesis
    proof (cases "c = k")
      case True
      with p missing_not_satisfying [OF p(1)] show ?thesis by (auto split: option.splits)
    qed (use 2 True p in auto)
  qed (use 2 in auto)
qed simp

lemma newest_member: "newest vs = Some v \<Longrightarrow> v \<in> set vs"
  by (induction vs arbitrary: v) (auto split: option.splits if_splits)

lemma finalize_InrD:
  assumes "finalize_task sha now t run v g h db = Inr db'"
  obtains tw where "require_completion_state t run v g h db = Inr ()"
    "incomplete sha (latest_evidence (completion_evidence t g h db)) g h (rv_criteria v) = Inr False"
    "t \<notin> set (map cw_task (ld_completions db))" "dget (ld_tasks db) t = Some tw"
    "db' = db\<lparr>ld_tasks := dput t (tw\<lparr>tw_status := T_COMPLETED, tw_stop_reason := None, tw_updated := now\<rparr>) (ld_tasks db),
       ld_completions := ld_completions db @ [\<lparr>cw_task = t, cw_revision = rv_revision v, cw_generation = g,
         cw_subject_hash = h, cw_created = now\<rparr>]\<rparr>"
  using assms that by (auto simp: finalize_task_def bindR_Inr_iff split: if_splits option.splits)

lemma finalize_earned:
  assumes "finalize_task sha now t run v g h db = Inr db'"
  shows "proof_le db db'" and "\<exists>c. ld_completions db' = ld_completions db @ [c] \<and> cw_task c = t \<and> earned db' c"
    and "t \<notin> set (map cw_task (ld_completions db))"
proof -
  obtain tw where st: "require_completion_state t run v g h db = Inr ()"
    and full: "incomplete sha (latest_evidence (completion_evidence t g h db)) g h (rv_criteria v) = Inr False"
    and fresh: "t \<notin> set (map cw_task (ld_completions db))"
    and db': "db' = db\<lparr>ld_tasks := dput t (tw\<lparr>tw_status := T_COMPLETED, tw_stop_reason := None, tw_updated := now\<rparr>) (ld_tasks db),
       ld_completions := ld_completions db @ [\<lparr>cw_task = t, cw_revision = rv_revision v, cw_generation = g,
         cw_subject_hash = h, cw_created = now\<rparr>]\<rparr>"
    using finalize_InrD [OF assms] by blast
  let ?c = "\<lparr>cw_task = t, cw_revision = rv_revision v, cw_generation = g, cw_subject_hash = h, cw_created = now\<rparr>"
  show le: "proof_le db db'" by (auto simp: db' proof_le_def)
  show "t \<notin> set (map cw_task (ld_completions db))" by (rule fresh)
  have contract: "(t, v) \<in> set (ld_contracts db)"
    using st by (auto simp: require_completion_state_def revisions_of_def dest!: newest_member split: option.splits if_splits)
  have "proven db t g h (cr_identifier k)" if k: "k \<in> set (rv_criteria v)" "cr_requirement k = REQUIRED" for k
  proof -
    obtain r where "dget (latest_evidence (completion_evidence t g h db)) (cr_identifier k) = Some r"
        "evidence_satisfies_current_verifier r"
      using incomplete_False [OF full k] by blast
    then have r: "r \<in> set (completion_evidence t g h db)" "er_criterion r = cr_identifier k"
        "evidence_satisfies_current_verifier r"
      using latest_evidence_member [of "completion_evidence t g h db" "cr_identifier k" r] by auto
    then show ?thesis by (auto simp: completion_evidence_def proven_def)
  qed
  with contract have "earned db ?c" by (auto simp: earned_def)
  with earned_mono [OF le] show "\<exists>c. ld_completions db' = ld_completions db @ [c] \<and> cw_task c = t \<and> earned db' c"
    by (auto simp: db')
qed

lemma proof_op_le:
  assumes "proof_op_result sha a db = Inr db'"
  shows "proof_le db db' \<and> (proof_inv db \<longrightarrow> proof_inv db')"
proof -
  have keep: "proof_inv db \<longrightarrow> proof_inv db'" if "proof_le db db'" "ld_completions db' = ld_completions db"
    using that earned_mono by (auto simp: proof_inv_def)
  show ?thesis
  proof (cases a)
    case (SaveContract t v)
    with assms save_contract_le keep show ?thesis by fastforce
  next
    case (BeginRun now run g h t)
    with assms begin_run_le keep show ?thesis by fastforce
  next
    case (AppendEvidence now run t r)
    with assms append_evidence_le keep show ?thesis by fastforce
  next
    case (CloseRun now run st)
    with assms close_run_le keep show ?thesis by fastforce
  next
    case (InterruptRuns now t)
    with assms obtain n where "interrupt_open_runs now t db = Inr (db', n)" by (auto simp: bindR_Inr_iff)
    with interrupt_le keep show ?thesis by fastforce
  next
    case (FinalizeTask now t run v g h)
    with assms have fin: "finalize_task sha now t run v g h db = Inr db'" by simp
    obtain c where c: "ld_completions db' = ld_completions db @ [c]" "cw_task c = t" "earned db' c"
      using finalize_earned(2) [OF fin] by blast
    with finalize_earned(1,3) [OF fin] earned_mono [OF finalize_earned(1) [OF fin]] show ?thesis
      by (auto simp: proof_inv_def)
  next
    case (Elsewhere tasks states)
    with assms keep show ?thesis by (auto simp: proof_le_def)
  qed
qed

interpretation evidence_ledger: monotone_machine "proof_step sha" proof_inv proof_le
proof unfold_locales
  show "proof_inv db \<Longrightarrow> proof_inv (proof_step sha a db)" for a db
    using proof_op_le by (auto simp: proof_step_def split: sum.split)
  show "proof_le db (proof_step sha a db)" for a db
    using proof_op_le by (auto simp: proof_step_def proof_le_refl split: sum.split)
qed (auto intro: proof_le_refl proof_le_trans)

definition empty_ledger :: "(string \<times> owner_row) list \<Rightarrow> (string \<times> task_state) list \<Rightarrow> ledger_db" where
  "empty_ledger tasks states = \<lparr>ld_tasks = tasks, ld_states = states, ld_contracts = [], ld_runs = [], ld_evidence = [],
     ld_completions = []\<rparr>"

text \<open>
  C25: No completion without evidence. Whatever operations run on the ledger, in any order and with any
  changes to tasks and states in between, every recorded completion names a stored contract revision all
  of whose required criteria have satisfying evidence, recorded for the task in a completed run of exactly
  the completion's generation and subject; and no task is completed twice.
\<close>

theorem completions_are_earned:
  "let db = fold (proof_step sha) ops (empty_ledger tasks states) in
   (\<forall>c \<in> set (ld_completions db). earned db c) \<and> distinct (map cw_task (ld_completions db))"
proof -
  have "proof_inv (empty_ledger tasks states)" by (simp add: proof_inv_def empty_ledger_def)
  from evidence_ledger.run_inv [OF this] show ?thesis by (simp add: proof_inv_def Let_def)
qed

definition sample_evidence :: evidence where
  "sample_evidence = \<lparr>er_identifier = ''e1'', er_criterion = ''tests'', er_outcome = EV_PASS, er_provenance = SYSTEM_VERIFIER,
     er_generation = 2, er_subject_hash = ''h'', er_output_hash = ''o'', er_diagnostic = ''ok'', er_manual_only = False,
     er_verifier_identity = Some ''v1''\<rparr>"

definition sample_tasks :: "(string \<times> owner_row) list" where
  "sample_tasks = [(''t'', \<lparr>tw_status = T_VERIFYING, tw_thread = ''th'', tw_stop_reason = None, tw_updated = ''u''\<rparr>)]"

definition sample_states :: "(string \<times> task_state) list" where
  "sample_states = [(''th'', empty_state\<lparr>ts_code_generation := 2, ts_subject_hash := ''h''\<rparr>)]"

definition sample_proof_ops :: "proof_op list" where
  "sample_proof_ops = [SaveContract ''t'' sample_revision, BeginRun ''n1'' ''r'' 2 ''h'' ''t'',
     AppendEvidence ''n2'' ''r'' ''t'' sample_evidence, CloseRun ''n3'' ''r'' ''completed'',
     FinalizeTask ''n4'' ''t'' ''r'' sample_revision 2 ''h'', FinalizeTask ''n5'' ''t'' ''r'' sample_revision 2 ''h'']"

theorem completions_are_earned_witness:
  "let db = fold (proof_step (\<lambda>_. ''d'')) sample_proof_ops (empty_ledger sample_tasks sample_states) in
   length (ld_completions db) = 1 \<and> (\<forall>c \<in> set (ld_completions db). earned db c)"
proof -
  have "length (ld_completions (fold (proof_step (\<lambda>_. ''d'')) sample_proof_ops (empty_ledger sample_tasks sample_states))) = 1"
    by code_simp
  then show ?thesis
    using completions_are_earned [where sha = "\<lambda>_. ''d''" and ops = sample_proof_ops and tasks = sample_tasks and states = sample_states]
    by (simp add: Let_def)
qed

text \<open>
  C26: What finalizing demands and does: the task was verifying, the run completed for this generation and
  subject, the stored task state is at them too, the contract is the newest revision; afterwards the task
  is completed. A required criterion whose identifier is longer than 120 characters is refused however
  much evidence it has, though identifiers may have 128.
\<close>

theorem finalize_demands:
  assumes "finalize_task sha now t run v g h db = Inr db'"
  shows "(\<exists>tw w s. dget (ld_tasks db) t = Some tw \<and> tw_status tw = T_VERIFYING
      \<and> dget (ld_runs db) run = Some w \<and> rw_task w = t \<and> rw_status w = RUN_COMPLETED
      \<and> rw_generation w = g \<and> rw_subject_hash w = h
      \<and> dget (ld_states db) (tw_thread tw) = Some s \<and> ts_code_generation s = g \<and> ts_subject_hash s = h)
    \<and> newest (revisions_of t db) = Some v
    \<and> map_option tw_status (dget (ld_tasks db') t) = Some T_COMPLETED
    \<and> (\<forall>c \<in> set (rv_criteria v). cr_requirement c = REQUIRED \<longrightarrow> length (cr_identifier c) \<le> 120)"
proof -
  obtain tw where st: "require_completion_state t run v g h db = Inr ()"
    and full: "incomplete sha (latest_evidence (completion_evidence t g h db)) g h (rv_criteria v) = Inr False"
    and db': "db' = db\<lparr>ld_tasks := dput t (tw\<lparr>tw_status := T_COMPLETED, tw_stop_reason := None, tw_updated := now\<rparr>) (ld_tasks db),
       ld_completions := ld_completions db @ [\<lparr>cw_task = t, cw_revision = rv_revision v, cw_generation = g,
         cw_subject_hash = h, cw_created = now\<rparr>]\<rparr>"
    using finalize_InrD [OF assms] by blast
  have "\<forall>c \<in> set (rv_criteria v). cr_requirement c = REQUIRED \<longrightarrow> length (cr_identifier c) \<le> 120"
    using incomplete_False [OF full] by blast
  with st show ?thesis
    by (auto simp: db' require_completion_state_def split: option.splits if_splits)
qed

theorem finalize_demands_witness:
  "\<exists>db'. finalize_task (\<lambda>_. ''d'') ''n4'' ''t'' ''r'' sample_revision 2 ''h''
      (fold (proof_step (\<lambda>_. ''d'')) (take 4 sample_proof_ops) (empty_ledger sample_tasks sample_states)) = Inr db'
    \<and> map_option tw_status (dget (ld_tasks db') ''t'') = Some T_COMPLETED"
proof -
  have "okP (\<lambda>_. True) (finalize_task (\<lambda>_. ''d'') ''n4'' ''t'' ''r'' sample_revision 2 ''h''
      (fold (proof_step (\<lambda>_. ''d'')) (take 4 sample_proof_ops) (empty_ledger sample_tasks sample_states)))"
    by code_simp
  then obtain db' where "finalize_task (\<lambda>_. ''d'') ''n4'' ''t'' ''r'' sample_revision 2 ''h''
      (fold (proof_step (\<lambda>_. ''d'')) (take 4 sample_proof_ops) (empty_ledger sample_tasks sample_states)) = Inr db'"
    by (rule okP_E)
  with finalize_demands [OF this] show ?thesis by blast
qed

section \<open>Order of evidence\<close>

lemma text_le_same_prefix: "text_le (p @ s) (p @ t) \<longleftrightarrow> text_le s t"
  by (induction p) auto

definition failed_later :: evidence where
  "failed_later = sample_evidence\<lparr>er_identifier := ''e2'', er_outcome := EV_FAIL\<rparr>"

definition exact_second_ops :: "proof_op list" where
  "exact_second_ops = [SaveContract ''t'' sample_revision, BeginRun ''00:00:04.9Z'' ''r'' 2 ''h'' ''t'',
     AppendEvidence ''00:00:05Z'' ''r'' ''t'' sample_evidence, AppendEvidence ''00:00:05.25Z'' ''r'' ''t'' failed_later,
     CloseRun ''00:00:06.1Z'' ''r'' ''completed'']"

text \<open>
  The order of the evidence rows is the order of their timestamp texts, which is not the order in time:
  \<open>isoformat\<close> leaves out the fraction of an exact second, and such a row sorts after every later row of the
  same second. So an older pass at an exact second wins over a later failure, and the task completes.
\<close>

theorem exact_second_wins:
  "text_le (base @ ''.'' @ fraction @ ''Z'') (base @ ''Z'') \<and> \<not> text_le (base @ ''Z'') (base @ ''.'' @ fraction @ ''Z'')
   \<and> (let db = fold (proof_step (\<lambda>_. ''d'')) exact_second_ops (empty_ledger sample_tasks sample_states) in
        map ew_record (ld_evidence db) = [sample_evidence, failed_later]
        \<and> completion_evidence ''t'' 2 ''h'' db = [failed_later, sample_evidence]
        \<and> okR (finalize_task (\<lambda>_. ''d'') ''00:00:07.2Z'' ''t'' ''r'' sample_revision 2 ''h'' db))"
proof -
  let ?db = "fold (proof_step (\<lambda>_. ''d'')) exact_second_ops (empty_ledger sample_tasks sample_states)"
  have "map ew_record (ld_evidence ?db) = [sample_evidence, failed_later]"
    "completion_evidence ''t'' 2 ''h'' ?db = [failed_later, sample_evidence]"
    "okR (finalize_task (\<lambda>_. ''d'') ''00:00:07.2Z'' ''t'' ''r'' sample_revision 2 ''h'' ?db)"
    by code_simp+
  then show ?thesis by (simp add: text_le_same_prefix code_of_def Let_def)
qed

end
