(* ===== verification/Approvals.thy ===== *)
theory Approvals
  imports Task Json_Text
begin

text \<open>
  Durable approvals: \<open>src/src/code_agent/sessions/_approval_binding.py\<close> (what an approval is bound to) and
  \<open>sessions/_approvals.py\<close> (create, list, consume once, invalidate). Each operation is one transaction;
  \<open>consume\<close> reports a refusal as a value inside its transaction, so what \<open>reconcile\<close> wrote is kept, and
  raises afterwards, while an exception inside rolls back. Times are microseconds and an operation reads
  the clock once. \<open>host\<close> holds what the operating system decides (\<open>is_absolute\<close>, \<open>normcase\<close> of \<open>resolve\<close>)
  and SHA-256 of the JSON text of the bound facts. Tasks, executions, states and history belong to other
  modules and may change in any way between two operations.
\<close>

section \<open>Bindings\<close>

datatype approval_kind = APPROVAL | DECISION

type_synonym material =
  "approval_kind \<times> task_record \<times> (string \<times> string) option \<times> (string \<times> string) option \<times> string \<times> string option"

record host =
  ho_absolute :: "string \<Rightarrow> bool"
  ho_normalize :: "string \<Rightarrow> string"
  ho_version :: "material \<Rightarrow> string"

datatype approval_status = AP_PENDING | AP_APPROVED | AP_DENIED | AP_EXPIRED | AP_STALE

record approval_binding =
  bd_task :: string
  bd_thread :: string
  bd_root :: string
  bd_version :: string
  bd_owner :: string
  bd_kind :: approval_kind

record approval_row =
  ap_binding :: approval_binding
  ap_action :: string
  ap_digest :: string
  ap_preview :: jdict
  ap_expires :: int
  ap_created :: int
  ap_status :: approval_status
  ap_response :: "bool option"
  ap_consumed :: "int option"
  ap_transition :: "task_status option"
  ap_post :: "string option"

text \<open>
  An execution is its instance and the text of the rest of its row, a state its payload and time, a
  thread's history the text of its statistics.
\<close>

record approval_db =
  ad_tasks :: "(string \<times> task_record \<times> string option) list"
  ad_lineages :: "(string \<times> string) list"
  ad_executions :: "(string \<times> string \<times> string) list"
  ad_states :: "(string \<times> string \<times> string) list"
  ad_history :: "(string \<times> string) list"
  ad_requests :: "(string \<times> approval_row) list"

definition limited_text :: "string \<Rightarrow> nat \<Rightarrow> string \<Rightarrow> string result" where
  "limited_text name limit v =
     (if blank v \<or> limit < length v then raiseR ValueError (''invalid '' @ name) else Inr v)"

definition open_statuses :: "approval_kind \<Rightarrow> task_status list" where
  "open_statuses k = (case k of APPROVAL \<Rightarrow> [T_RUNNING, T_VERIFYING] | DECISION \<Rightarrow> [T_PAUSED, T_INTERRUPTED, T_WAITING_DECISION])"

definition bind_task :: "host \<Rightarrow> string \<Rightarrow> string \<Rightarrow> approval_kind \<Rightarrow> bool \<Rightarrow> approval_db \<Rightarrow> approval_binding result" where
  "bind_task ho t root kind allow_terminal db =
     bindR (limited_text ''task_id'' 1024 t) (\<lambda>_. bindR (limited_text ''workspace_root'' 4096 root) (\<lambda>_.
     if \<not> ho_absolute ho root then raiseR ValueError ''workspace_root must be absolute''
     else (case dget (ad_tasks db) t of
         None \<Rightarrow> raiseR SessionNotFound ''task not found''
       | Some (task, lineage) \<Rightarrow>
           if tk_status task \<notin> set (open_statuses kind)
              \<and> \<not> (allow_terminal \<and> kind = DECISION \<and> tk_status task \<in> {T_ACCEPTED_PARTIAL, T_FAILED})
           then raiseR ValueError ''task is not executing''
           else bindR (case lineage of
                 None \<Rightarrow> Inr (at_workspace_root (tc_authorization (tk_contract task)))
               | Some [] \<Rightarrow> Inr (at_workspace_root (tc_authorization (tk_contract task)))
               | Some l \<Rightarrow> (case dget (ad_lineages db) l of None \<Rightarrow> raiseR TypeError ''NoneType'' | Some r \<Rightarrow> Inr r)) (\<lambda>home.
             let owner = dget (ad_executions db) t; state = dget (ad_states db) (tk_thread task) in
             if ho_normalize ho home \<noteq> ho_normalize ho root then raiseR ValueError ''execution workspace mismatch''
             else if kind = APPROVAL \<and> owner = None then raiseR ValueError ''execution owner missing''
             else if kind = DECISION \<and> owner \<noteq> None then raiseR ValueError ''decision requires reconciled released owner''
             else Inr \<lparr>bd_task = tk_id task, bd_thread = tk_thread task, bd_root = ho_normalize ho root,
                    bd_version = ho_version ho (kind, task, owner, state, ho_normalize ho root,
                      if kind = DECISION then dget (ad_history db) (tk_thread task) else None),
                    bd_owner = (case owner of None \<Rightarrow> [] | Some w \<Rightarrow> fst w), bd_kind = kind\<rparr>))))"

definition binding_current :: "host \<Rightarrow> approval_binding \<Rightarrow> bool \<Rightarrow> approval_db \<Rightarrow> approval_binding result" where
  "binding_current ho b allow_terminal db = bind_task ho (bd_task b) (bd_root b) (bd_kind b) allow_terminal db"

text \<open>\<open>except ValueError\<close>: the current binding, or none; any other exception goes on.\<close>

definition current_or_none :: "host \<Rightarrow> approval_binding \<Rightarrow> bool \<Rightarrow> approval_db \<Rightarrow> approval_binding option result" where
  "current_or_none ho b allow_terminal db =
     (case binding_current ho b allow_terminal db of
        Inr c \<Rightarrow> Inr (Some c)
      | Inl (Exn ValueError m) \<Rightarrow> Inr None
      | Inl e \<Rightarrow> Inl e)"

section \<open>Operations\<close>

definition put_request :: "string \<Rightarrow> approval_row \<Rightarrow> approval_db \<Rightarrow> approval_db" where
  "put_request i r db = db\<lparr>ad_requests := dput i r (ad_requests db)\<rparr>"

text \<open>\<open>UPDATE ... SET status=? WHERE request_id=? AND status='pending'\<close>.\<close>

definition settle_pending :: "string \<Rightarrow> approval_status \<Rightarrow> approval_db \<Rightarrow> approval_db" where
  "settle_pending i status db =
     (case dget (ad_requests db) i of
        None \<Rightarrow> db
      | Some r \<Rightarrow> if ap_status r = AP_PENDING then put_request i (r\<lparr>ap_status := status\<rparr>) db else db)"

definition reconcile_request :: "host \<Rightarrow> int \<Rightarrow> string \<Rightarrow> approval_row \<Rightarrow> approval_db \<Rightarrow> (approval_db \<times> approval_row) result" where
  "reconcile_request ho now i r db =
     (if ap_status r \<noteq> AP_PENDING then Inr (db, r)
      else bindR (if ap_expires r \<le> now then Inr AP_EXPIRED
                  else bindR (current_or_none ho (ap_binding r) False db) (\<lambda>c.
                    Inr (if c = Some (ap_binding r) then AP_PENDING else AP_STALE))) (\<lambda>status.
        if status \<noteq> AP_PENDING
        then Inr (settle_pending i status db, r\<lparr>ap_status := status\<rparr>)
        else Inr (db, r)))"

definition utf8_bytes :: "string \<Rightarrow> nat" where
  "utf8_bytes s = length s + length (filter (\<lambda>c. 128 \<le> code_of c) s)"

definition preview_text :: dump_options where
  "preview_text = \<lparr>dm_ascii = False, dm_sorted = True, dm_item_sep = '', '', dm_key_sep = '': ''\<rparr>"

definition create_request :: "(int \<Rightarrow> nat \<Rightarrow> string) \<Rightarrow> (string \<Rightarrow> bool) \<Rightarrow> host \<Rightarrow> int \<Rightarrow> string \<Rightarrow> string \<Rightarrow> string \<Rightarrow> jdict
    \<Rightarrow> approval_binding \<Rightarrow> int \<Rightarrow> approval_db \<Rightarrow> approval_db \<times> approval_row result" where
  "create_request ft is_uuid ho now i action digest preview frozen expires db =
     (case bindR (limited_text ''request_id'' 64 i) (\<lambda>_.
           if \<not> is_uuid i then raiseR ValueError ''request_id must be a Host UUID''
           else bindR (limited_text ''action_id'' 1024 action) (\<lambda>_. bindR (limited_text ''action_digest'' 64 digest) (\<lambda>_.
           if \<not> is_sha256 digest then raiseR ValueError ''invalid action digest''
           else if 8192 < utf8_bytes (dumps ft preview_text (JObj preview))
           then raiseR ValueError ''approval preview exceeds capacity''
           else if \<not> (now < expires \<and> expires \<le> now + 3600 * 1000000)
           then raiseR ValueError ''approval TTL must be within one hour''
           else bindR (binding_current ho frozen False db) (\<lambda>c.
             if c \<noteq> frozen then raiseR ValueError ''approval binding changed''
             else (case dget (ad_requests db) i of
                 Some old \<Rightarrow>
                   if ap_binding old \<noteq> frozen \<or> ap_action old \<noteq> action \<or> ap_digest old \<noteq> digest
                      \<or> ap_preview old \<noteq> preview \<or> ap_expires old \<noteq> expires
                   then raiseR ValueError ''approval request identity conflict''
                   else Inr (db, old)
               | None \<Rightarrow>
                   let r = \<lparr>ap_binding = frozen, ap_action = action, ap_digest = digest, ap_preview = preview,
                        ap_expires = expires, ap_created = now, ap_status = AP_PENDING, ap_response = None,
                        ap_consumed = None, ap_transition = None, ap_post = None\<rparr>
                   in Inr (put_request i r db, r)))))) of
        Inl e \<Rightarrow> (db, Inl e)
      | Inr (db', r) \<Rightarrow> (db', Inr r))"

text \<open>\<open>ORDER BY created_at DESC, request_id LIMIT ?\<close>.\<close>

definition request_le :: "string \<times> approval_row \<Rightarrow> string \<times> approval_row \<Rightarrow> bool" where
  "request_le a b = (ap_created (snd b) < ap_created (snd a) \<or> (ap_created (snd a) = ap_created (snd b) \<and> text_le (fst a) (fst b)))"

fun insert_request :: "string \<times> approval_row \<Rightarrow> (string \<times> approval_row) list \<Rightarrow> (string \<times> approval_row) list" where
  "insert_request r [] = [r]"
| "insert_request r (x # xs) = (if request_le r x then r # x # xs else x # insert_request r xs)"

fun reconcile_all :: "host \<Rightarrow> int \<Rightarrow> (string \<times> approval_row) list \<Rightarrow> approval_db \<Rightarrow> (approval_db \<times> approval_row list) result" where
  "reconcile_all ho now [] db = Inr (db, [])"
| "reconcile_all ho now ((i, r) # rs) db =
     bindR (reconcile_request ho now i r db) (\<lambda>(db1, r1).
     bindR (reconcile_all ho now rs db1) (\<lambda>(db2, vs). Inr (db2, r1 # vs)))"

definition list_requests :: "host \<Rightarrow> int \<Rightarrow> string \<Rightarrow> int \<Rightarrow> approval_db \<Rightarrow> approval_db \<times> approval_row list result" where
  "list_requests ho now t limit db =
     (case bindR (limited_text ''task_id'' 1024 t) (\<lambda>_.
        if \<not> (1 \<le> limit \<and> limit \<le> 100) then raiseR ValueError ''approval limit must be 1..100''
        else reconcile_all ho now
          (take (nat limit) (foldr insert_request (filter (\<lambda>p. bd_task (ap_binding (snd p)) = t) (ad_requests db)) [])) db) of
        Inl e \<Rightarrow> (db, Inl e)
      | Inr (db', vs) \<Rightarrow> (db', Inr vs))"

text \<open>A refusal inside the transaction: the tables are kept and the error is raised after the commit.\<close>

definition refuse :: "approval_db \<Rightarrow> string \<Rightarrow> (approval_db \<times> (approval_row \<times> bool) result) result" where
  "refuse db m = Inr (db, raiseR ValueError m)"

definition apply_decision :: "host \<Rightarrow> int \<Rightarrow> string \<Rightarrow> string \<Rightarrow> task_status \<Rightarrow> approval_row \<Rightarrow> approval_db
    \<Rightarrow> (approval_db \<times> approval_row) result" where
  "apply_decision ho now i t target r db =
     (case dget (ad_tasks db) t of
        None \<Rightarrow> raiseR TypeError ''NoneType''
      | Some (task, lineage) \<Rightarrow>
          if tk_status task \<noteq> T_WAITING_DECISION
          then raiseR ValueError ''task decision transition requires waiting_decision''
          else bindR (transition now target (Some ''explicit operator decision'') task) (\<lambda>changed.
            let db1 = db\<lparr>ad_tasks := dput t (changed, lineage) (ad_tasks db)\<rparr> in
            bindR (binding_current ho (ap_binding r) True db1) (\<lambda>post.
            let r' = r\<lparr>ap_transition := Some target, ap_post := Some (bd_version post)\<rparr>
            in Inr (put_request i r' db1, r'))))"

definition consume_write :: "host \<Rightarrow> int \<Rightarrow> string \<Rightarrow> string \<Rightarrow> string \<Rightarrow> string \<Rightarrow> string \<Rightarrow> bool \<Rightarrow> task_status option
    \<Rightarrow> approval_db \<Rightarrow> (approval_db \<times> (approval_row \<times> bool) result) result" where
  "consume_write ho now i t digest version owner approved target db =
     (case dget (ad_requests db) i of
        None \<Rightarrow> refuse db ''approval request not found''
      | Some r0 \<Rightarrow>
          if bd_task (ap_binding r0) \<noteq> t \<or> ap_digest r0 \<noteq> digest \<or> bd_version (ap_binding r0) \<noteq> version
             \<or> bd_owner (ap_binding r0) \<noteq> owner
          then refuse db ''approval response binding mismatch''
          else if target \<noteq> None \<and> (bd_kind (ap_binding r0) \<noteq> DECISION \<or> \<not> approved)
          then refuse db ''transition requires approved task decision''
          else bindR (reconcile_request ho now i r0 db) (\<lambda>(db1, r).
            bindR (current_or_none ho (ap_binding r) (ap_post r \<noteq> None) db1) (\<lambda>current.
            let expected = (ap_binding r)\<lparr>bd_version := (case ap_post r of Some (c # cs) \<Rightarrow> c # cs | _ \<Rightarrow> bd_version (ap_binding r))\<rparr>
            in if current \<noteq> Some expected \<or> ap_expires r \<le> now
               then refuse db1 ''approval expired or state/owner changed''
               else if ap_status r \<in> {AP_APPROVED, AP_DENIED}
               then (if ap_response r = Some approved \<and> ap_transition r = target then Inr (db1, Inr (r, False))
                     else refuse db1 ''approval response conflict'')
               else if ap_status r \<noteq> AP_PENDING then refuse db1 ''approval no longer pending''
               else
                 let r1 = r\<lparr>ap_status := (if approved then AP_APPROVED else AP_DENIED), ap_response := Some approved,
                            ap_consumed := Some now\<rparr>;
                     db2 = put_request i r1 db1
                 in (case target of
                       None \<Rightarrow> Inr (db2, Inr (r1, True))
                     | Some s \<Rightarrow> bindR (apply_decision ho now i t s r1 db2) (\<lambda>(db3, r2). Inr (db3, Inr (r2, True)))))))"

definition consume_request :: "host \<Rightarrow> int \<Rightarrow> string \<Rightarrow> string \<Rightarrow> string \<Rightarrow> string \<Rightarrow> string \<Rightarrow> bool \<Rightarrow> task_status option
    \<Rightarrow> approval_db \<Rightarrow> approval_db \<times> (approval_row \<times> bool) result" where
  "consume_request ho now i t digest version owner approved target db =
     (case bindR (limited_text ''request_id'' 1024 i) (\<lambda>_. bindR (limited_text ''task_id'' 1024 t) (\<lambda>_.
           bindR (limited_text ''action_digest'' 1024 digest) (\<lambda>_. bindR (limited_text ''state_version'' 1024 version) (\<lambda>_.
           if 1024 < length owner then raiseR ValueError ''invalid owner_instance_id''
           else if target \<notin> {None, Some T_ACCEPTED_PARTIAL, Some T_FAILED} then raiseR ValueError ''invalid decision transition''
           else consume_write ho now i t digest version owner approved target db)))) of
        Inl e \<Rightarrow> (db, Inl e)
      | Inr p \<Rightarrow> p)"

datatype owner_selector = ByRequest string | ByOwner string | NotOwner string

fun selected :: "owner_selector \<Rightarrow> string \<Rightarrow> approval_row \<Rightarrow> bool" where
  "selected (ByRequest x) i r = (i = x)"
| "selected (ByOwner x) i r = (bd_owner (ap_binding r) = x \<and> bd_kind (ap_binding r) = APPROVAL)"
| "selected (NotOwner x) i r = (bd_owner (ap_binding r) \<noteq> x \<and> bd_kind (ap_binding r) = APPROVAL)"

fun selector_text :: "owner_selector \<Rightarrow> string" where
  "selector_text (ByRequest x) = x" | "selector_text (ByOwner x) = x" | "selector_text (NotOwner x) = x"

definition invalidate_requests :: "owner_selector \<Rightarrow> approval_db \<Rightarrow> approval_db \<times> nat result" where
  "invalidate_requests sel db =
     (case limited_text ''approval selector'' 1024 (selector_text sel) of
        Inl e \<Rightarrow> (db, Inl e)
      | Inr _ \<Rightarrow>
          let hit = (\<lambda>i r. ap_status r = AP_PENDING \<and> selected sel i r)
          in (db\<lparr>ad_requests := map (\<lambda>(i, r). (i, if hit i r then r\<lparr>ap_status := AP_STALE\<rparr> else r)) (ad_requests db)\<rparr>,
              Inr (length (filter (\<lambda>(i, r). hit i r) (ad_requests db)))))"

section \<open>An approval is used once\<close>

definition same_request :: "approval_row \<Rightarrow> approval_row \<Rightarrow> bool" where
  "same_request r r' = (ap_binding r' = ap_binding r \<and> ap_action r' = ap_action r \<and> ap_digest r' = ap_digest r
     \<and> ap_preview r' = ap_preview r \<and> ap_expires r' = ap_expires r \<and> ap_created r' = ap_created r)"

definition answer_ok :: "approval_row \<Rightarrow> bool" where
  "answer_ok r = ((ap_status r = AP_APPROVED \<longleftrightarrow> ap_response r = Some True)
     \<and> (ap_status r = AP_DENIED \<longleftrightarrow> ap_response r = Some False) \<and> (ap_consumed r \<noteq> None \<longleftrightarrow> ap_response r \<noteq> None))"

definition approvals_inv :: "approval_db \<Rightarrow> bool" where
  "approvals_inv db = (\<forall>i r. dget (ad_requests db) i = Some r \<longrightarrow> answer_ok r)"

text \<open>What was asked never changes, and a request that is no longer pending does not change at all.\<close>

definition row_follows :: "approval_row \<Rightarrow> approval_row \<Rightarrow> bool" where
  "row_follows r r' = (same_request r r' \<and> (ap_status r \<noteq> AP_PENDING \<longrightarrow> r' = r) \<and> (answer_ok r \<longrightarrow> answer_ok r'))"

definition approvals_le :: "approval_db \<Rightarrow> approval_db \<Rightarrow> bool" where
  "approvals_le db db' =
     ((\<forall>i r. dget (ad_requests db) i = Some r \<longrightarrow> (\<exists>r'. dget (ad_requests db') i = Some r' \<and> row_follows r r'))
      \<and> (\<forall>i r'. dget (ad_requests db') i = Some r' \<longrightarrow> dget (ad_requests db) i = None \<longrightarrow> answer_ok r'))"

lemma row_follows_refl [simp]: "row_follows r r"
  by (simp add: row_follows_def same_request_def)

lemma row_follows_trans: "row_follows a b \<Longrightarrow> row_follows b c \<Longrightarrow> row_follows a c"
  by (auto simp: row_follows_def same_request_def)

lemma approvals_le_refl: "approvals_le db db"
  by (simp add: approvals_le_def)

lemma approvals_le_trans:
  assumes "approvals_le a b" "approvals_le b c"
  shows "approvals_le a c"
proof -
  have "\<exists>r'. dget (ad_requests c) i = Some r' \<and> row_follows r r'" if "dget (ad_requests a) i = Some r" for i r
    using assms that row_follows_trans unfolding approvals_le_def by meson
  moreover have "answer_ok r'" if "dget (ad_requests c) i = Some r'" "dget (ad_requests a) i = None" for i r'
  proof (cases "dget (ad_requests b) i")
    case None
    with assms(2) that show ?thesis by (auto simp: approvals_le_def)
  next
    case (Some r)
    with assms(1) that have "answer_ok r" by (auto simp: approvals_le_def)
    moreover obtain s where "dget (ad_requests c) i = Some s" "row_follows r s"
      using assms(2) Some unfolding approvals_le_def by blast
    ultimately show ?thesis using that by (simp add: row_follows_def)
  qed
  ultimately show ?thesis by (auto simp: approvals_le_def)
qed

lemma approvals_le_inv: "approvals_le a b \<Longrightarrow> approvals_inv a \<Longrightarrow> approvals_inv b"
  unfolding approvals_le_def approvals_inv_def row_follows_def by (metis option.exhaust option.inject)

lemma put_request_le:
  "dget (ad_requests db) i = Some r \<Longrightarrow> row_follows r r' \<Longrightarrow> approvals_le db (put_request i r' db)"
  by (auto simp: approvals_le_def put_request_def)

lemma settle_pending_le: "status \<in> {AP_EXPIRED, AP_STALE} \<Longrightarrow> approvals_le db (settle_pending i status db)"
  by (auto simp: settle_pending_def approvals_le_refl intro!: put_request_le split: option.splits)
     (auto simp: row_follows_def same_request_def answer_ok_def)

lemma current_or_none_Some [simp]: "current_or_none ho b a db = Inr (Some c) \<longleftrightarrow> binding_current ho b a db = Inr c"
proof (cases "binding_current ho b a db")
  case (Inl e)
  then show ?thesis by (cases e; cases "case e of Exn k m \<Rightarrow> k") (auto simp: current_or_none_def)
qed (auto simp: current_or_none_def)

lemma reconcile_InrD:
  assumes "reconcile_request ho now i r db = Inr (db', r')"
  shows "approvals_le db db'" and "dget (ad_requests db) i = Some r \<Longrightarrow> dget (ad_requests db') i = Some r'"
    and "ap_status r' = AP_PENDING \<Longrightarrow> db' = db \<and> r' = r \<and> now < ap_expires r \<and> binding_current ho (ap_binding r) False db = Inr (ap_binding r)"
    and "ap_status r \<noteq> AP_PENDING \<Longrightarrow> db' = db \<and> r' = r"
    and "ap_response r' = ap_response r \<and> ap_post r' = ap_post r \<and> same_request r r'"
proof -
  consider (settled) "ap_status r \<noteq> AP_PENDING" "db' = db" "r' = r"
    | (closed) st where "ap_status r = AP_PENDING" "st \<in> {AP_EXPIRED, AP_STALE}" "db' = settle_pending i st db" "r' = r\<lparr>ap_status := st\<rparr>"
    | (current) "ap_status r = AP_PENDING" "db' = db" "r' = r" "now < ap_expires r"
        "binding_current ho (ap_binding r) False db = Inr (ap_binding r)"
    using assms by (auto simp: reconcile_request_def bindR_Inr_iff split: if_splits)
  then have "approvals_le db db' \<and> (dget (ad_requests db) i = Some r \<longrightarrow> dget (ad_requests db') i = Some r')
    \<and> (ap_status r' = AP_PENDING \<longrightarrow> db' = db \<and> r' = r \<and> now < ap_expires r \<and> binding_current ho (ap_binding r) False db = Inr (ap_binding r))
    \<and> (ap_status r \<noteq> AP_PENDING \<longrightarrow> db' = db \<and> r' = r)
    \<and> ap_response r' = ap_response r \<and> ap_post r' = ap_post r \<and> same_request r r'"
  proof cases
    case settled
    then show ?thesis by (simp add: approvals_le_refl same_request_def)
  next
    case (closed st)
    have le: "approvals_le db db'" using settle_pending_le [OF closed(2)] closed(3) by simp
    have "dget (ad_requests db') i = Some r'" if "dget (ad_requests db) i = Some r"
      using that closed by (simp add: settle_pending_def put_request_def)
    with closed le show ?thesis by (auto simp: same_request_def)
  next
    case current
    then show ?thesis by (simp add: approvals_le_refl same_request_def)
  qed
  then show "approvals_le db db'" and "dget (ad_requests db) i = Some r \<Longrightarrow> dget (ad_requests db') i = Some r'"
    and "ap_status r' = AP_PENDING \<Longrightarrow> db' = db \<and> r' = r \<and> now < ap_expires r \<and> binding_current ho (ap_binding r) False db = Inr (ap_binding r)"
    and "ap_status r \<noteq> AP_PENDING \<Longrightarrow> db' = db \<and> r' = r"
    and "ap_response r' = ap_response r \<and> ap_post r' = ap_post r \<and> same_request r r'"
    by blast+
qed

lemma create_le: "approvals_le db (fst (create_request ft is_uuid ho now i action digest preview frozen expires db))"
proof -
  have new: "approvals_le db (put_request i r db)" if "dget (ad_requests db) i = None" "answer_ok r" for r
    using that by (auto simp: approvals_le_def put_request_def)
  show ?thesis
    unfolding create_request_def
    by (auto simp: bindR_Inr_iff Let_def approvals_le_refl answer_ok_def intro!: new split: sum.splits if_splits option.splits)
qed

lemma reconcile_all_le: "reconcile_all ho now rs db = Inr (db', vs) \<Longrightarrow> approvals_le db db'"
proof (induction rs arbitrary: db vs)
  case (Cons p rs)
  then obtain db1 r1 us where "reconcile_request ho now (fst p) (snd p) db = Inr (db1, r1)" "reconcile_all ho now rs db1 = Inr (db', us)"
    by (cases p) (auto simp: bindR_Inr_iff)
  with Cons.IH reconcile_InrD(1) approvals_le_trans show ?case by blast
qed (simp add: approvals_le_refl)

lemma list_le: "approvals_le db (fst (list_requests ho now t limit db))"
  by (auto simp: list_requests_def bindR_Inr_iff approvals_le_refl dest: reconcile_all_le split: sum.splits if_splits)

lemma dget_map_requests: "dget (map (\<lambda>(i, r). (i, f i r)) d) k = map_option (f k) (dget d k)"
  by (induction d) auto

lemma invalidate_le: "approvals_le db (fst (invalidate_requests sel db))"
  by (auto simp: invalidate_requests_def approvals_le_refl Let_def approvals_le_def dget_map_requests row_follows_def
      same_request_def answer_ok_def split: sum.splits)

text \<open>What applying the operator's decision to the task does to the request.\<close>

lemma apply_decision_InrD:
  assumes "apply_decision ho now i t target r db = Inr (db', r')"
  shows "\<exists>tasks. db' = put_request i r' (db\<lparr>ad_tasks := tasks\<rparr>)"
    and "r' = r\<lparr>ap_transition := Some target, ap_post := ap_post r'\<rparr>"
  using assms by (auto simp: apply_decision_def bindR_Inr_iff Let_def split: option.splits if_splits)

lemma consume_write_cases:
  assumes "consume_write ho now i t digest version owner approved target db = Inr (db', out)"
  obtains (refused) m where "out = raiseR ValueError m" "approvals_le db db'"
  | (replayed) r where "out = Inr (r, False)" "approvals_le db db'" "dget (ad_requests db) i = Some r"
      "ap_response r = Some approved" "ap_transition r = target" "ap_digest r = digest"
  | (fresh) r0 r' where "out = Inr (r', True)" "dget (ad_requests db) i = Some r0" "ap_status r0 = AP_PENDING"
      "bd_task (ap_binding r0) = t" "ap_digest r0 = digest" "bd_version (ap_binding r0) = version" "bd_owner (ap_binding r0) = owner"
      "target \<noteq> None \<longrightarrow> bd_kind (ap_binding r0) = DECISION \<and> approved"
      "now < ap_expires r0" "binding_current ho (ap_binding r0) False db = Inr (ap_binding r0)"
      "dget (ad_requests db') i = Some r'" "same_request r0 r'" "ap_response r' = Some approved" "ap_consumed r' = Some now"
      "ap_status r' = (if approved then AP_APPROVED else AP_DENIED)" "ap_transition r' = (if target = None then ap_transition r0 else target)"
      "\<exists>tasks. db' = put_request i r' (db\<lparr>ad_tasks := tasks\<rparr>)"
proof (cases "dget (ad_requests db) i")
  case None
  with assms show ?thesis by (intro refused) (auto simp: consume_write_def refuse_def approvals_le_refl)
next
  case (Some r0)
  note row = Some
  show ?thesis
  proof (cases "bd_task (ap_binding r0) \<noteq> t \<or> ap_digest r0 \<noteq> digest \<or> bd_version (ap_binding r0) \<noteq> version \<or> bd_owner (ap_binding r0) \<noteq> owner
      \<or> (target \<noteq> None \<and> (bd_kind (ap_binding r0) \<noteq> DECISION \<or> \<not> approved))")
    case True
    with assms row have "out = raiseR ValueError ''approval response binding mismatch'' \<or> out = raiseR ValueError ''transition requires approved task decision''"
        "db' = db"
      by (simp_all add: consume_write_def refuse_def split: if_splits)
    then show ?thesis using refused approvals_le_refl by blast
  next
    case False
    let ?exp = "\<lambda>r. (ap_binding r)\<lparr>bd_version := (case ap_post r of Some (c # cs) \<Rightarrow> c # cs | _ \<Rightarrow> bd_version (ap_binding r))\<rparr>"
    obtain db1 r current where rec: "reconcile_request ho now i r0 db = Inr (db1, r)"
      and cur: "current_or_none ho (ap_binding r) (ap_post r \<noteq> None) db1 = Inr current"
      and rest: "(if current \<noteq> Some (?exp r) \<or> ap_expires r \<le> now then refuse db1 ''approval expired or state/owner changed''
               else if ap_status r \<in> {AP_APPROVED, AP_DENIED}
               then (if ap_response r = Some approved \<and> ap_transition r = target then Inr (db1, Inr (r, False))
                     else refuse db1 ''approval response conflict'')
               else if ap_status r \<noteq> AP_PENDING then refuse db1 ''approval no longer pending''
               else
                 let r1 = r\<lparr>ap_status := (if approved then AP_APPROVED else AP_DENIED), ap_response := Some approved,
                            ap_consumed := Some now\<rparr>;
                     db2 = put_request i r1 db1
                 in (case target of
                       None \<Rightarrow> Inr (db2, Inr (r1, True))
                     | Some s \<Rightarrow> bindR (apply_decision ho now i t s r1 db2) (\<lambda>(db3, r2). Inr (db3, Inr (r2, True)))))
         = Inr (db', out)"
      using assms row False by (auto simp: consume_write_def bindR_Inr_iff Let_def simp del: current_or_none_Some)
    note le = reconcile_InrD(1) [OF rec]
    show ?thesis
    proof (cases "current \<noteq> Some (?exp r) \<or> ap_expires r \<le> now")
      case True
      with rest le show ?thesis by (intro refused) (auto simp: refuse_def)
    next
      case valid: False
      show ?thesis
      proof (cases "ap_status r = AP_PENDING")
        case pending: True
        with reconcile_InrD(3) [OF rec] have same: "db1 = db" "r = r0" "now < ap_expires r0"
          "binding_current ho (ap_binding r0) False db = Inr (ap_binding r0)" by auto
        let ?r1 = "r0\<lparr>ap_status := (if approved then AP_APPROVED else AP_DENIED), ap_response := Some approved, ap_consumed := Some now\<rparr>"
        show ?thesis
        proof (cases target)
          case None
          with rest valid pending same have "db' = put_request i ?r1 db" "out = Inr (?r1, True)" by (auto simp: Let_def)
          with False None row same pending show ?thesis
            by (intro fresh [of ?r1 r0]) (auto simp: same_request_def put_request_def intro: exI [of _ "ad_tasks db"])
        next
          case (Some s)
          with rest valid pending same obtain r2 where
            d: "apply_decision ho now i t s ?r1 (put_request i ?r1 db) = Inr (db', r2)" "out = Inr (r2, True)"
            by (auto simp: Let_def bindR_Inr_iff)
          from apply_decision_InrD(1) [OF d(1)] obtain tasks where
            db': "db' = put_request i r2 ((put_request i ?r1 db)\<lparr>ad_tasks := tasks\<rparr>)" by blast
          have twice: "dput i b (dput i a m) = dput i b m" for a b :: approval_row and m by (induction m) auto
          have db'': "db' = put_request i r2 (db\<lparr>ad_tasks := tasks\<rparr>)" by (simp add: db' put_request_def twice)
          obtain post where r2: "r2 = ?r1\<lparr>ap_transition := Some s, ap_post := post\<rparr>"
            using apply_decision_InrD(2) [OF d(1)] by blast
          have asked: "same_request r0 r2" "ap_response r2 = Some approved" "ap_consumed r2 = Some now"
              "ap_status r2 = (if approved then AP_APPROVED else AP_DENIED)" "ap_transition r2 = Some s"
            by (simp_all add: r2 same_request_def)
          have found: "dget (ad_requests db') i = Some r2" "\<exists>tasks. db' = put_request i r2 (db\<lparr>ad_tasks := tasks\<rparr>)"
            using db'' by (auto simp: put_request_def)
          show ?thesis
            by (rule fresh [of r2 r0]) (use False Some row same pending d(2) found asked in simp_all)
        qed
      next
        case notp: False
        show ?thesis
        proof (cases "ap_status r \<in> {AP_APPROVED, AP_DENIED} \<and> ap_response r = Some approved \<and> ap_transition r = target")
          case True
          have "ap_status r0 \<noteq> AP_PENDING"
          proof
            assume "ap_status r0 = AP_PENDING"
            then have "ap_status r \<in> {AP_PENDING, AP_EXPIRED, AP_STALE}"
              using rec by (auto simp: reconcile_request_def bindR_Inr_iff split: if_splits)
            with True show False by auto
          qed
          then have "r = r0" using reconcile_InrD(4) [OF rec] by simp
          with True rest valid notp row False le show ?thesis by (intro replayed [of r0]) (auto split: if_splits)
        next
          case False
          with rest valid notp have "\<exists>m. out = raiseR ValueError m" "db' = db1"
            by (auto simp: refuse_def split: if_splits)
          with le show ?thesis using refused by blast
        qed
      qed
    qed
  qed
qed

lemma consume_requestD:
  assumes "consume_request ho now i t digest version owner approved target db = (db', out)"
  shows "db' = db \<and> (\<exists>e. out = Inl e) \<or> consume_write ho now i t digest version owner approved target db = Inr (db', out)"
  using assms by (auto simp: consume_request_def bindR_Inr_iff split: sum.splits if_splits)

lemma fresh_follows:
  assumes "dget (ad_requests db) i = Some r0" "ap_status r0 = AP_PENDING" "same_request r0 r'" "ap_response r' = Some approved"
    "ap_consumed r' = Some now" "ap_status r' = (if approved then AP_APPROVED else AP_DENIED)"
    "db' = put_request i r' (db\<lparr>ad_tasks := tasks\<rparr>)"
  shows "approvals_le db db'"
proof -
  have "row_follows r0 r'" using assms(2-6) by (auto simp: row_follows_def answer_ok_def)
  from put_request_le [OF assms(1) this] show ?thesis by (simp add: assms(7) put_request_def approvals_le_def)
qed

lemma consume_le: "approvals_le db (fst (consume_request ho now i t digest version owner approved target db))"
proof -
  obtain db' out where run: "consume_request ho now i t digest version owner approved target db = (db', out)"
    by (cases "consume_request ho now i t digest version owner approved target db") auto
  from consume_requestD [OF run] have "approvals_le db db'"
  proof (elim disjE)
    assume "consume_write ho now i t digest version owner approved target db = Inr (db', out)"
    then show ?thesis
      by (cases rule: consume_write_cases) (auto intro: fresh_follows)
  qed (simp add: approvals_le_refl)
  then show ?thesis by (simp add: run)
qed

section \<open>Runs\<close>

text \<open>
  \<open>Elsewhere\<close> is any change of the other modules' tables: tasks, lineages, executions, states, history.
\<close>

record elsewhere =
  el_tasks :: "(string \<times> task_record \<times> string option) list"
  el_lineages :: "(string \<times> string) list"
  el_executions :: "(string \<times> string \<times> string) list"
  el_states :: "(string \<times> string \<times> string) list"
  el_history :: "(string \<times> string) list"

datatype approval_op =
  Create int string string string jdict approval_binding int
| ListAll int string int
| Consume int string string string string string bool "task_status option"
| Invalidate owner_selector
| Elsewhere elsewhere

fun approval_step :: "(int \<Rightarrow> nat \<Rightarrow> string) \<Rightarrow> (string \<Rightarrow> bool) \<Rightarrow> host \<Rightarrow> approval_op \<Rightarrow> approval_db \<Rightarrow> approval_db" where
  "approval_step ft is_uuid ho (Create now i action digest preview frozen expires) db =
     fst (create_request ft is_uuid ho now i action digest preview frozen expires db)"
| "approval_step ft is_uuid ho (ListAll now t limit) db = fst (list_requests ho now t limit db)"
| "approval_step ft is_uuid ho (Consume now i t digest version owner approved target) db =
     fst (consume_request ho now i t digest version owner approved target db)"
| "approval_step ft is_uuid ho (Invalidate sel) db = fst (invalidate_requests sel db)"
| "approval_step ft is_uuid ho (Elsewhere e) db =
     db\<lparr>ad_tasks := el_tasks e, ad_lineages := el_lineages e, ad_executions := el_executions e,
        ad_states := el_states e, ad_history := el_history e\<rparr>"

lemma approval_step_le: "approvals_le db (approval_step ft is_uuid ho op db)"
  by (cases op) (simp_all only: approval_step.simps create_le list_le consume_le invalidate_le, simp add: approvals_le_def)

interpretation approvals: monotone_machine "approval_step ft is_uuid ho" approvals_inv approvals_le for ft is_uuid ho
  by unfold_locales (auto intro: approvals_le_refl approvals_le_trans approval_step_le approvals_le_inv)

lemma settled_row_stays:
  assumes "dget (ad_requests db) i = Some r" "ap_status r \<noteq> AP_PENDING"
  shows "dget (ad_requests (fold (approval_step ft is_uuid ho) ops db)) i = Some r"
  using assms
proof (induction ops arbitrary: db)
  case (Cons op ops)
  have "dget (ad_requests (approval_step ft is_uuid ho op db)) i = Some r"
    using approval_step_le [of db ft is_uuid ho op] Cons.prems unfolding approvals_le_def row_follows_def by blast
  with Cons show ?case by simp
qed simp


lemma settled_consume:
  assumes "dget (ad_requests db) i = Some r" "ap_status r \<noteq> AP_PENDING"
    and "snd (consume_request ho now i t digest version owner approved target db) = Inr (r', fresh)"
  shows "fresh = False \<and> r' = r \<and> ap_response r = Some approved \<and> ap_transition r = target"
proof -
  obtain db' where run: "consume_request ho now i t digest version owner approved target db = (db', Inr (r', fresh))"
    using assms(3) by (cases "consume_request ho now i t digest version owner approved target db") auto
  from consume_requestD [OF run] have "consume_write ho now i t digest version owner approved target db = Inr (db', Inr (r', fresh))"
    by simp
  then show ?thesis by (cases rule: consume_write_cases) (use assms(1,2) in auto)
qed

text \<open>C35: A request is answered (\<open>consume_approval_request\<close> with \<open>consumed_now\<close>) only while it is pending
  and not expired, for the task, action digest, state version and owner it was created with, and only if
  binding the task again in this transaction gives exactly the frozen binding; the answer is then stored
  with its time, and what was asked is unchanged.\<close>
theorem fresh_answer_is_current:
  assumes "consume_request ho now i t digest version owner approved target db = (db', Inr (r', True))"
  shows "\<exists>r0. dget (ad_requests db) i = Some r0 \<and> ap_status r0 = AP_PENDING \<and> now < ap_expires r0
           \<and> bd_task (ap_binding r0) = t \<and> ap_digest r0 = digest \<and> bd_version (ap_binding r0) = version
           \<and> bd_owner (ap_binding r0) = owner
           \<and> bind_task ho t (bd_root (ap_binding r0)) (bd_kind (ap_binding r0)) False db = Inr (ap_binding r0)
           \<and> dget (ad_requests db') i = Some r' \<and> same_request r0 r'
           \<and> ap_status r' = (if approved then AP_APPROVED else AP_DENIED)
           \<and> ap_response r' = Some approved \<and> ap_consumed r' = Some now"
proof -
  from consume_requestD [OF assms] have "consume_write ho now i t digest version owner approved target db = Inr (db', Inr (r', True))"
    by simp
  then show ?thesis
    by (cases rule: consume_write_cases) (auto simp: binding_current_def)
qed

text \<open>C34: An answer is given once: after it, whatever operations follow and whatever the other modules do to
  their tables, the stored request stays as it is, no later \<open>consume_approval_request\<close> for it is a fresh one,
  and a later call succeeds only by repeating the same answer and transition.\<close>
theorem approvals_are_used_once:
  assumes "consume_request ho now i t digest version owner approved target db = (db1, Inr (r', True))"
    and "db2 = fold (approval_step ft is_uuid ho) ops db1"
  shows "dget (ad_requests db2) i = Some r'
    \<and> (\<forall>now2 t2 digest2 version2 owner2 approved2 target2 r2 fresh.
         snd (consume_request ho now2 i t2 digest2 version2 owner2 approved2 target2 db2) = Inr (r2, fresh) \<longrightarrow>
         \<not> fresh \<and> r2 = r' \<and> approved2 = approved \<and> target2 = ap_transition r')"
proof -
  from consume_requestD [OF assms(1)]
  have "consume_write ho now i t digest version owner approved target db = Inr (db1, Inr (r', True))" by simp
  then have r': "dget (ad_requests db1) i = Some r'" "ap_status r' \<noteq> AP_PENDING" "ap_response r' = Some approved"
    by (cases rule: consume_write_cases; auto)+
  have stored: "dget (ad_requests db2) i = Some r'" unfolding assms(2) by (rule settled_row_stays [OF r'(1,2)])
  have "\<not> fresh \<and> r2 = r' \<and> approved2 = approved \<and> target2 = ap_transition r'"
    if "snd (consume_request ho now2 i t2 digest2 version2 owner2 approved2 target2 db2) = Inr (r2, fresh)"
    for now2 t2 digest2 version2 owner2 approved2 target2 r2 fresh
    using settled_consume [OF stored r'(2) that] r'(3) by auto
  with stored show ?thesis by blast
qed

definition sample_host :: host where
  "sample_host = \<lparr>ho_absolute = (\<lambda>p. True), ho_normalize = (\<lambda>p. p), ho_version = (\<lambda>(k, task, owner, state, path, history). tk_id task @ path)\<rparr>"

definition sample_digest :: string where
  "sample_digest = replicate 64 CHR ''a''"

definition sample_frozen :: approval_binding where
  "sample_frozen = \<lparr>bd_task = ''a'', bd_thread = ''t'', bd_root = ''/w'', bd_version = ''a/w'', bd_owner = [], bd_kind = DECISION\<rparr>"

definition sample_approvals :: approval_db where
  "sample_approvals = approval_step (\<lambda>_ _. []) (\<lambda>_. True) sample_host
     (Create 5 ''q'' ''act'' sample_digest [] sample_frozen 100)
     \<lparr>ad_tasks = [(''a'', sample_task, None)], ad_lineages = [], ad_executions = [], ad_states = [], ad_history = [], ad_requests = []\<rparr>"

definition sample_answer :: "approval_db \<times> (approval_row \<times> bool) result" where
  "sample_answer = consume_request sample_host 20 ''q'' ''a'' sample_digest ''a/w'' [] True None sample_approvals"

definition sample_answered :: approval_row where
  "sample_answered = \<lparr>ap_binding = sample_frozen, ap_action = ''act'', ap_digest = sample_digest, ap_preview = [], ap_expires = 100,
     ap_created = 5, ap_status = AP_APPROVED, ap_response = Some True, ap_consumed = Some 20, ap_transition = None, ap_post = None\<rparr>"

lemma sample_answer_fresh:
  "consume_request sample_host 20 ''q'' ''a'' sample_digest ''a/w'' [] True None sample_approvals
     = (fst sample_answer, Inr (sample_answered, True))"
  by code_simp

theorem fresh_answer_is_current_witness:
  "\<exists>r0. dget (ad_requests sample_approvals) ''q'' = Some r0 \<and> ap_status r0 = AP_PENDING \<and> 20 < ap_expires r0
     \<and> ap_consumed sample_answered = Some 20"
  using fresh_answer_is_current [OF sample_answer_fresh] by blast

theorem approvals_are_used_once_witness:
  "dget (ad_requests (fold (approval_step (\<lambda>_ _. []) (\<lambda>_. True) sample_host)
      [Invalidate (ByRequest ''q''), ListAll 200 ''a'' 10] (fst sample_answer))) ''q'' = Some sample_answered"
  using approvals_are_used_once [OF sample_answer_fresh refl] by blast


end
