(* ===== verification/Sse.thy ===== *)
theory Sse
  imports Prelude
begin

text \<open>
  The decoder of server-sent events: \<open>src/src/code_agent/providers/sse.py\<close>. A byte string is a list of
  \<open>char\<close> (Isabelle's type of bytes), decoded text is a list of code points. \<open>feed\<close> walks from newline to
  newline as the code does; \<open>feed_bytes\<close> is the reference that reads one byte at a time.
\<close>

section \<open>UTF-8\<close>

definition cont :: "nat \<Rightarrow> nat \<Rightarrow> char \<Rightarrow> bool" where
  "cont lo hi c = (lo \<le> code_of c \<and> code_of c \<le> hi)"

definition low6 :: "char \<Rightarrow> nat" where
  "low6 c = code_of c mod 64"

text \<open>\<open>bytes.decode("utf-8", errors="strict")\<close>: no overlong forms, no surrogates, nothing above U+10FFFF.\<close>

fun utf8_decode :: "string \<Rightarrow> nat list option" where
  "utf8_decode [] = Some []"
| "utf8_decode (a # s) =
     (if code_of a < 128 then map_option ((#) (code_of a)) (utf8_decode s)
      else if 194 \<le> code_of a \<and> code_of a \<le> 223
      then (case s of b # s' \<Rightarrow>
              if cont 128 191 b then map_option ((#) ((code_of a - 192) * 64 + low6 b)) (utf8_decode s') else None
            | [] \<Rightarrow> None)
      else if 224 \<le> code_of a \<and> code_of a \<le> 239
      then (case s of b # c # s' \<Rightarrow>
              if cont (if code_of a = 224 then 160 else 128) (if code_of a = 237 then 159 else 191) b \<and> cont 128 191 c
              then map_option ((#) ((code_of a - 224) * 4096 + low6 b * 64 + low6 c)) (utf8_decode s') else None
            | _ \<Rightarrow> None)
      else if 240 \<le> code_of a \<and> code_of a \<le> 244
      then (case s of b # c # d # s' \<Rightarrow>
              if cont (if code_of a = 240 then 144 else 128) (if code_of a = 244 then 143 else 191) b
                 \<and> cont 128 191 c \<and> cont 128 191 d
              then map_option ((#) ((code_of a - 240) * 262144 + low6 b * 4096 + low6 c * 64 + low6 d)) (utf8_decode s') else None
            | _ \<Rightarrow> None)
      else None)"

section \<open>The decoder\<close>

type_synonym codes = "nat list"

definition codes_of :: "string \<Rightarrow> codes" where
  "codes_of s = map code_of s"

record sse_event =
  se_data :: codes
  se_event :: "codes option"
  se_id :: "codes option"

record sse_decoder =
  sd_limit :: nat
  sd_buffer :: string
  sd_event_name :: "codes option"
  sd_event_id :: "codes option"
  sd_data :: "codes list"
  sd_has_data :: bool
  sd_event_bytes :: nat
  sd_finalized :: bool

definition new_decoder :: "int \<Rightarrow> sse_decoder result" where
  "new_decoder limit =
     (if limit \<le> 0 then raiseR ValueError ''max_event_bytes must be positive''
      else Inr \<lparr>sd_limit = nat limit, sd_buffer = [], sd_event_name = None, sd_event_id = None, sd_data = [],
                sd_has_data = False, sd_event_bytes = 0, sd_finalized = False\<rparr>)"

definition append_buffer :: "string \<Rightarrow> sse_decoder \<Rightarrow> sse_decoder result" where
  "append_buffer v d =
     (if sd_limit d < length (sd_buffer d) + length v
      then raiseR ProviderResponseLimitError ''SSE line buffer exceeded its limit''
      else Inr (d\<lparr>sd_buffer := sd_buffer d @ v\<rparr>))"

definition reset_event :: "sse_decoder \<Rightarrow> sse_decoder" where
  "reset_event d = d\<lparr>sd_event_name := None, sd_event_id := None, sd_data := [], sd_has_data := False, sd_event_bytes := 0\<rparr>"

fun join_lines :: "codes list \<Rightarrow> codes" where
  "join_lines [] = []"
| "join_lines [x] = x"
| "join_lines (x # xs) = x @ 10 # join_lines xs"

definition dispatch :: "sse_decoder \<Rightarrow> sse_decoder \<times> sse_event list" where
  "dispatch d =
     (reset_event d,
      if sd_has_data d then [\<lparr>se_data = join_lines (sd_data d), se_event = sd_event_name d, se_id = sd_event_id d\<rparr>] else [])"

definition set_field :: "codes \<Rightarrow> codes \<Rightarrow> sse_decoder \<Rightarrow> sse_decoder" where
  "set_field field v d =
     (if field = codes_of ''data'' then d\<lparr>sd_data := sd_data d @ [v], sd_has_data := True\<rparr>
      else if field = codes_of ''event'' then d\<lparr>sd_event_name := (if v = [] then None else Some v)\<rparr>
      else if 0 \<notin> set v then d\<lparr>sd_event_id := Some v\<rparr> else d)"

definition process_line :: "string \<Rightarrow> sse_decoder \<Rightarrow> (sse_decoder \<times> sse_event list) result" where
  "process_line raw d =
     (case utf8_decode raw of
        None \<Rightarrow> raiseR ProviderProtocolError ''SSE stream contains invalid UTF-8''
      | Some [] \<Rightarrow> Inr (dispatch d)
      | Some (c # cs) \<Rightarrow>
          if c = 58 then Inr (d, [])
          else
            let line = c # cs; field = takeWhile (\<lambda>x. x \<noteq> 58) line; rest = dropWhile (\<lambda>x. x \<noteq> 58) line;
                v = (case rest of [] \<Rightarrow> [] | _ # r \<Rightarrow> (case r of [] \<Rightarrow> [] | x # xs \<Rightarrow> if x = 32 then xs else r))
            in if field \<notin> {codes_of ''data'', codes_of ''event'', codes_of ''id''} then Inr (d, [])
               else if sd_limit d < sd_event_bytes d + length raw + 1
               then raiseR ProviderResponseLimitError ''SSE event exceeded its limit''
               else Inr (set_field field v (d\<lparr>sd_event_bytes := sd_event_bytes d + length raw + 1\<rparr>), []))"

text \<open>A complete line: one trailing carriage return is dropped, any other is malformed.\<close>

definition end_line :: "sse_decoder \<Rightarrow> (sse_decoder \<times> sse_event list) result" where
  "end_line d =
     (let raw = sd_buffer d; line = (if raw \<noteq> [] \<and> code_of (last raw) = 13 then butlast raw else raw)
      in if CHR 13 \<in> set line then raiseR ProviderProtocolError ''Malformed SSE line ending''
         else process_line line (d\<lparr>sd_buffer := []\<rparr>))"

function feed_lines :: "string \<Rightarrow> sse_decoder \<Rightarrow> (sse_decoder \<times> sse_event list) result" where
  "feed_lines chunk d =
     (if chunk = [] then Inr (d, [])
      else
        let part = takeWhile (\<lambda>c. c \<noteq> CHR 10) chunk; rest = dropWhile (\<lambda>c. c \<noteq> CHR 10) chunk
        in bindR (append_buffer part d) (\<lambda>d1.
           if rest = [] then Inr (d1, [])
           else bindR (end_line d1) (\<lambda>(d2, es).
             bindR (feed_lines (tl rest) d2) (\<lambda>(d3, fs). Inr (d3, es @ fs)))))"
  by pat_completeness auto
termination
  by (relation "measure (\<lambda>(c, d). length c)")
     (auto simp: less_le_trans [OF _ length_dropWhile_le] intro!: le_less_trans [OF diff_le_mono [OF length_dropWhile_le]])

declare feed_lines.simps [simp del]

definition feed :: "string \<Rightarrow> sse_decoder \<Rightarrow> (sse_decoder \<times> sse_event list) result" where
  "feed chunk d =
     (if sd_finalized d then raiseR ProviderProtocolError ''SSE decoder is already finalized'' else feed_lines chunk d)"

definition finalize_decoder :: "sse_decoder \<Rightarrow> (sse_decoder \<times> sse_event list) result" where
  "finalize_decoder d =
     (if sd_finalized d then Inr (d, [])
      else
        let d1 = d\<lparr>sd_finalized := True, sd_buffer := []\<rparr> in
        bindR (if sd_buffer d = [] then Inr (d1, [])
               else if CHR 13 \<in> set (sd_buffer d) then raiseR ProviderProtocolError ''Malformed SSE line ending''
               else process_line (sd_buffer d) d1) (\<lambda>(d2, es).
          case dispatch d2 of (d3, fs) \<Rightarrow> Inr (d3, es @ fs)))"

section \<open>Reading byte by byte\<close>

definition feed_byte :: "char \<Rightarrow> sse_decoder \<Rightarrow> (sse_decoder \<times> sse_event list) result" where
  "feed_byte c d = (if c = CHR 10 then end_line d else bindR (append_buffer [c] d) (\<lambda>d1. Inr (d1, [])))"

text \<open>One step after another, with the events of all of them.\<close>

definition then_events :: "(sse_decoder \<times> sse_event list) result \<Rightarrow> (sse_decoder \<Rightarrow> (sse_decoder \<times> sse_event list) result)
    \<Rightarrow> (sse_decoder \<times> sse_event list) result" where
  "then_events r f = bindR r (\<lambda>(d, es). bindR (f d) (\<lambda>(d', fs). Inr (d', es @ fs)))"

primrec feed_bytes :: "string \<Rightarrow> sse_decoder \<Rightarrow> (sse_decoder \<times> sse_event list) result" where
  "feed_bytes [] d = Inr (d, [])"
| "feed_bytes (c # cs) d = then_events (feed_byte c d) (feed_bytes cs)"

primrec feed_chunks :: "string list \<Rightarrow> sse_decoder \<Rightarrow> (sse_decoder \<times> sse_event list) result" where
  "feed_chunks [] d = Inr (d, [])"
| "feed_chunks (c # cs) d = then_events (feed c d) (feed_chunks cs)"

definition decoder_ok :: "sse_decoder \<Rightarrow> bool" where
  "decoder_ok d = (length (sd_buffer d) \<le> sd_limit d \<and> sd_event_bytes d \<le> sd_limit d)"

lemma then_events_simps [simp]:
  "then_events (Inl e) f = Inl e"
  "then_events (raiseR c m) f = raiseR c m"
  "then_events (Inr (d, [])) f = f d"
  by (simp_all add: then_events_def raiseR_def) (cases "f d"; auto)

lemma then_events_Inr: "then_events (Inr (d, es)) f = bindR (f d) (\<lambda>(d', fs). Inr (d', es @ fs))"
  by (simp add: then_events_def)

lemma then_events_assoc: "then_events (then_events r f) g = then_events r (\<lambda>d. then_events (f d) g)"
proof (cases r)
  case (Inr p)
  obtain d es where p: "p = (d, es)" by (cases p)
  show ?thesis
  proof (cases "f d")
    case fd: (Inr q)
    obtain d' fs where q: "q = (d', fs)" by (cases q)
    show ?thesis by (cases "g d'") (auto simp: Inr p fd q then_events_def)
  qed (simp add: Inr p then_events_def)
qed simp

lemma feed_bytes_append: "feed_bytes (a @ b) d = then_events (feed_bytes a d) (feed_bytes b)"
proof (induction a arbitrary: d)
  case (Cons c a)
  have "feed_bytes (a @ b) = (\<lambda>d. then_events (feed_bytes a d) (feed_bytes b))"
    by (rule ext) (rule Cons.IH)
  then show ?case by (simp add: then_events_assoc)
qed simp

definition same_setup :: "sse_decoder \<Rightarrow> sse_decoder \<Rightarrow> bool" where
  "same_setup d d' = (decoder_ok d' \<and> sd_finalized d' = sd_finalized d \<and> sd_limit d' = sd_limit d)"

lemma process_line_keeps:
  assumes "process_line raw d = Inr (d', es)" "decoder_ok d"
  shows "same_setup d d'"
  using assms
  by (auto simp: process_line_def same_setup_def decoder_ok_def dispatch_def reset_event_def set_field_def Let_def
      split: option.splits list.splits if_splits)

lemma end_line_keeps:
  assumes "end_line d = Inr (d', es)" "decoder_ok d"
  shows "same_setup d d'"
proof -
  obtain line where "process_line line (d\<lparr>sd_buffer := []\<rparr>) = Inr (d', es)"
    using assms(1) by (auto simp: end_line_def Let_def split: if_splits)
  moreover have "decoder_ok (d\<lparr>sd_buffer := []\<rparr>)" using assms(2) by (simp add: decoder_ok_def)
  ultimately have "same_setup (d\<lparr>sd_buffer := []\<rparr>) d'" by (rule process_line_keeps)
  then show ?thesis by (simp add: same_setup_def)
qed

lemma append_buffer_keeps: "append_buffer v d = Inr d' \<Longrightarrow> decoder_ok d \<Longrightarrow> same_setup d d'"
  by (auto simp: append_buffer_def same_setup_def decoder_ok_def split: if_splits)

lemma feed_byte_keeps: "feed_byte c d = Inr (d', es) \<Longrightarrow> decoder_ok d \<Longrightarrow> same_setup d d'"
  by (auto simp: feed_byte_def bindR_Inr_iff dest: end_line_keeps append_buffer_keeps split: if_splits)

lemma same_setup_trans: "same_setup a b \<Longrightarrow> same_setup b c \<Longrightarrow> same_setup a c"
  by (simp add: same_setup_def)

lemma feed_bytes_keeps: "feed_bytes cs d = Inr (d', es) \<Longrightarrow> decoder_ok d \<Longrightarrow> same_setup d d'"
proof (induction cs arbitrary: d es)
  case (Cons c cs)
  then obtain d1 as fs where "feed_byte c d = Inr (d1, as)" "feed_bytes cs d1 = Inr (d', fs)"
    by (auto simp: then_events_def bindR_Inr_iff)
  with Cons show ?case using feed_byte_keeps same_setup_trans by (metis same_setup_def)
qed (simp add: same_setup_def)

lemma append_by_bytes:
  "CHR 10 \<notin> set v \<Longrightarrow> decoder_ok d \<Longrightarrow> feed_bytes v d = bindR (append_buffer v d) (\<lambda>d1. Inr (d1, []))"
proof (induction v arbitrary: d)
  case (Cons c v)
  show ?case
  proof (cases "append_buffer [c] d")
    case (Inl e)
    with Cons.prems show ?thesis by (auto simp: feed_byte_def append_buffer_def raiseR_def split: if_splits)
  next
    case (Inr d1)
    have "decoder_ok d1" using append_buffer_keeps [OF Inr Cons.prems(2)] by (simp add: same_setup_def)
    moreover have "append_buffer v d1 = append_buffer (c # v) d"
      using Inr by (auto simp: append_buffer_def split: if_splits)
    ultimately show ?thesis using Cons Inr by (auto simp: feed_byte_def)
  qed
qed (simp add: append_buffer_def decoder_ok_def)

lemma feed_lines_bytes: "decoder_ok d \<Longrightarrow> feed_lines chunk d = feed_bytes chunk d"
proof (induction chunk d rule: feed_lines.induct)
  case (1 chunk d)
  let ?part = "takeWhile (\<lambda>c. c \<noteq> CHR 10) chunk" and ?rest = "dropWhile (\<lambda>c. c \<noteq> CHR 10) chunk"
  have part: "feed_bytes ?part d = bindR (append_buffer ?part d) (\<lambda>d1. Inr (d1, []))"
    using 1(2) by (intro append_by_bytes) (auto dest: set_takeWhileD)
  have split: "feed_bytes chunk d = then_events (feed_bytes ?part d) (feed_bytes ?rest)"
    by (metis feed_bytes_append takeWhile_dropWhile_id)
  show ?case
  proof (cases "chunk = []")
    case True
    then show ?thesis by (simp add: feed_lines.simps)
  next
    case False
    show ?thesis
    proof (cases "append_buffer ?part d")
      case (Inl e)
      with False part split show ?thesis by (simp add: feed_lines.simps Let_def)
    next
      case (Inr d1)
      show ?thesis
      proof (cases "?rest = []")
        case True
        with False part split Inr show ?thesis by (simp add: feed_lines.simps Let_def)
      next
        case rest: False
        then have hd: "hd ?rest = CHR 10" using hd_dropWhile [of "\<lambda>c. c \<noteq> CHR 10" chunk] by blast
        then have "?rest = CHR 10 # tl ?rest" using rest by (metis list.collapse)
        then have "feed_bytes ?rest d1 = then_events (end_line d1) (feed_bytes (tl ?rest))"
          by (metis feed_byte_def feed_bytes.simps(2))
        moreover have "then_events (end_line d1) (feed_bytes (tl ?rest)) = then_events (end_line d1) (feed_lines (tl ?rest))"
        proof (cases "end_line d1")
          case e: (Inr p)
          obtain d2 es where p: "p = (d2, es)" by (cases p)
          have "decoder_ok d1" using append_buffer_keeps [OF Inr 1(2)] by (simp add: same_setup_def)
          then have "decoder_ok d2" using end_line_keeps [OF e [unfolded p]] by (simp add: same_setup_def)
          then have "feed_lines (tl ?rest) d2 = feed_bytes (tl ?rest) d2"
            using 1(1) [OF False refl refl] Inr rest e p by fastforce
          then show ?thesis by (simp add: e p then_events_def)
        qed simp
        ultimately have bytes: "feed_bytes ?rest d1 = then_events (end_line d1) (feed_lines (tl ?rest))" by simp
        have lines: "feed_lines chunk d = then_events (end_line d1) (feed_lines (tl ?rest))"
          using False Inr rest by (subst feed_lines.simps) (auto simp: Let_def then_events_def)
        have "feed_bytes chunk d = feed_bytes ?rest d1"
          using part Inr by (subst split) simp
        then show ?thesis by (simp only: bytes lines)
      qed
    qed
  qed
qed

lemma feed_is_feed_bytes: "decoder_ok d \<Longrightarrow> \<not> sd_finalized d \<Longrightarrow> feed chunk d = feed_bytes chunk d"
  by (simp add: feed_def feed_lines_bytes)

lemma feed_chunks_bytes:
  "decoder_ok d \<Longrightarrow> \<not> sd_finalized d \<Longrightarrow> feed_chunks cs d = feed_bytes (concat cs) d"
proof (induction cs arbitrary: d)
  case (Cons c cs)
  show ?case
  proof (cases "feed_bytes c d")
    case (Inr p)
    obtain d1 es where p: "p = (d1, es)" by (cases p)
    have "same_setup d d1" using feed_bytes_keeps [OF Inr [unfolded p] Cons.prems(1)] .
    with Cons show ?thesis
      by (simp add: feed_is_feed_bytes feed_bytes_append Inr p then_events_Inr same_setup_def)
  qed (simp add: feed_is_feed_bytes Cons.prems feed_bytes_append)
qed simp

text \<open>
  C37: The decoder does not depend on how the stream is cut into chunks: feeding the pieces one after another
  gives the same events, the same final state or the same exception as feeding the whole; both are the
  byte-by-byte decoder. The buffered line and the bytes counted for an event never exceed the limit.
\<close>

theorem sse_ignores_chunking:
  assumes "new_decoder limit = Inr d"
  shows "feed_chunks cs d = feed (concat cs) d \<and> feed (concat cs) d = feed_bytes (concat cs) d
    \<and> (\<forall>d' es. feed_chunks cs d = Inr (d', es) \<longrightarrow>
         length (sd_buffer d') \<le> nat limit \<and> sd_event_bytes d' \<le> nat limit)"
proof -
  have d: "decoder_ok d" "\<not> sd_finalized d" "sd_limit d = nat limit"
    using assms by (auto simp: new_decoder_def decoder_ok_def split: if_splits)
  then show ?thesis
    using feed_bytes_keeps [of "concat cs" d]
    by (auto simp: feed_chunks_bytes feed_is_feed_bytes same_setup_def decoder_ok_def)
qed

definition sample_stream :: "string list" where
  "sample_stream = [''event: no'', ''te'' @ [CHR 13, CHR 10] @ ''data: a'' @ [CHR 10], ''data:b'' @ [CHR 10, CHR 13, CHR 10] @ '': ping'']"

definition sample_decoder :: sse_decoder where
  "sample_decoder = \<lparr>sd_limit = 100, sd_buffer = [], sd_event_name = None, sd_event_id = None, sd_data = [],
     sd_has_data = False, sd_event_bytes = 0, sd_finalized = False\<rparr>"

theorem sse_ignores_chunking_witness:
  "\<exists>d'. feed (concat sample_stream) sample_decoder = Inr (d',
      [\<lparr>se_data = codes_of (''a'' @ [CHR 10] @ ''b''), se_event = Some (codes_of ''note''), se_id = None\<rparr>])
    \<and> feed_chunks sample_stream sample_decoder = feed (concat sample_stream) sample_decoder"
proof -
  have new: "new_decoder 100 = Inr sample_decoder" by code_simp
  have "okP (\<lambda>p. snd p = [\<lparr>se_data = codes_of (''a'' @ [CHR 10] @ ''b''), se_event = Some (codes_of ''note''), se_id = None\<rparr>])
      (feed_bytes (concat sample_stream) sample_decoder)"
    by code_simp
  then obtain p where p: "feed_bytes (concat sample_stream) sample_decoder = Inr p"
      "snd p = [\<lparr>se_data = codes_of (''a'' @ [CHR 10] @ ''b''), se_event = Some (codes_of ''note''), se_id = None\<rparr>]"
    by (rule okP_E)
  have "p = (fst p, snd p)" by simp
  with p sse_ignores_chunking [OF new, of sample_stream] show ?thesis by metis
qed

end
