(* ===== verification/Convergence.thy ===== *)
theory Convergence
  imports Values Json_Text
begin

text \<open>
  What keeps a run from going round in circles, under \<open>src/src/code_agent/core\<close>: the categories of
  \<open>action_semantics.py\<close>, the guard and the observer of \<open>exploration_repeat.py\<close>, the blocked calls of
  \<open>engine_turn_feedback.py\<close> with \<open>_tool_feedback.py\<close>, and the unanswered calls of \<open>pending_actions.py\<close>.
  \<open>ft\<close> is the text of a float and \<open>ps\<close> Python's \<open>str\<close> of a float or a container. The text that
  \<open>build_diagnostic_reflection\<close> appends has characters outside the model of strings: it is the
  parameter \<open>scaffold\<close>.
\<close>

section \<open>Categories and failures\<close>

definition read_only_tools :: "string list" where
  "read_only_tools = [''read_file'', ''read_code_slices'', ''search_text'', ''list_files'', ''git_status'', ''git_diff'']"

definition progress_tools :: "string list" where
  "progress_tools = [''write_file'', ''replace_text'', ''apply_workspace_edit_plan_v1'', ''run_verification'', ''new_context'']"

definition operation_kind :: "tool_call \<Rightarrow> string" where
  "operation_kind c = (if tl_name c \<in> set read_only_tools then ''read''
     else if tl_name c \<in> set progress_tools then ''progress'' else ''other'')"

definition tool_failure :: "tool_call \<Rightarrow> string \<Rightarrow> string option \<Rightarrow> string option \<Rightarrow> action_result result" where
  "tool_failure c message error_type error_code =
     mk_action_result \<lparr>ar_request_id = tl_id c, ar_name = tl_name c,
       ar_output = JObj ([(''error'', JStr message)] @ opt_field ''type'' (map_option JStr error_type)
         @ opt_field ''error_code'' (map_option JStr error_code)),
       ar_is_error = True, ar_metadata = []\<rparr>"

definition str_of :: "(json \<Rightarrow> string) \<Rightarrow> json \<Rightarrow> string" where
  "str_of ps v = (case v of JStr s \<Rightarrow> s | JInt i \<Rightarrow> int_text i | JBool b \<Rightarrow> (if b then ''True'' else ''False'')
     | JNull \<Rightarrow> ''None'' | _ \<Rightarrow> ps v)"

section \<open>Repeated reads\<close>

record observation_note =
  on_kind :: string
  on_reason :: string
  on_count :: int

record repeat_observer =
  ro_warn_at :: int
  ro_pause_at :: int
  ro_capacity :: nat
  ro_recent :: "(string \<times> string \<times> int \<times> string) list"

definition new_repeat_observer :: "int \<Rightarrow> int \<Rightarrow> int \<Rightarrow> repeat_observer result" where
  "new_repeat_observer warn_at pause_at capacity =
     (if warn_at < 1 \<or> pause_at \<le> warn_at \<or> capacity < 1
      then raiseR ValueError ''invalid exploration repeat thresholds''
      else Inr \<lparr>ro_warn_at = warn_at, ro_pause_at = pause_at, ro_capacity = nat capacity, ro_recent = []\<rparr>)"

definition ignored_keys :: "string list" where
  "ignored_keys = [''request_id'', ''duration'', ''duration_ms'', ''call_id'']"

definition canonical_of :: "(int \<Rightarrow> nat \<Rightarrow> string) \<Rightarrow> json \<Rightarrow> string" where
  "canonical_of ft v = (case v of
      JObj d \<Rightarrow> dumps ft canonical_text (JObj (filter (\<lambda>(k, x). k \<notin> set ignored_keys) (sort_keys d)))
    | _ \<Rightarrow> dumps ft canonical_text v)"

text \<open>\<open>\x1b(?:\[[0-?]*[ -/]*[@-~]|.)\<close>: the three classes are disjoint, so nothing is tried twice.\<close>

definition csi_end :: "string \<Rightarrow> string option" where
  "csi_end s = (case dropWhile (\<lambda>c. 32 \<le> code_of c \<and> code_of c \<le> 47) (dropWhile (\<lambda>c. 48 \<le> code_of c \<and> code_of c \<le> 63) s) of
      [] \<Rightarrow> None
    | c # r \<Rightarrow> if 64 \<le> code_of c \<and> code_of c \<le> 126 then Some r else None)"

lemma csi_end_length: "csi_end s = Some r \<Longrightarrow> length r < length s"
proof -
  let ?t = "dropWhile (\<lambda>c. 32 \<le> code_of c \<and> code_of c \<le> 47) (dropWhile (\<lambda>c. 48 \<le> code_of c \<and> code_of c \<le> 63) s)"
  assume "csi_end s = Some r"
  then obtain c where "?t = c # r" by (auto simp: csi_end_def split: list.splits if_splits)
  moreover have "length ?t \<le> length s" using length_dropWhile_le order_trans by blast
  ultimately show "length r < length s" by simp
qed

function strip_escapes :: "string \<Rightarrow> string" where
  "strip_escapes [] = []"
| "strip_escapes (c # s) =
     (if code_of c \<noteq> 27 then c # strip_escapes s
      else case s of
          [] \<Rightarrow> [c]
        | d # r \<Rightarrow>
            (case (if d = CHR ''['' then csi_end r else None) of
               Some t \<Rightarrow> strip_escapes t
             | None \<Rightarrow> if d = CHR 10 then c # strip_escapes s else strip_escapes r))"
  by pat_completeness auto
termination
  by (relation "measure length") (auto dest!: csi_end_length split: if_splits)

definition target_of :: "(json \<Rightarrow> string) \<Rightarrow> tool_call \<Rightarrow> string" where
  "target_of ps c =
     (let get = (\<lambda>k. get_or k JNull (tl_arguments c));
          v = (if json_true (get ''path'') then get ''path'' else if json_true (get ''pattern'') then get ''pattern''
               else if json_true (get ''root'') then get ''root'' else JStr ''target'')
      in take 160 (map (\<lambda>x. if code_of x < 32 \<or> code_of x = 127 then CHR '' '' else x) (strip_escapes (str_of ps v))))"

definition repeat_signature :: "(int \<Rightarrow> nat \<Rightarrow> string) \<Rightarrow> tool_call \<Rightarrow> string" where
  "repeat_signature ft c = tl_name c @ '':'' @ canonical_of ft (JObj (tl_arguments c))"

text \<open>The oldest entries are dropped until the table fits.\<close>

definition evict :: "nat \<Rightarrow> 'a list \<Rightarrow> 'a list" where
  "evict capacity d = drop (length d - capacity) d"

definition observe_repeat :: "(int \<Rightarrow> nat \<Rightarrow> string) \<Rightarrow> (json \<Rightarrow> string) \<Rightarrow> tool_call \<Rightarrow> action_result \<Rightarrow> repeat_observer
    \<Rightarrow> repeat_observer \<times> observation_note option" where
  "observe_repeat ft ps c r ob =
     (if operation_kind c \<noteq> ''read'' then (ob, None)
      else
        let sig = repeat_signature ft c; fp = canonical_of ft (ar_output r);
            n = (case dget (ro_recent ob) sig of Some (f, k, t) \<Rightarrow> if f = fp then k + 1 else 1 | None \<Rightarrow> 1);
            ob' = ob\<lparr>ro_recent := evict (ro_capacity ob) (dpop sig (ro_recent ob) @ [(sig, fp, n, target_of ps c)])\<rparr>;
            note = (\<lambda>kind. Some \<lparr>on_kind = kind,
              on_reason = tl_name c @ '' '' @ target_of ps c @ '' repeated '' @ int_text n
                @ '' times with unchanged result; no result change was observed'', on_count = n\<rparr>)
        in (ob', if ro_pause_at ob \<le> n then note ''pause'' else if ro_warn_at ob \<le> n then note ''warn'' else None))"

section \<open>Turns without progress\<close>

record convergence_guard =
  cg_warn_at :: int
  cg_force_at :: int
  cg_max_corrections :: int
  cg_exploration :: int
  cg_correction :: int

definition new_guard :: "int \<Rightarrow> int \<Rightarrow> int \<Rightarrow> convergence_guard result" where
  "new_guard warn_at force_at max_corrections =
     (if warn_at < 1 \<or> force_at \<le> warn_at then raiseR ValueError ''invalid tool-only convergence thresholds''
      else Inr \<lparr>cg_warn_at = warn_at, cg_force_at = force_at, cg_max_corrections = max_corrections,
             cg_exploration = 0, cg_correction = 0\<rparr>)"

definition reset_guard :: "convergence_guard \<Rightarrow> convergence_guard" where
  "reset_guard g = g\<lparr>cg_exploration := 0, cg_correction := 0\<rparr>"

definition observe_turn :: "tool_call list \<Rightarrow> bool \<Rightarrow> bool \<Rightarrow> convergence_guard \<Rightarrow> convergence_guard \<times> observation_note option" where
  "observe_turn calls validation_error host_progress g =
     (if calls = [] then (g, None)
      else if validation_error then
        let n = cg_correction g + 1
        in (g\<lparr>cg_correction := n\<rparr>,
            if cg_max_corrections g \<le> n
            then Some \<lparr>on_kind = ''finalize'',
                   on_reason = ''task encountered repeated tool argument/contract validation errors for '' @ int_text n
                     @ '' consecutive turns; resolve with a summary or change approach instead of repeating invalid calls'',
                   on_count = n\<rparr>
            else None)
      else if host_progress then (g\<lparr>cg_exploration := 0, cg_correction := 0\<rparr>, None)
      else
        let n = cg_exploration g + 1;
            g' = g\<lparr>cg_correction := 0, cg_exploration := n\<rparr>
        in (g',
            if n = cg_force_at g
            then Some \<lparr>on_kind = ''finalize'',
                   on_reason = ''task produced no new Host-observed progress for '' @ int_text n
                     @ '' consecutive action turns; resolve from the current evidence instead of continuing broad exploration'',
                   on_count = n\<rparr>
            else if n = cg_warn_at g
            then Some \<lparr>on_kind = ''warn'',
                   on_reason = ''task produced no new Host-observed progress for '' @ int_text n
                     @ '' consecutive action turns; summarize current evidence and avoid broad repeated exploration'',
                   on_count = n\<rparr>
            else None))"

section \<open>Blocked calls\<close>

definition call_signature :: "(int \<Rightarrow> nat \<Rightarrow> string) \<Rightarrow> tool_call \<Rightarrow> string" where
  "call_signature ft c = tl_name c @ '':'' @ dumps ft sorted_text (JObj (tl_arguments c))"

definition format_action_error :: "(json \<Rightarrow> string) \<Rightarrow> jdict \<Rightarrow> string" where
  "format_action_error ps d =
     (let out = get_or ''output'' JNull d; other = (if json_true out then str_of ps out else ''unknown error'')
      in case out of
           JObj m \<Rightarrow>
             let detail = get_or ''detail'' JNull m; error = get_or ''error'' JNull m
             in if json_true detail \<and> json_true error then str_of ps error @ '': '' @ str_of ps detail
                else if json_true detail then str_of ps detail
                else if json_true error then str_of ps error
                else other
         | _ \<Rightarrow> other)"

definition build_diagnostic_reflection :: "string \<Rightarrow> string \<Rightarrow> string" where
  "build_diagnostic_reflection scaffold message = py_strip message @ scaffold"

definition duplicate_failed_call :: "(int \<Rightarrow> nat \<Rightarrow> string) \<Rightarrow> string \<Rightarrow> (string \<times> string) option \<Rightarrow> tool_call \<Rightarrow> tool_call
    \<Rightarrow> action_result option result" where
  "duplicate_failed_call ft scaffold prior c observed =
     (case prior of
        None \<Rightarrow> Inr None
      | Some (sig, error) \<Rightarrow>
          if call_signature ft observed \<noteq> sig then Inr None
          else bindR (tool_failure c (build_diagnostic_reflection scaffold
                 (''The identical tool call failed on the previous attempt.'' @ [CHR 10, CHR 10] @ ''Previous error:'' @ [CHR 10]
                  @ error @ [CHR 10, CHR 10] @ ''Do not repeat the same call unchanged. Modify the arguments before retrying.''))
                 None (Some ''duplicate_failed_call_blocked'')) (\<lambda>r. Inr (Some r)))"

definition circuit_breaker :: "(int \<Rightarrow> nat \<Rightarrow> string) \<Rightarrow> string list \<Rightarrow> tool_call \<Rightarrow> tool_call
    \<Rightarrow> string list \<times> action_result option result" where
  "circuit_breaker ft history c observed =
     (if operation_kind observed = ''read'' then (history, Inr None)
      else
        let sig = call_signature ft observed; history' = history @ [sig]; n = count_list history' sig
        in (history',
            if n < 3 then Inr None
            else bindR (tool_failure c (''Action circuit breaker triggered: '' @ tl_name c @ '' with identical arguments was called ''
                   @ int_text (int n) @ '' times. Do not repeat this action; proceed with your analysis or response.'')
                   None (Some ''repeated_action_blocked'')) (\<lambda>r. Inr (Some r))))"

definition is_in_flight_failure :: "agent_event \<Rightarrow> bool" where
  "is_in_flight_failure e =
     (ev_kind e = ACTION_COMPLETED
      \<and> (case get_or ''result'' JNull (ev_payload e) of
           JObj r \<Rightarrow> (case get_or ''output'' JNull r of
                        JObj out \<Rightarrow> dget out ''error_code'' = Some (JStr ''in_flight_validation_failed'') | _ \<Rightarrow> False)
         | _ \<Rightarrow> False))"

definition verification_failed :: "agent_event list \<Rightarrow> bool" where
  "verification_failed es =
     list_ex (\<lambda>e. ev_kind e = ACTION_COMPLETED
       \<and> (case get_or ''result'' JNull (ev_payload e) of
            JObj r \<Rightarrow> dget r ''is_error'' = Some (JBool True) | _ \<Rightarrow> False)) es"

text \<open>A code or message that is a list or mapping is not hashable: the membership test raises.\<close>

definition member_text :: "string list \<Rightarrow> json option \<Rightarrow> bool result" where
  "member_text names v = (case v of Some (JStr s) \<Rightarrow> Inr (s \<in> set names) | Some (JArr xs) \<Rightarrow> raiseR TypeError ''unhashable type''
     | Some (JObj d) \<Rightarrow> raiseR TypeError ''unhashable type'' | _ \<Rightarrow> Inr False)"

definition is_validation_failure :: "bool \<Rightarrow> json \<Rightarrow> bool result" where
  "is_validation_failure is_error out =
     (if \<not> is_error then Inr False
      else case out of
          JObj m \<Rightarrow>
            bindR (member_text [''invalid_tool_arguments'', ''duplicate_failed_call_blocked'', ''summary_tool_call_rejected'']
              (dget m ''error_code'')) (\<lambda>coded. if coded then Inr True
            else member_text [''invalid tool arguments'', ''shell syntax mismatch'', ''process contract mismatch''] (dget m ''error''))
        | _ \<Rightarrow> Inr False)"

section \<open>Unanswered calls\<close>

definition pending_step :: "(string \<Rightarrow> nat) \<Rightarrow> chat_message \<Rightarrow> tool_call list \<Rightarrow> tool_call list" where
  "pending_step counts m pending =
     (if ms_role m = ''assistant'' then pending @ ms_tool_calls m
      else if ms_role m = ''tool''
      then filter (\<lambda>c. \<not> (counts (tl_id c) = 1 \<and> Some (tl_id c) = ms_tool_call_id m \<and> Some (tl_name c) = ms_name m)) pending
      else pending)"

definition pending_calls :: "chat_message list \<Rightarrow> tool_call list" where
  "pending_calls ms =
     (let ids = concat (map (\<lambda>m. map tl_id (ms_tool_calls m)) ms)
      in fold (pending_step (count_list ids)) ms [])"

text \<open>The specification: a call made by an assistant message waits unless a later tool message answers it.\<close>

definition answers :: "tool_call \<Rightarrow> chat_message \<Rightarrow> bool" where
  "answers c m = (ms_role m = ''tool'' \<and> ms_tool_call_id m = Some (tl_id c) \<and> ms_name m = Some (tl_name c))"

primrec unanswered :: "(tool_call \<Rightarrow> bool) \<Rightarrow> chat_message list \<Rightarrow> tool_call list" where
  "unanswered once [] = []"
| "unanswered once (m # ms) =
     (if ms_role m = ''assistant'' then filter (\<lambda>c. \<not> (once c \<and> list_ex (answers c) ms)) (ms_tool_calls m) else [])
     @ unanswered once ms"

lemma pending_fold:
  "fold (pending_step counts) ms pending =
     filter (\<lambda>c. \<not> (counts (tl_id c) = 1 \<and> list_ex (answers c) ms)) pending
     @ unanswered (\<lambda>c. counts (tl_id c) = 1) ms"
proof (induction ms arbitrary: pending)
  case (Cons m ms)
  consider "ms_role m = ''assistant''" | "ms_role m = ''tool''" | "ms_role m \<noteq> ''assistant''" "ms_role m \<noteq> ''tool''"
    by blast
  then show ?case
  proof cases
    case 2
    then have "pending_step counts m pending = filter (\<lambda>c. \<not> (counts (tl_id c) = 1 \<and> answers c m)) pending"
      by (auto simp: pending_step_def answers_def intro!: filter_cong)
    moreover have "filter (\<lambda>c. \<not> (counts (tl_id c) = 1 \<and> list_ex (answers c) ms))
        (filter (\<lambda>c. \<not> (counts (tl_id c) = 1 \<and> answers c m)) pending)
      = filter (\<lambda>c. \<not> (counts (tl_id c) = 1 \<and> list_ex (answers c) (m # ms))) pending"
      by (auto intro!: filter_cong)
    ultimately show ?thesis using 2 by (simp only: fold.simps o_apply Cons.IH unanswered.simps) simp
  next
    case 1
    then have "pending_step counts m pending = pending @ ms_tool_calls m" "\<And>c. \<not> answers c m"
      by (simp_all add: pending_step_def answers_def)
    then show ?thesis using 1 by (simp only: fold.simps o_apply Cons.IH unanswered.simps) simp
  next
    case 3
    then have "pending_step counts m pending = pending" "\<And>c. \<not> answers c m"
      by (simp_all add: pending_step_def answers_def)
    then show ?thesis using 3 by (simp only: fold.simps o_apply Cons.IH unanswered.simps) simp
  qed
qed simp

text \<open>
  C39: \<open>pending_calls\<close> finds exactly the calls whose outcome is open: those of an assistant message with no
  later tool message for the same identifier and name, and all calls whose identifier was used twice.
\<close>

theorem pending_calls_are_unanswered:
  "pending_calls ms =
     unanswered (\<lambda>c. count_list (concat (map (\<lambda>m. map tl_id (ms_tool_calls m)) ms)) (tl_id c) = 1) ms"
  by (simp add: pending_calls_def Let_def pending_fold)

section \<open>What the counters count\<close>

text \<open>A turn as the guard sees it: whether it had a validation error, and whether the host saw progress.\<close>

type_synonym turn_facts = "bool \<times> bool"

definition guard_turn :: "tool_call \<Rightarrow> turn_facts \<Rightarrow> convergence_guard \<Rightarrow> convergence_guard" where
  "guard_turn c t g = fst (observe_turn [c] (fst t) (snd t) g)"

definition productive :: "turn_facts \<Rightarrow> bool" where
  "productive t = (\<not> fst t \<and> snd t)"

lemma guard_counts:
  assumes "new_guard w f k = Inr g"
  shows "cg_exploration (fold (guard_turn c) ts g) =
      int (length (filter (\<lambda>t. \<not> fst t) (takeWhile (\<lambda>t. \<not> productive t) (rev ts))))
    \<and> cg_correction (fold (guard_turn c) ts g) = int (length (takeWhile fst (rev ts)))
    \<and> cg_warn_at (fold (guard_turn c) ts g) = w \<and> cg_force_at (fold (guard_turn c) ts g) = f
    \<and> cg_max_corrections (fold (guard_turn c) ts g) = k"
proof (induction ts rule: rev_induct)
  case Nil
  then show ?case using assms by (auto simp: new_guard_def split: if_splits)
next
  case (snoc t ts)
  then show ?case
    by (cases t) (simp add: guard_turn_def observe_turn_def Let_def productive_def)
qed

text \<open>
  What the guard reacts to. After any sequence of turns with calls, the next one makes it ask for the
  final answer exactly if it is the \<open>max_corrections\<close>-th (or a later) turn in a row with an invalid call, or
  has no invalid call and no progress and is the \<open>force_at\<close>-th such turn since the last progress; turns
  with invalid calls in between do not interrupt that count.
\<close>

theorem guard_finalizes_iff:
  assumes "new_guard w f k = Inr g"
  shows "(\<exists>n. snd (observe_turn (c # cs) verr progress (fold (guard_turn c') ts g)) = Some n \<and> on_kind n = ''finalize'') \<longleftrightarrow>
    (if verr then k \<le> int (length (takeWhile fst (rev ts))) + 1
     else \<not> progress \<and> f = int (length (filter (\<lambda>t. \<not> fst t) (takeWhile (\<lambda>t. \<not> productive t) (rev ts)))) + 1)"
  using guard_counts [OF assms, of c' ts] by (auto simp: observe_turn_def Let_def)

theorem guard_finalizes_iff_witness:
  "(\<exists>n. snd (observe_turn [\<lparr>tl_id = ''1'', tl_name = ''read_file'', tl_arguments = []\<rparr>] False False
      (fold (guard_turn \<lparr>tl_id = ''0'', tl_name = ''read_file'', tl_arguments = []\<rparr>)
        [(False, True), (False, False), (True, False), (False, False)]
        \<lparr>cg_warn_at = 2, cg_force_at = 3, cg_max_corrections = 3, cg_exploration = 0, cg_correction = 0\<rparr>)) = Some n
      \<and> on_kind n = ''finalize'')"
proof -
  have g: "new_guard 2 3 3 = Inr \<lparr>cg_warn_at = 2, cg_force_at = 3, cg_max_corrections = 3, cg_exploration = 0, cg_correction = 0\<rparr>"
    by (simp add: new_guard_def)
  show ?thesis by (subst guard_finalizes_iff [OF g]) (simp add: productive_def)
qed

text \<open>The table of recent reads never outgrows its capacity.\<close>

lemma repeat_table_bounded:
  "length (ro_recent (fst (observe_repeat ft ps c r ob))) \<le> max (ro_capacity ob) (length (ro_recent ob))"
  by (auto simp: observe_repeat_def Let_def evict_def)

end
