(* ===== verification/Capabilities.thy ===== *)
theory Capabilities
  imports Values Json_Text
begin

text \<open>
  Which tools a model turn offers: \<open>src/src/code_agent/capabilities/catalog.py\<close> and
  \<open>core/_tool_disclosure.py\<close>. \<open>sha\<close> is SHA-256 of a text, \<open>ft\<close> the text of a float, and \<open>ell\<close> the
  one-character ellipsis that ends a shortened summary (it is outside the model of strings).
\<close>

definition contract_tool_name :: string where
  "contract_tool_name = ''load_tool_contract''"

definition hybrid_eager_builtin :: "string list" where
  "hybrid_eager_builtin = [''read_file'', ''read_code_slices'', ''list_files'', ''search_text'', ''git_status'', ''git_diff'',
     ''read'', ''search'', ''write'', ''edit'', ''execute'']"

definition hybrid_eager_modify :: "string list" where
  "hybrid_eager_modify = [''replace_text'', ''write_file'', ''apply_workspace_edit_plan_v1'']"

datatype capability_strategy = LEGACY | HYBRID | PROGRESSIVE

definition tool_definition_digest :: "(string \<Rightarrow> string) \<Rightarrow> (int \<Rightarrow> nat \<Rightarrow> string) \<Rightarrow> tool_definition \<Rightarrow> string" where
  "tool_definition_digest sha ft t = sha (dumps ft canonical_text (JObj (tool_definition_to_dict t)))"

text \<open>\<open>\s+\<close> replaced by one space, and the ends stripped.\<close>

fun collapse_space :: "bool \<Rightarrow> string \<Rightarrow> string" where
  "collapse_space in_run [] = []"
| "collapse_space in_run (c # s) =
     (if is_space c then (if in_run then collapse_space True s else CHR '' '' # collapse_space True s)
      else c # collapse_space False s)"

definition py_rstrip :: "string \<Rightarrow> string" where
  "py_rstrip s = rev (py_lstrip (rev s))"

definition summary :: "string \<Rightarrow> string \<Rightarrow> string" where
  "summary ell v =
     (let compact = py_strip (collapse_space False v)
      in if length compact \<le> 120 then compact else py_rstrip (take 119 compact) @ ell)"

definition access_kind :: "string \<Rightarrow> string" where
  "access_kind name =
     (let low = casefold name; any = list_ex (starts_with low)
      in if any [''read_'', ''list_'', ''search_'', ''git_'', ''plan_''] then ''read''
         else if any [''write_'', ''replace_'', ''apply_'', ''create_'', ''restore_''] then ''edit''
         else if any [''run_'', ''terminal.''] then ''execute''
         else if any [''delegate_'', ''send_'', ''rename_''] then ''coordinate''
         else if any [''mcp.'', ''plugin.''] then ''extension'' else ''other'')"

definition directory_definition :: "string \<Rightarrow> tool_definition \<Rightarrow> tool_definition list \<Rightarrow> tool_definition result" where
  "directory_definition ell loader candidates =
     (let lines = map (\<lambda>t. ''- '' @ td_name t @ '' ['' @ access_kind (td_name t) @ '']: '' @ summary ell (td_description t)) candidates
      in mk_tool_definition \<lparr>td_name = td_name loader,
           td_description = summary ell (td_description loader)
             @ (if lines = [] then []
                else [CHR 10] @ ''Available capabilities (load any capability whose full definition is not present):'' @ [CHR 10]
                  @ join_with [CHR 10] lines),
           td_parameters = [(''type'', JStr ''object''),
             (''properties'', JObj [(''name'', JObj [(''type'', JStr ''string''),
                (''enum'', JArr (map (\<lambda>t. JStr (td_name t)) candidates))])]),
             (''required'', JArr [JStr ''name'']), (''additionalProperties'', JBool False)]\<rparr>)"

definition checked_disclosures :: "(string \<times> string) list \<Rightarrow> (string \<times> string) list result" where
  "checked_disclosures d =
     (if list_all (\<lambda>(n, h). \<not> blank n \<and> is_sha256 h) d then Inr d
      else raiseR ValueError ''disclosed_tools must map non-blank names to SHA-256 digests'')"

definition eager_names :: "capability_strategy \<Rightarrow> string option \<Rightarrow> string list" where
  "eager_names strategy intent =
     (if strategy \<noteq> HYBRID then []
      else hybrid_eager_builtin
        @ (case intent of None \<Rightarrow> [] | Some i \<Rightarrow> if casefold i = ''modify'' then hybrid_eager_modify else []))"

definition progressive_tools :: "(string \<Rightarrow> string) \<Rightarrow> (int \<Rightarrow> nat \<Rightarrow> string) \<Rightarrow> string \<Rightarrow> tool_definition list
    \<Rightarrow> (string \<times> string) list \<Rightarrow> capability_strategy \<Rightarrow> string option \<Rightarrow> tool_definition list result" where
  "progressive_tools sha ft ell tools disclosed strategy intent =
     (case find (\<lambda>t. td_name t = contract_tool_name) tools of
        None \<Rightarrow> Inr tools
      | Some loader \<Rightarrow>
          let candidates = filter (\<lambda>t. td_name t \<noteq> contract_tool_name) tools
          in if strategy = LEGACY then Inr candidates
             else bindR (checked_disclosures disclosed) (\<lambda>d.
               let selected = map td_name (filter (\<lambda>t. dget d (td_name t) = Some (tool_definition_digest sha ft t)) candidates)
                     @ eager_names strategy intent
               in bindR (directory_definition ell loader candidates) (\<lambda>directory.
                    Inr (directory # filter (\<lambda>t. td_name t \<in> set selected) candidates))))"

definition contract_error :: "action_request \<Rightarrow> string \<Rightarrow> action_result result" where
  "contract_error q detail =
     mk_action_result \<lparr>ar_request_id = aq_id q, ar_name = aq_name q,
       ar_output = JObj [(''error'', JStr ''tool contract could not be loaded''), (''detail'', JStr detail)],
       ar_is_error = True, ar_metadata = []\<rparr>"

text \<open>The last definition of a name counts, as in the dictionary the code builds.\<close>

definition contract_result :: "(string \<Rightarrow> string) \<Rightarrow> (int \<Rightarrow> nat \<Rightarrow> string) \<Rightarrow> action_request \<Rightarrow> tool_definition list
    \<Rightarrow> action_result result" where
  "contract_result sha ft q tools =
     (if aq_name q \<noteq> contract_tool_name then raiseR ValueError ''request is not a tool-contract request''
      else if set (dkeys (aq_arguments q)) \<noteq> {''name''} then contract_error q ''name is the only supported argument''
      else case dget (aq_arguments q) ''name'' of
          Some (JStr name) \<Rightarrow>
            if blank name then contract_error q ''name must be non-blank text''
            else (case find (\<lambda>t. td_name t = name \<and> td_name t \<noteq> contract_tool_name) (rev tools) of
                None \<Rightarrow> contract_error q ''tool contract is unavailable''
              | Some t \<Rightarrow>
                  mk_action_result \<lparr>ar_request_id = aq_id q, ar_name = aq_name q,
                    ar_output = JObj [(''name'', JStr (td_name t)), (''digest'', JStr (tool_definition_digest sha ft t)),
                      (''availability'', JStr ''next_model_turn'')],
                    ar_is_error = False, ar_metadata = [(''disclosed_tool'', JStr name)]\<rparr>)
        | _ \<Rightarrow> contract_error q ''name must be non-blank text'')"

definition disclosed_contract :: "action_result \<Rightarrow> (string \<times> string) option" where
  "disclosed_contract r =
     (if ar_name r \<noteq> contract_tool_name \<or> ar_is_error r then None
      else case (dget (ar_metadata r) ''disclosed_tool'', ar_output r) of
          (Some (JStr name), JObj out) \<Rightarrow>
            (case dget out ''digest'' of
               Some (JStr digest) \<Rightarrow>
                 if blank name \<or> dget out ''name'' \<noteq> Some (JStr name)
                    \<or> dget out ''availability'' \<noteq> Some (JStr ''next_model_turn'') \<or> \<not> is_sha256 digest
                 then None else Some (name, digest)
             | _ \<Rightarrow> None)
        | _ \<Rightarrow> None)"

text \<open>\<open>tools\<close> is what the dispatcher offers; any exception but a \<open>ModelStreamError\<close> becomes one.\<close>

definition advertised_tools :: "(string \<Rightarrow> string) \<Rightarrow> (int \<Rightarrow> nat \<Rightarrow> string) \<Rightarrow> string \<Rightarrow> tool_definition list
    \<Rightarrow> string list option \<Rightarrow> (string \<times> string) list \<Rightarrow> capability_strategy \<Rightarrow> string option
    \<Rightarrow> (tool_definition list \<times> string list) result" where
  "advertised_tools sha ft ell tools allowed disclosed strategy intent =
     (if \<not> distinct (map td_name tools) then raiseR ModelStreamError ''action dispatcher exposed duplicate tools''
      else
        let kept = (case allowed of None \<Rightarrow> tools | Some names \<Rightarrow> filter (\<lambda>t. td_name t \<in> set names) tools)
        in case progressive_tools sha ft ell kept disclosed strategy intent of
             Inl e \<Rightarrow> raiseR ModelStreamError ''action dispatcher exposed invalid tools''
           | Inr projected \<Rightarrow> Inr (projected, map td_name projected))"

text \<open>A result that cannot be read back discloses nothing.\<close>

definition disclosure_from_event :: "agent_event \<Rightarrow> (string \<times> string) option" where
  "disclosure_from_event e =
     (if ev_kind e \<noteq> ACTION_COMPLETED then None
      else case get_or ''result'' JNull (ev_payload e) of
          JObj raw \<Rightarrow> (case action_result_from_dict raw of Inr r \<Rightarrow> disclosed_contract r | Inl _ \<Rightarrow> None)
        | _ \<Rightarrow> None)"

section \<open>A loaded contract is offered\<close>

lemma mk_action_result_Inr: "mk_action_result r = Inr s \<longleftrightarrow> s = r \<and> mk_action_result r = Inr r"
  by (auto simp: mk_action_result_def bindR_Inr_iff)

lemma action_result_event_reload:
  assumes "mk_action_result r = Inr r"
  shows "action_result_from_dict (action_result_to_dict r) = Inr r"
  using assms by (cases r) (simp add: action_result_from_dict_def action_result_to_dict_def mk_action_result_def bindR_Inr_iff)

lemma directory_ok: "mk_tool_definition loader = Inr loader \<Longrightarrow> \<exists>d. directory_definition ell loader candidates = Inr d
    \<and> td_name d = td_name loader"
  by (auto simp: directory_definition_def Let_def mk_tool_definition_def bindR_Inr_iff)

lemma name_not_blank: "name_ok v \<Longrightarrow> \<not> blank v"
proof (cases v)
  case (Cons c s)
  assume "name_ok v"
  then have "is_alpha c \<or> c = CHR ''_''" using Cons by (simp add: name_ok_def)
  moreover have "\<not> is_space (CHR ''_'')" by code_simp
  moreover have "is_alpha c \<Longrightarrow> \<not> is_space c" by (auto simp: is_alpha_def is_upper_def is_lower_def is_space_def)
  ultimately show ?thesis using Cons by (auto simp: blank_def)
qed (simp add: name_ok_def)

text \<open>
  C38: A tool whose contract the model loads is offered in full from the next turn on: the result of
  \<open>load_tool_contract\<close>, read back from the event that reports it, names the tool and the digest of its
  definition; once that pair is recorded, \<open>advertised_tools\<close> succeeds and contains exactly that definition
  under the name, as long as the dispatcher still offers it unchanged, whatever else was disclosed.
\<close>

theorem loaded_contract_is_advertised:
  assumes "distinct (map td_name tools)" and "t \<in> set tools" and "td_name t \<noteq> contract_tool_name"
    and "loader \<in> set tools" and "td_name loader = contract_tool_name"
    and "\<forall>x \<in> set tools. mk_tool_definition x = Inr x" and "\<And>s. is_sha256 (sha s)"
    and "aq_name q = contract_tool_name" and "aq_arguments q = [(''name'', JStr (td_name t))]" and "mk_action_request q = Inr q"
    and "strategy \<noteq> LEGACY" and "list_all (\<lambda>(n, h). \<not> blank n \<and> is_sha256 h) disclosed"
  shows "\<exists>r name digest shown names. contract_result sha ft q tools = Inr r
    \<and> disclosure_from_event \<lparr>ev_kind = ACTION_COMPLETED, ev_payload = [(''result'', JObj (action_result_to_dict r))], ev_timestamp = ts\<rparr>
        = Some (name, digest)
    \<and> advertised_tools sha ft ell tools None (dput name digest disclosed) strategy intent = Inr (shown, names)
    \<and> t \<in> set shown \<and> td_name t \<in> set names"
proof -
  let ?name = "td_name t" and ?digest = "tool_definition_digest sha ft t"
  have valid: "name_ok ?name" using assms(2,6) by (auto simp: mk_tool_definition_def bindR_Inr_iff)
  then have name: "\<not> blank ?name" by (rule name_not_blank)
  have unique: "x = t" if "x \<in> set tools" "td_name x = ?name" for x
    by (rule inj_onD [of td_name "set tools"]) (use assms(1,2) that in \<open>simp_all add: distinct_map\<close>)
  have "find (\<lambda>x. td_name x = ?name \<and> td_name x \<noteq> contract_tool_name) (rev tools) = Some t"
  proof (cases "find (\<lambda>x. td_name x = ?name \<and> td_name x \<noteq> contract_tool_name) (rev tools)")
    case None
    with assms(2,3) show ?thesis by (auto simp: find_None_iff)
  next
    case (Some x)
    then have "x \<in> set (rev tools)" "td_name x = ?name" by (auto simp: find_Some_iff simp del: set_rev)
    then have "x \<in> set tools" "td_name x = ?name" by simp_all
    with unique Some show ?thesis by simp
  qed
  then have result: "contract_result sha ft q tools = Inr \<lparr>ar_request_id = aq_id q, ar_name = aq_name q,
      ar_output = JObj [(''name'', JStr ?name), (''digest'', JStr ?digest), (''availability'', JStr ''next_model_turn'')],
      ar_is_error = False, ar_metadata = [(''disclosed_tool'', JStr ?name)]\<rparr>" (is "_ = Inr ?r")
    using assms(8-10) name by (simp add: contract_result_def dkeys_def mk_action_result_def mk_action_request_def bindR_Inr_iff)
  have "mk_action_result ?r = Inr ?r"
    using assms(8,10) by (simp add: mk_action_result_def mk_action_request_def bindR_Inr_iff)
  then have disclosed: "disclosure_from_event \<lparr>ev_kind = ACTION_COMPLETED, ev_payload = [(''result'', JObj (action_result_to_dict ?r))],
      ev_timestamp = ts\<rparr> = Some (?name, ?digest)"
    using assms(7,8) name
    by (simp add: disclosure_from_event_def get_or_def action_result_event_reload disclosed_contract_def tool_definition_digest_def)
  have loader: "find (\<lambda>x. td_name x = contract_tool_name) tools = Some l \<Longrightarrow> mk_tool_definition l = Inr l" for l
    using assms(6) by (auto simp: find_Some_iff)
  obtain l where l: "find (\<lambda>x. td_name x = contract_tool_name) tools = Some l"
    using assms(4,5) by (cases "find (\<lambda>x. td_name x = contract_tool_name) tools") (auto simp: find_None_iff)
  obtain d where d: "directory_definition ell l (filter (\<lambda>t. td_name t \<noteq> contract_tool_name) tools) = Inr d"
    using directory_ok [OF loader [OF l]] by blast
  have checked: "checked_disclosures (dput ?name ?digest disclosed) = Inr (dput ?name ?digest disclosed)"
    using assms(7,12) name dput_set [of ?name ?digest disclosed]
    by (fastforce simp: checked_disclosures_def list_all_iff tool_definition_digest_def)
  let ?shown = "d # filter (\<lambda>x. td_name x \<in> set (map td_name (filter (\<lambda>x. dget (dput ?name ?digest disclosed) (td_name x)
      = Some (tool_definition_digest sha ft x)) (filter (\<lambda>x. td_name x \<noteq> contract_tool_name) tools)) @ eager_names strategy intent))
      (filter (\<lambda>x. td_name x \<noteq> contract_tool_name) tools)"
  have "progressive_tools sha ft ell tools (dput ?name ?digest disclosed) strategy intent = Inr ?shown"
    using assms(11) by (simp only: progressive_tools_def l option.case Let_def checked bindR_simps d if_False)
  then have advertised: "advertised_tools sha ft ell tools None (dput ?name ?digest disclosed) strategy intent
      = Inr (?shown, map td_name ?shown)"
    using assms(1) by (simp add: advertised_tools_def del: dget_dput)
  have shown: "t \<in> set ?shown" using assms(2,3) by auto
  then have named: "td_name t \<in> set (map td_name ?shown)" unfolding list.set_map by (rule imageI)
  show ?thesis
    by (intro exI conjI) (rule result, rule disclosed, rule advertised, rule shown, rule named)
qed

definition sample_loader :: tool_definition where
  "sample_loader = \<lparr>td_name = contract_tool_name, td_description = ''Load one contract.'', td_parameters = []\<rparr>"

definition sample_tool :: tool_definition where
  "sample_tool = \<lparr>td_name = ''mcp.search'', td_description = ''Search.'', td_parameters = [(''type'', JStr ''object'')]\<rparr>"

definition sample_load :: action_request where
  "sample_load = \<lparr>aq_id = ''c1'', aq_name = contract_tool_name, aq_arguments = [(''name'', JStr (td_name sample_tool))]\<rparr>"

definition constant_digest :: "string \<Rightarrow> string" where
  "constant_digest s = replicate 64 CHR ''a''"

theorem loaded_contract_is_advertised_witness:
  "\<exists>name digest shown names. advertised_tools constant_digest (\<lambda>_ _. []) ''.'' [sample_loader, sample_tool] None
     (dput name digest []) PROGRESSIVE None = Inr (shown, names) \<and> ''mcp.search'' \<in> set names"
proof -
  have "distinct (map td_name [sample_loader, sample_tool])" "td_name sample_tool \<noteq> contract_tool_name"
      "\<forall>x \<in> set [sample_loader, sample_tool]. mk_tool_definition x = Inr x" "mk_action_request sample_load = Inr sample_load"
      "list_all (\<lambda>(n, h). \<not> blank n \<and> is_sha256 h) ([] :: (string \<times> string) list)"
    by code_simp+
  moreover have "is_sha256 (constant_digest s)" for s by (simp add: constant_digest_def is_sha256_def list_all_iff)
  moreover have "td_name sample_loader = contract_tool_name" "aq_name sample_load = contract_tool_name"
      "aq_arguments sample_load = [(''name'', JStr (td_name sample_tool))]" "td_name sample_tool = ''mcp.search''"
    by (simp_all add: sample_loader_def sample_load_def sample_tool_def)
  ultimately show ?thesis
    using loaded_contract_is_advertised [of "[sample_loader, sample_tool]" sample_tool sample_loader constant_digest sample_load
        PROGRESSIVE "[]" "\<lambda>_ _. []" 0 "''.''" None]
    by fastforce
qed

end
