(* ===== verification/Effects.thy ===== *)
theory Effects
  imports Prelude
begin

text \<open>
  Statements with effects. An effect is a function from a state to a result and a new state: the state survives an
  exception, as Python objects, files and durable rows do. \<open>bindI\<close> is the sequence of two statements, \<open>catchI\<close> and
  \<open>finallyI\<close> are the forms of \<open>try\<close>, and \<open>forI\<close>, \<open>mapI\<close> and \<open>anyI\<close> the loops over a list.
\<close>

section \<open>Effects\<close>

type_synonym ('x, 'a) act = "'x \<Rightarrow> 'a result \<times> 'x"

definition returnI :: "'a \<Rightarrow> ('s, 'a) act" where
  "returnI x = (\<lambda>s. (Inr x, s))"

definition failI :: "exn \<Rightarrow> ('s, 'a) act" where
  "failI e = (\<lambda>s. (Inl e, s))"

definition raiseI :: "exn_class \<Rightarrow> string \<Rightarrow> ('s, 'a) act" where
  "raiseI c m = failI (Exn c m)"

definition bindI :: "('s, 'a) act \<Rightarrow> ('a \<Rightarrow> ('s, 'b) act) \<Rightarrow> ('s, 'b) act" where
  "bindI m f = (\<lambda>s. case m s of (Inl e, s') \<Rightarrow> (Inl e, s') | (Inr x, s') \<Rightarrow> f x s')"

definition thenI :: "('s, unit) act \<Rightarrow> ('s, 'b) act \<Rightarrow> ('s, 'b) act" where
  "thenI m n = bindI m (\<lambda>_. n)"

definition liftR :: "'a result \<Rightarrow> ('s, 'a) act" where
  "liftR r = (\<lambda>s. (r, s))"

definition getI :: "('s \<Rightarrow> 'a) \<Rightarrow> ('s, 'a) act" where
  "getI f = (\<lambda>s. (Inr (f s), s))"

definition modifyI :: "('s \<Rightarrow> 's) \<Rightarrow> ('s, unit) act" where
  "modifyI f = (\<lambda>s. (Inr (), f s))"

definition whenI :: "bool \<Rightarrow> ('s, unit) act \<Rightarrow> ('s, unit) act" where
  "whenI b m = (if b then m else returnI ())"

definition catchI :: "('s, 'a) act \<Rightarrow> (exn \<Rightarrow> ('s, 'a) act) \<Rightarrow> ('s, 'a) act" where
  "catchI m h = (\<lambda>s. case m s of (Inl e, s') \<Rightarrow> h e s' | (Inr x, s') \<Rightarrow> (Inr x, s'))"

text \<open>\<open>try: m finally: n\<close>, with what \<open>n\<close> assigned for what follows.\<close>

definition finallyI :: "('s, unit) act \<Rightarrow> ('s, 'a) act \<Rightarrow> ('s, 'a) act" where
  "finallyI m n = (\<lambda>s. case m s of (r, s') \<Rightarrow> (case n s' of (Inl e, s'') \<Rightarrow> (Inl e, s'')
     | (Inr v, s'') \<Rightarrow> (case r of Inl e \<Rightarrow> Inl e | Inr _ \<Rightarrow> Inr v, s'')))"

primrec forI :: "'a list \<Rightarrow> ('a \<Rightarrow> ('s, unit) act) \<Rightarrow> ('s, unit) act" where
  "forI [] f = returnI ()"
| "forI (x # xs) f = thenI (f x) (forI xs f)"

primrec mapI :: "('a \<Rightarrow> ('s, 'b) act) \<Rightarrow> 'a list \<Rightarrow> ('s, 'b list) act" where
  "mapI f [] = returnI []"
| "mapI f (x # xs) = bindI (f x) (\<lambda>y. bindI (mapI f xs) (\<lambda>ys. returnI (y # ys)))"

primrec anyI :: "'a list \<Rightarrow> ('a \<Rightarrow> ('s, bool) act) \<Rightarrow> ('s, bool) act" where
  "anyI [] f = returnI False"
| "anyI (x # xs) f = bindI (f x) (\<lambda>b. bindI (anyI xs f) (\<lambda>c. returnI (b \<or> c)))"

end
