(* ===== verification/Engine_Base.thy ===== *)
theory Engine_Base
  imports Effects Convergence Capabilities Completion Task_Result Ledger
begin

text \<open>
  The ground of the agent engine (\<open>src/src/code_agent/core\<close>): effects, the services the engine calls
  (\<open>protocols.py\<close>, \<open>task_verification.py\<close>, \<open>source_completion.py\<close>, \<open>parent_review.py\<close>) and the journal
  wrappers of \<open>_session_io.py\<close>.

  \<^item> The effects of \<open>Effects\<close> run over the state of the engine. Everything behind a service is one opaque value
    \<open>eg_ext\<close> which each call may change in any way, so that nothing is assumed of the services; a
    cancellation or a full disk is an answer of a service. A model stream is finite.
  \<^item> \<open>eg_log\<close> records, for the statements about order, what the engine has done: events and messages that
    were stored, events handed to the consumer, budget granted, model requests and tool calls.
  \<^item> An asynchronous generator is an effect that hands over each event where the code yields it. Closing
    the generator early is not modelled, and neither are the trace messages of \<open>debug_trace.py\<close>.
\<close>

text \<open>\<open>AgentEngineError\<close> and its subclasses, with their codes.\<close>

fun error_code :: "exn_class \<Rightarrow> string option" where
  "error_code EngineLimitError = Some ''engine_limit''"
| "error_code ModelStreamError = Some ''model_stream''"
| "error_code ContextBuildError = Some ''context_build''"
| "error_code SessionPersistenceError = Some ''session_persistence''"
| "error_code PendingActionError = Some ''pending_action_outcome''"
| "error_code _ = None"

section \<open>State of a run\<close>

record progress_facts =
  pf_candidate_digest :: string
  pf_renewal_digest :: string
  pf_candidate_count :: int
  pf_related_count :: int
  pf_resolved_count :: int

record source_snapshot =
  ss_required :: "string list"
  ss_completed :: "string list"
  ss_baseline :: "string list option"
  ss_correction_id :: "string option"
  ss_budget_exhausted :: "string option"

definition source_remaining :: "source_snapshot \<Rightarrow> string list" where
  "source_remaining s = filter (\<lambda>p. p \<notin> set (ss_completed s)) (ss_required s)"

definition source_stalled :: "source_snapshot \<Rightarrow> bool" where
  "source_stalled s = (case ss_baseline s of None \<Rightarrow> False | Some b \<Rightarrow> set (ss_completed s) - set b = {})"

record parent_review =
  pv_data :: "jdict option"

definition review_active :: "parent_review option \<Rightarrow> bool" where
  "review_active r = (case r of None \<Rightarrow> False | Some v \<Rightarrow> pv_data v \<noteq> None)"

definition review_data :: "parent_review option \<Rightarrow> jdict" where
  "review_data r = (case r of None \<Rightarrow> [] | Some v \<Rightarrow> (case pv_data v of None \<Rightarrow> [] | Some d \<Rightarrow> d))"

definition review_phase :: "parent_review option \<Rightarrow> string option" where
  "review_phase r = (if review_data r = [] then None
     else case get_or ''phase'' (JStr ''independent'') (review_data r) of JStr s \<Rightarrow> Some s | _ \<Rightarrow> None)"

text \<open>\<open>source_errors\<close>: texts; anything else in the list stands as an empty text.\<close>

definition review_source_errors :: "parent_review option \<Rightarrow> string list" where
  "review_source_errors r = (case get_or ''source_errors'' (JArr []) (review_data r) of
     JArr xs \<Rightarrow> map (\<lambda>x. case x of JStr s \<Rightarrow> s | _ \<Rightarrow> []) xs | _ \<Rightarrow> [])"

record turn_state =
  tn_number :: int
  tn_tools :: "tool_definition list"
  tn_tool_names :: "string list"
  tn_summary_only :: bool
  tn_forced_summary :: bool
  tn_text_parts :: "string list"
  tn_calls :: "tool_call list"
  tn_validation_error :: bool
  tn_review_client :: bool
  tn_model_name :: string

definition new_turn :: "int \<Rightarrow> tool_definition list \<Rightarrow> string list \<Rightarrow> bool \<Rightarrow> bool \<Rightarrow> turn_state" where
  "new_turn n tools names only forced =
     \<lparr>tn_number = n, tn_tools = tools, tn_tool_names = names, tn_summary_only = only, tn_forced_summary = forced,
      tn_text_parts = [], tn_calls = [], tn_validation_error = False, tn_review_client = False, tn_model_name = []\<rparr>"

record run_state =
  rs_thread :: string
  rs_task :: "task_record option"
  rs_budget :: task_budget
  rs_supervisor :: "supervisor option"
  rs_prior :: "chat_message list"
  rs_messages :: "chat_message list"
  rs_used_ids :: "string list"
  rs_total_usage :: usage
  rs_stop :: bool
  rs_allowed :: "string list option"
  rs_disclosed :: "(string \<times> string) list"
  rs_action_history :: "string list"
  rs_repeat :: repeat_observer
  rs_guard :: convergence_guard
  rs_summary_required :: bool
  rs_visible_answer :: bool
  rs_summary_retries :: nat
  rs_notices :: "string list"
  rs_last_failed :: "(string \<times> string) option"
  rs_progress_digest :: string
  rs_candidate_digest :: string
  rs_source :: "source_snapshot option"
  rs_review :: "parent_review option"

definition default_observer :: repeat_observer where
  "default_observer = \<lparr>ro_warn_at = 2, ro_pause_at = 3, ro_capacity = 64, ro_recent = []\<rparr>"

definition default_guard :: convergence_guard where
  "default_guard = \<lparr>cg_warn_at = 3, cg_force_at = 5, cg_max_corrections = 3, cg_exploration = 0, cg_correction = 0\<rparr>"

definition new_run :: "string \<Rightarrow> task_record option \<Rightarrow> task_budget \<Rightarrow> supervisor option \<Rightarrow> run_state" where
  "new_run t task b watch =
     \<lparr>rs_thread = t, rs_task = task, rs_budget = b, rs_supervisor = watch, rs_prior = [], rs_messages = [], rs_used_ids = [],
      rs_total_usage = zero_model_usage, rs_stop = False, rs_allowed = None, rs_disclosed = [], rs_action_history = [],
      rs_repeat = default_observer, rs_guard = default_guard, rs_summary_required = False, rs_visible_answer = False,
      rs_summary_retries = 0, rs_notices = [], rs_last_failed = None, rs_progress_digest = [], rs_candidate_digest = [],
      rs_source = None, rs_review = None\<rparr>"

datatype entry =
    Journaled agent_event
  | Stored chat_message
  | Yielded agent_event
  | Granted int int
  | Requested "tool_definition list"
  | Dispatched action_request

text \<open>
  \<open>eg_turn\<close> is the turn in progress; \<open>eg_blocked\<close>, \<open>eg_result\<close> and \<open>eg_collected\<close> are the local variables
  \<open>validation_blocked\<close> and \<open>completed_result\<close> of the dispatch loop and the list comprehension of
  \<open>_run_verification_call\<close>; \<open>eg_advertised\<close> is \<open>last_advertised_tool_names\<close>.
\<close>

record 'x engine =
  eg_ext :: 'x
  eg_log :: "entry list"
  eg_run :: run_state
  eg_turn :: turn_state
  eg_blocked :: bool
  eg_result :: "jdict option"
  eg_collected :: "agent_event list"
  eg_advertised :: "string list"

type_synonym ('x, 'a) io = "('x engine, 'a) act"

section \<open>Services\<close>

record assessed =
  va_assessment :: assessment
  va_outcome :: verifier_outcome
  va_generation :: int
  va_subject_hash :: string
  va_run_id :: "string option"
  va_diagnostics :: "string list"

record action_context =
  ac_owner :: string
  ac_origin :: string
  ac_request :: string
  ac_task :: "string option"
  ac_parent :: "string option"

record action_lineage =
  li_owner :: string
  li_task :: "string option"
  li_parent :: "string option"

record context_request =
  cq_thread :: string
  cq_revision :: int
  cq_messages :: "chat_message list"
  cq_user_input :: string
  cq_tools :: "tool_definition list"
  cq_task_state :: task_state
  cq_mode :: jdict
  cq_permission :: jdict
  cq_lease :: "(string \<times> int) list"
  cq_facts :: jdict

text \<open>The session repository; \<open>rp_context\<close>, \<open>rp_pending\<close> and \<open>rp_has_call_id\<close> are the optional bounded queries.\<close>

record 'x repository =
  rp_create_thread :: "('x, string) act"
  rp_messages :: "string \<Rightarrow> ('x, chat_message list) act"
  rp_context :: "(string \<Rightarrow> ('x, chat_message list) act) option"
  rp_pending :: "(string \<Rightarrow> ('x, bool) act) option"
  rp_has_call_id :: "(string \<Rightarrow> string \<Rightarrow> ('x, bool) act) option"
  rp_append_message :: "string \<Rightarrow> chat_message \<Rightarrow> ('x, unit) act"
  rp_append_event :: "string \<Rightarrow> agent_event \<Rightarrow> ('x, unit) act"
  rp_get_or_create :: "string \<Rightarrow> string \<Rightarrow> engine_limits \<Rightarrow> lease_tier option \<Rightarrow> ('x, task_budget) act"
  rp_reserve :: "string \<Rightarrow> int \<Rightarrow> int \<Rightarrow> progress_snapshot \<Rightarrow> ('x, budget_reservation) act"
  rp_load_state :: "string \<Rightarrow> ('x, task_state) act"
  rp_save_state :: "string \<Rightarrow> task_state \<Rightarrow> ('x, unit) act"
  rp_reduce_state :: "string \<Rightarrow> action_request \<Rightarrow> action_result \<Rightarrow> ('x, task_state) act"
  rp_transition :: "string \<Rightarrow> task_status \<Rightarrow> string option \<Rightarrow> ('x, task_record) act"
  rp_checkpoint :: "string \<Rightarrow> string \<Rightarrow> jdict \<Rightarrow> ('x, unit) act"
  rp_consume_usage :: "string \<Rightarrow> usage \<Rightarrow> ('x, unit) act"
  rp_mark_warnings :: "string \<Rightarrow> ('x, int list) act"
  rp_observe_validation :: "string \<Rightarrow> string option \<Rightarrow> int \<Rightarrow> ('x, unit) act"
  rp_active_seconds :: "string \<Rightarrow> int \<Rightarrow> ('x, unit) act"
  rp_promote :: "string \<Rightarrow> ('x, (string \<times> chat_message) list) act"
  rp_controls :: "string \<Rightarrow> ('x, unit) act"
  rp_task_for_thread :: "string \<Rightarrow> ('x, task_record option) act"
  rp_host_progress :: "string \<Rightarrow> string \<Rightarrow> int \<Rightarrow> int \<Rightarrow> ('x, progress_facts \<times> int) act"

text \<open>\<open>record_action\<close> may report a failed in-flight check: \<open>Inl\<close> of the reduced state and the diagnostic.\<close>

record 'x verifier =
  vf_begin :: "(string \<Rightarrow> ('x, unit) act) option"
  vf_commit :: "task_record \<Rightarrow> task_state \<Rightarrow> ('x, task_state \<times> tool_call option) act"
  vf_prepare :: "task_record \<Rightarrow> task_state \<Rightarrow> ('x, task_state) act"
  vf_record :: "task_record \<Rightarrow> action_request \<Rightarrow> action_result \<Rightarrow> task_state \<Rightarrow> ('x, (task_state \<times> string) + task_state) act"
  vf_assess :: "task_record \<Rightarrow> task_state \<Rightarrow> ('x, assessed) act"
  vf_suggest :: "task_record \<Rightarrow> task_state \<Rightarrow> ('x, tool_call option) act"
  vf_finalize :: "task_record \<Rightarrow> assessed \<Rightarrow> ('x, task_record) act"
  vf_fingerprint :: "(task_record \<Rightarrow> task_state \<Rightarrow> ('x, string) act) option"

record 'x review_host =
  rh_prepare :: "task_record \<Rightarrow> ('x, parent_review) act"
  rh_record :: "task_record \<Rightarrow> parent_review option \<Rightarrow> jdict \<Rightarrow> ('x, parent_review) act"
  rh_pending :: "(task_record option \<Rightarrow> ('x, parent_review option) act) option"
  rh_bundle :: "parent_review \<Rightarrow> context_bundle result"
  rh_evaluate :: "string \<Rightarrow> parent_review option \<Rightarrow> bool \<Rightarrow> (json \<times> (string \<times> string) list \<times> string) result"
  rh_render :: "json \<Rightarrow> string result"

datatype stream_item = Event model_event | Invalid | Raised exn

text \<open>
  The engine: its collaborators and its constructor's arguments. A model is asked as the main one or, with
  \<open>True\<close>, as the review model. The last fields are texts the models of other theories take as parameters.
\<close>

record 'x services =
  sx_repo :: "'x repository"
  sx_verifier :: "'x verifier option"
  sx_review :: "'x review_host option"
  sx_source_snapshot :: "(string \<Rightarrow> string list option \<Rightarrow> ('x, source_snapshot) act) option"
  sx_source_correct :: "string \<Rightarrow> source_snapshot \<Rightarrow> ('x, chat_message list) act"
  sx_stream :: "bool \<Rightarrow> string \<Rightarrow> chat_message list \<Rightarrow> tool_definition list \<Rightarrow> ('x, stream_item list) act"
  sx_accounts_usage :: "bool \<Rightarrow> bool"
  sx_review_model :: "((json \<Rightarrow> bool) \<times> string) option"
  sx_build :: "context_request \<Rightarrow> ('x, context_bundle option) act"
  sx_accept :: "(string \<Rightarrow> ('x, unit) act) option"
  sx_tools :: "('x, tool_definition list) act"
  sx_dispatch :: "action_request \<Rightarrow> authorization option \<Rightarrow> action_context \<Rightarrow> ('x, action_result) act"
  sx_resolve_supervision :: "(action_request \<Rightarrow> ('x, action_request) act) option"
  sx_resolve :: "(action_request \<Rightarrow> ('x, action_request) act) option"
  sx_aliases :: "(tool_definition list \<Rightarrow> ('x, string list) act) option"
  sx_now :: "('x, int) act"
  sx_monotonic :: "('x, int) act"
  sx_cancelled :: "('x, string option) act"
  sx_limits :: engine_limits
  sx_model_name :: string
  sx_require_verification :: bool
  sx_lineage :: "action_lineage option"
  sx_inherited :: "authorization option"
  sx_peer_tools :: "string list"
  sx_strategy :: capability_strategy
  sx_mode :: jdict
  sx_permission :: jdict
  sx_sha :: "string \<Rightarrow> string"
  sx_digest :: "digest_payload \<Rightarrow> string"
  sx_float :: "int \<Rightarrow> nat \<Rightarrow> string"
  sx_str :: "json \<Rightarrow> string"
  sx_repr :: "json \<Rightarrow> string"
  sx_iso :: "int \<Rightarrow> string"
  sx_scaffold :: string
  sx_ellipsis :: string
  sx_deep_objective :: "string \<Rightarrow> bool"

definition callI :: "('x, 'a) act \<Rightarrow> ('x, 'a) io" where
  "callI op = (\<lambda>s. case op (eg_ext s) of (r, x) \<Rightarrow> (r, s\<lparr>eg_ext := x\<rparr>))"

definition logI :: "entry \<Rightarrow> ('x, unit) io" where
  "logI e = modifyI (\<lambda>s. s\<lparr>eg_log := eg_log s @ [e]\<rparr>)"

definition runI :: "(run_state \<Rightarrow> 'a) \<Rightarrow> ('x, 'a) io" where
  "runI f = getI (\<lambda>s. f (eg_run s))"

definition turnI :: "(turn_state \<Rightarrow> 'a) \<Rightarrow> ('x, 'a) io" where
  "turnI f = getI (\<lambda>s. f (eg_turn s))"

definition updateI :: "(run_state \<Rightarrow> run_state) \<Rightarrow> ('x, unit) io" where
  "updateI f = modifyI (\<lambda>s. s\<lparr>eg_run := f (eg_run s)\<rparr>)"

definition update_turnI :: "(turn_state \<Rightarrow> turn_state) \<Rightarrow> ('x, unit) io" where
  "update_turnI f = modifyI (\<lambda>s. s\<lparr>eg_turn := f (eg_turn s)\<rparr>)"

definition yieldI :: "agent_event \<Rightarrow> ('x, unit) io" where
  "yieldI e = logI (Yielded e)"

section \<open>The session journal\<close>

text \<open>\<open>except Exception: raise SessionPersistenceError(...)\<close> around a repository call.\<close>

definition persistI :: "string \<Rightarrow> ('x, 'a) act \<Rightarrow> ('x, 'a) io" where
  "persistI msg op = callI (\<lambda>x. case op x of (Inl e, x') \<Rightarrow> (raiseR SessionPersistenceError msg, x') | (Inr v, x') \<Rightarrow> (Inr v, x'))"

definition append_event :: "'x services \<Rightarrow> string \<Rightarrow> agent_event \<Rightarrow> ('x, unit) io" where
  "append_event sx t e =
     thenI (persistI ''could not persist event'' (rp_append_event (sx_repo sx) t e)) (logI (Journaled e))"

definition append_message :: "'x services \<Rightarrow> string \<Rightarrow> chat_message \<Rightarrow> ('x, unit) io" where
  "append_message sx t m =
     thenI (persistI ''could not persist message'' (rp_append_message (sx_repo sx) t m)) (logI (Stored m))"

definition load_messages :: "'x services \<Rightarrow> string \<Rightarrow> ('x, chat_message list) io" where
  "load_messages sx t = persistI ''could not load session'' (rp_messages (sx_repo sx) t)"

definition load_context_messages :: "'x services \<Rightarrow> string \<Rightarrow> ('x, chat_message list) io" where
  "load_context_messages sx t = (case rp_context (sx_repo sx) of
      None \<Rightarrow> load_messages sx t
    | Some read \<Rightarrow> persistI ''required context history cannot fit bounded page'' (read t))"

definition has_pending_actions :: "'x services \<Rightarrow> string \<Rightarrow> ('x, bool) io" where
  "has_pending_actions sx t = (case rp_pending (sx_repo sx) of
      None \<Rightarrow> bindI (load_messages sx t) (\<lambda>ms. returnI (pending_calls ms \<noteq> []))
    | Some read \<Rightarrow> persistI ''could not inspect durable pending actions'' (read t))"

definition has_tool_call_id :: "'x services \<Rightarrow> string \<Rightarrow> string \<Rightarrow> ('x, bool) io" where
  "has_tool_call_id sx t i = (case rp_has_call_id (sx_repo sx) of
      None \<Rightarrow> bindI (load_messages sx t) (\<lambda>ms. returnI (list_ex (\<lambda>m. list_ex (\<lambda>c. tl_id c = i) (ms_tool_calls m)) ms))
    | Some read \<Rightarrow> persistI ''could not inspect durable call identity'' (read t i))"

definition load_task_state :: "'x services \<Rightarrow> string \<Rightarrow> ('x, task_state) io" where
  "load_task_state sx t = persistI ''could not load task state'' (rp_load_state (sx_repo sx) t)"

definition save_task_state :: "'x services \<Rightarrow> string \<Rightarrow> task_state \<Rightarrow> ('x, unit) io" where
  "save_task_state sx t s = persistI ''could not persist task state'' (rp_save_state (sx_repo sx) t s)"

definition transition_task :: "'x services \<Rightarrow> string \<Rightarrow> task_status \<Rightarrow> string option \<Rightarrow> ('x, task_record) io" where
  "transition_task sx i s reason = persistI ''could not transition task'' (rp_transition (sx_repo sx) i s reason)"

definition create_checkpoint :: "'x services \<Rightarrow> string \<Rightarrow> string \<Rightarrow> jdict \<Rightarrow> ('x, unit) io" where
  "create_checkpoint sx t label data = persistI ''could not create task checkpoint'' (rp_checkpoint (sx_repo sx) t label data)"

definition mark_task_warnings :: "'x services \<Rightarrow> string \<Rightarrow> ('x, int list) io" where
  "mark_task_warnings sx i = persistI ''could not persist task budget warnings'' (\<lambda>x. case rp_mark_warnings (sx_repo sx) i x of
      (Inr ts, x') \<Rightarrow> (if set ts \<subseteq> {80, 90} then Inr ts
                      else raiseR TypeError ''session returned invalid budget warning thresholds'', x')
    | p \<Rightarrow> p)"

definition record_active_seconds_of :: "'x services \<Rightarrow> string \<Rightarrow> int \<Rightarrow> ('x, unit) io" where
  "record_active_seconds_of sx i n = persistI ''could not persist task active time'' (rp_active_seconds (sx_repo sx) i n)"

definition reserve_task_budget :: "'x services \<Rightarrow> string \<Rightarrow> int \<Rightarrow> int \<Rightarrow> progress_snapshot \<Rightarrow> ('x, budget_reservation) io" where
  "reserve_task_budget sx t turns tools progress =
     bindI (persistI ''could not persist task budget'' (rp_reserve (sx_repo sx) t turns tools progress)) (\<lambda>r.
     thenI (whenI (accepted r) (logI (Granted turns tools))) (returnI r))"

section \<open>Events\<close>

definition new_event :: "'x services \<Rightarrow> event_kind \<Rightarrow> jdict \<Rightarrow> ('x, agent_event) io" where
  "new_event sx k p = bindI (callI (sx_now sx)) (\<lambda>t. returnI \<lparr>ev_kind = k, ev_payload = p, ev_timestamp = t\<rparr>)"

definition message_added :: "'x services \<Rightarrow> chat_message \<Rightarrow> ('x, agent_event) io" where
  "message_added sx m = new_event sx MESSAGE_ADDED [(''message'', JObj (message_to_dict m))]"

text \<open>An event that is stored (\<open>recordI\<close>), and one that is stored and then handed over (\<open>emitI\<close>).\<close>

definition recordI :: "'x services \<Rightarrow> event_kind \<Rightarrow> jdict \<Rightarrow> ('x, agent_event) io" where
  "recordI sx k p = bindI (runI rs_thread) (\<lambda>t. bindI (new_event sx k p) (\<lambda>e. thenI (append_event sx t e) (returnI e)))"

definition emitI :: "'x services \<Rightarrow> event_kind \<Rightarrow> jdict \<Rightarrow> ('x, unit) io" where
  "emitI sx k p = bindI (recordI sx k p) yieldI"

definition raise_if_cancelled :: "'x services \<Rightarrow> ('x, unit) io" where
  "raise_if_cancelled sx = bindI (callI (sx_cancelled sx)) (\<lambda>c. case c of None \<Rightarrow> returnI () | Some reason \<Rightarrow> raiseI CancellationError reason)"

definition phase_duration :: "int \<Rightarrow> int \<Rightarrow> int" where
  "phase_duration started now = min 86400000 (max 0 (now - started))"

text \<open>\<open>json.dumps(v, ensure_ascii=False)\<close>.\<close>

definition spaced_text :: dump_options where
  "spaced_text = \<lparr>dm_ascii = False, dm_sorted = False, dm_item_sep = '', '', dm_key_sep = '': ''\<rparr>"

fun tier_value :: "lease_tier \<Rightarrow> string" where
  "tier_value QUICK = ''quick''"
| "tier_value STANDARD = ''standard''"
| "tier_value DEEP = ''deep''"

end
