(* ===== verification/Engine_Actions.thy ===== *)
theory Engine_Actions
  imports Engine_Base
begin

text \<open>
  Tool calls of a model turn: \<open>src/src/code_agent/core/engine_actions.py\<close>, \<open>_engine_dispatch.py\<close>,
  \<open>_engine_convergence.py\<close>, \<open>validation_feedback.py\<close>, \<open>resolve_supervision_call\<close> of
  \<open>action_semantics.py\<close> and \<open>_host_progress_facts\<close> of \<open>_engine_run.py\<close>. Where the code passes on the
  thread, task, token or supervisor of the run, the model reads them from the run.
\<close>

section \<open>Messages and notices\<close>

definition plain_message :: "string \<Rightarrow> string \<Rightarrow> chat_message" where
  "plain_message role content = \<lparr>ms_role = role, ms_content = content, ms_name = None, ms_tool_calls = [],
     ms_tool_call_id = None, ms_attachments = []\<rparr>"

definition tool_message :: "tool_call \<Rightarrow> string \<Rightarrow> chat_message result" where
  "tool_message c content = mk_message \<lparr>ms_role = ''tool'', ms_content = content, ms_name = Some (tl_name c),
     ms_tool_calls = [], ms_tool_call_id = Some (tl_id c), ms_attachments = []\<rparr>"

definition queue_notice :: "string \<Rightarrow> ('x, unit) io" where
  "queue_notice content = updateI (\<lambda>r. r\<lparr>rs_notices := rs_notices r @ [take 1000 content]\<rparr>)"

text \<open>Nothing adds a notice while they are flushed, so the loop runs once for each one there is.\<close>

definition flush_notices :: "'x services \<Rightarrow> ('x, unit) io" where
  "flush_notices sx =
     bindI (runI rs_notices) (\<lambda>ns. forI ns (\<lambda>n.
       thenI (updateI (\<lambda>r. r\<lparr>rs_notices := tl (rs_notices r)\<rparr>))
      (let m = plain_message ''developer'' (take 1000 n) in
       bindI (runI rs_thread) (\<lambda>t.
       thenI (append_message sx t m)
      (bindI (message_added sx m) (\<lambda>added.
       bindI (runI rs_task) (\<lambda>task.
       thenI (whenI (task = None) (updateI (\<lambda>r. r\<lparr>rs_messages := rs_messages r @ [m]\<rparr>)))
      (thenI (append_event sx t added) (yieldI added)))))))))"

definition persist_assistant :: "'x services \<Rightarrow> string list \<Rightarrow> tool_call list \<Rightarrow> ('x, chat_message \<times> agent_event) io" where
  "persist_assistant sx parts calls =
     bindI (runI rs_thread) (\<lambda>t.
     bindI (liftR (mk_message \<lparr>ms_role = ''assistant'', ms_content = concat parts, ms_name = None, ms_tool_calls = calls,
       ms_tool_call_id = None, ms_attachments = []\<rparr>)) (\<lambda>m.
     thenI (append_message sx t m)
    (bindI (message_added sx m) (\<lambda>e.
     thenI (append_event sx t e) (returnI (m, e))))))"

definition persist_tool_failure :: "'x services \<Rightarrow> tool_call \<Rightarrow> action_result \<Rightarrow> ('x, agent_event list) io" where
  "persist_tool_failure sx c r =
     bindI (runI rs_thread) (\<lambda>t.
     bindI (recordI sx ACTION_COMPLETED [(''result'', JObj (action_result_to_dict r))]) (\<lambda>completed.
     bindI (liftR (tool_message c (dumps (sx_float sx) spaced_text (JObj (action_result_to_dict r))))) (\<lambda>m.
     thenI (append_message sx t m)
    (bindI (message_added sx m) (\<lambda>added.
     thenI (append_event sx t added) (returnI [completed, added]))))))"

definition requested_payload :: "tool_call \<Rightarrow> jdict" where
  "requested_payload c = [(''request'', JObj (tool_call_to_dict c))]"

section \<open>Resolving and observing calls\<close>

definition resolve_supervision_call :: "'x services \<Rightarrow> tool_call \<Rightarrow> ('x, tool_call) io" where
  "resolve_supervision_call sx c =
     (case (case sx_resolve_supervision sx of None \<Rightarrow> sx_resolve sx | Some r \<Rightarrow> Some r) of
        None \<Rightarrow> returnI c
      | Some resolver \<Rightarrow>
          catchI (bindI (liftR (mk_action_request \<lparr>aq_id = tl_id c, aq_name = tl_name c, aq_arguments = tl_arguments c\<rparr>)) (\<lambda>q.
                  bindI (callI (resolver q)) (\<lambda>q'.
                    returnI (if aq_id q' \<noteq> tl_id c then c else c\<lparr>tl_name := aq_name q', tl_arguments := aq_arguments q'\<rparr>))))
                 (\<lambda>e. if exn_kind e = ValueError then returnI c else failI e))"

definition resolved_action :: "'x services \<Rightarrow> action_request \<Rightarrow> ('x, action_request) io" where
  "resolved_action sx q =
     (case sx_resolve sx of
        None \<Rightarrow> returnI q
      | Some resolver \<Rightarrow> catchI (callI (resolver q)) (\<lambda>e. if exn_kind e = ValueError then returnI q else failI e))"

definition host_progress_facts :: "'x services \<Rightarrow> task_budget \<Rightarrow> ('x, progress_snapshot \<times> progress_facts) io" where
  "host_progress_facts sx b =
     bindI (runI rs_thread) (\<lambda>t.
     bindI (load_task_state sx t) (\<lambda>state.
     bindI (persistI ''could not load task'' (rp_task_for_thread (sx_repo sx) t)) (\<lambda>task.
     bindI (persistI ''could not project bounded Host progress'' (rp_host_progress (sx_repo sx) t
         (case task of None \<Rightarrow> [] | Some k \<Rightarrow> tc_objective (tk_contract k))
         (snd (lease_limits (tb_tier b) (tb_limits b))) (el_max_tool_calls (tb_limits b)))) (\<lambda>(facts, revision).
     bindI (case (task, sx_verifier sx) of
              (Some k, Some v) \<Rightarrow> (case vf_fingerprint v of None \<Rightarrow> returnI [] | Some f \<Rightarrow> callI (f k state))
            | _ \<Rightarrow> returnI []) (\<lambda>fingerprint.
     bindI (liftR (check_snapshot
       \<lparr>ps_code_generation = ts_code_generation state, ps_subject_hash = ts_subject_hash state,
        ps_verification_fingerprint = fingerprint,
        ps_failure_fingerprint = (case tb_last_failure b of None \<Rightarrow> [] | Some f \<Rightarrow> f),
        ps_action_fingerprint = pf_renewal_digest facts, ps_interaction_revision = revision,
        ps_reason = (if ts_code_generation state \<noteq> 0 then ''new code generation''
          else if fingerprint \<noteq> [] then ''new trusted verification result''
          else if pf_resolved_count facts \<noteq> 0 then ''resolved related action failure''
          else if pf_related_count facts \<noteq> 0 then ''new related read result''
          else if 1 < revision then ''task revised by user input'' else ''initial task state'')\<rparr>)) (\<lambda>snap.
     returnI (snap, facts)))))))"

definition task_progress_snapshot :: "'x services \<Rightarrow> task_budget \<Rightarrow> ('x, progress_snapshot) io" where
  "task_progress_snapshot sx b = bindI (host_progress_facts sx b) (\<lambda>(snap, facts). returnI snap)"

section \<open>Supervision\<close>

text \<open>The two readings of the clock of \<open>checkpoint_active_seconds\<close>.\<close>

definition checkpoint_seconds :: "'x services \<Rightarrow> supervisor \<Rightarrow> ('x, int) io" where
  "checkpoint_seconds sx s =
     bindI (callI (sx_now sx)) (\<lambda>now. bindI (callI (sx_now sx)) (\<lambda>again.
       case checkpoint_active_seconds now again s of (s', n) \<Rightarrow>
         thenI (updateI (\<lambda>r. r\<lparr>rs_supervisor := Some s'\<rparr>)) (returnI n)))"

definition save_seconds :: "'x services \<Rightarrow> task_record \<Rightarrow> supervisor \<Rightarrow> ('x, unit) io" where
  "save_seconds sx task s = bindI (checkpoint_seconds sx s) (record_active_seconds_of sx (tk_id task))"

definition pause_task :: "'x services \<Rightarrow> task_record \<Rightarrow> string \<Rightarrow> ('x, unit) io" where
  "pause_task sx task reason =
     bindI (runI rs_supervisor) (\<lambda>watch.
     thenI (case watch of None \<Rightarrow> raiseI RuntimeError ''no supervisor'' | Some s \<Rightarrow> save_seconds sx task s)
    (bindI (transition_task sx (tk_id task) T_PAUSED (Some reason)) (\<lambda>paused.
     bindI (runI rs_thread) (\<lambda>t.
       create_checkpoint sx t ''task-paused'' [(''task_id'', JStr (tk_id paused)),
         (''status'', JStr (status_value (tk_status paused))), (''reason'', JStr reason)]))))"

definition paused_payload :: "task_record \<Rightarrow> string \<Rightarrow> jdict" where
  "paused_payload task reason = [(''task_id'', JStr (tk_id task)), (''status'', JStr ''paused''), (''reason'', JStr reason)]"

definition external_tools :: "string list" where
  "external_tools = [''write_file'', ''replace_text'', ''run_command'', ''run_process_v1'', ''run_verification'',
     ''apply_workspace_edit_plan_v1'']"

definition supervise_action :: "'x services \<Rightarrow> action_request \<Rightarrow> ('x, agent_event option) io" where
  "supervise_action sx q =
     bindI (resolved_action sx q) (\<lambda>resolved.
     bindI (runI rs_task) (\<lambda>task. bindI (runI rs_supervisor) (\<lambda>watch.
       case (task, watch) of
         (Some k, Some s) \<Rightarrow>
           if aq_name resolved \<notin> set external_tools then returnI None
           else bindI (callI (sx_now sx)) (\<lambda>now.
             case before_model_turn now s of (kind, why) \<Rightarrow>
               if kind = PAUSE
               then let reason = (case why of None \<Rightarrow> ''task paused'' | Some [] \<Rightarrow> ''task paused'' | Some r \<Rightarrow> r)
                    in thenI (pause_task sx k reason)
                         (bindI (recordI sx TASK_PAUSED (paused_payload k reason)) (\<lambda>e. returnI (Some e)))
               else thenI (save_seconds sx k s) (returnI None))
       | _ \<Rightarrow> returnI None)))"

section \<open>Running one action\<close>

definition execution_context :: "'x services \<Rightarrow> string \<Rightarrow> ('x, action_context) io" where
  "execution_context sx request_id =
     bindI (runI rs_thread) (\<lambda>t. bindI (runI rs_task) (\<lambda>task.
       returnI (case sx_lineage sx of
           Some l \<Rightarrow> \<lparr>ac_owner = li_owner l, ac_origin = t, ac_request = request_id, ac_task = li_task l, ac_parent = li_parent l\<rparr>
         | None \<Rightarrow> \<lparr>ac_owner = t, ac_origin = t, ac_request = request_id, ac_task = map_option tk_id task, ac_parent = None\<rparr>)))"

text \<open>A dispatcher's exception becomes a failed result; a cancellation goes on.\<close>

definition invoke_action :: "'x services \<Rightarrow> action_request \<Rightarrow> tool_call \<Rightarrow> action_context \<Rightarrow> ('x, action_result) io" where
  "invoke_action sx q c ctx =
     bindI (runI rs_task) (\<lambda>task.
     let authority = (case task of Some k \<Rightarrow> Some (tc_authorization (tk_contract k)) | None \<Rightarrow> sx_inherited sx) in
     thenI (logI (Dispatched q))
    (catchI
       (bindI (callI (sx_dispatch sx q authority ctx)) (\<lambda>r.
          if ar_request_id r \<noteq> tl_id c \<or> ar_name r \<noteq> tl_name c
          then liftR (tool_failure c ''invalid tool result'' None None) else returnI r))
       (\<lambda>e. if exn_kind e = CancellationError then failI e
            else liftR (tool_failure c ''tool execution failed'' (Some (class_name (exn_kind e))) None))))"

text \<open>\<open>returncode in {0, None}\<close>: \<open>False\<close> and \<open>0.0\<close> equal zero, a list or mapping cannot be looked up.\<close>

definition returncode_clean :: "json \<Rightarrow> bool result" where
  "returncode_clean v = (case v of JNull \<Rightarrow> Inr True | JInt i \<Rightarrow> Inr (i = 0) | JBool b \<Rightarrow> Inr (\<not> b) | JFloat m k \<Rightarrow> Inr (m = 0)
     | JStr s \<Rightarrow> Inr False | _ \<Rightarrow> raiseR TypeError ''unhashable type'')"

definition validation_fingerprint :: "(json \<Rightarrow> string) \<Rightarrow> (json \<Rightarrow> string) \<Rightarrow> action_request \<Rightarrow> action_result \<Rightarrow> string option result" where
  "validation_fingerprint ps pr q r =
     (case ar_output r of
        JObj out \<Rightarrow>
          bindR (if ar_is_error r then Inr False else returncode_clean (get_or ''returncode'' JNull out)) (\<lambda>clean.
          if clean then Inr None
          else
            let subject =
                  (if aq_name q = ''run_verification''
                   then (case get_or ''kind'' JNull (aq_arguments q) of
                           JStr kind \<Rightarrow> Some (kind @ ''|'' @ str_of ps (get_or ''cwd'' (JStr ''.'') (aq_arguments q)) @ ''|''
                             @ pr (get_or ''targets'' (JArr []) (aq_arguments q)))
                         | _ \<Rightarrow> None)
                   else (case get_or ''command'' JNull (aq_arguments q) of JStr s \<Rightarrow> Some s | _ \<Rightarrow> None));
                reason = str_of ps (get_or ''reason'' (JStr ''failed'') out)
            in case subject of
                 None \<Rightarrow> Inr None
               | Some s \<Rightarrow>
                   Inr (Some (case get_or ''failure_fingerprint'' JNull (ar_metadata r) of
                       JStr digest \<Rightarrow>
                         if is_sha256 digest then take 120 s @ ''|'' @ reason @ ''|'' @ digest
                         else take 120 s @ ''|'' @ str_of ps (get_or ''returncode'' JNull out) @ ''|'' @ reason @ ''|''
                           @ take 256 (take 256 (str_of ps (get_or ''stdout'' (JStr []) out)) @ '' ''
                               @ take 256 (str_of ps (get_or ''stderr'' (JStr []) out)))
                     | _ \<Rightarrow> take 120 s @ ''|'' @ str_of ps (get_or ''returncode'' JNull out) @ ''|'' @ reason @ ''|''
                           @ take 256 (take 256 (str_of ps (get_or ''stdout'' (JStr []) out)) @ '' ''
                               @ take 256 (str_of ps (get_or ''stderr'' (JStr []) out))))))
      | _ \<Rightarrow> Inr None)"

definition record_validation_state :: "'x services \<Rightarrow> action_request \<Rightarrow> action_result \<Rightarrow> task_record \<Rightarrow> supervisor \<Rightarrow> task_state
    \<Rightarrow> ('x, agent_event option) io" where
  "record_validation_state sx q r task s state =
     bindI (liftR (validation_fingerprint (sx_str sx) (sx_repr sx) q r)) (\<lambda>fp.
     let changed = int (length (ts_files_changed state)) in
     bindI (liftR (observe_validation fp changed s)) (\<lambda>(s', kind, why).
     thenI (updateI (\<lambda>u. u\<lparr>rs_supervisor := Some s'\<rparr>))
    (thenI (persistI ''could not persist task validation'' (rp_observe_validation (sx_repo sx) (tk_id task) fp changed))
    (bindI (runI rs_thread) (\<lambda>t.
     thenI (create_checkpoint sx t ''validation-complete'' [(''task_id'', JStr (tk_id task)), (''failed'', JBool (fp \<noteq> None))])
    (if kind \<noteq> PAUSE then returnI None
     else let reason = (case why of None \<Rightarrow> ''validation paused'' | Some [] \<Rightarrow> ''validation paused'' | Some x \<Rightarrow> x)
          in thenI (pause_task sx task reason)
               (bindI (recordI sx TASK_PAUSED (paused_payload task reason)) (\<lambda>e. returnI (Some e)))))))))"

definition recorded_tools :: "string list" where
  "recorded_tools = [''read_file'', ''list_files'', ''search_text'', ''write_file'', ''replace_text'', ''plan_workspace_edits_v1'',
     ''apply_workspace_edit_plan_v1'', ''run_command'', ''run_process_v1'', ''run_verification'']"

text \<open>\<open>Inl\<close> is the \<open>InFlightValidationError\<close> that the verification service raised.\<close>

definition record_action_state :: "'x services \<Rightarrow> action_request \<Rightarrow> action_result \<Rightarrow> ('x, (task_state \<times> string) + agent_event option) io" where
  "record_action_state sx q r =
     bindI (resolved_action sx q) (\<lambda>q'.
     let r' = r\<lparr>ar_name := (if q' = q then ar_name r else aq_name q')\<rparr> in
     if aq_name q' \<notin> set recorded_tools then returnI (Inr None)
     else
       bindI (runI rs_thread) (\<lambda>t. bindI (runI rs_task) (\<lambda>task. bindI (runI rs_supervisor) (\<lambda>watch.
       bindI (persistI ''could not persist task state'' (rp_reduce_state (sx_repo sx) t q' r')) (\<lambda>state.
       bindI (case (task, sx_verifier sx) of
                (Some k, Some v) \<Rightarrow>
                  bindI (callI (vf_record v k q' r' state)) (\<lambda>x. case x of
                      Inl failure \<Rightarrow> returnI (Inl failure)
                    | Inr state' \<Rightarrow> thenI (save_task_state sx t state') (returnI (Inr state')))
              | _ \<Rightarrow> returnI (Inr state)) (\<lambda>x. case x of
           Inl failure \<Rightarrow> returnI (Inl failure)
         | Inr state' \<Rightarrow>
             (case (task, watch) of
                (Some k, Some s) \<Rightarrow>
                  if aq_name q' = ''run_verification''
                  then bindI (record_validation_state sx q' r' k s state') (\<lambda>e. returnI (Inr e))
                  else returnI (Inr None)
              | _ \<Rightarrow> returnI (Inr None))))))))"

definition record_or_l0_failure :: "'x services \<Rightarrow> tool_call \<Rightarrow> action_request \<Rightarrow> action_result \<Rightarrow> ('x, action_result \<times> agent_event option) io" where
  "record_or_l0_failure sx c q r =
     bindI (record_action_state sx q r) (\<lambda>x. case x of
         Inr paused \<Rightarrow> returnI (r, paused)
       | Inl (state, diagnostic) \<Rightarrow>
           bindI (runI rs_thread) (\<lambda>t.
           thenI (save_task_state sx t state)
          (bindI (liftR (mk_action_result \<lparr>ar_request_id = tl_id c, ar_name = tl_name c,
              ar_output = JObj [(''error'', JStr ''in-flight validation failed''), (''error_code'', JStr ''in_flight_validation_failed''),
                (''detail'', JStr diagnostic), (''workspace_may_have_changed'', JBool True)],
              ar_is_error = True, ar_metadata = []\<rparr>)) (\<lambda>failed. returnI (failed, None)))))"

definition requires_decision :: "action_result \<Rightarrow> bool" where
  "requires_decision r =
     (ar_is_error r \<and> (case ar_output r of
        JObj out \<Rightarrow> dget out ''error_code'' = Some (JStr ''approval_required'') \<or> dget out ''error'' = Some (JStr ''approval required in TUI'')
      | _ \<Rightarrow> False))"

text \<open>The end of \<open>_dispatch\<close>: the result is recorded, stored and reported before a cancellation is honoured.\<close>

definition settle_action :: "'x services \<Rightarrow> tool_call \<Rightarrow> action_request \<Rightarrow> (agent_event \<Rightarrow> ('x, unit) io) \<Rightarrow> action_result \<Rightarrow> ('x, unit) io" where
  "settle_action sx c q emit r =
     bindI (runI rs_thread) (\<lambda>t. bindI (runI rs_task) (\<lambda>task.
     case (if requires_decision r then task else None) of
       Some k \<Rightarrow>
         bindI (transition_task sx (tk_id k) T_WAITING_DECISION (Some ''approval required'')) (\<lambda>waiting.
         bindI (recordI sx TASK_DECISION_REQUIRED [(''task_id'', JStr (tk_id waiting)), (''status'', JStr (status_value (tk_status waiting)))]) emit)
     | None \<Rightarrow>
         bindI (record_or_l0_failure sx c q r) (\<lambda>(r', paused).
         thenI (case paused of None \<Rightarrow> returnI () | Some e \<Rightarrow> emit e)
        (bindI (recordI sx ACTION_COMPLETED [(''result'', JObj (action_result_to_dict r'))]) (\<lambda>completed.
         thenI (emit completed)
        (bindI (liftR (tool_message c (dumps (sx_float sx) canonical_text (JObj (action_result_to_dict r'))))) (\<lambda>m.
         thenI (append_message sx t m)
        (bindI (message_added sx m) (\<lambda>added.
         thenI (append_event sx t added)
        (thenI (emit added) (raise_if_cancelled sx)))))))))))"

definition dispatch_action :: "'x services \<Rightarrow> tool_call \<Rightarrow> bool \<Rightarrow> string \<Rightarrow> (agent_event \<Rightarrow> ('x, unit) io) \<Rightarrow> ('x, unit) io" where
  "dispatch_action sx c available unavailable_reason emit =
     bindI (liftR (mk_action_request \<lparr>aq_id = tl_id c, aq_name = tl_name c, aq_arguments = tl_arguments c\<rparr>)) (\<lambda>q.
     thenI (bindI (recordI sx ACTION_REQUESTED [(''request'', JObj (action_request_to_dict q))]) emit)
    (if \<not> available
     then bindI (liftR (tool_failure c unavailable_reason None None)) (settle_action sx c q emit)
     else bindI (supervise_action sx q) (\<lambda>paused. case paused of
         Some e \<Rightarrow> emit e
       | None \<Rightarrow>
           thenI (bindI (recordI sx ACTION_STARTED [(''request_id'', JStr (tl_id c)), (''name'', JStr (tl_name c))]) emit)
          (bindI (execution_context sx (tl_id c)) (\<lambda>ctx.
           bindI (callI (sx_monotonic sx)) (\<lambda>started.
           bindI (invoke_action sx q c ctx) (\<lambda>r.
           bindI (callI (sx_monotonic sx)) (\<lambda>now.
           thenI (bindI (recordI sx PHASE_COMPLETED [(''phase'', JStr ''action''), (''duration_ms'', JInt (phase_duration started now)),
                    (''action'', JStr (tl_name c))]) emit)
                 (settle_action sx c q emit r)))))))))"

section \<open>Verification calls\<close>

definition collectI :: "agent_event \<Rightarrow> ('x, unit) io" where
  "collectI e = modifyI (\<lambda>s. s\<lparr>eg_collected := eg_collected s @ [e]\<rparr>)"

definition tool_aliases :: "'x services \<Rightarrow> tool_definition list \<Rightarrow> ('x, string list) io" where
  "tool_aliases sx tools = (case sx_aliases sx of None \<Rightarrow> returnI [] | Some f \<Rightarrow> callI (f tools))"

definition available_names :: "'x services \<Rightarrow> ('x, string list) io" where
  "available_names sx =
     bindI (callI (sx_tools sx)) (\<lambda>tools.
     case sx_aliases sx of
       None \<Rightarrow> returnI (map td_name tools)
     | Some f \<Rightarrow> bindI (callI (sx_tools sx)) (\<lambda>again. bindI (callI (f again)) (\<lambda>names. returnI (map td_name tools @ names))))"

definition run_verification_call :: "'x services \<Rightarrow> task_record \<Rightarrow> tool_call \<Rightarrow> task_budget \<Rightarrow> ('x, task_budget \<times> agent_event list) io" where
  "run_verification_call sx task c b =
     bindI (runI rs_thread) (\<lambda>t.
     bindI (task_progress_snapshot sx b) (\<lambda>progress.
     bindI (reserve_task_budget sx t 0 1 progress) (\<lambda>res.
     if br_status res = HARD_EXHAUSTED then raiseI EngineLimitError ''tool call budget exceeded''
     else if br_status res = LEASE_EXHAUSTED
     then bindI (recordI sx TASK_BUDGET_WARNING
            [(''task_id'', JStr (tk_id task)), (''category'', JStr ''lease''), (''phase'', JStr ''converge''),
             (''tier'', JStr (tier_value (tb_tier (br_budget res)))), (''renewals'', JInt (tb_renewals (br_budget res))),
             (''reason'', JStr (case br_reason res of None \<Rightarrow> ''verification soft lease exhausted''
               | Some [] \<Rightarrow> ''verification soft lease exhausted'' | Some x \<Rightarrow> x))]) (\<lambda>warning.
          returnI (br_budget res, [warning]))
     else
       bindI (persist_assistant sx [] [c]) (\<lambda>(m, declared).
       bindI (available_names sx) (\<lambda>names.
       thenI (modifyI (\<lambda>s. s\<lparr>eg_collected := [declared]\<rparr>))
      (thenI (dispatch_action sx c (tl_name c \<in> set names) ''tool is not available'' collectI)
      (bindI (getI eg_collected) (\<lambda>es. returnI (br_budget res, es)))))))))"

definition run_suggested_verification :: "'x services \<Rightarrow> task_record \<Rightarrow> ('x, (task_budget \<times> agent_event list) option) io" where
  "run_suggested_verification sx task =
     (case sx_verifier sx of
        None \<Rightarrow> returnI None
      | Some v \<Rightarrow>
          bindI (runI rs_thread) (\<lambda>t. bindI (load_task_state sx t) (\<lambda>state.
          bindI (callI (vf_suggest v task state)) (\<lambda>suggestion. case suggestion of
              None \<Rightarrow> returnI None
            | Some c \<Rightarrow> bindI (runI rs_budget) (\<lambda>b. bindI (run_verification_call sx task c b) (\<lambda>p. returnI (Some p)))))))"

definition stops_after :: "agent_event list \<Rightarrow> bool" where
  "stops_after es = list_ex (\<lambda>e. ev_kind e \<in> {TASK_PAUSED, TASK_DECISION_REQUIRED}) es"

section \<open>The calls of a turn\<close>

definition track_event :: "agent_event \<Rightarrow> ('x, unit) io" where
  "track_event e =
     thenI (if ev_kind e = MESSAGE_ADDED
            then bindI (liftR (bindR (bindR (field_of ''message'' (ev_payload e)) (as_obj ''not a mapping'')) message_from_dict))
                   (\<lambda>m. updateI (\<lambda>r. r\<lparr>rs_messages := rs_messages r @ [m]\<rparr>))
            else returnI ())
    (thenI (case disclosure_from_event e of None \<Rightarrow> returnI ()
              | Some (name, digest) \<Rightarrow> updateI (\<lambda>r. r\<lparr>rs_disclosed := dput name digest (rs_disclosed r)\<rparr>))
    (thenI (whenI (is_in_flight_failure e) (modifyI (\<lambda>s. s\<lparr>eg_blocked := True\<rparr>)))
           (whenI (ev_kind e \<in> {TASK_PAUSED, TASK_DECISION_REQUIRED}) (updateI (\<lambda>r. r\<lparr>rs_stop := True\<rparr>)))))"

definition flag_validation_error :: "bool \<Rightarrow> ('x, unit) io" where
  "flag_validation_error b = whenI b (update_turnI (\<lambda>n. n\<lparr>tn_validation_error := True\<rparr>))"

text \<open>What the observer of repeated reads has to say, after the tool message of a completed call.\<close>

definition observe_repetition :: "'x services \<Rightarrow> tool_call \<Rightarrow> jdict \<Rightarrow> ('x, unit) io" where
  "observe_repetition sx observed raw =
     bindI (case action_result_from_dict raw of
              Inl e \<Rightarrow> if exn_kind e \<in> {KeyError, TypeError, ValueError} then returnI None else failI e
            | Inr r \<Rightarrow> bindI (runI rs_repeat) (\<lambda>ob. case observe_repeat (sx_float sx) (sx_str sx) observed r ob of
                (ob', note) \<Rightarrow> thenI (updateI (\<lambda>u. u\<lparr>rs_repeat := ob'\<rparr>)) (returnI note))) (\<lambda>note. case note of
         None \<Rightarrow> returnI ()
       | Some n \<Rightarrow>
           bindI (recordI sx TASK_BUDGET_WARNING [(''category'', JStr ''exact_repeat''), (''reason'', JStr (on_reason n)),
             (''count'', JInt (on_count n))]) (\<lambda>notice.
           thenI (queue_notice (''Runtime control: '' @ on_reason n @ ''.''))
          (thenI (yieldI notice)
          (if on_kind n \<noteq> ''pause'' then returnI ()
           else
             thenI (updateI (\<lambda>u. u\<lparr>rs_stop := True\<rparr>))
            (bindI (runI rs_task) (\<lambda>task. case task of
                Some k \<Rightarrow> thenI (pause_task sx k (on_reason n)) (emitI sx TASK_PAUSED (paused_payload k (on_reason n)))
              | None \<Rightarrow> emitI sx ERROR [(''code'', JStr ''exploration_stalled''), (''error_type'', JStr ''ExplorationStalled''),
                  (''reason'', JStr (on_reason n))]))))))"

text \<open>The body of the loop over the events of one dispatched call.\<close>

definition handle_event :: "'x services \<Rightarrow> tool_call \<Rightarrow> agent_event \<Rightarrow> ('x, unit) io" where
  "handle_event sx observed e =
     thenI (track_event e)
    (thenI (if ev_kind e \<noteq> ACTION_COMPLETED then returnI ()
            else case dget (ev_payload e) ''result'' of
                Some (JObj raw) \<Rightarrow>
                  thenI (modifyI (\<lambda>s. s\<lparr>eg_result := Some raw\<rparr>))
                 (bindI (liftR (is_validation_failure (dget raw ''is_error'' = Some (JBool True)) (get_or ''output'' JNull raw)))
                   (\<lambda>b. thenI (flag_validation_error b)
                  (updateI (\<lambda>r. r\<lparr>rs_last_failed :=
                     (if dget raw ''is_error'' = Some (JBool True)
                      then Some (call_signature (sx_float sx) observed, format_action_error (sx_str sx) raw) else None)\<rparr>))))
              | _ \<Rightarrow> returnI ())
    (thenI (yieldI e)
           (if ev_kind e \<noteq> MESSAGE_ADDED then returnI ()
            else bindI (getI eg_result) (\<lambda>res. case res of None \<Rightarrow> returnI () | Some raw \<Rightarrow> observe_repetition sx observed raw))))"

definition dispatch_turn_call :: "'x services \<Rightarrow> tool_call \<Rightarrow> ('x, unit) io" where
  "dispatch_turn_call sx c =
     thenI (updateI (\<lambda>r. r\<lparr>rs_used_ids := tl_id c # rs_used_ids r\<rparr>))
    (bindI (resolve_supervision_call sx c) (\<lambda>observed.
     bindI (runI rs_last_failed) (\<lambda>prior.
     bindI (liftR (duplicate_failed_call (sx_float sx) (sx_scaffold sx) prior c observed)) (\<lambda>duplicate.
     bindI (case duplicate of
              Some f \<Rightarrow> returnI (Some f)
            | None \<Rightarrow> bindI (runI rs_action_history) (\<lambda>h. case circuit_breaker (sx_float sx) h c observed of
                (h', r) \<Rightarrow> thenI (updateI (\<lambda>u. u\<lparr>rs_action_history := h'\<rparr>)) (liftR r))) (\<lambda>failure.
     case failure of
       Some f \<Rightarrow>
         bindI (liftR (is_validation_failure (ar_is_error f) (ar_output f))) (\<lambda>b.
         thenI (flag_validation_error b)
        (thenI (emitI sx ACTION_REQUESTED (requested_payload c))
        (bindI (persist_tool_failure sx c f) (\<lambda>es. forI es (\<lambda>e. thenI (track_event e) (yieldI e))))))
     | None \<Rightarrow>
         bindI (getI eg_blocked) (\<lambda>blocked. bindI (turnI tn_tool_names) (\<lambda>names.
         thenI (modifyI (\<lambda>s. s\<lparr>eg_result := None\<rparr>))
               (dispatch_action sx c (tl_name c \<in> set names \<and> \<not> blocked)
                 (if blocked then ''blocked after an in-flight validation failure'' else ''tool is not available'')
                 (handle_event sx observed)))))))))"

primrec dispatch_calls :: "'x services \<Rightarrow> tool_call list \<Rightarrow> ('x, unit) io" where
  "dispatch_calls sx [] = returnI ()"
| "dispatch_calls sx (c # cs) =
     thenI (dispatch_turn_call sx c) (bindI (runI rs_stop) (\<lambda>stop. if stop then returnI () else dispatch_calls sx cs))"

definition dispatch_tool_calls :: "'x services \<Rightarrow> ('x, unit) io" where
  "dispatch_tool_calls sx =
     thenI (modifyI (\<lambda>s. s\<lparr>eg_blocked := False\<rparr>))
    (bindI (turnI tn_calls) (\<lambda>calls. bindI (runI rs_task) (\<lambda>task. bindI (runI rs_thread) (\<lambda>t.
     case (task, sx_verifier sx) of
       (Some k, Some v) \<Rightarrow>
         (case (if calls = [] then None else vf_begin v) of
            None \<Rightarrow> dispatch_calls sx calls
          | Some begin_change \<Rightarrow>
              thenI (callI (begin_change (tk_id k)))
             (bindI (finallyI (dispatch_calls sx calls)
                (bindI (load_task_state sx t) (\<lambda>current. bindI (callI (vf_commit v k current)) (\<lambda>(settled, milestone).
                   thenI (save_task_state sx t settled) (returnI milestone))))) (\<lambda>milestone.
              bindI (runI rs_stop) (\<lambda>stop.
              case (if stop then None else milestone) of
                None \<Rightarrow> returnI ()
              | Some c \<Rightarrow> bindI (runI rs_budget) (\<lambda>b. bindI (run_verification_call sx k c b) (\<lambda>(b', es).
                  thenI (updateI (\<lambda>r. r\<lparr>rs_budget := b'\<rparr>)) (forI es yieldI)))))))
     | _ \<Rightarrow> dispatch_calls sx calls))))"

section \<open>Convergence\<close>

definition observe_convergence :: "'x services \<Rightarrow> ('x, unit) io" where
  "observe_convergence sx =
     bindI (runI rs_stop) (\<lambda>stop. if stop then returnI ()
     else
       bindI (runI rs_budget) (\<lambda>b. bindI (host_progress_facts sx b) (\<lambda>(snap, facts).
       bindI (runI rs_progress_digest) (\<lambda>old. bindI (runI rs_candidate_digest) (\<lambda>old_candidate.
       let digest = snapshot_digest (sx_digest sx) snap;
           progress = (old \<noteq> [] \<and> digest \<noteq> old) \<or> (old_candidate \<noteq> [] \<and> pf_candidate_digest facts \<noteq> old_candidate)
       in
       thenI (updateI (\<lambda>r. r\<lparr>rs_progress_digest := digest, rs_candidate_digest := pf_candidate_digest facts\<rparr>))
      (bindI (turnI tn_calls) (\<lambda>calls. bindI (mapI (resolve_supervision_call sx) calls) (\<lambda>observed.
       bindI (turnI tn_validation_error) (\<lambda>verr. bindI (runI rs_guard) (\<lambda>g.
       case observe_turn observed verr progress g of (g', note) \<Rightarrow>
       thenI (updateI (\<lambda>r. r\<lparr>rs_guard := g'\<rparr>))
      (case note of None \<Rightarrow> returnI ()
       | Some n \<Rightarrow>
           bindI (recordI sx TASK_BUDGET_WARNING [(''category'', JStr ''exploration''), (''phase'', JStr (on_kind n)),
             (''reason'', JStr (on_reason n)), (''count'', JInt (on_count n))]) (\<lambda>warning.
           thenI (queue_notice (''Runtime control: '' @ on_reason n @ ''.''))
          (thenI (yieldI warning)
          (thenI (flush_notices sx)
          (if on_kind n \<noteq> ''finalize'' then returnI ()
           else bindI (runI rs_visible_answer) (\<lambda>visible.
             if visible then updateI (\<lambda>r. r\<lparr>rs_stop := True\<rparr>)
             else thenI (updateI (\<lambda>r. r\<lparr>rs_summary_required := True\<rparr>))
                 (queue_notice ''Runtime control: the next model turn must provide a final user-facing summary from the collected evidence; no tools will be available.'')))))))))))))))))"

definition report_empty_summary :: "'x services \<Rightarrow> ('x, unit) io" where
  "report_empty_summary sx =
     emitI sx ERROR [(''code'', JStr ''empty_summary''), (''reason'', JStr ''model completed the summary turn without answer text'')]"

text \<open>A call is refused without being run: requested, failed, and answered by a tool message.\<close>

definition refuse_call :: "'x services \<Rightarrow> string \<Rightarrow> string \<Rightarrow> tool_call \<Rightarrow> ('x, unit) io" where
  "refuse_call sx reason code c =
     thenI (updateI (\<lambda>r. r\<lparr>rs_used_ids := tl_id c # rs_used_ids r\<rparr>))
    (thenI (emitI sx ACTION_REQUESTED (requested_payload c))
    (bindI (liftR (tool_failure c reason None (Some code))) (\<lambda>f.
     bindI (persist_tool_failure sx c f) (\<lambda>es. forI es yieldI))))"

definition reject_summary_calls :: "'x services \<Rightarrow> ('x, unit) io" where
  "reject_summary_calls sx =
     (let reason = ''summary-only turn requested tools; no tool was executed'' in
      bindI (turnI tn_calls) (\<lambda>calls.
      thenI (forI calls (refuse_call sx reason ''summary_tool_call_rejected''))
     (bindI (turnI tn_forced_summary) (\<lambda>forced. bindI (runI rs_summary_retries) (\<lambda>retries.
      if forced \<and> retries = 0
      then thenI (updateI (\<lambda>r. r\<lparr>rs_summary_retries := rs_summary_retries r + 1, rs_summary_required := True\<rparr>))
           (queue_notice ''Runtime control: tools remain unavailable. Reply now with the final user-facing summary only; do not request another tool.'')
      else
        thenI (updateI (\<lambda>r. r\<lparr>rs_stop := True\<rparr>))
       (bindI (runI rs_task) (\<lambda>task. case task of
           Some k \<Rightarrow> thenI (pause_task sx k reason) (emitI sx TASK_PAUSED (paused_payload k reason))
         | None \<Rightarrow> emitI sx ERROR [(''code'', JStr ''exploration_stalled''), (''error_type'', JStr ''ExplorationStalled''),
             (''reason'', JStr reason)])))))))"

definition close_lease_calls :: "'x services \<Rightarrow> ('x, unit) io" where
  "close_lease_calls sx =
     bindI (turnI tn_calls) (\<lambda>calls.
       forI calls (refuse_call sx ''soft lease converged before these tools could execute'' ''soft_lease_converged''))"

end
