(* ===== verification/Engine_Turn.thy ===== *)
theory Engine_Turn
  imports Engine_Actions
begin

text \<open>
  The model turn and the run: \<open>src/src/code_agent/core/_engine_turn.py\<close>, \<open>_engine_run.py\<close>,
  \<open>engine_completion.py\<close>, \<open>_engine_parent_review.py\<close> and \<open>run\<close>, \<open>run_peer\<close> of \<open>engine.py\<close>. The review
  prompt, the evaluation of a review and its rendering belong to the review host here.
\<close>

section \<open>Context requests\<close>

definition budget_lease_of :: "task_budget \<Rightarrow> (string \<times> int) list" where
  "budget_lease_of b =
     [(''model_turns'', tb_model_turns b), (''tool_calls'', tb_tool_calls b), (''input_tokens'', tb_input_tokens b),
      (''output_tokens'', tb_output_tokens b), (''max_model_turns'', el_max_agent_rounds (tb_limits b)),
      (''max_tool_calls'', el_max_tool_calls (tb_limits b)),
      (''max_tool_calls_per_round'', el_max_tool_calls_per_round (tb_limits b)),
      (''max_total_tokens'', el_max_total_tokens (tb_limits b)), (''lease_model_turn_limit'', tb_lease_turns b),
      (''lease_tool_call_limit'', tb_lease_tools b), (''lease_renewals'', tb_renewals b),
      (''lease_final_extension'', if tb_final b then 1 else 0)]"

definition scalar :: "json \<Rightarrow> bool" where
  "scalar v = (case v of JArr _ \<Rightarrow> False | JObj _ \<Rightarrow> False | _ \<Rightarrow> True)"

text \<open>
  \<open>ContextRequest.__post_init__\<close> for what the engine passes: the other arguments keep their defaults. The
  check on \<open>task_facts\<close> comes after freezing, which makes tuples of lists and proxies of mappings, so that
  it never finds a \<open>list\<close> or \<open>dict\<close>.
\<close>

definition mk_context_request :: "context_request \<Rightarrow> context_request result" where
  "mk_context_request q =
     (if blank (cq_thread q) then raiseR ValueError ''thread_id must not be blank''
      else if cq_revision q \<le> 0 then raiseR ValueError ''revision must be positive''
      else if list_ex (\<lambda>(k, v). v < 0) (cq_lease q) then raiseR ValueError ''budget_lease must not be negative''
      else if list_ex (\<lambda>(k, v). blank k) (cq_facts q) then raiseR ValueError ''task_facts keys must be non-blank text''
      else Inr q)"

definition merge_dict :: "('k \<times> 'v) list \<Rightarrow> ('k \<times> 'v) list \<Rightarrow> ('k \<times> 'v) list" where
  "merge_dict d e = fold (\<lambda>(k, v). dput k v) e d"

definition build_request :: "'x services \<Rightarrow> chat_message list \<Rightarrow> task_state \<Rightarrow> run_state \<Rightarrow> turn_state \<Rightarrow> context_request" where
  "build_request sx source state r n =
     (let mode = (case rs_task r of None \<Rightarrow> sx_mode sx
            | Some k \<Rightarrow> dput ''interaction_mode'' (JStr (tc_interaction_mode (tk_contract k))) (sx_mode sx))
      in \<lparr>cq_thread = rs_thread r, cq_revision = tb_model_turns (rs_budget r), cq_messages = source, cq_user_input = [],
          cq_tools = tn_tools n, cq_task_state = state, cq_mode = mode, cq_permission = sx_permission sx,
          cq_lease = budget_lease_of (rs_budget r), cq_facts = merge_dict mode (sx_permission sx)\<rparr>)"

definition build_turn_context :: "'x services \<Rightarrow> ('x, context_bundle) io" where
  "build_turn_context sx =
     bindI (runI rs_review) (\<lambda>review. case (if review_active review then (review, sx_review sx) else (None, None)) of
       (Some v, Some h) \<Rightarrow> liftR (rh_bundle h v)
     | _ \<Rightarrow>
       bindI (runI rs_thread) (\<lambda>t. bindI (runI rs_task) (\<lambda>task.
       bindI (if task \<noteq> None then load_context_messages sx t else runI rs_messages) (\<lambda>source.
       catchI
         (bindI (load_task_state sx t) (\<lambda>state. bindI (getI (\<lambda>s. (eg_run s, eg_turn s))) (\<lambda>(r, n).
          bindI (liftR (mk_context_request (build_request sx source state r n))) (\<lambda>q.
          bindI (callI (sx_build sx q)) (\<lambda>b. case b of
              None \<Rightarrow> raiseI TypeError ''context builder returned an invalid bundle'' | Some x \<Rightarrow> returnI x)))))
         (\<lambda>e. if exn_kind e \<in> {CancellationError, EngineLimitError} then failI e
              else raiseI ContextBuildError ''context build failed'')))))"

section \<open>The model stream\<close>

definition select_request_model :: "'x services \<Rightarrow> ('x, bool \<times> string) io" where
  "select_request_model sx =
     bindI (runI rs_review) (\<lambda>v.
     if \<not> review_active v \<or> review_phase v \<notin> {Some ''independent'', Some ''comparison''}
     then returnI (False, sx_model_name sx)
     else case dget (review_data v) ''review_model'' of
         None \<Rightarrow> returnI (False, sx_model_name sx)
       | Some identity \<Rightarrow> (case sx_review_model sx of
             Some (accepts, name) \<Rightarrow>
               if accepts identity then returnI (True, name)
               else raiseI ModelStreamError ''parent review model binding is unavailable or changed''
           | None \<Rightarrow> raiseI ModelStreamError ''parent review model binding is unavailable or changed''))"

definition accumulate_event :: "'x services \<Rightarrow> model_event \<Rightarrow> ('x, unit) io" where
  "accumulate_event sx e =
     (if me_kind e = TEXT_DELTA
      then thenI (update_turnI (\<lambda>n. n\<lparr>tn_text_parts := tn_text_parts n @ [case me_text e of None \<Rightarrow> [] | Some t \<Rightarrow> t]\<rparr>))
             (bindI (turnI tn_text_parts) (\<lambda>parts.
               if el_max_assistant_chars (sx_limits sx) < int (length (concat parts))
               then raiseI EngineLimitError ''assistant output budget exceeded'' else returnI ()))
      else if me_kind e = TOOL_CALL_EVENT
      then (case me_tool_call e of
              None \<Rightarrow> raiseI ModelStreamError ''tool call event has no call''
            | Some c \<Rightarrow> update_turnI (\<lambda>n. n\<lparr>tn_calls := tn_calls n @ [c]\<rparr>))
      else returnI ())"

definition warn_budget :: "'x services \<Rightarrow> task_record \<Rightarrow> int \<Rightarrow> ('x, unit) io" where
  "warn_budget sx k threshold =
     (let reason = ''token budget reached '' @ int_text threshold @ ''%'' in
      bindI (recordI sx TASK_BUDGET_WARNING [(''task_id'', JStr (tk_id k)), (''threshold'', JInt threshold), (''reason'', JStr reason)])
        (\<lambda>warning.
      thenI (updateI (\<lambda>r. r\<lparr>rs_notices := rs_notices r @ [''Runtime control: '' @ reason
         @ ''. Use the remaining turn to synthesize the answer; do not continue exploratory tool calls unless necessary.'']\<rparr>))
        (yieldI warning)))"

definition total_tokens :: "usage \<Rightarrow> int" where
  "total_tokens u = us_input u + us_output u"

definition record_model_usage :: "'x services \<Rightarrow> usage \<Rightarrow> ('x, unit) io" where
  "record_model_usage sx u =
     thenI (updateI (\<lambda>r. r\<lparr>rs_total_usage := add_usage (rs_total_usage r) u\<rparr>))
    (bindI (runI rs_task) (\<lambda>task.
     thenI (case task of
              None \<Rightarrow> returnI ()
            | Some k \<Rightarrow>
                bindI (turnI tn_review_client) (\<lambda>client.
                thenI (if sx_accounts_usage sx client then returnI ()
                       else persistI ''could not persist task usage'' (rp_consume_usage (sx_repo sx) (tk_id k) u))
               (bindI (mark_task_warnings sx (tk_id k)) (\<lambda>thresholds. forI thresholds (warn_budget sx k)))))
    (bindI (runI rs_total_usage) (\<lambda>total.
       if el_max_total_tokens (sx_limits sx) < total_tokens total then raiseI EngineLimitError ''token budget exceeded''
       else returnI ()))))"

text \<open>One item of the stream; the two flags are the locals \<open>completed\<close> and \<open>context_accepted\<close>.\<close>

definition stream_step :: "'x services \<Rightarrow> stream_item \<Rightarrow> bool \<times> bool \<Rightarrow> ('x, bool \<times> bool) io" where
  "stream_step sx item flags =
     (case item of
        Raised e \<Rightarrow> failI e
      | Invalid \<Rightarrow>
          thenI (raise_if_cancelled sx)
            (raiseI ModelStreamError (if fst flags then ''model emitted an event after completion'' else ''model emitted an invalid event''))
      | Event e \<Rightarrow>
          thenI (raise_if_cancelled sx)
         (if fst flags then raiseI ModelStreamError ''model emitted an event after completion''
          else
            thenI (accumulate_event sx e)
           (bindI (runI rs_thread) (\<lambda>t.
            bindI (new_event sx MODEL_EVENT [(''event'', JObj (model_event_to_dict e))]) (\<lambda>streamed.
            bindI (runI rs_review) (\<lambda>review.
            let hidden = review_active review \<and> me_kind e = TEXT_DELTA in
            thenI (if hidden then returnI () else append_event sx t streamed)
           (thenI (if snd flags \<or> review_active review then returnI ()
                   else (case sx_accept sx of None \<Rightarrow> returnI () | Some accept \<Rightarrow> callI (accept t)))
           (thenI (if hidden then returnI () else yieldI streamed)
           (thenI (case me_usage e of None \<Rightarrow> returnI () | Some u \<Rightarrow> record_model_usage sx u)
                  (returnI (me_kind e = MODEL_COMPLETED, True)))))))))))"

primrec stream_items :: "'x services \<Rightarrow> stream_item list \<Rightarrow> bool \<times> bool \<Rightarrow> ('x, bool \<times> bool) io" where
  "stream_items sx [] flags = returnI flags"
| "stream_items sx (i # rest) flags = bindI (stream_step sx i flags) (stream_items sx rest)"

definition stream_model_events :: "'x services \<Rightarrow> context_bundle \<Rightarrow> ('x, unit) io" where
  "stream_model_events sx b =
     bindI (callI (sx_monotonic sx)) (\<lambda>started.
     bindI (catchI
       (bindI (turnI (\<lambda>n. (tn_review_client n, tn_tools n))) (\<lambda>(client, tools).
        thenI (logI (Requested tools))
       (bindI (callI (sx_stream sx client (cb_system_prompt b) (cb_messages b) tools)) (\<lambda>items.
          stream_items sx items (False, False)))))
       (\<lambda>e. if error_code (exn_kind e) \<noteq> None \<or> exn_kind e = CancellationError then failI e
            else raiseI ModelStreamError ''model stream failed'')) (\<lambda>flags.
     if \<not> fst flags then raiseI ModelStreamError ''model stream ended before completion''
     else
       bindI (callI (sx_monotonic sx)) (\<lambda>now. bindI (turnI tn_number) (\<lambda>number.
         emitI sx PHASE_COMPLETED [(''phase'', JStr ''model''), (''duration_ms'', JInt (phase_duration started now)),
           (''turn'', JInt number)]))))"

definition start_turn :: "'x services \<Rightarrow> ('x, context_bundle) io" where
  "start_turn sx =
     bindI (select_request_model sx) (\<lambda>(client, name).
     thenI (update_turnI (\<lambda>n. n\<lparr>tn_review_client := client, tn_model_name := name\<rparr>))
    (bindI (turnI tn_number) (\<lambda>number.
     thenI (emitI sx TURN_STARTED [(''turn'', JInt number)])
    (bindI (callI (sx_monotonic sx)) (\<lambda>started.
     bindI (build_turn_context sx) (\<lambda>b.
     bindI (callI (sx_monotonic sx)) (\<lambda>now.
     thenI (emitI sx PHASE_COMPLETED [(''phase'', JStr ''context''), (''duration_ms'', JInt (phase_duration started now)),
              (''turn'', JInt number)])
    (thenI (emitI sx CONTEXT_BUILT (merge_dict [(''turn'', JInt number)] (map (\<lambda>(k, v). (k, JInt v)) (cb_measurements b))))
    (thenI (emitI sx MODEL_STARTED [(''turn'', JInt number), (''model'', JStr name)])
           (returnI b))))))))))"

section \<open>The parent review\<close>

definition prepare_parent_review :: "'x services \<Rightarrow> ('x, unit) io" where
  "prepare_parent_review sx =
     bindI (runI rs_task) (\<lambda>task. case (sx_review sx, task) of
       (Some h, Some k) \<Rightarrow> bindI (callI (rh_prepare h k)) (\<lambda>v. updateI (\<lambda>r. r\<lparr>rs_review := Some v\<rparr>))
     | _ \<Rightarrow> returnI ())"

definition phase_text :: "parent_review option \<Rightarrow> string result" where
  "phase_text v = (case review_phase v of None \<Rightarrow> raiseR TypeError ''can only concatenate str'' | Some p \<Rightarrow> Inr p)"

definition review_pause_result :: "'x services \<Rightarrow> string \<Rightarrow> ('x, jdict option) io" where
  "review_pause_result sx reason =
     bindI (runI rs_review) (\<lambda>v. bindI (runI rs_task) (\<lambda>task.
     thenI (case (if review_active v then None else sx_review sx) of
              None \<Rightarrow> returnI ()
            | Some h \<Rightarrow> (case rh_pending h of
                  None \<Rightarrow> returnI ()
                | Some pending \<Rightarrow> bindI (callI (pending task)) (\<lambda>v. updateI (\<lambda>r. r\<lparr>rs_review := v\<rparr>))))
    (bindI (runI rs_review) (\<lambda>v.
       if \<not> review_active v then returnI None
       else
         bindI (if review_phase v = Some ''delivered'' then returnI ''task finalization after delivered parent source review''
                else bindI (liftR (phase_text v)) (\<lambda>p. returnI (''parent source review '' @ p @ '' delivery''))) (\<lambda>open_part.
         bindI (liftR (mk_result \<lparr>tr_execution = ''paused'', tr_changes = ''unknown'', tr_verification = ''unverified'',
             tr_remaining = [open_part], tr_stop_code = Some ''parent_review_budget_exhausted'', tr_stop_reason = Some reason\<rparr>))
           (\<lambda>r. returnI (Some (result_to_dict r))))))))"

section \<open>Completion\<close>

fun outcome_value :: "verifier_outcome \<Rightarrow> string" where
  "outcome_value NOT_RUN = ''not_run''"
| "outcome_value PASS = ''pass''"
| "outcome_value FAIL = ''fail''"
| "outcome_value UNAVAILABLE = ''unavailable''"
| "outcome_value OUTCOME_INTERRUPTED = ''interrupted''"

fun completion_value :: "completion_kind \<Rightarrow> string" where
  "completion_value VERIFIED = ''verified''"
| "completion_value PARTIAL = ''partial''"
| "completion_value UNVERIFIED = ''unverified''"

text \<open>\<open>result_metadata\<close>: what to report as verification and as remaining work.\<close>

type_synonym delivery_facts = "string \<times> string list"

definition assess_delivery :: "'x services \<Rightarrow> task_record \<Rightarrow> ('x, assessed option) io" where
  "assess_delivery sx task =
     (case sx_verifier sx of
        None \<Rightarrow> returnI None
      | Some v \<Rightarrow> bindI (runI rs_thread) (\<lambda>t. bindI (load_task_state sx t) (\<lambda>state.
          bindI (callI (vf_assess v task state)) (\<lambda>a. returnI (Some a)))))"

definition settle_assessment :: "'x services \<Rightarrow> task_record \<Rightarrow> assessed option \<Rightarrow> ('x, task_record \<times> delivery_facts) io" where
  "settle_assessment sx task found =
     (let a = (case found of None \<Rightarrow> \<lparr>as_kind = UNVERIFIED, as_unmet = [''verification evidence'']\<rparr> | Some f \<Rightarrow> va_assessment f);
          outcome = (case found of None \<Rightarrow> NOT_RUN | Some f \<Rightarrow> va_outcome f);
          decision = decide_verification (tc_intent (tk_contract task)) a outcome;
          detail = join_with ''; '' (case found of None \<Rightarrow> [] | Some f \<Rightarrow> va_diagnostics f);
          explanation = ''Verification '' @ outcome_value outcome @ (if detail = [] then [] else '': '' @ detail);
          facts = (completion_value (as_kind a), as_unmet a)
      in if vt_action decision = COMPLETE
         then (case (sx_verifier sx, found) of
                 (Some v, Some f) \<Rightarrow>
                   if va_run_id f \<noteq> None
                   then bindI (transition_task sx (tk_id task) T_VERIFYING (Some ''verifying current evidence'')) (\<lambda>_.
                        bindI (callI (vf_finalize v task f)) (\<lambda>k. returnI (k, facts)))
                   else bindI (transition_task sx (tk_id task) T_COMPLETED (Some ''task completed'')) (\<lambda>k. returnI (k, facts))
               | _ \<Rightarrow> bindI (transition_task sx (tk_id task) T_COMPLETED (Some ''task completed'')) (\<lambda>k. returnI (k, facts)))
         else if vt_status decision = T_VERIFYING
         then let missing = (if as_unmet a = [] \<or> join_with '', '' (as_unmet a) = [] then ''current verification evidence''
                             else join_with '', '' (as_unmet a))
              in bindI (transition_task sx (tk_id task) T_WAITING_DECISION
                   (Some (take 1024 (''Verification did not complete. Missing: '' @ missing @ (if detail = [] then [] else ''. '' @ explanation)))))
                   (\<lambda>k. returnI (k, facts))
         else if vt_status decision = tk_status task \<and> detail = [] then returnI (task, facts)
         else bindI (transition_task sx (tk_id task) (vt_status decision)
                (Some (take 1024 (if detail = [] then ''verification evidence is required'' else explanation)))) (\<lambda>k. returnI (k, facts)))"

definition resolve_task_completion :: "'x services \<Rightarrow> task_record \<Rightarrow> ('x, task_record \<times> delivery_facts) io" where
  "resolve_task_completion sx task =
     (let assess = bindI (assess_delivery sx task) (settle_assessment sx task) in
      if tc_intent (tk_contract task) \<noteq> MODIFY then assess
      else
        bindI (runI rs_thread) (\<lambda>t. bindI (load_task_state sx t) (\<lambda>state.
        if ts_files_changed state = []
        then bindI (transition_task sx (tk_id task) T_WAITING_DECISION
               (Some (''Requested modification produced no workspace file changes. Continue with implementation, or explain why no change is required ''
                 @ ''and request explicit acceptance of the unchanged partial delivery.''))) (\<lambda>k.
               returnI (k, ''unverified'', [''workspace change or explicit acceptance of no-change delivery'']))
        else if \<not> sx_require_verification sx
        then bindI (transition_task sx (tk_id task) T_COMPLETED (Some ''task completed without structured verification'')) (\<lambda>k.
               returnI (k, ''unverified'', []))
        else assess)))"

definition usage_payload :: "usage \<Rightarrow> jdict" where
  "usage_payload u = dput ''total_tokens'' (JInt (total_tokens u)) (usage_to_dict u)"

definition completed_payload :: "run_state \<Rightarrow> jdict" where
  "completed_payload r = [(''thread_id'', JStr (rs_thread r)), (''turns'', JInt (tb_model_turns (rs_budget r))),
     (''tool_calls'', JInt (tb_tool_calls (rs_budget r))), (''usage'', JObj (usage_payload (rs_total_usage r)))]"

definition completion_events :: "task_record \<Rightarrow> run_state \<Rightarrow> (event_kind \<times> jdict) list" where
  "completion_events k r =
     (let status = [(''task_id'', JStr (tk_id k)), (''status'', JStr (status_value (tk_status k))), (''reason'', opt_json (tk_stop_reason k))]
      in (TASK_STATUS_CHANGED, status)
         # (if tk_status k = T_COMPLETED then [(COMPLETED, completed_payload r)]
            else if tk_status k = T_WAITING_DECISION then [(TASK_DECISION_REQUIRED, status)] else []))"

definition persist_completion_events :: "'x services \<Rightarrow> task_record \<Rightarrow> delivery_facts \<Rightarrow> string option
    \<Rightarrow> (agent_event \<Rightarrow> ('x, unit) io) \<Rightarrow> ('x, unit) io" where
  "persist_completion_events sx k facts stop_code emit =
     bindI (runI (completion_events k)) (\<lambda>shapes.
     bindI (mapI (\<lambda>(kind, p). new_event sx kind p) shapes) (\<lambda>es.
     bindI (runI rs_thread) (\<lambda>t. bindI (load_task_state sx t) (\<lambda>state.
     bindI (liftR (result_from_task k (Some state) (fst facts) (snd facts) stop_code)) (\<lambda>res.
       forI es (\<lambda>e.
         let e' = e\<lparr>ev_payload := merge_dict (ev_payload e)
               [(''result'', JObj (result_to_dict res)), (''task_updated_at'', JStr (sx_iso sx (tk_updated k))),
                (''result_generation'', JInt (ts_code_generation state)), (''result_subject_hash'', JStr (ts_subject_hash state)),
                (''task_id'', JStr (tk_id k))]\<rparr>
         in thenI (append_event sx t e') (emit e')))))))"

definition promote_followups :: "'x services \<Rightarrow> task_record \<Rightarrow> ('x, agent_event option) io" where
  "promote_followups sx task =
     bindI (persistI ''could not promote task follow-ups'' (rp_promote (sx_repo sx) (tk_id task))) (\<lambda>promoted.
     if promoted = [] then returnI None
     else
       thenI (updateI (\<lambda>r. r\<lparr>rs_guard := reset_guard (rs_guard r)\<rparr>))
      (bindI (recordI sx TASK_FOLLOWUPS_PROMOTED [(''task_id'', JStr (tk_id task)),
          (''ids'', JArr (map (\<lambda>(i, m). JStr i) promoted)), (''count'', JInt (int (length promoted)))])
        (\<lambda>e. returnI (Some e))))"

definition fail_review :: "'x services \<Rightarrow> task_record \<Rightarrow> string list \<Rightarrow> ('x, bool \<times> agent_event list) io" where
  "fail_review sx task missing =
     bindI (transition_task sx (tk_id task) T_FAILED (Some (''parent_review_delivery_unmet: '' @ take 900 (join_with ''; '' missing)))) (\<lambda>failed.
     thenI (modifyI (\<lambda>s. s\<lparr>eg_collected := []\<rparr>))
    (thenI (persist_completion_events sx failed (''unverified'', take 32 missing) (Some ''parent_review_delivery_unmet'') collectI)
    (bindI (getI eg_collected) (\<lambda>es.
     thenI (updateI (\<lambda>r. r\<lparr>rs_stop := True\<rparr>)) (returnI (True, es))))))"

definition record_review :: "'x services \<Rightarrow> 'x review_host \<Rightarrow> task_record \<Rightarrow> jdict \<Rightarrow> ('x, unit) io" where
  "record_review sx h task changes =
     bindI (runI rs_review) (\<lambda>v. bindI (callI (rh_record h task v changes)) (\<lambda>v'. updateI (\<lambda>r. r\<lparr>rs_review := Some v'\<rparr>)))"

definition error_json :: "string \<times> string \<Rightarrow> json" where
  "error_json e = JObj [(''path'', JStr (fst e)), (''message'', JStr (snd e))]"

text \<open>The reviewing phases: the answer is evaluated, recorded, and then repaired, compared, delivered or failed.\<close>

definition judge_review :: "'x services \<Rightarrow> 'x review_host \<Rightarrow> task_record \<Rightarrow> string \<Rightarrow> ('x, bool \<times> agent_event list) io" where
  "judge_review sx h task phase =
     bindI (runI rs_review) (\<lambda>v. bindI (turnI (\<lambda>n. concat (tn_text_parts n))) (\<lambda>answer. bindI (runI rs_budget) (\<lambda>b.
     bindI (liftR (rh_evaluate h answer v (phase = ''comparison''))) (\<lambda>(parsed, errors, effective).
     let has_budget = tb_model_turns b < el_max_agent_rounds (tb_limits b);
         attempt = JObj ([(''task_id'', JStr (tk_id task)), (''phase'', JStr phase), (''raw_output'', JStr answer),
            (''errors'', JArr (map error_json errors))]
            @ opt_field ''effective_output'' (some_if (effective \<noteq> answer) (JStr effective)));
         cleared = [(''repair'', JArr []), (''repair_response'', JStr []), (''repair_phase'', JNull)]
     in
     if errors = [] \<and> phase = ''independent'' \<and> has_budget
     then thenI (record_review sx h task ([(''phase'', JStr ''comparison''), (''initial'', JStr (dumps (sx_float sx) spaced_text parsed))]
                   @ cleared @ [(''attempt'', attempt)]))
           (returnI (True, []))
     else if errors = [] \<and> phase = ''comparison''
     then bindI (liftR (rh_render h parsed)) (\<lambda>rendered.
          thenI (record_review sx h task ([(''phase'', JStr ''delivered''), (''final'', JStr (dumps (sx_float sx) spaced_text parsed)),
                   (''rendered'', JStr rendered), (''attempt'', attempt)] @ cleared))
         (bindI (runI rs_review) (\<lambda>v'.
          if review_phase v' \<noteq> Some ''delivered'' then returnI (True, [])
          else bindI (message_added sx (plain_message ''assistant'' rendered)) (\<lambda>e. bindI (runI rs_thread) (\<lambda>t.
               thenI (append_event sx t e) (returnI (False, [e])))))))
     else
       bindI (if errors \<noteq> [] \<and> has_budget
              then bindI (liftR (field_of ''repair_used'' (review_data v))) (\<lambda>used. returnI (\<not> json_true used))
              else returnI False) (\<lambda>retry.
       thenI (record_review sx h task ([(''attempt'', attempt), (''last_errors'', JArr (map error_json errors))]
               @ (if retry then [(''repair_used'', JBool True), (''repair'', JArr (map error_json errors)),
                    (''repair_response'', JStr effective), (''repair_phase'', JStr phase)] else [])))
      (if retry then returnI (True, [])
       else fail_review sx task (if errors = [] then [''parent source review comparison delivery'']
              else map (\<lambda>(path, message). path @ '': '' @ message) errors)))))))"

definition finish_parent_review :: "'x services \<Rightarrow> task_record \<Rightarrow> bool \<Rightarrow> ('x, bool \<times> agent_event list) io" where
  "finish_parent_review sx task allow_retry =
     bindI (runI rs_review) (\<lambda>v.
     if \<not> review_active v then returnI (False, [])
     else
       thenI (raise_if_cancelled sx)
      (if review_source_errors v \<noteq> [] then fail_review sx task (review_source_errors v)
       else if review_phase v = Some ''delivered'' then returnI (False, [])
       else case (if review_phase v \<in> {Some ''independent'', Some ''comparison''} \<and> allow_retry then sx_review sx else None) of
           Some h \<Rightarrow> bindI (liftR (phase_text v)) (judge_review sx h task)
         | None \<Rightarrow> bindI (liftR (phase_text v)) (\<lambda>p. fail_review sx task [''parent source review '' @ p @ '' delivery''])))"

section \<open>The end of a turn\<close>

definition lease_converged :: "agent_event list \<Rightarrow> bool" where
  "lease_converged es = list_ex (\<lambda>e. ev_kind e = TASK_BUDGET_WARNING
     \<and> dget (ev_payload e) ''category'' = Some (JStr ''lease'') \<and> dget (ev_payload e) ''phase'' = Some (JStr ''converge'')) es"

text \<open>
  At most \<open>n\<close> suggested verifications: \<open>None\<close> if the function returned, \<open>Some again\<close> if the loop ended.
\<close>

primrec auto_verify :: "'x services \<Rightarrow> task_record \<Rightarrow> nat \<Rightarrow> bool \<Rightarrow> ('x, bool option) io" where
  "auto_verify sx task 0 again = returnI (Some again)"
| "auto_verify sx task (Suc n) again =
     bindI (run_suggested_verification sx task) (\<lambda>automatic. case automatic of
         None \<Rightarrow> returnI (Some again)
       | Some (b, es) \<Rightarrow>
           thenI (updateI (\<lambda>r. r\<lparr>rs_budget := b\<rparr>))
          (thenI (forI es yieldI)
          (if stops_after es then thenI (updateI (\<lambda>r. r\<lparr>rs_stop := True\<rparr>)) (returnI None)
           else bindI (promote_followups sx task) (\<lambda>followups. case followups of
               Some e \<Rightarrow> thenI (yieldI e) (returnI None)
             | None \<Rightarrow> if lease_converged es \<or> verification_failed es then returnI (Some True)
                 else auto_verify sx task n True))))"

definition finish_task_without_calls :: "'x services \<Rightarrow> task_record \<Rightarrow> bool \<Rightarrow> ('x, unit) io" where
  "finish_task_without_calls sx task allow_retry =
     bindI (runI rs_supervisor) (\<lambda>watch.
     thenI (case watch of None \<Rightarrow> returnI () | Some s \<Rightarrow> save_seconds sx task s)
    (bindI (promote_followups sx task) (\<lambda>followups. case followups of
       Some e \<Rightarrow> yieldI e
     | None \<Rightarrow>
         bindI (runI rs_review) (\<lambda>v.
         thenI (if v = None then prepare_parent_review sx else returnI ())
        (bindI (finish_parent_review sx task allow_retry) (\<lambda>(handled, es).
         thenI (forI es yieldI)
        (if handled then returnI ()
         else
           bindI (runI rs_review) (\<lambda>v. let reviewing = review_active v in
           bindI (auto_verify sx task (if reviewing then 0 else 3) False) (\<lambda>ended. case ended of
               None \<Rightarrow> returnI ()
             | Some again \<Rightarrow>
                 bindI (resolve_task_completion sx task) (\<lambda>(k, verification, remaining).
                 if again \<and> tk_status k = T_RUNNING then returnI ()
                 else
                   thenI (persist_completion_events sx k (if reviewing then ''unverified'' else verification, remaining) None yieldI)
                         (updateI (\<lambda>r. r\<lparr>rs_stop := True\<rparr>))))))))))))"

definition finish_source_failure :: "'x services \<Rightarrow> task_result \<Rightarrow> ('x, unit) io" where
  "finish_source_failure sx res =
     bindI (liftR (mk_result res)) (\<lambda>res. bindI (runI rs_thread) (\<lambda>t.
     thenI (emitI sx TASK_RESULT [(''thread_id'', JStr t), (''result'', JObj (result_to_dict res))])
           (updateI (\<lambda>r. r\<lparr>rs_stop := True\<rparr>))))"

definition finish_plain :: "'x services \<Rightarrow> ('x, unit) io" where
  "finish_plain sx =
     bindI (runI rs_task) (\<lambda>task. case task of
         Some k \<Rightarrow> finish_task_without_calls sx k True
       | None \<Rightarrow> bindI (runI completed_payload) (\<lambda>p.
           thenI (emitI sx COMPLETED p) (updateI (\<lambda>r. r\<lparr>rs_stop := True\<rparr>))))"

definition finish_without_calls :: "'x services \<Rightarrow> ('x, unit) io" where
  "finish_without_calls sx =
     bindI (runI rs_source) (\<lambda>source. bindI (runI rs_thread) (\<lambda>t.
     case (case source of None \<Rightarrow> None | Some s \<Rightarrow> if ss_required s = [] then None else sx_source_snapshot sx) of
       None \<Rightarrow> finish_plain sx
     | Some read \<Rightarrow>
         thenI (raise_if_cancelled sx)
        (bindI (callI (read t None)) (\<lambda>s.
         thenI (raise_if_cancelled sx)
        (thenI (updateI (\<lambda>r. r\<lparr>rs_source := Some s\<rparr>))
        (bindI (runI rs_budget) (\<lambda>b. bindI (turnI (\<lambda>n. concat (tn_text_parts n))) (\<lambda>answer.
         if source_remaining s \<noteq> []
         then
           (case ss_budget_exhausted s of
              Some why \<Rightarrow> raiseI EngineLimitError why
            | None \<Rightarrow>
                if el_max_agent_rounds (tb_limits b) \<le> tb_model_turns b then raiseI EngineLimitError ''model turn budget exceeded''
                else if el_max_tool_calls (tb_limits b) \<le> tb_tool_calls b then raiseI EngineLimitError ''tool call budget exceeded''
                else if el_max_total_tokens (tb_limits b) \<le> tb_input_tokens b + tb_output_tokens b
                then raiseI EngineLimitError ''token budget exceeded''
                else if \<not> source_stalled s
                then bindI (callI (sx_source_correct sx t s)) (\<lambda>notices. forI notices (\<lambda>m.
                       thenI (updateI (\<lambda>r. r\<lparr>rs_messages := rs_messages r @ [m]\<rparr>))
                      (bindI (message_added sx m) (\<lambda>e. thenI (append_event sx t e) (yieldI e)))))
                else finish_source_failure sx (default_result\<lparr>tr_execution := ''failed'', tr_remaining := source_remaining s,
                       tr_stop_code := Some ''source_requirements_unmet'', tr_stop_reason := Some ''Required full source reads are missing.''\<rparr>))
         else if blank answer
         then finish_source_failure sx (default_result\<lparr>tr_execution := ''failed'', tr_stop_code := Some ''empty_summary'',
                tr_stop_reason := Some ''Source task has no final answer.''\<rparr>)
         else finish_plain sx))))))))"

section \<open>One model turn\<close>

definition lease_warning :: "'x services \<Rightarrow> budget_reservation \<Rightarrow> string \<Rightarrow> ('x, agent_event) io" where
  "lease_warning sx res phase =
     bindI (runI rs_task) (\<lambda>task.
       recordI sx TASK_BUDGET_WARNING [(''task_id'', opt_json (map_option tk_id task)), (''category'', JStr ''lease''),
         (''phase'', JStr phase), (''tier'', JStr (tier_value (tb_tier (br_budget res)))),
         (''renewals'', JInt (tb_renewals (br_budget res))),
         (''reason'', JStr (case br_reason res of None \<Rightarrow> ''soft lease boundary reached'' | Some [] \<Rightarrow> ''soft lease boundary reached''
            | Some x \<Rightarrow> x))])"

definition before_turn :: "'x services \<Rightarrow> int \<Rightarrow> ('x, unit) io" where
  "before_turn sx number =
     bindI (runI rs_task) (\<lambda>task. bindI (runI rs_supervisor) (\<lambda>watch.
     case (task, watch) of
       (Some k, Some s) \<Rightarrow>
         bindI (callI (sx_now sx)) (\<lambda>now. case before_model_turn now s of (kind, why) \<Rightarrow>
           if kind = PAUSE
           then
             let reason = (case why of None \<Rightarrow> ''task paused'' | Some [] \<Rightarrow> ''task paused'' | Some r \<Rightarrow> r) in
             thenI (pause_task sx k reason)
            (bindI (review_pause_result sx reason) (\<lambda>res.
             thenI (emitI sx TASK_PAUSED (paused_payload k reason @ opt_field ''result'' (map_option JObj res)))
                   (updateI (\<lambda>r. r\<lparr>rs_stop := True\<rparr>))))
           else
             thenI (save_seconds sx k s)
            (thenI (persistI ''could not consume task controls'' (rp_controls (sx_repo sx) (tk_id k)))
            (if number \<le> 1 then returnI ()
             else bindI (promote_followups sx k) (\<lambda>e. case e of None \<Rightarrow> returnI () | Some e \<Rightarrow> yieldI e))))
     | _ \<Rightarrow> returnI ()))"

definition reserve_tool_calls :: "'x services \<Rightarrow> bool \<Rightarrow> ('x, budget_reservation) io" where
  "reserve_tool_calls sx allow_at_model_limit =
     bindI (runI rs_budget) (\<lambda>b. bindI (turnI tn_calls) (\<lambda>calls. bindI (runI rs_thread) (\<lambda>t.
     if el_max_agent_rounds (tb_limits b) \<le> tb_model_turns b \<and> \<not> allow_at_model_limit
     then raiseI EngineLimitError ''model turn budget exceeded''
     else if el_max_tool_calls_per_round (tb_limits b) < int (length calls)
     then raiseI EngineLimitError ''tool call per-round budget exceeded''
     else
       bindI (task_progress_snapshot sx b) (\<lambda>progress.
       bindI (reserve_task_budget sx t 0 (int (length calls)) progress) (\<lambda>res.
       if br_status res = HARD_EXHAUSTED then raiseI EngineLimitError ''tool call budget exceeded''
       else
         thenI (whenI (accepted res) (updateI (\<lambda>r. r\<lparr>rs_budget := br_budget res\<rparr>)))
        (bindI (runI rs_used_ids) (\<lambda>used.
         if \<not> distinct (map tl_id calls) \<or> list_ex (\<lambda>c. tl_id c \<in> set used) calls
         then raiseI ModelStreamError ''model reused a tool call id'' else returnI res)))))))"

definition advertise :: "'x services \<Rightarrow> ('x, tool_definition list \<times> string list) io" where
  "advertise sx =
     bindI (catchI (callI (sx_tools sx)) (\<lambda>e. if exn_kind e = ModelStreamError then failI e
        else raiseI ModelStreamError ''action dispatcher exposed invalid tools'')) (\<lambda>tools.
     bindI (runI (\<lambda>r. (rs_allowed r, rs_disclosed r, map_option (\<lambda>k. intent_value (tc_intent (tk_contract k))) (rs_task r))))
       (\<lambda>(allowed, disclosed, intent).
     bindI (liftR (advertised_tools (sx_sha sx) (sx_float sx) (sx_ellipsis sx) tools allowed disclosed (sx_strategy sx) intent))
       (\<lambda>(shown, names).
     thenI (modifyI (\<lambda>s. s\<lparr>eg_advertised := names\<rparr>))
    (bindI (tool_aliases sx shown) (\<lambda>aliases. returnI (shown, names @ aliases))))))"

text \<open>After the stream: identifiers are checked, the answer stored, and the calls of the turn carried out.\<close>

definition check_call_ids :: "'x services \<Rightarrow> ('x, unit) io" where
  "check_call_ids sx =
     bindI (turnI tn_calls) (\<lambda>calls. bindI (runI rs_used_ids) (\<lambda>used. bindI (runI rs_thread) (\<lambda>t.
     bindI (if \<not> distinct (map tl_id calls) \<or> list_ex (\<lambda>c. tl_id c \<in> set used) calls then returnI True
            else anyI calls (\<lambda>c. has_tool_call_id sx t (tl_id c))) (\<lambda>reused.
     if reused then raiseI ModelStreamError ''model reused a tool call id'' else returnI ()))))"

definition store_answer :: "'x services \<Rightarrow> ('x, unit) io" where
  "store_answer sx =
     bindI (runI (\<lambda>r. review_active (rs_review r))) (\<lambda>isolated. bindI (turnI (\<lambda>n. (tn_text_parts n, tn_calls n))) (\<lambda>(parts, calls).
     bindI (if isolated \<and> calls = [] then returnI (plain_message ''assistant'' (concat parts), None)
            else bindI (persist_assistant sx (if isolated then [] else parts) calls) (\<lambda>(m, e). returnI (m, Some e))) (\<lambda>(m, added).
     thenI (updateI (\<lambda>r. r\<lparr>rs_messages := rs_messages r @ [m],
              rs_visible_answer := rs_visible_answer r \<or> (calls = [] \<and> \<not> blank (ms_content m))\<rparr>))
           (case (if isolated then None else added) of None \<Rightarrow> returnI () | Some e \<Rightarrow> yieldI e))))"

definition flush_unless_stopped :: "'x services \<Rightarrow> ('x, unit) io" where
  "flush_unless_stopped sx = bindI (runI rs_stop) (\<lambda>stop. if stop then returnI () else flush_notices sx)"

definition run_tools :: "'x services \<Rightarrow> bool \<Rightarrow> ('x, unit) io" where
  "run_tools sx final_modify =
     bindI (reserve_tool_calls sx final_modify) (\<lambda>res. bindI (runI rs_task) (\<lambda>task.
     if br_status res = LEASE_EXHAUSTED
     then bindI (lease_warning sx res ''converge'') (\<lambda>warning.
          thenI (yieldI warning)
         (thenI (close_lease_calls sx)
         (case task of Some k \<Rightarrow> finish_task_without_calls sx k False
          | None \<Rightarrow> raiseI EngineLimitError ''tool call soft lease exhausted'')))
     else
       thenI (if br_status res = RENEWED
              then bindI (lease_warning sx res ''renewed'') (\<lambda>warning.
                   thenI (queue_notice ''Runtime control: the trusted-progress lease was renewed. Use the additional tools to converge on the result.'')
                         (yieldI warning))
              else returnI ())
      (thenI (dispatch_tool_calls sx)
      (thenI (flush_notices sx)
      (case (if final_modify then task else None) of
         Some k \<Rightarrow> finish_task_without_calls sx k True
       | None \<Rightarrow> observe_convergence sx)))))"

definition conclude_turn :: "'x services \<Rightarrow> bool \<Rightarrow> ('x, unit) io" where
  "conclude_turn sx final_modify =
     bindI (turnI (\<lambda>n. (tn_calls n, tn_summary_only n, concat (tn_text_parts n)))) (\<lambda>(calls, summary_only, answer).
     if calls = []
     then thenI (if summary_only \<and> blank answer then report_empty_summary sx else returnI ())
         (thenI (finish_without_calls sx) (flush_unless_stopped sx))
     else if summary_only then thenI (reject_summary_calls sx) (flush_unless_stopped sx)
     else run_tools sx final_modify)"

text \<open>The turn once its model budget is granted.\<close>

definition model_turn :: "'x services \<Rightarrow> int \<Rightarrow> ('x, unit) io" where
  "model_turn sx number =
     bindI (advertise sx) (\<lambda>(tools, names).
     bindI (runI (\<lambda>r. (rs_budget r, rs_task r, rs_summary_required r))) (\<lambda>(b, task, forced).
     let last_turn = (tb_model_turns b = el_max_agent_rounds (tb_limits b));
         modifying = last_turn \<and> (case task of None \<Rightarrow> False | Some k \<Rightarrow> tc_intent (tk_contract k) = MODIFY);
         summary_only = forced \<or> (last_turn \<and> \<not> modifying);
         final_modify = modifying \<and> \<not> forced
     in
     thenI (whenI forced (updateI (\<lambda>r. r\<lparr>rs_summary_required := False\<rparr>)))
    (thenI (if summary_only
            then thenI (queue_notice ''Runtime control: this is the final available model turn. Provide the answer now; no tools are available.'')
                   (flush_notices sx)
            else returnI ())
    (bindI (runI (\<lambda>r. review_active (rs_review r))) (\<lambda>reviewing.
     let none = summary_only \<or> reviewing in
     thenI (modifyI (\<lambda>s. s\<lparr>eg_turn := new_turn number (if none then [] else tools) (if none then [] else names) none forced\<rparr>))
    (bindI (start_turn sx) (\<lambda>bundle.
     thenI (stream_model_events sx bundle)
    (thenI (check_call_ids sx)
    (thenI (store_answer sx)
           (conclude_turn sx final_modify))))))))))"

definition run_turn :: "'x services \<Rightarrow> int \<Rightarrow> ('x, unit) io" where
  "run_turn sx number =
     thenI (before_turn sx number)
    (bindI (runI rs_stop) (\<lambda>stop. if stop then returnI ()
     else
       thenI (prepare_parent_review sx)
      (bindI (runI (\<lambda>r. (rs_review r, rs_task r))) (\<lambda>(v, task).
       case (if review_active v then get_or ''budget_exhausted'' JNull (review_data v) else JNull) of
         exhausted \<Rightarrow>
       if json_true exhausted then raiseI EngineLimitError (str_of (sx_str sx) exhausted)
       else
       case (if review_active v \<and> (review_source_errors v \<noteq> [] \<or> review_phase v = Some ''delivered'') then task else None) of
         Some k \<Rightarrow> thenI (modifyI (\<lambda>s. s\<lparr>eg_turn := new_turn number [] [] False False\<rparr>)) (finish_task_without_calls sx k False)
       | None \<Rightarrow>
       bindI (runI rs_budget) (\<lambda>b. bindI (task_progress_snapshot sx b) (\<lambda>progress. bindI (runI rs_thread) (\<lambda>t.
       bindI (reserve_task_budget sx t 1 0 progress) (\<lambda>res.
       if br_status res = HARD_EXHAUSTED then raiseI EngineLimitError ''model turn budget exceeded''
       else if br_status res = LEASE_EXHAUSTED
       then bindI (lease_warning sx res ''converge'') (\<lambda>warning.
            thenI (yieldI warning)
           (case task of None \<Rightarrow> raiseI EngineLimitError ''model turn soft lease exhausted''
            | Some k \<Rightarrow> thenI (modifyI (\<lambda>s. s\<lparr>eg_turn := new_turn number [] [] True False\<rparr>)) (finish_task_without_calls sx k False)))
       else
         thenI (updateI (\<lambda>r. r\<lparr>rs_budget := br_budget res\<rparr>))
        (thenI (if br_status res = RENEWED
                then bindI (lease_warning sx res ''renewed'') (\<lambda>warning.
                     thenI (queue_notice ''Runtime control: the trusted-progress lease was renewed. Continue toward completion within the renewed boundary.'')
                    (thenI (yieldI warning) (flush_notices sx)))
                else returnI ())
               (model_turn sx number))))))))))"

section \<open>Runs\<close>

text \<open>\<open>select_budget_lease\<close>; the pattern for a deep request, which reads Chinese as well, is a parameter.\<close>

definition select_budget_lease :: "(string \<Rightarrow> bool) \<Rightarrow> task_contract \<Rightarrow> lease_tier" where
  "select_budget_lease deep c =
     (if deep (tc_objective c) then DEEP
      else if (case tc_runtime c of [] \<Rightarrow> None | topology # _ \<Rightarrow> topology) = Some ''team'' then STANDARD
      else if tc_intent c = ANALYZE then QUICK else STANDARD)"

definition check_arguments :: "string \<Rightarrow> string option \<Rightarrow> attachment list \<Rightarrow> attachment list result" where
  "check_arguments user_input thread attachments =
     bindR (freeze_attachments attachments) (\<lambda>checked.
     if blank user_input \<and> checked = [] then raiseR ValueError ''user_input and attachments must not both be blank''
     else if (case thread of None \<Rightarrow> False | Some t \<Rightarrow> blank t)
     then raiseR ValueError ''thread_id must be a non-blank string or None''
     else Inr checked)"

definition start_run :: "'x services \<Rightarrow> string option \<Rightarrow> task_record option \<Rightarrow> ('x, agent_event) io" where
  "start_run sx thread task =
     bindI (case thread of Some (c # cs) \<Rightarrow> returnI (c # cs)
            | _ \<Rightarrow> persistI ''could not create session'' (rp_create_thread (sx_repo sx))) (\<lambda>t.
     if (case task of None \<Rightarrow> False | Some k \<Rightarrow> tk_thread k \<noteq> t) then raiseI ValueError ''task must belong to the active thread''
     else
       bindI (has_pending_actions sx t) (\<lambda>pending.
       if pending
       then raiseI PendingActionError ''durable action outcome is unresolved; reconcile the recorded action before continuing''
       else
         bindI (load_context_messages sx t) (\<lambda>_.
         bindI (persistI ''could not load task budget'' (rp_get_or_create (sx_repo sx) t (sx_model_name sx) (sx_limits sx)
             (map_option (\<lambda>k. select_budget_lease (sx_deep_objective sx) (tk_contract k)) task))) (\<lambda>b.
         bindI (case task of None \<Rightarrow> returnI None
                | Some k \<Rightarrow> bindI (callI (sx_now sx)) (\<lambda>now. returnI (Some (new_supervisor (tk_contract k) (Some b) now)))) (\<lambda>watch.
         thenI (updateI (\<lambda>_. new_run t task b watch))
        (bindI (host_progress_facts sx b) (\<lambda>(snap, facts).
         thenI (updateI (\<lambda>r. r\<lparr>rs_progress_digest := snapshot_digest (sx_digest sx) snap,
                  rs_candidate_digest := pf_candidate_digest facts\<rparr>))
               (recordI sx RUN_STARTED [(''thread_id'', JStr t)]))))))))"

definition prepare_request :: "'x services \<Rightarrow> string \<Rightarrow> attachment list \<Rightarrow> ('x, agent_event \<times> chat_message) io" where
  "prepare_request sx user_input attachments =
     thenI (raise_if_cancelled sx)
    (bindI (runI rs_thread) (\<lambda>t.
     bindI (has_pending_actions sx t) (\<lambda>pending.
     if pending
     then raiseI PendingActionError ''durable action outcome is unresolved; reconcile the recorded action before continuing''
     else
       bindI (load_context_messages sx t) (\<lambda>prior.
       thenI (updateI (\<lambda>r. r\<lparr>rs_prior := prior\<rparr>))
      (bindI (runI rs_task) (\<lambda>task.
       thenI (case (task, sx_verifier sx) of
                (Some k, Some v) \<Rightarrow> bindI (load_task_state sx t) (\<lambda>state. bindI (callI (vf_prepare v k state)) (save_task_state sx t))
              | _ \<Rightarrow> returnI ())
      (bindI (liftR (mk_message \<lparr>ms_role = ''user'', ms_content = user_input, ms_name = None, ms_tool_calls = [],
          ms_tool_call_id = None, ms_attachments = attachments\<rparr>)) (\<lambda>m.
       thenI (append_message sx t m)
      (bindI (runI rs_budget) (\<lambda>b. bindI (host_progress_facts sx b) (\<lambda>(snap, facts).
       thenI (updateI (\<lambda>r. r\<lparr>rs_progress_digest := snapshot_digest (sx_digest sx) snap,
                rs_candidate_digest := pf_candidate_digest facts\<rparr>))
      (bindI (message_added sx m) (\<lambda>added.
       thenI (append_event sx t added) (returnI (added, m)))))))))))))))"

text \<open>The loop over the turns; it raises when the last turn has not ended the run.\<close>

primrec run_turns :: "'x services \<Rightarrow> int \<Rightarrow> nat \<Rightarrow> ('x, unit) io" where
  "run_turns sx number 0 = raiseI EngineLimitError ''model turn budget exceeded''"
| "run_turns sx number (Suc n) =
     thenI (run_turn sx number) (bindI (runI rs_stop) (\<lambda>stop. if stop then returnI () else run_turns sx (number + 1) n))"

definition run_loop :: "'x services \<Rightarrow> ('x, unit) io" where
  "run_loop sx = bindI (runI (\<lambda>r. nat (el_max_agent_rounds (tb_limits (rs_budget r))))) (run_turns sx 1)"

definition handle_failure :: "'x services \<Rightarrow> exn \<Rightarrow> ('x, unit) io" where
  "handle_failure sx e =
     bindI (runI rs_task) (\<lambda>task. case (if exn_kind e = EngineLimitError then task else None) of
         Some k \<Rightarrow>
           bindI (transition_task sx (tk_id k) T_PAUSED (Some (exn_text e))) (\<lambda>_.
           bindI (review_pause_result sx (exn_text e)) (\<lambda>res.
             emitI sx TASK_PAUSED (paused_payload k (exn_text e) @ opt_field ''result'' (map_option JObj res))))
       | None \<Rightarrow> emitI sx ERROR [(''code'', JStr (case error_code (exn_kind e) of None \<Rightarrow> [] | Some c \<Rightarrow> c)),
           (''error_type'', JStr (class_name (exn_kind e)))])"

definition on_run_error :: "'x services \<Rightarrow> exn \<Rightarrow> ('x, unit) io" where
  "on_run_error sx e =
     (if exn_kind e = CancellationError then emitI sx CANCELLED [(''reason'', JStr (exn_text e))]
      else if error_code (exn_kind e) = None then failI e
      else
        thenI (handle_failure sx e)
       (bindI (runI rs_task) (\<lambda>task. if exn_kind e = EngineLimitError \<and> task \<noteq> None then returnI () else failI e)))"

definition engine_run :: "'x services \<Rightarrow> string \<Rightarrow> string option \<Rightarrow> task_record option \<Rightarrow> attachment list \<Rightarrow> string list option
    \<Rightarrow> ('x, unit) io" where
  "engine_run sx user_input thread task attachments required =
     bindI (liftR (check_arguments user_input thread attachments)) (\<lambda>checked.
     bindI (start_run sx thread task) (\<lambda>started.
     bindI (case required of None \<Rightarrow> returnI None | Some ps \<Rightarrow> bindI (liftR (freeze_sources ps)) (\<lambda>ps. returnI (Some ps))) (\<lambda>supplied.
     thenI (case sx_source_snapshot sx of
              None \<Rightarrow> if supplied \<noteq> None \<and> supplied \<noteq> Some []
                      then raiseI ValueError ''required sources need a Host completion adapter'' else returnI ()
            | Some read \<Rightarrow> bindI (runI rs_thread) (\<lambda>t. bindI (callI (read t supplied)) (\<lambda>s. updateI (\<lambda>r. r\<lparr>rs_source := Some s\<rparr>))))
    (thenI (yieldI started)
    (catchI
      (bindI (prepare_request sx user_input checked) (\<lambda>(added, m).
       thenI (yieldI added)
      (thenI (updateI (\<lambda>r. r\<lparr>rs_messages := rs_prior r @ [m]\<rparr>)) (run_loop sx))))
      (on_run_error sx))))))"

definition on_peer_error :: "'x services \<Rightarrow> exn \<Rightarrow> ('x, unit) io" where
  "on_peer_error sx e =
     (if exn_kind e = CancellationError then emitI sx CANCELLED [(''reason'', JStr (exn_text e))]
      else case error_code (exn_kind e) of
          None \<Rightarrow> failI e
        | Some code \<Rightarrow> thenI (emitI sx ERROR [(''code'', JStr code), (''error_type'', JStr (class_name (exn_kind e)))]) (failI e))"

definition engine_run_peer :: "'x services \<Rightarrow> string option \<Rightarrow> ('x, unit) io" where
  "engine_run_peer sx thread =
     bindI (start_run sx thread None) (\<lambda>started.
     thenI (updateI (\<lambda>r. r\<lparr>rs_allowed := Some (sx_peer_tools sx)\<rparr>))
    (thenI (yieldI started)
    (catchI
      (bindI (runI rs_thread) (\<lambda>t. bindI (load_context_messages sx t) (\<lambda>prior.
       thenI (updateI (\<lambda>r. r\<lparr>rs_prior := prior, rs_messages := prior\<rparr>)) (run_loop sx))))
      (on_peer_error sx))))"

end
