(* ===== verification/Engine_Log.thy ===== *)
theory Engine_Log
  imports Engine_Base
begin

text \<open>
  What a run of the engine must keep to, as a judgement on effects: an event is stored before it is handed
  to the consumer, and every model request and tool call is paid for by a grant of the durable budget. One
  rule for each combinator and for each journal operation; the judgement holds its frame, so that a rule
  mentions only the events and the budget it is about.
\<close>

section \<open>Reading the log\<close>

primrec durable :: "agent_event list \<Rightarrow> entry list \<Rightarrow> bool" where
  "durable seen [] = True"
| "durable seen (x # xs) = (case x of
      Journaled e \<Rightarrow> durable (e # seen) xs
    | Yielded e \<Rightarrow> e \<in> set seen \<and> durable seen xs
    | _ \<Rightarrow> durable seen xs)"

fun turns_of :: "entry \<Rightarrow> int" where
  "turns_of (Granted turns tools) = turns"
| "turns_of (Requested tools) = - 1"
| "turns_of _ = 0"

fun tools_of :: "entry \<Rightarrow> int" where
  "tools_of (Granted turns tools) = tools"
| "tools_of (Dispatched q) = - 1"
| "tools_of _ = 0"

text \<open>Model requests and tool calls never run ahead of what the budget has granted.\<close>

primrec funded :: "int \<Rightarrow> int \<Rightarrow> entry list \<Rightarrow> bool" where
  "funded turns tools [] = (0 \<le> turns \<and> 0 \<le> tools)"
| "funded turns tools (x # xs) = (0 \<le> turns \<and> 0 \<le> tools \<and> funded (turns + turns_of x) (tools + tools_of x) xs)"

definition turns_left :: "entry list \<Rightarrow> int" where
  "turns_left xs = sum_list (map turns_of xs)"

definition tools_left :: "entry list \<Rightarrow> int" where
  "tools_left xs = sum_list (map tools_of xs)"

definition requests :: "entry list \<Rightarrow> nat" where
  "requests xs = length (filter (\<lambda>x. case x of Requested _ \<Rightarrow> True | _ \<Rightarrow> False) xs)"

lemma left_snoc [simp]:
  "turns_left (xs @ [x]) = turns_left xs + turns_of x" "tools_left (xs @ [x]) = tools_left xs + tools_of x"
  "turns_left [] = 0" "tools_left [] = 0" "requests [] = 0"
  by (simp_all add: turns_left_def tools_left_def requests_def)

lemma durable_snoc: "durable seen (xs @ [x]) = (durable seen xs \<and> (case x of Yielded e \<Rightarrow> e \<in> set seen \<or> Journaled e \<in> set xs | _ \<Rightarrow> True))"
  by (induction xs arbitrary: seen) (auto split: entry.splits)

lemma funded_snoc: "funded t c (xs @ [x]) =
    (funded t c xs \<and> 0 \<le> t + turns_left xs + turns_of x \<and> 0 \<le> c + tools_left xs + tools_of x)"
  by (induction xs arbitrary: t c) (auto simp: turns_left_def tools_left_def algebra_simps)

lemma durable_prefix: "durable seen (xs @ ys) \<Longrightarrow> durable seen xs"
  by (induction xs arbitrary: seen) (auto split: entry.splits)

lemma durable_order: "durable seen (xs @ Yielded e # ys) \<Longrightarrow> e \<in> set seen \<or> Journaled e \<in> set xs"
proof (induction xs arbitrary: seen)
  case (Cons x xs)
  show ?case using Cons.prems by (cases x) (auto dest: Cons.IH)
qed simp

section \<open>The judgement\<close>

text \<open>
  The events \<open>E\<close> and those collected are stored, \<open>t\<close> turns and \<open>c\<close> tool calls are paid for and unspent, and
  with \<open>q\<close> more there are at most \<open>N\<close> model requests.
\<close>

definition holds :: "agent_event set \<Rightarrow> nat \<Rightarrow> nat \<Rightarrow> nat \<Rightarrow> nat \<Rightarrow> 'x engine \<Rightarrow> bool" where
  "holds E t c q N s = (durable [] (eg_log s) \<and> funded 0 0 (eg_log s)
     \<and> (\<forall>e\<in>E \<union> set (eg_collected s). Journaled e \<in> set (eg_log s))
     \<and> int t \<le> turns_left (eg_log s) \<and> int c \<le> tools_left (eg_log s) \<and> requests (eg_log s) + q \<le> N)"

text \<open>
  \<open>safe D a b k m R\<close>: given the stored events \<open>D\<close>, the effect \<open>m\<close> spends at most \<open>a\<close> paid turns and \<open>b\<close> paid
  tool calls, makes at most \<open>k\<close> requests, and the events \<open>R v\<close> of its result \<open>v\<close> are stored.
\<close>

definition outcome_holds :: "('a \<Rightarrow> agent_event set) \<Rightarrow> agent_event set \<Rightarrow> nat \<Rightarrow> nat \<Rightarrow> nat \<Rightarrow> nat \<Rightarrow> 'a result \<times> 'x engine \<Rightarrow> bool" where
  "outcome_holds R E t c q N p = (case p of (Inl _, s) \<Rightarrow> holds E t c q N s | (Inr v, s) \<Rightarrow> holds (E \<union> R v) t c q N s)"

definition safe :: "agent_event set \<Rightarrow> nat \<Rightarrow> nat \<Rightarrow> nat \<Rightarrow> ('x, 'a) io \<Rightarrow> ('a \<Rightarrow> agent_event set) \<Rightarrow> bool" where
  "safe D a b k m R = (\<forall>E t c q N s. D \<subseteq> E \<longrightarrow> holds E (t + a) (c + b) (q + k) N s \<longrightarrow> outcome_holds R E t c q N (m s))"

lemma safeI:
  assumes "\<And>E t c q N s. D \<subseteq> E \<Longrightarrow> holds E (t + a) (c + b) (q + k) N s \<Longrightarrow> outcome_holds R E t c q N (m s)"
  shows "safe D a b k m R"
  using assms by (auto simp: safe_def)

lemma safeD: "safe D a b k m R \<Longrightarrow> D \<subseteq> E \<Longrightarrow> holds E (t + a) (c + b) (q + k) N s \<Longrightarrow> outcome_holds R E t c q N (m s)"
  by (auto simp: safe_def)

lemma holds_mono: "holds E t c q N s \<Longrightarrow> E' \<subseteq> E \<Longrightarrow> t' \<le> t \<Longrightarrow> c' \<le> c \<Longrightarrow> q' \<le> q \<Longrightarrow> holds E' t' c' q' N s"
  unfolding holds_def by (intro conjI; (elim conjE)?; force)

lemma safe_weaken:
  fixes m :: "('x, 'a) io"
  assumes "safe D' a' b' k' m R'" "D' \<subseteq> D" "a' \<le> a" "b' \<le> b" "k' \<le> k" "\<And>v. R v \<subseteq> D \<union> R' v"
  shows "safe D a b k m R"
proof (rule safeI)
  fix E t c q N and s :: "'x engine" assume E: "D \<subseteq> E" and h: "holds E (t + a) (c + b) (q + k) N s"
  have "holds E (t + a') (c + b') (q + k') N s" by (rule holds_mono [OF h]) (use assms(3-5) in auto)
  hence o: "outcome_holds R' E t c q N (m s)" using assms(1,2) E by (blast intro: safeD)
  have more: "holds (E \<union> R v) t c q N s'" if "holds (E \<union> R' v) t c q N s'" for v s'
    by (rule holds_mono [OF that]) (use E assms(6) [of v] in auto)
  show "outcome_holds R E t c q N (m s)"
    using o unfolding outcome_holds_def by (auto split: sum.splits intro: more)
qed

lemma safe_bind_gen:
  fixes m :: "('x, 'a) io"
  assumes m: "safe D a b k m Q" and f: "\<And>v. safe (D \<union> Q v) a' b' k' (f v) R"
  shows "safe D (a + a') (b + b') (k + k') (bindI m f) R"
proof (rule safeI)
  fix E t c q N and s :: "'x engine" assume E: "D \<subseteq> E" and h: "holds E (t + (a + a')) (c + (b + b')) (q + (k + k')) N s"
  have "holds E ((t + a') + a) ((c + b') + b) ((q + k') + k) N s" using h by (simp add: ac_simps)
  hence o: "outcome_holds Q E (t + a') (c + b') (q + k') N (m s)" by (rule safeD [OF m E])
  show "outcome_holds R E t c q N (bindI m f s)"
  proof (cases "m s")
    case (Pair r s')
    show ?thesis
    proof (cases r)
      case (Inl e)
      thus ?thesis using o Pair by (auto simp: bindI_def outcome_holds_def elim: holds_mono)
    next
      case (Inr v)
      hence "holds (E \<union> Q v) (t + a') (c + b') (q + k') N s'" using o Pair by (simp add: outcome_holds_def)
      hence "outcome_holds R (E \<union> Q v) t c q N (f v s')" using E by (intro safeD [OF f]) auto
      thus ?thesis using Inr Pair by (auto simp: bindI_def outcome_holds_def split: sum.splits elim!: holds_mono)
    qed
  qed
qed

lemma safe_then_gen: "safe D a b k m (\<lambda>_. Q) \<Longrightarrow> safe (D \<union> Q) a' b' k' n R \<Longrightarrow> safe D (a + a') (b + b') (k + k') (thenI m n) R"
  unfolding thenI_def by (rule safe_bind_gen [where Q = "\<lambda>_. Q"]) auto

named_theorems safe_intros \<open>the judgement, one rule for each construct\<close>

text \<open>Most effects spend nothing themselves.\<close>

lemma safe_bind [safe_intros]:
  "safe D 0 0 0 m Q \<Longrightarrow> (\<And>v. safe (D \<union> Q v) a b k (f v) R) \<Longrightarrow> safe D a b k (bindI m f) R"
  using safe_bind_gen [of D 0 0 0 m Q a b k f R] by simp

lemma safe_then [safe_intros]: "safe D 0 0 0 m (\<lambda>_. Q) \<Longrightarrow> safe (D \<union> Q) a b k n R \<Longrightarrow> safe D a b k (thenI m n) R"
  using safe_then_gen [of D 0 0 0 m Q a b k n R] by simp

lemma safe_bind_first: "safe D a b k m Q \<Longrightarrow> (\<And>v. safe (D \<union> Q v) 0 0 0 (f v) R) \<Longrightarrow> safe D a b k (bindI m f) R"
  using safe_bind_gen [of D a b k m Q 0 0 0 f R] by simp

lemma safe_then_first: "safe D a b k m (\<lambda>_. Q) \<Longrightarrow> safe (D \<union> Q) 0 0 0 n R \<Longrightarrow> safe D a b k (thenI m n) R"
  using safe_then_gen [of D a b k m Q 0 0 0 n R] by simp

lemma safe_return_set: "R x \<subseteq> D \<Longrightarrow> safe D a b k (returnI x) R"
  by (rule safeI) (auto simp: returnI_def outcome_holds_def elim!: holds_mono)

lemma safe_return [safe_intros]: "safe D a b k (returnI x) (\<lambda>_. {})"
  by (rule safe_return_set) simp

lemma safe_less: "safe D 0 0 0 m R \<Longrightarrow> safe D a b k m R"
  by (rule safe_weaken [where D' = D and R' = R]) auto

lemma safe_fail [safe_intros]: "safe D a b k (failI e) R" "safe D a b k (raiseI cl msg) R"
  by (rule safeI, auto simp: failI_def raiseI_def outcome_holds_def elim!: holds_mono)+

lemma safe_state:
  fixes m :: "('x, 'a) io"
  assumes "\<And>s. eg_log (snd (m s)) = eg_log s" "\<And>s. set (eg_collected (snd (m s))) \<subseteq> D \<union> set (eg_collected s)"
  shows "safe D 0 0 0 m (\<lambda>_. {})"
proof (rule safeI)
  fix E t c q N and s :: "'x engine" assume "D \<subseteq> E" "holds E (t + 0) (c + 0) (q + 0) N s"
  hence "holds E t c q N (snd (m s))" using assms(2) [of s] unfolding holds_def assms(1) by auto
  thus "outcome_holds (\<lambda>_. {}) E t c q N (m s)" by (auto simp: outcome_holds_def split: sum.splits prod.splits)
qed

lemma safe_lift [safe_intros]: "safe D 0 0 0 (liftR r) (\<lambda>_. {})"
  by (rule safe_state) (auto simp: liftR_def)

lemma safe_get [safe_intros]: "safe D 0 0 0 (getI f) (\<lambda>_. {})" "safe D 0 0 0 (runI g) (\<lambda>_. {})" "safe D 0 0 0 (turnI h) (\<lambda>_. {})"
  by (rule safe_state, auto simp: getI_def runI_def turnI_def)+

lemma safe_modify:
  assumes "\<And>s. eg_log (f s) = eg_log s" "\<And>s. set (eg_collected (f s)) \<subseteq> D \<union> set (eg_collected s)"
  shows "safe D 0 0 0 (modifyI f) (\<lambda>_. {})"
  by (rule safe_state) (use assms in \<open>auto simp: modifyI_def\<close>)

lemma safe_update [safe_intros]:
  "safe D 0 0 0 (updateI f) (\<lambda>_. {})" "safe D 0 0 0 (update_turnI g) (\<lambda>_. {})"
  "safe D 0 0 0 (modifyI (\<lambda>s. s\<lparr>eg_turn := n\<rparr>)) (\<lambda>_. {})"
  "safe D 0 0 0 (modifyI (\<lambda>s. s\<lparr>eg_blocked := b\<rparr>)) (\<lambda>_. {})"
  "safe D 0 0 0 (modifyI (\<lambda>s. s\<lparr>eg_result := r\<rparr>)) (\<lambda>_. {})"
  "safe D 0 0 0 (modifyI (\<lambda>s. s\<lparr>eg_advertised := names\<rparr>)) (\<lambda>_. {})"
  by (rule safe_state, auto simp: updateI_def update_turnI_def modifyI_def)+

lemma safe_call [safe_intros]: "safe D 0 0 0 (callI op) (\<lambda>_. {})"
  by (rule safe_state) (auto simp: callI_def split: prod.splits)

lemma safe_persist [safe_intros]: "safe D 0 0 0 (persistI msg op) (\<lambda>_. {})"
  unfolding persistI_def by (rule safe_call)

lemma safe_when [safe_intros]: "(b \<Longrightarrow> safe D 0 0 0 m (\<lambda>_. {})) \<Longrightarrow> safe D 0 0 0 (whenI b m) (\<lambda>_. {})"
  by (auto simp: whenI_def intro: safe_return)

lemma safe_catch [safe_intros]:
  fixes m :: "('x, 'a) io"
  assumes m: "safe D a b k m R" and h: "\<And>e. safe D 0 0 0 (h e) R"
  shows "safe D a b k (catchI m h) R"
proof (rule safeI)
  fix E t c q N and s :: "'x engine" assume E: "D \<subseteq> E" and p: "holds E (t + a) (c + b) (q + k) N s"
  note o = safeD [OF m E p]
  show "outcome_holds R E t c q N (catchI m h s)"
  proof (cases "m s")
    case (Pair r s')
    show ?thesis
    proof (cases r)
      case (Inl e)
      hence "holds E (t + 0) (c + 0) (q + 0) N s'" using o Pair by (simp add: outcome_holds_def)
      hence "outcome_holds R E t c q N (h e s')" by (rule safeD [OF h E])
      thus ?thesis using Inl Pair by (simp add: catchI_def)
    qed (use o Pair in \<open>simp add: catchI_def\<close>)
  qed
qed

lemma safe_finally [safe_intros]:
  fixes m :: "('x, unit) io"
  assumes m: "safe D a b k m (\<lambda>_. {})" and n: "safe D 0 0 0 n R"
  shows "safe D a b k (finallyI m n) R"
proof (rule safeI)
  fix E t c q N and s :: "'x engine" assume E: "D \<subseteq> E" and p: "holds E (t + a) (c + b) (q + k) N s"
  note o = safeD [OF m E p]
  obtain r s' where ms: "m s = (r, s')" by (cases "m s")
  hence "holds E (t + 0) (c + 0) (q + 0) N s'" using o by (auto simp: outcome_holds_def split: sum.splits)
  hence "outcome_holds R E t c q N (n s')" by (rule safeD [OF n E])
  thus "outcome_holds R E t c q N (finallyI m n s)"
    using ms by (auto simp: finallyI_def outcome_holds_def split: sum.splits prod.splits elim: holds_mono)
qed

lemma safe_for: "(\<And>x. x \<in> set xs \<Longrightarrow> safe D 0 0 0 (f x) (\<lambda>_. {})) \<Longrightarrow> safe D 0 0 0 (forI xs f) (\<lambda>_. {})"
  by (induction xs) (auto intro!: safe_intros)

lemma safe_map: "(\<And>x. safe D 0 0 0 (f x) (\<lambda>_. {})) \<Longrightarrow> safe D 0 0 0 (mapI f xs) (\<lambda>_. {})"
proof (induction xs)
  case (Cons x xs)
  show ?case unfolding mapI.simps by (intro safe_intros) (use Cons in auto)
qed (auto intro!: safe_intros)

lemma safe_any: "(\<And>x. safe D 0 0 0 (f x) (\<lambda>_. {})) \<Longrightarrow> safe D 0 0 0 (anyI xs f) (\<lambda>_. {})"
proof (induction xs)
  case (Cons x xs)
  show ?case unfolding anyI.simps by (intro safe_intros) (use Cons in auto)
qed (auto intro!: safe_intros)

lemmas safe_loops [safe_intros] = safe_for safe_map safe_any

section \<open>Case distinctions\<close>

lemma safe_if [safe_intros]:
  "(p \<Longrightarrow> safe D a b k m R) \<Longrightarrow> (\<not> p \<Longrightarrow> safe D a b k n R) \<Longrightarrow> safe D a b k (if p then m else n) R"
  by simp

lemma safe_let [safe_intros]: "safe D a b k (f x) R \<Longrightarrow> safe D a b k (Let x f) R"
  by simp

lemma safe_option [safe_intros]:
  "(x = None \<Longrightarrow> safe D a b k m R) \<Longrightarrow> (\<And>y. x = Some y \<Longrightarrow> safe D a b k (f y) R) \<Longrightarrow> safe D a b k (case x of None \<Rightarrow> m | Some y \<Rightarrow> f y) R"
  by (cases x) auto

lemma safe_prod [safe_intros]: "(\<And>x y. p = (x, y) \<Longrightarrow> safe D a b k (f x y) R) \<Longrightarrow> safe D a b k (case p of (x, y) \<Rightarrow> f x y) R"
  by (cases p) auto

lemma safe_sum [safe_intros]:
  "(\<And>y. x = Inl y \<Longrightarrow> safe D a b k (f y) R) \<Longrightarrow> (\<And>y. x = Inr y \<Longrightarrow> safe D a b k (g y) R) \<Longrightarrow> safe D a b k (case x of Inl y \<Rightarrow> f y | Inr y \<Rightarrow> g y) R"
  by (cases x) auto

lemma safe_list [safe_intros]:
  "(x = [] \<Longrightarrow> safe D a b k m R) \<Longrightarrow> (\<And>y ys. x = y # ys \<Longrightarrow> safe D a b k (f y ys) R) \<Longrightarrow> safe D a b k (case x of [] \<Rightarrow> m | y # ys \<Rightarrow> f y ys) R"
  by (cases x) auto

lemma safe_json [safe_intros]:
  assumes "safe D a b k n R" "\<And>x. safe D a b k (fb x) R" "\<And>x. safe D a b k (fi x) R" "\<And>x y. safe D a b k (ff x y) R"
    "\<And>x. safe D a b k (fs x) R" "\<And>x. safe D a b k (fa x) R" "\<And>x. safe D a b k (fo x) R"
  shows "safe D a b k (case_json n fb fi ff fs fa fo v) R"
  using assms by (cases v) auto

section \<open>The journal\<close>

lemma safe_yield [safe_intros]: "e \<in> D \<Longrightarrow> safe D 0 0 0 (yieldI e) (\<lambda>_. {})"
  by (rule safeI) (auto simp: yieldI_def logI_def modifyI_def outcome_holds_def holds_def durable_snoc funded_snoc requests_def)

lemma safe_yields [safe_intros]: "set es \<subseteq> D \<Longrightarrow> safe D 0 0 0 (forI es yieldI) (\<lambda>_. {})"
  by (rule safe_for) (auto intro!: safe_yield)

lemma safe_stored [safe_intros]: "safe D 0 0 0 (logI (Stored m)) (\<lambda>_. {})"
  by (rule safeI) (auto simp: logI_def modifyI_def outcome_holds_def holds_def durable_snoc funded_snoc requests_def)

lemma safe_journaled: "safe D 0 0 0 (logI (Journaled e)) (\<lambda>_. {e})"
  by (rule safeI) (auto simp: logI_def modifyI_def outcome_holds_def holds_def durable_snoc funded_snoc requests_def)

lemma safe_dispatched: "safe D 0 1 0 (logI (Dispatched q)) (\<lambda>_. {})"
  by (rule safeI) (auto simp: logI_def modifyI_def outcome_holds_def holds_def durable_snoc funded_snoc requests_def)

lemma safe_requested: "safe D 1 0 1 (logI (Requested ts)) (\<lambda>_. {})"
  by (rule safeI) (auto simp: logI_def modifyI_def outcome_holds_def holds_def durable_snoc funded_snoc requests_def)

lemma safe_collect [safe_intros]: "e \<in> D \<Longrightarrow> safe D 0 0 0 (modifyI (\<lambda>s. s\<lparr>eg_collected := [e]\<rparr>)) (\<lambda>_. {})"
    "safe D 0 0 0 (modifyI (\<lambda>s. s\<lparr>eg_collected := []\<rparr>)) (\<lambda>_. {})"
  by (rule safe_modify; simp)+

lemma safe_collected: "safe D 0 0 0 (getI eg_collected) set"
  by (rule safeI) (auto simp: getI_def outcome_holds_def holds_def)

lemma append_event_safe [safe_intros]: "safe D 0 0 0 (append_event sx t e) (\<lambda>_. {e})"
  unfolding append_event_def by (rule safe_then safe_persist safe_journaled)+

lemma append_message_safe [safe_intros]: "safe D 0 0 0 (append_message sx t m) (\<lambda>_. {})"
  unfolding append_message_def by (rule safe_intros safe_return_set | force)+

lemma journal_safe [safe_intros]:
  "safe D 0 0 0 (load_messages sx t) (\<lambda>_. {})" "safe D 0 0 0 (load_context_messages sx t) (\<lambda>_. {})"
  "safe D 0 0 0 (has_pending_actions sx t) (\<lambda>_. {})" "safe D 0 0 0 (has_tool_call_id sx t i) (\<lambda>_. {})"
  "safe D 0 0 0 (load_task_state sx t) (\<lambda>_. {})" "safe D 0 0 0 (save_task_state sx t ts) (\<lambda>_. {})"
  "safe D 0 0 0 (transition_task sx i st reason) (\<lambda>_. {})" "safe D 0 0 0 (create_checkpoint sx t label data) (\<lambda>_. {})"
  "safe D 0 0 0 (mark_task_warnings sx i) (\<lambda>_. {})" "safe D 0 0 0 (record_active_seconds_of sx i n) (\<lambda>_. {})"
  unfolding load_context_messages_def has_pending_actions_def has_tool_call_id_def load_messages_def load_task_state_def
    save_task_state_def transition_task_def create_checkpoint_def mark_task_warnings_def record_active_seconds_of_def
  by (rule safe_intros safe_return_set | force)+

text \<open>An accepted reservation pays for what follows.\<close>

lemma safe_reserve:
  assumes "0 \<le> turns" "0 \<le> tools"
    and f: "\<And>r. accepted r \<Longrightarrow> safe D (a + nat turns) (b + nat tools) k (f r) R" "\<And>r. \<not> accepted r \<Longrightarrow> safe D a b k (f r) R"
  shows "safe D a b k (bindI (reserve_task_budget sx th turns tools progress) f) R"
proof -
  have granted: "safe D a b k (bindI (logI (Granted turns tools)) (\<lambda>_. f r)) R" if "accepted r" for r
  proof (rule safeI)
    fix E t c q N and s :: "'a engine" assume E: "D \<subseteq> E" and h: "holds E (t + a) (c + b) (q + k) N s"
    have "holds E (t + (a + nat turns)) (c + (b + nat tools)) (q + k) N (s\<lparr>eg_log := eg_log s @ [Granted turns tools]\<rparr>)"
      using h assms(1,2) by (auto simp: holds_def durable_snoc funded_snoc requests_def)
    from safeD [OF f(1) [OF that] E this] show "outcome_holds R E t c q N (bindI (logI (Granted turns tools)) (\<lambda>_. f r) s)"
      by (simp add: bindI_def logI_def modifyI_def)
  qed
  have eq: "bindI (reserve_task_budget sx th turns tools progress) f =
      bindI (persistI ''could not persist task budget'' (rp_reserve (sx_repo sx) th turns tools progress))
        (\<lambda>r. if accepted r then bindI (logI (Granted turns tools)) (\<lambda>_. f r) else f r)"
    by (rule ext) (auto simp: reserve_task_budget_def bindI_def thenI_def whenI_def returnI_def split: prod.splits sum.splits)
  show ?thesis unfolding eq by (rule safe_bind [OF safe_persist]) (use granted f(2) in auto)
qed

text \<open>A new event is not stored yet.\<close>

lemma new_event_safe [safe_intros]: "safe D 0 0 0 (new_event sx k p) (\<lambda>_. {})" "safe D 0 0 0 (message_added sx m) (\<lambda>_. {})"
  unfolding message_added_def new_event_def by (rule safe_intros safe_return_set | force)+

lemma recordI_safe [safe_intros]: "safe D 0 0 0 (recordI sx k p) (\<lambda>e. {e})"
  unfolding recordI_def by (rule safe_intros safe_return_set | force)+

lemma emitI_safe [safe_intros]: "safe D 0 0 0 (emitI sx k p) (\<lambda>_. {})"
  unfolding emitI_def by (rule safe_intros safe_return_set | force)+

lemma raise_if_cancelled_safe [safe_intros]: "safe D 0 0 0 (raise_if_cancelled sx) (\<lambda>_. {})"
  unfolding raise_if_cancelled_def by (rule safe_intros safe_return_set | force)+

section \<open>The calls of the turn\<close>

text \<open>The judgement for a turn whose calls are \<open>cs\<close>; an effect that leaves them alone may come first.\<close>

definition safe_on :: "tool_call list \<Rightarrow> agent_event set \<Rightarrow> nat \<Rightarrow> nat \<Rightarrow> nat \<Rightarrow> ('x, 'a) io \<Rightarrow> ('a \<Rightarrow> agent_event set) \<Rightarrow> bool" where
  "safe_on cs D a b k m R = (\<forall>E t c q N s. D \<subseteq> E \<longrightarrow> tn_calls (eg_turn s) = cs \<longrightarrow> holds E (t + a) (c + b) (q + k) N s
     \<longrightarrow> outcome_holds R E t c q N (m s))"

definition leaves :: "('x engine \<Rightarrow> 'b) \<Rightarrow> ('x, 'a) io \<Rightarrow> bool" where
  "leaves f m = (\<forall>s. f (snd (m s)) = f s)"

abbreviation keeps_calls :: "('x, 'a) io \<Rightarrow> bool" where
  "keeps_calls \<equiv> leaves (\<lambda>s. tn_calls (eg_turn s))"

lemma safe_onD: "safe_on cs D a b k m R \<Longrightarrow> D \<subseteq> E \<Longrightarrow> tn_calls (eg_turn s) = cs \<Longrightarrow> holds E (t + a) (c + b) (q + k) N s
    \<Longrightarrow> outcome_holds R E t c q N (m s)"
  by (auto simp: safe_on_def)

lemma safe_on_safe: "safe D a b k m R \<Longrightarrow> safe_on cs D a b k m R"
  by (auto simp: safe_on_def safe_def)

lemma safe_of_safe_on: "(\<And>cs. safe_on cs D a b k m R) \<Longrightarrow> safe D a b k m R"
  by (auto simp: safe_on_def safe_def)

lemma safe_on_calls: "safe_on cs D a b k (f cs) R \<Longrightarrow> safe_on cs D a b k (bindI (turnI tn_calls) f) R"
  by (auto simp: safe_on_def bindI_def turnI_def getI_def)

lemma safe_on_bind:
  fixes m :: "('x, 'a) io"
  assumes m: "safe D 0 0 0 m Q" "keeps_calls m" and f: "\<And>v. safe_on cs (D \<union> Q v) a b k (f v) R"
  shows "safe_on cs D a b k (bindI m f) R"
  unfolding safe_on_def
proof (intro allI impI)
  fix E t c q N and s :: "'x engine" assume E: "D \<subseteq> E" and cs: "tn_calls (eg_turn s) = cs" and h: "holds E (t + a) (c + b) (q + k) N s"
  have o: "outcome_holds Q E (t + a) (c + b) (q + k) N (m s)" by (rule safeD [OF m(1) E]) (use h in simp)
  obtain r s' where ms: "m s = (r, s')" by (cases "m s")
  have cs': "tn_calls (eg_turn s') = cs" using m(2) cs ms by (metis leaves_def snd_conv)
  show "outcome_holds R E t c q N (bindI m f s)"
  proof (cases r)
    case (Inl e)
    thus ?thesis using o ms by (auto simp: bindI_def outcome_holds_def elim: holds_mono)
  next
    case (Inr v)
    hence "holds (E \<union> Q v) (t + a) (c + b) (q + k) N s'" using o ms by (simp add: outcome_holds_def)
    hence "outcome_holds R (E \<union> Q v) t c q N (f v s')" using E cs' by (intro safe_onD [OF f]) auto
    thus ?thesis using Inr ms by (auto simp: bindI_def outcome_holds_def split: sum.splits elim!: holds_mono)
  qed
qed

lemma safe_on_then: "safe D 0 0 0 m (\<lambda>_. Q) \<Longrightarrow> keeps_calls m \<Longrightarrow> safe_on cs (D \<union> Q) a b k n R \<Longrightarrow> safe_on cs D a b k (thenI m n) R"
  unfolding thenI_def by (rule safe_on_bind [where Q = "\<lambda>_. Q"]) auto

lemma safe_on_then_first:
  fixes m :: "('x, unit) io"
  assumes m: "safe_on cs D a b k m (\<lambda>_. Q)" and n: "safe (D \<union> Q) 0 0 0 n R"
  shows "safe_on cs D a b k (thenI m n) R"
  unfolding safe_on_def
proof (intro allI impI)
  fix E t c q N and s :: "'x engine" assume E: "D \<subseteq> E" and cs: "tn_calls (eg_turn s) = cs" and h: "holds E (t + a) (c + b) (q + k) N s"
  note o = safe_onD [OF m E cs h]
  obtain r s' where ms: "m s = (r, s')" by (cases "m s")
  show "outcome_holds R E t c q N (thenI m n s)"
  proof (cases r)
    case (Inr v)
    hence "holds (E \<union> Q) (t + 0) (c + 0) (q + 0) N s'" using o ms by (simp add: outcome_holds_def)
    hence "outcome_holds R (E \<union> Q) t c q N (n s')" using E by (intro safeD [OF n]) auto
    thus ?thesis using Inr ms by (auto simp: thenI_def bindI_def outcome_holds_def split: sum.splits elim!: holds_mono)
  qed (use o ms in \<open>auto simp: thenI_def bindI_def outcome_holds_def elim: holds_mono\<close>)
qed

lemma safe_on_if: "(p \<Longrightarrow> safe_on cs D a b k m R) \<Longrightarrow> (\<not> p \<Longrightarrow> safe_on cs D a b k n R) \<Longrightarrow> safe_on cs D a b k (if p then m else n) R"
  by simp

lemma safe_on_reserve:
  fixes f :: "budget_reservation \<Rightarrow> ('x, 'a) io"
  assumes "0 \<le> turns" "0 \<le> tools"
    and f: "\<And>r. accepted r \<Longrightarrow> safe_on cs D (a + nat turns) (b + nat tools) k (f r) R" "\<And>r. \<not> accepted r \<Longrightarrow> safe_on cs D a b k (f r) R"
  shows "safe_on cs D a b k (bindI (reserve_task_budget sx th turns tools progress) f) R"
  unfolding safe_on_def
proof (intro allI impI)
  fix E t c q N and s :: "'x engine" assume E: "D \<subseteq> E" and cs: "tn_calls (eg_turn s) = cs" and h: "holds E (t + a) (c + b) (q + k) N s"
  obtain r x where op: "rp_reserve (sx_repo sx) th turns tools progress (eg_ext s) = (r, x)" by fastforce
  show "outcome_holds R E t c q N (bindI (reserve_task_budget sx th turns tools progress) f s)"
  proof (cases r)
    case (Inl e)
    have "holds E t c q N (s\<lparr>eg_ext := x\<rparr>)" using h by (auto simp: holds_def)
    thus ?thesis using Inl op by (simp add: reserve_task_budget_def persistI_def callI_def bindI_def outcome_holds_def raiseR_def)
  next
    case (Inr res)
    let ?s = "s\<lparr>eg_ext := x\<rparr>" and ?g = "s\<lparr>eg_ext := x, eg_log := eg_log s @ [Granted turns tools]\<rparr>"
    have step: "bindI (reserve_task_budget sx th turns tools progress) f s = (if accepted res then f res ?g else f res ?s)"
      using Inr op by (simp add: reserve_task_budget_def persistI_def callI_def bindI_def thenI_def whenI_def returnI_def logI_def modifyI_def)
    have "holds E (t + (a + nat turns)) (c + (b + nat tools)) (q + k) N ?g"
      using h assms(1,2) by (auto simp: holds_def durable_snoc funded_snoc requests_def)
    moreover have "holds E (t + a) (c + b) (q + k) N ?s" using h by (simp add: holds_def)
    ultimately show ?thesis using f [of res] E cs unfolding step safe_on_def by (cases "accepted res") simp_all
  qed
qed

named_theorems kept_intros \<open>effects that leave a part of the state alone\<close>

lemma leaves_values [kept_intros]:
  "leaves f (returnI x)" "leaves f (failI e)" "leaves f (raiseI cl msg)" "leaves f (liftR r)" "leaves f (getI g)" "leaves f (runI h)" "leaves f (turnI i)"
  by (auto simp: leaves_def returnI_def failI_def raiseI_def liftR_def getI_def runI_def turnI_def)

lemma leaves_steps [kept_intros]:
  "(\<And>s. f (u s) = f s) \<Longrightarrow> leaves f (modifyI u)"
  "(\<And>s. f (s\<lparr>eg_run := w (eg_run s)\<rparr>) = f s) \<Longrightarrow> leaves f (updateI w)"
  "(\<And>s x. f (s\<lparr>eg_ext := x\<rparr>) = f s) \<Longrightarrow> leaves f (callI op)" "(\<And>s x. f (s\<lparr>eg_ext := x\<rparr>) = f s) \<Longrightarrow> leaves f (persistI msg op')"
  "(\<And>s. f (s\<lparr>eg_log := eg_log s @ [en]\<rparr>) = f s) \<Longrightarrow> leaves f (logI en)"
  "(\<And>s. f (s\<lparr>eg_log := eg_log s @ [Yielded ev]\<rparr>) = f s) \<Longrightarrow> leaves f (yieldI ev)"
  by (auto simp: leaves_def updateI_def modifyI_def callI_def logI_def persistI_def yieldI_def split: prod.splits)

lemma leaves_bind [kept_intros]: "leaves f m \<Longrightarrow> (\<And>v. leaves f (g v)) \<Longrightarrow> leaves f (bindI m g)"
  by (auto simp: leaves_def bindI_def split: prod.splits sum.splits) (metis snd_conv)+

lemma leaves_then [kept_intros]: "leaves f m \<Longrightarrow> leaves f n \<Longrightarrow> leaves f (thenI m n)"
  unfolding thenI_def by (rule leaves_bind)

lemma leaves_catch [kept_intros]: "leaves f m \<Longrightarrow> (\<And>e. leaves f (h e)) \<Longrightarrow> leaves f (catchI m h)"
  by (auto simp: leaves_def catchI_def split: prod.splits sum.splits) (metis snd_conv)+

lemma leaves_for [kept_intros]: "(\<And>x. leaves f (g x)) \<Longrightarrow> leaves f (forI xs g)"
  by (induction xs) (auto intro: kept_intros)

lemma leaves_cases [kept_intros]:
  "leaves f m \<Longrightarrow> leaves f n \<Longrightarrow> leaves f (if p then m else n)" "leaves f o' \<Longrightarrow> leaves f (whenI p o')" "leaves f (k x') \<Longrightarrow> leaves f (Let x' k)"
  "leaves f m' \<Longrightarrow> (\<And>y. leaves f (k' y)) \<Longrightarrow> leaves f (case x of None \<Rightarrow> m' | Some y \<Rightarrow> k' y)"
  "(\<And>y z. leaves f (g y z)) \<Longrightarrow> leaves f (case w of (y, z) \<Rightarrow> g y z)"
  "(\<And>y. leaves f (h y)) \<Longrightarrow> (\<And>y. leaves f (i y)) \<Longrightarrow> leaves f (case v of Inl y \<Rightarrow> h y | Inr y \<Rightarrow> i y)"
  "leaves f l \<Longrightarrow> (\<And>y ys. leaves f (j y ys)) \<Longrightarrow> leaves f (case zs of [] \<Rightarrow> l | y # ys \<Rightarrow> j y ys)"
  by (auto simp: whenI_def leaves_values split: option.splits prod.splits sum.splits list.splits)

text \<open>Laws of the effects, to bring the code of a called function into its caller.\<close>

lemma bind_bind: "bindI (bindI m g) h = bindI m (\<lambda>v. bindI (g v) h)"
  by (auto simp: bindI_def fun_eq_iff split: prod.splits sum.splits)

lemma bind_then: "bindI (thenI m n) h = thenI m (bindI n h)"
  by (simp add: thenI_def bind_bind)

lemma bind_return: "bindI (returnI x) h = h x"
  by (auto simp: bindI_def returnI_def)

lemma bind_raise: "bindI (raiseI cl msg) h = raiseI cl msg"
  by (auto simp: bindI_def raiseI_def failI_def)

lemma bind_if: "bindI (if p then m else n) h = (if p then bindI m h else bindI n h)"
  by simp

lemmas bind_laws = bind_bind bind_then bind_return bind_raise bind_if

section \<open>Without a bound on the requests\<close>

definition kept :: "agent_event set \<Rightarrow> 'x engine \<Rightarrow> bool" where
  "kept E s = (\<exists>q N. holds E 0 0 q N s)"

definition sound :: "agent_event set \<Rightarrow> ('x, 'a) io \<Rightarrow> ('a \<Rightarrow> agent_event set) \<Rightarrow> bool" where
  "sound D m R = (\<forall>E s. D \<subseteq> E \<longrightarrow> kept E s \<longrightarrow> (case m s of (Inl _, s') \<Rightarrow> kept E s' | (Inr v, s') \<Rightarrow> kept (E \<union> R v) s'))"

lemma sound_safe:
  fixes m :: "('x, 'a) io"
  assumes "\<And>s :: 'x engine. \<exists>k m'. m s = m' s \<and> safe D 0 0 k m' R"
  shows "sound D m R"
  unfolding sound_def
proof (intro allI impI)
  fix E and s :: "'x engine" assume E: "D \<subseteq> E" and s: "kept E s"
  obtain k m' where k: "m s = m' s" "safe D 0 0 k m' R" using assms by blast
  have "holds E (0 + 0) (0 + 0) (0 + k) (requests (eg_log s) + k) s" using s by (auto simp: kept_def holds_def)
  from safeD [OF k(2) E this] show "case m s of (Inl _, s') \<Rightarrow> kept E s' | (Inr v, s') \<Rightarrow> kept (E \<union> R v) s'"
    unfolding k(1) outcome_holds_def kept_def by (auto split: sum.splits prod.splits)
qed

lemma sound_of_safe: "safe D 0 0 k m R \<Longrightarrow> sound D m R"
  by (rule sound_safe) blast

lemma kept_mono: "kept E s \<Longrightarrow> E' \<subseteq> E \<Longrightarrow> kept E' s"
  unfolding kept_def by (blast intro: holds_mono [OF _ _ order_refl order_refl order_refl])

lemma soundI:
  assumes "\<And>E s e s'. D \<subseteq> E \<Longrightarrow> kept E s \<Longrightarrow> m s = (Inl e, s') \<Longrightarrow> kept E s'"
    and "\<And>E s v s'. D \<subseteq> E \<Longrightarrow> kept E s \<Longrightarrow> m s = (Inr v, s') \<Longrightarrow> kept (E \<union> R v) s'"
  shows "sound D m R"
  unfolding sound_def by (auto split: sum.splits prod.splits intro: assms)

lemma soundD:
  assumes "sound D m R" "D \<subseteq> E" "kept E s"
  shows "m s = (Inl e, s') \<Longrightarrow> kept E s'" "m s = (Inr v, s') \<Longrightarrow> kept (E \<union> R v) s'"
  using assms(1) [unfolded sound_def, rule_format, OF assms(2,3)] by simp_all

lemma sound_bind:
  assumes m: "sound D m Q" and f: "\<And>v. sound (D \<union> Q v) (f v) R"
  shows "sound D (bindI m f) R"
proof (rule soundI)
  fix E s e s' assume E: "D \<subseteq> E" and s: "kept E s" and run: "bindI m f s = (Inl e, s')"
  show "kept E s'"
  proof (cases "m s")
    case (Pair r u)
    show ?thesis
    proof (cases r)
      case (Inr v)
      have "kept (E \<union> Q v) u" by (rule soundD(2) [OF m E s]) (simp add: Pair Inr)
      hence "kept (E \<union> Q v) s'" by (rule soundD(1) [OF f, rotated]) (use E run Pair Inr in \<open>auto simp: bindI_def\<close>)
      thus ?thesis by (rule kept_mono) simp
    qed (use soundD(1) [OF m E s] Pair run in \<open>simp add: bindI_def\<close>)
  qed
next
  fix E s w s' assume E: "D \<subseteq> E" and s: "kept E s" and run: "bindI m f s = (Inr w, s')"
  obtain v u where u: "m s = (Inr v, u)" "f v u = (Inr w, s')"
    using run by (auto simp: bindI_def split: prod.splits sum.splits)
  have "kept (E \<union> Q v) u" by (rule soundD(2) [OF m E s u(1)])
  hence "kept (E \<union> Q v \<union> R w) s'" by (rule soundD(2) [OF f, rotated]) (use E u in auto)
  thus "kept (E \<union> R w) s'" by (rule kept_mono) auto
qed

lemma sound_then: "sound D m (\<lambda>_. Q) \<Longrightarrow> sound (D \<union> Q) n R \<Longrightarrow> sound D (thenI m n) R"
  unfolding thenI_def by (rule sound_bind [where Q = "\<lambda>_. Q"])

lemma sound_catch:
  assumes m: "sound D m R" and h: "\<And>e. sound D (h e) R"
  shows "sound D (catchI m h) R"
proof (rule soundI)
  fix E s e s' assume E: "D \<subseteq> E" and s: "kept E s" and run: "catchI m h s = (Inl e, s')"
  obtain e' u where u: "m s = (Inl e', u)" "h e' u = (Inl e, s')"
    using run by (auto simp: catchI_def split: prod.splits sum.splits)
  show "kept E s'" by (rule soundD(1) [OF h E soundD(1) [OF m E s u(1)] u(2)])
next
  fix E s v s' assume E: "D \<subseteq> E" and s: "kept E s" and run: "catchI m h s = (Inr v, s')"
  show "kept (E \<union> R v) s'"
  proof (cases "m s")
    case (Pair r u)
    show ?thesis
    proof (cases r)
      case (Inl e)
      have "kept E u" by (rule soundD(1) [OF m E s]) (simp add: Pair Inl)
      thus ?thesis by (rule soundD(2) [OF h E]) (use run Pair Inl in \<open>simp add: catchI_def\<close>)
    qed (use soundD(2) [OF m E s] run Pair in \<open>simp add: catchI_def\<close>)
  qed
qed

lemma sound_prod: "(\<And>x y. p = (x, y) \<Longrightarrow> sound D (f x y) R) \<Longrightarrow> sound D (case p of (x, y) \<Rightarrow> f x y) R"
  by (cases p) auto

end
