(* ===== verification/Engine_Facts.thy ===== *)
theory Engine_Facts
  imports Engine_Turn Engine_Log
begin

text \<open>
  Every operation of the engine keeps the judgement of the log, and with it the engine's two promises: what
  the consumer sees has been stored, and what is spent has been granted.
\<close>

section \<open>Messages, notices and supervision\<close>

lemma queue_notice_safe [safe_intros]: "safe D 0 0 0 (queue_notice n) (\<lambda>_. {})"
  unfolding queue_notice_def by (rule safe_intros)

lemma flush_notices_safe [safe_intros]: "safe D 0 0 0 (flush_notices sx) (\<lambda>_. {})"
  unfolding flush_notices_def by (rule safe_intros safe_return_set | force)+

lemma persist_assistant_safe [safe_intros]: "safe D 0 0 0 (persist_assistant sx parts calls) (\<lambda>p. {snd p})"
  unfolding persist_assistant_def by (rule safe_intros safe_return_set | force)+

lemma persist_tool_failure_safe [safe_intros]: "safe D 0 0 0 (persist_tool_failure sx c r) set"
  unfolding persist_tool_failure_def by (rule safe_intros safe_return_set | force)+

lemma resolve_safe [safe_intros]:
  "safe D 0 0 0 (resolve_supervision_call sx c) (\<lambda>_. {})" "safe D 0 0 0 (resolved_action sx q) (\<lambda>_. {})"
  unfolding resolve_supervision_call_def resolved_action_def by (rule safe_intros safe_return_set | force)+

lemma progress_safe [safe_intros]: "safe D 0 0 0 (host_progress_facts sx b) (\<lambda>_. {})" "safe D 0 0 0 (task_progress_snapshot sx b) (\<lambda>_. {})"
  unfolding task_progress_snapshot_def host_progress_facts_def by (rule safe_intros safe_return_set | force)+

lemma seconds_safe [safe_intros]: "safe D 0 0 0 (checkpoint_seconds sx s) (\<lambda>_. {})" "safe D 0 0 0 (save_seconds sx k s) (\<lambda>_. {})"
  unfolding save_seconds_def checkpoint_seconds_def by (rule safe_intros safe_return_set | force)+

lemma pause_task_safe [safe_intros]: "safe D 0 0 0 (pause_task sx k reason) (\<lambda>_. {})"
  unfolding pause_task_def by (rule safe_intros safe_return_set | force)+

lemma supervise_action_safe [safe_intros]: "safe D 0 0 0 (supervise_action sx q) set_option"
  unfolding supervise_action_def by (rule safe_intros safe_return_set | force)+

section \<open>Actions\<close>

lemma execution_context_safe [safe_intros]: "safe D 0 0 0 (execution_context sx i) (\<lambda>_. {})"
  unfolding execution_context_def by (rule safe_intros safe_return_set | force)+

lemma invoke_action_safe: "safe D 0 1 0 (invoke_action sx q c ctx) (\<lambda>_. {})"
  unfolding invoke_action_def by (rule safe_get safe_bind safe_let safe_then_first safe_dispatched safe_intros safe_return_set | force)+

lemma record_validation_state_safe [safe_intros]: "safe D 0 0 0 (record_validation_state sx q r k s st) set_option"
  unfolding record_validation_state_def by (rule safe_intros safe_return_set | force)+

definition paused_events :: "'a + agent_event option \<Rightarrow> agent_event set" where
  "paused_events x = (case x of Inl _ \<Rightarrow> {} | Inr e \<Rightarrow> set_option e)"

lemma paused_events_simps [simp]: "paused_events (Inl x) = {}" "paused_events (Inr e) = set_option e"
  by (simp_all add: paused_events_def)

lemma record_action_state_safe [safe_intros]: "safe D 0 0 0 (record_action_state sx q r) paused_events"
  unfolding record_action_state_def by (rule safe_intros safe_return_set | force)+

lemma record_or_l0_failure_safe [safe_intros]: "safe D 0 0 0 (record_or_l0_failure sx c q r) (\<lambda>p. set_option (snd p))"
  unfolding record_or_l0_failure_def by (rule safe_intros safe_return_set | force)+

definition safe_emit :: "(agent_event \<Rightarrow> ('x, unit) io) \<Rightarrow> bool" where
  "safe_emit emit = (\<forall>D e. e \<in> D \<longrightarrow> safe D 0 0 0 (emit e) (\<lambda>_. {}))"

lemma safe_emitD: "safe_emit emit \<Longrightarrow> e \<in> D \<Longrightarrow> safe D 0 0 0 (emit e) (\<lambda>_. {})"
  by (auto simp: safe_emit_def)

lemma settle_action_safe: "safe_emit emit \<Longrightarrow> safe D 0 0 0 (settle_action sx c q emit r) (\<lambda>_. {})"
  unfolding settle_action_def by (rule safe_intros safe_return_set safe_emitD | assumption | force)+

lemma dispatch_action_safe: "safe_emit emit \<Longrightarrow> safe D 0 1 0 (dispatch_action sx c available why emit) (\<lambda>_. {})"
  unfolding dispatch_action_def
  by (rule safe_bind_first [OF invoke_action_safe] safe_less [OF settle_action_safe] safe_less [OF safe_emitD] safe_intros safe_return_set safe_emitD | assumption | force)+


section \<open>Calls of a turn\<close>

lemma collectI_safe: "safe_emit collectI"
  unfolding safe_emit_def collectI_def by (auto intro!: safe_modify)

lemma yieldI_safe: "safe_emit yieldI"
  by (auto simp: safe_emit_def intro: safe_yield)

lemma names_safe [safe_intros]: "safe D 0 0 0 (tool_aliases sx tools) (\<lambda>_. {})" "safe D 0 0 0 (available_names sx) (\<lambda>_. {})"
  unfolding tool_aliases_def available_names_def by (rule safe_intros safe_return_set | force)+

lemma declare_and_dispatch_safe:
  "safe D 0 (Suc 0) 0 (bindI (persist_assistant sx [] [c]) (\<lambda>(m, declared).
       bindI (available_names sx) (\<lambda>names.
       thenI (modifyI (\<lambda>s. s\<lparr>eg_collected := [declared]\<rparr>))
      (thenI (dispatch_action sx c (tl_name c \<in> set names) why collectI)
      (bindI (getI eg_collected) (\<lambda>es. returnI (b, es))))))) (\<lambda>p. set (snd p))"
  by (rule safe_bind_first [OF invoke_action_safe] safe_then_first [OF dispatch_action_safe [OF collectI_safe, simplified]]
      safe_bind [OF safe_collected] safe_intros safe_return_set | force)+

lemma safe_denied: "\<not> accepted r \<Longrightarrow> br_status r \<noteq> HARD_EXHAUSTED \<Longrightarrow> br_status r \<noteq> LEASE_EXHAUSTED \<Longrightarrow> safe D a b k m R"
  by (cases "br_status r") (auto simp: accepted_def)

lemma run_verification_call_safe [safe_intros]: "safe D 0 0 0 (run_verification_call sx k c b) (\<lambda>p. set (snd p))"
  unfolding run_verification_call_def
  by (erule (2) safe_denied | rule safe_bind [OF safe_get(2)] safe_bind [OF progress_safe(2)] safe_reserve | simp only: nat_1 nat_0 add_0 add_0_right
    | rule declare_and_dispatch_safe safe_less [OF safe_bind [OF recordI_safe]] safe_intros safe_return_set | force simp: accepted_def)+

definition automatic_events :: "('a \<times> agent_event list) option \<Rightarrow> agent_event set" where
  "automatic_events x = (case x of None \<Rightarrow> {} | Some p \<Rightarrow> set (snd p))"

lemma automatic_events_simps [simp]: "automatic_events None = {}" "automatic_events (Some p) = set (snd p)"
  by (simp_all add: automatic_events_def)

lemma run_suggested_verification_safe [safe_intros]: "safe D 0 0 0 (run_suggested_verification sx k) automatic_events"
  unfolding run_suggested_verification_def by (rule safe_intros safe_return_set | force)+

lemma track_event_safe [safe_intros]: "safe D 0 0 0 (track_event e) (\<lambda>_. {})"
  unfolding track_event_def by (rule safe_intros safe_return_set | force)+

lemma observe_repetition_safe [safe_intros]: "safe D 0 0 0 (observe_repetition sx c raw) (\<lambda>_. {})"
  unfolding observe_repetition_def by (rule safe_intros safe_return_set | force)+

lemma handle_event_safe: "safe_emit (handle_event sx c)"
  unfolding safe_emit_def handle_event_def flag_validation_error_def by (intro allI impI) (rule safe_intros safe_return_set | force)+

lemma dispatch_turn_call_safe: "safe D 0 (Suc 0) 0 (dispatch_turn_call sx c) (\<lambda>_. {})"
  unfolding dispatch_turn_call_def flag_validation_error_def
  by (rule dispatch_action_safe [OF handle_event_safe, simplified] safe_intros safe_return_set | (rule safe_less, rule safe_for) | force)+

lemma dispatch_calls_safe: "safe D 0 (length cs) 0 (dispatch_calls sx cs) (\<lambda>_. {})"
proof (induction cs)
  case (Cons c cs)
  have "safe D (0 + 0) (Suc 0 + length cs) (0 + 0) (dispatch_calls sx (c # cs)) (\<lambda>_. {})"
    unfolding dispatch_calls.simps
    by (rule safe_then_gen [OF dispatch_turn_call_safe]) (rule safe_intros safe_return_set | simp add: Cons)+
  thus ?case by simp
qed (simp add: safe_return)

lemma dispatch_milestone_safe:
  "safe D 0 0 0 (bindI (runI rs_budget) (\<lambda>b. bindI (run_verification_call sx k c b) (\<lambda>(b', es).
       thenI (updateI (\<lambda>r. r\<lparr>rs_budget := b'\<rparr>)) (forI es yieldI)))) (\<lambda>_. {})"
  by (rule safe_yields safe_intros | force)+

lemma dispatch_loop_safe:
  "safe D 0 (length cs) 0 (bindI (runI rs_task) (\<lambda>task. bindI (runI rs_thread) (\<lambda>t.
     case (task, sx_verifier sx) of
       (Some k, Some v) \<Rightarrow>
         (case (if cs = [] then None else vf_begin v) of
            None \<Rightarrow> dispatch_calls sx cs
          | Some begin_change \<Rightarrow>
              thenI (callI (begin_change (tk_id k)))
             (bindI (finallyI (dispatch_calls sx cs)
                (bindI (load_task_state sx t) (\<lambda>current. bindI (callI (vf_commit v k current)) (\<lambda>(settled, milestone).
                   thenI (save_task_state sx t settled) (returnI milestone))))) (\<lambda>milestone.
              bindI (runI rs_stop) (\<lambda>stop.
              case (if stop then None else milestone) of
                None \<Rightarrow> returnI ()
              | Some c \<Rightarrow> bindI (runI rs_budget) (\<lambda>b. bindI (run_verification_call sx k c b) (\<lambda>(b', es).
                  thenI (updateI (\<lambda>r. r\<lparr>rs_budget := b'\<rparr>)) (forI es yieldI)))))))
     | _ \<Rightarrow> dispatch_calls sx cs))) (\<lambda>_. {})"
  by (rule safe_bind [OF safe_get(2)] safe_prod safe_option dispatch_calls_safe safe_then [OF safe_call] safe_bind_first safe_finally
      dispatch_milestone_safe safe_intros safe_return_set | force)+

lemma dispatch_tool_calls_safe: "safe_on cs D 0 (length cs) 0 (dispatch_tool_calls sx) (\<lambda>_. {})"
  unfolding dispatch_tool_calls_def
  by (rule safe_on_then [OF safe_update(4)], simp add: leaves_def modifyI_def, rule safe_on_calls, rule safe_on_safe, rule dispatch_loop_safe)

section \<open>The end of a turn\<close>

lemma refuse_call_safe [safe_intros]: "safe D 0 0 0 (refuse_call sx reason code c) (\<lambda>_. {})"
  unfolding refuse_call_def by (rule safe_yields safe_intros safe_return_set | force)+

lemma observe_convergence_safe [safe_intros]: "safe D 0 0 0 (observe_convergence sx) (\<lambda>_. {})"
  unfolding observe_convergence_def by (rule safe_intros safe_return_set | force)+

lemma refusals_safe [safe_intros]: "safe D 0 0 0 (report_empty_summary sx) (\<lambda>_. {})" "safe D 0 0 0 (reject_summary_calls sx) (\<lambda>_. {})"
    "safe D 0 0 0 (close_lease_calls sx) (\<lambda>_. {})"
  unfolding report_empty_summary_def reject_summary_calls_def close_lease_calls_def by (rule safe_intros safe_return_set | force)+

section \<open>The model stream\<close>

lemma build_turn_context_safe [safe_intros]: "safe D 0 0 0 (build_turn_context sx) (\<lambda>_. {})"
  unfolding build_turn_context_def by (rule safe_intros safe_return_set | force)+

lemma select_request_model_safe [safe_intros]: "safe D 0 0 0 (select_request_model sx) (\<lambda>_. {})"
  unfolding select_request_model_def by (rule safe_intros safe_return_set | force)+

lemma accumulate_event_safe [safe_intros]: "safe D 0 0 0 (accumulate_event sx e) (\<lambda>_. {})"
  unfolding accumulate_event_def by (rule safe_intros safe_return_set | force)+

lemma record_model_usage_safe [safe_intros]: "safe D 0 0 0 (record_model_usage sx u) (\<lambda>_. {})"
  unfolding record_model_usage_def warn_budget_def by (rule safe_intros safe_return_set | force)+

lemma safe_stream_item:
  "(\<And>e. safe D a b k (f e) R) \<Longrightarrow> safe D a b k m R \<Longrightarrow> (\<And>e. safe D a b k (g e) R) \<Longrightarrow> safe D a b k (case_stream_item f m g i) R"
  by (cases i) auto

lemma stream_step_safe [safe_intros]: "safe D 0 0 0 (stream_step sx i flags) (\<lambda>_. {})"
proof -
  have shown: "safe D 0 0 0 (thenI (if hidden then returnI () else append_event sx t e)
      (thenI m (thenI (if hidden then returnI () else yieldI e) n))) (\<lambda>_. {})"
    if "\<And>D. safe D 0 0 0 m (\<lambda>_. {})" "\<And>D. safe D 0 0 0 n (\<lambda>_. {})"
    for hidden t e and m :: "('a, unit) io" and n :: "('a, bool \<times> bool) io" and D
    by (cases hidden) (simp_all only: if_True if_False simp_thms, (rule that safe_intros | force)+)
  show ?thesis
    unfolding stream_step_def by (rule safe_stream_item shown safe_intros safe_return_set | force)+
qed

lemma stream_items_safe [safe_intros]: "safe D 0 0 0 (stream_items sx is flags) (\<lambda>_. {})"
proof (induction "is" arbitrary: flags D)
  case (Cons i rest)
  show ?case unfolding stream_items.simps by (rule Cons safe_intros | force)+
qed (simp add: safe_return)

lemma stream_model_events_safe: "safe D 1 0 1 (stream_model_events sx b) (\<lambda>_. {})"
proof -
  have asked: "safe D 1 0 1 (bindI (turnI (\<lambda>n. (tn_review_client n, tn_tools n))) (\<lambda>(client, tools).
        thenI (logI (Requested tools))
       (bindI (callI (sx_stream sx client (cb_system_prompt b) (cb_messages b) tools)) (\<lambda>items.
          stream_items sx items (False, False))))) (\<lambda>_. {})" for D
    by (rule safe_bind [OF safe_get(3)] safe_prod safe_then_first safe_requested safe_intros)+
  show ?thesis
    unfolding stream_model_events_def
    by (rule safe_bind [OF safe_call] safe_bind_first safe_catch asked safe_intros | force)+
qed

lemma start_turn_safe [safe_intros]: "safe D 0 0 0 (start_turn sx) (\<lambda>_. {})"
  unfolding start_turn_def by (rule safe_intros safe_return_set | force)+

section \<open>Reviews and completion\<close>

lemma prepare_parent_review_safe [safe_intros]: "safe D 0 0 0 (prepare_parent_review sx) (\<lambda>_. {})" "safe D 0 0 0 (review_pause_result sx reason) (\<lambda>_. {})"
  unfolding prepare_parent_review_def review_pause_result_def by (rule safe_intros safe_return_set | force)+

lemma assessment_safe [safe_intros]: "safe D 0 0 0 (assess_delivery sx k) (\<lambda>_. {})" "safe D 0 0 0 (settle_assessment sx k found) (\<lambda>_. {})"
  unfolding assess_delivery_def settle_assessment_def by (rule safe_intros safe_return_set | force)+

lemma resolve_task_completion_safe [safe_intros]: "safe D 0 0 0 (resolve_task_completion sx k) (\<lambda>_. {})"
  unfolding resolve_task_completion_def by (rule safe_intros safe_return_set | force)+

lemma persist_completion_events_safe: "safe_emit emit \<Longrightarrow> safe D 0 0 0 (persist_completion_events sx k facts code emit) (\<lambda>_. {})"
  unfolding persist_completion_events_def by (rule safe_intros safe_emitD | assumption | force)+

lemma promote_followups_safe [safe_intros]: "safe D 0 0 0 (promote_followups sx k) set_option"
  unfolding promote_followups_def by (rule safe_intros safe_return_set | force)+

lemma fail_review_safe [safe_intros]: "safe D 0 0 0 (fail_review sx k missing) (\<lambda>p. set (snd p))"
  unfolding fail_review_def
  by (rule safe_bind [OF safe_collected] persist_completion_events_safe collectI_safe safe_intros safe_return_set | force)+

lemma record_review_safe [safe_intros]: "safe D 0 0 0 (record_review sx h k changes) (\<lambda>_. {})"
  unfolding record_review_def by (rule safe_intros)+

lemma judge_review_safe [safe_intros]: "safe D 0 0 0 (judge_review sx h k phase) (\<lambda>p. set (snd p))"
  unfolding judge_review_def Let_def by (rule safe_intros safe_return_set | force)+

lemma finish_parent_review_safe [safe_intros]: "safe D 0 0 0 (finish_parent_review sx k retry) (\<lambda>p. set (snd p))"
  unfolding finish_parent_review_def by (rule safe_intros safe_return_set | force)+

lemma auto_verify_safe [safe_intros]: "safe D 0 0 0 (auto_verify sx k n again) (\<lambda>_. {})"
proof (induction n arbitrary: again D)
  case (Suc n)
  show ?case unfolding auto_verify.simps by (rule Suc safe_intros safe_return_set | force)+
qed (simp add: safe_return)

lemma finish_task_safe [safe_intros]: "safe D 0 0 0 (finish_task_without_calls sx k retry) (\<lambda>_. {})"
  unfolding finish_task_without_calls_def Let_def
  by (rule persist_completion_events_safe yieldI_safe safe_intros safe_return_set | force)+

lemma finish_safe [safe_intros]:
  "safe D 0 0 0 (finish_source_failure sx res) (\<lambda>_. {})" "safe D 0 0 0 (finish_plain sx) (\<lambda>_. {})" "safe D 0 0 0 (finish_without_calls sx) (\<lambda>_. {})"
  unfolding finish_without_calls_def finish_source_failure_def finish_plain_def by (rule safe_intros safe_return_set | force)+

section \<open>Turns and runs\<close>

lemma lease_warning_safe [safe_intros]: "safe D 0 0 0 (lease_warning sx res phase) (\<lambda>e. {e})"
  unfolding lease_warning_def by (rule safe_intros | force)+

lemma before_turn_safe [safe_intros]: "safe D 0 0 0 (before_turn sx n) (\<lambda>_. {})"
  unfolding before_turn_def Let_def by (rule safe_intros safe_return_set | force)+

lemma answer_safe:
  "safe D 0 0 0 (if hidden then returnI (m, None) else bindI (persist_assistant sx parts calls) (\<lambda>(m, e). returnI (m, Some e)))
     (\<lambda>p. set_option (snd p))"
  by (rule safe_if safe_intros(2) safe_bind [OF persist_assistant_safe] safe_prod safe_return_set | force)+

lemma checks_safe [safe_intros]: "safe D 0 0 0 (advertise sx) (\<lambda>_. {})" "safe D 0 0 0 (check_call_ids sx) (\<lambda>_. {})"
    "safe D 0 0 0 (store_answer sx) (\<lambda>_. {})" "safe D 0 0 0 (flush_unless_stopped sx) (\<lambda>_. {})"
  subgoal unfolding advertise_def by (rule safe_intros safe_return_set | force)+
  subgoal unfolding check_call_ids_def by (rule safe_intros safe_return_set | force)+
  subgoal unfolding store_answer_def
    by (rule safe_bind [OF answer_safe] safe_intros safe_return_set | force split: if_splits)+
  subgoal unfolding flush_unless_stopped_def by (rule safe_intros safe_return_set | force)+
  done

lemma keeps_calls_journal [kept_intros]:
  "keeps_calls (recordI sx kind p)" "keeps_calls (lease_warning sx res phase)" "keeps_calls (queue_notice n)" "keeps_calls (task_progress_snapshot sx b)"
  unfolding lease_warning_def recordI_def new_event_def append_event_def queue_notice_def task_progress_snapshot_def host_progress_facts_def load_task_state_def
  by (rule kept_intros | simp)+

text \<open>A turn's calls are paid for when they are accepted.\<close>

lemma safe_on_reserve_calls:
  assumes f: "\<And>r D. accepted r \<Longrightarrow> safe_on cs D 0 (length cs) 0 (f r) R" "\<And>r D. \<not> accepted r \<Longrightarrow> br_status r \<noteq> HARD_EXHAUSTED \<Longrightarrow> safe_on cs D 0 0 0 (f r) R"
  shows "safe_on cs D 0 0 0 (bindI (reserve_tool_calls sx final_modify) f) R"
  unfolding reserve_tool_calls_def bind_laws
  by (rule safe_on_bind [OF safe_get(2) leaves_values(6)] safe_on_calls safe_on_if safe_on_safe [OF safe_fail(2)] safe_on_reserve
      safe_on_bind [OF progress_safe(2) keeps_calls_journal(4)] safe_on_then [OF safe_when [OF safe_update(1)]] f
    | ((rule kept_intros | simp)+; fail) | (simp; fail) | simp only: nat_0 nat_int add_0 add_0_right)+

lemma run_tools_safe [safe_intros]: "safe D 0 0 0 (run_tools sx final_modify) (\<lambda>_. {})"
proof (rule safe_of_safe_on)
  fix cs
  have renewed: "safe D 0 0 0 (if p then bindI (lease_warning sx res ''renewed'') (\<lambda>warning. thenI (queue_notice n) (yieldI warning)) else returnI ()) (\<lambda>_. {})"
      "keeps_calls (if p then bindI (lease_warning sx res ''renewed'') (\<lambda>warning. thenI (queue_notice n) (yieldI warning)) else returnI ())" for D p res n
    by (rule safe_intros kept_intros | force)+
  show "safe_on cs D 0 0 0 (run_tools sx final_modify) (\<lambda>_. {})"
    unfolding run_tools_def
  proof (rule safe_on_reserve_calls, goal_cases)
    case (1 r D)
    show ?case
      apply (rule safe_on_bind [OF safe_get(2) leaves_values(6)], rule safe_on_if)
      subgoal by (rule safe_on_safe, rule safe_less) (rule safe_intros | force)+
      subgoal by (rule safe_on_then [OF renewed], rule safe_on_then_first [OF dispatch_tool_calls_safe]) (rule safe_intros | force)+
      done
  next
    case (2 r D)
    show ?case using 2 by - (rule safe_on_safe, (erule (2) safe_denied | rule safe_intros | force)+)
  qed
qed

lemma conclude_turn_safe [safe_intros]: "safe D 0 0 0 (conclude_turn sx final_modify) (\<lambda>_. {})"
  unfolding conclude_turn_def by (rule safe_intros | force)+

lemma model_turn_safe: "safe D 1 0 1 (model_turn sx n) (\<lambda>_. {})"
  unfolding model_turn_def Let_def
  by (rule safe_bind [OF checks_safe(1)] safe_prod safe_bind [OF safe_get(2)] safe_then [OF safe_when [OF safe_update(1)]]
      safe_then [OF safe_update(3)] safe_bind [OF start_turn_safe] safe_then_first [OF stream_model_events_safe] safe_intros | force)+

lemma run_turn_safe: "safe D 0 0 1 (run_turn sx n) (\<lambda>_. {})"
  unfolding run_turn_def
  by (erule (2) safe_denied | rule safe_bind [OF progress_safe(2)] safe_reserve | simp only: nat_1 nat_0 add_0 add_0_right One_nat_def [symmetric]
    | rule model_turn_safe safe_less [OF finish_task_safe] safe_intros safe_return_set | force simp: accepted_def)+

lemma run_turns_safe: "safe D 0 0 n (run_turns sx number n) (\<lambda>_. {})"
proof (induction n arbitrary: number D)
  case (Suc n)
  have rest: "safe D 0 0 n (bindI (runI rs_stop) (\<lambda>stop. if stop then returnI () else run_turns sx (number + 1) n)) (\<lambda>_. {})" for D
    by (rule Suc safe_intros | force)+
  have "safe D (0 + 0) (0 + 0) (1 + n) (run_turns sx number (Suc n)) (\<lambda>_. {})"
    unfolding run_turns.simps by (rule safe_then_gen [OF run_turn_safe rest])
  thus ?case by simp
qed (simp add: safe_fail)

lemma run_loop_eq: "run_loop sx s = run_turns sx 1 (nat (el_max_agent_rounds (tb_limits (rs_budget (eg_run s))))) s"
  by (simp add: run_loop_def bindI_def runI_def getI_def)

lemma run_loop_sound: "sound D (run_loop sx) (\<lambda>_. {})"
  by (rule sound_safe) (use run_loop_eq run_turns_safe in blast)

lemma start_run_safe [safe_intros]: "safe D 0 0 0 (start_run sx th task) (\<lambda>e. {e})"
  unfolding start_run_def by (rule safe_intros safe_return_set | force)+

lemma prepare_request_safe [safe_intros]: "safe D 0 0 0 (prepare_request sx input atts) (\<lambda>p. {fst p})"
  unfolding prepare_request_def by (rule safe_intros safe_return_set | force)+

lemma failure_safe [safe_intros]: "safe D 0 0 0 (on_run_error sx e) (\<lambda>_. {})" "safe D 0 0 0 (on_peer_error sx e) (\<lambda>_. {})"
  unfolding on_run_error_def on_peer_error_def handle_failure_def by (rule safe_intros safe_return_set | force)+

lemma engine_run_sound: "sound {} (engine_run sx input th task atts required) (\<lambda>_. {})"
  unfolding engine_run_def
  by (rule sound_of_safe [OF safe_lift] sound_of_safe [OF start_run_safe] run_loop_sound sound_catch sound_of_safe [OF failure_safe(1)]
      sound_of_safe [OF prepare_request_safe] sound_prod sound_of_safe [OF safe_update(1)] sound_bind sound_then
    | (rule sound_of_safe [where k = 0], (rule safe_intros safe_return_set | force)+; fail))+

lemma engine_run_peer_sound: "sound {} (engine_run_peer sx th) (\<lambda>_. {})"
  unfolding engine_run_peer_def
  by (rule sound_of_safe [OF start_run_safe] run_loop_sound sound_catch sound_of_safe [OF failure_safe(2)]
      sound_of_safe [OF safe_update(1)] sound_bind sound_then
    | (rule sound_of_safe [where k = 0], (rule safe_intros safe_return_set | force)+; fail))+

section \<open>Calls that must not run\<close>

definition dispatches :: "entry list \<Rightarrow> nat" where
  "dispatches xs = length (filter (\<lambda>x. case x of Dispatched _ \<Rightarrow> True | _ \<Rightarrow> False) xs)"

text \<open>An effect that runs no tool and does not lift the block of an in-flight validation failure.\<close>

definition idle :: "('x, 'a) io \<Rightarrow> bool" where
  "idle m = (\<forall>s. dispatches (eg_log (snd (m s))) = dispatches (eg_log s) \<and> (eg_blocked s \<longrightarrow> eg_blocked (snd (m s))))"

named_theorems idle_intros \<open>effects that run no tool\<close>

lemma idle_bind [idle_intros]:
  assumes "idle m" "\<And>v. idle (f v)"
  shows "idle (bindI m f)"
  unfolding idle_def
proof
  fix s
  obtain r u where u: "m s = (r, u)" by (cases "m s")
  have "dispatches (eg_log u) = dispatches (eg_log s) \<and> (eg_blocked s \<longrightarrow> eg_blocked u)"
    using assms(1) u unfolding idle_def by (metis snd_conv)
  thus "dispatches (eg_log (snd (bindI m f s))) = dispatches (eg_log s) \<and> (eg_blocked s \<longrightarrow> eg_blocked (snd (bindI m f s)))"
    using assms(2) [unfolded idle_def, rule_format, of "projr r" u] by (cases r) (auto simp: bindI_def u)
qed

lemma idle_then [idle_intros]: "idle m \<Longrightarrow> idle n \<Longrightarrow> idle (thenI m n)"
  unfolding thenI_def by (rule idle_bind)

lemma idle_steps [idle_intros]:
  "idle (returnI x)" "idle (failI e)" "idle (raiseI cl msg)" "idle (liftR r)" "idle (getI g)" "idle (runI h)" "idle (turnI i)" "idle (updateI u)"
  "idle (update_turnI w)" "idle (callI op)" "idle (persistI msg op')" "idle (yieldI ev)" "idle (logI (Journaled ev))" "idle (logI (Stored m))"
  "idle (logI (Granted a b))" "idle (modifyI (\<lambda>s. s\<lparr>eg_result := res\<rparr>))" "idle (modifyI (\<lambda>s. s\<lparr>eg_blocked := True\<rparr>))"
  "idle (modifyI (\<lambda>s. s\<lparr>eg_collected := es\<rparr>))"
  by (auto simp: idle_def returnI_def failI_def raiseI_def liftR_def getI_def runI_def turnI_def updateI_def update_turnI_def modifyI_def callI_def
    logI_def persistI_def yieldI_def dispatches_def split: prod.splits)

lemma idle_cases [idle_intros]:
  "idle m \<Longrightarrow> idle n \<Longrightarrow> idle (if p then m else n)" "idle o' \<Longrightarrow> idle (whenI p o')" "idle (f x') \<Longrightarrow> idle (Let x' f)"
  "idle m' \<Longrightarrow> (\<And>y. idle (f' y)) \<Longrightarrow> idle (case x of None \<Rightarrow> m' | Some y \<Rightarrow> f' y)"
  "(\<And>y z. idle (g y z)) \<Longrightarrow> idle (case w of (y, z) \<Rightarrow> g y z)"
  "(\<And>y. idle (h y)) \<Longrightarrow> (\<And>y. idle (i y)) \<Longrightarrow> idle (case v of Inl y \<Rightarrow> h y | Inr y \<Rightarrow> i y)"
  by (auto simp: whenI_def idle_steps split: option.splits prod.splits sum.splits)

lemma idle_catch [idle_intros]:
  assumes "idle m" "\<And>e. idle (h e)"
  shows "idle (catchI m h)"
  unfolding idle_def
proof
  fix s
  obtain r u where u: "m s = (r, u)" by (cases "m s")
  have "dispatches (eg_log u) = dispatches (eg_log s) \<and> (eg_blocked s \<longrightarrow> eg_blocked u)"
    using assms(1) u unfolding idle_def by (metis snd_conv)
  thus "dispatches (eg_log (snd (catchI m h s))) = dispatches (eg_log s) \<and> (eg_blocked s \<longrightarrow> eg_blocked (snd (catchI m h s)))"
    using assms(2) [unfolded idle_def, rule_format, of "projl r" u] by (cases r) (auto simp: catchI_def u)
qed

lemma idle_for [idle_intros]: "(\<And>x. idle (f x)) \<Longrightarrow> idle (forI xs f)"
  by (induction xs) (auto intro: idle_intros)

lemma idle_json [idle_intros]:
  "idle n \<Longrightarrow> (\<And>x. idle (fb x)) \<Longrightarrow> (\<And>x. idle (fi x)) \<Longrightarrow> (\<And>x y. idle (ff x y)) \<Longrightarrow> (\<And>x. idle (fs x)) \<Longrightarrow> (\<And>x. idle (fa x)) \<Longrightarrow>
    (\<And>x. idle (fo x)) \<Longrightarrow> idle (case_json n fb fi ff fs fa fo v)"
  by (cases v) auto

lemma idle_list [idle_intros]: "idle m \<Longrightarrow> (\<And>y ys. idle (f y ys)) \<Longrightarrow> idle (case xs of [] \<Rightarrow> m | y # ys \<Rightarrow> f y ys)"
  by (cases xs) auto

lemma idle_journal [idle_intros]:
  "idle (append_event sx t e)" "idle (append_message sx t m)" "idle (load_task_state sx t)" "idle (save_task_state sx t st)"
  "idle (transition_task sx i ts reason)" "idle (create_checkpoint sx t label data)" "idle (record_active_seconds_of sx i n)"
  "idle (new_event sx k p)" "idle (message_added sx m)" "idle (raise_if_cancelled sx)"
  unfolding append_event_def append_message_def load_task_state_def save_task_state_def transition_task_def create_checkpoint_def
    record_active_seconds_of_def message_added_def new_event_def raise_if_cancelled_def
  by (rule idle_intros)+

lemma idle_events [idle_intros]: "idle (recordI sx k p)" "idle (emitI sx k p)" "idle (queue_notice n)"
  unfolding emitI_def recordI_def queue_notice_def by (rule idle_intros)+

lemma idle_actions [idle_intros]:
  "idle (persist_tool_failure sx c r)" "idle (resolve_supervision_call sx c)" "idle (resolved_action sx q)" "idle (pause_task sx k reason)"
  unfolding persist_tool_failure_def resolve_supervision_call_def resolved_action_def pause_task_def save_seconds_def checkpoint_seconds_def
  by (rule idle_intros)+

lemma idle_record [idle_intros]: "idle (record_or_l0_failure sx c q r)"
  unfolding record_or_l0_failure_def record_action_state_def record_validation_state_def by (rule idle_intros)+

lemma idle_handle_event [idle_intros]: "idle (track_event e)" "idle (handle_event sx c e)"
  unfolding handle_event_def observe_repetition_def flag_validation_error_def track_event_def by (rule idle_intros)+

lemma idle_settle: "(\<And>e. idle (emit e)) \<Longrightarrow> idle (settle_action sx c q emit r)"
  unfolding settle_action_def by (rule idle_intros | assumption)+

lemma idle_unavailable: "idle (dispatch_action sx c False why (handle_event sx d))"
  unfolding dispatch_action_def not_False_eq_True if_True by (rule idle_intros idle_settle)+

text \<open>Effects that run no tool while the turn is blocked.\<close>

definition idle_blocked :: "('x, 'a) io \<Rightarrow> bool" where
  "idle_blocked m = (\<forall>s. eg_blocked s \<longrightarrow> dispatches (eg_log (snd (m s))) = dispatches (eg_log s) \<and> eg_blocked (snd (m s)))"

lemma idle_blocked_idle: "idle m \<Longrightarrow> idle_blocked m"
  by (simp add: idle_def idle_blocked_def)

lemma idle_blocked_bind:
  assumes "idle_blocked m" "\<And>v. idle_blocked (f v)"
  shows "idle_blocked (bindI m f)"
  unfolding idle_blocked_def
proof (intro allI impI)
  fix s :: "'a engine" assume s: "eg_blocked s"
  obtain r u where u: "m s = (r, u)" by (cases "m s")
  have "dispatches (eg_log u) = dispatches (eg_log s) \<and> eg_blocked u"
    using assms(1) s u unfolding idle_blocked_def by (metis snd_conv)
  thus "dispatches (eg_log (snd (bindI m f s))) = dispatches (eg_log s) \<and> eg_blocked (snd (bindI m f s))"
    using assms(2) [unfolded idle_blocked_def, rule_format, of u "projr r"] by (cases r) (auto simp: bindI_def u)
qed

lemma idle_blocked_then: "idle_blocked m \<Longrightarrow> idle_blocked n \<Longrightarrow> idle_blocked (thenI m n)"
  unfolding thenI_def by (rule idle_blocked_bind)

lemma idle_blocked_flag: "idle_blocked (f True) \<Longrightarrow> idle_blocked (bindI (getI eg_blocked) f)"
  by (simp add: idle_blocked_def bindI_def getI_def)

lemma idle_blocked_option:
  "idle_blocked m \<Longrightarrow> (\<And>y. idle_blocked (f y)) \<Longrightarrow> idle_blocked (case x of None \<Rightarrow> m | Some y \<Rightarrow> f y)"
  by (cases x) auto

lemma dispatch_turn_call_idle: "idle_blocked (dispatch_turn_call sx c)"
  unfolding dispatch_turn_call_def flag_validation_error_def
  by (rule idle_blocked_then [OF idle_blocked_idle [OF idle_steps(8)]] idle_blocked_bind [OF idle_blocked_idle [OF idle_actions(2)]]
      idle_blocked_bind [OF idle_blocked_idle [OF idle_steps(6)]] idle_blocked_bind [OF idle_blocked_idle [OF idle_steps(4)]])+
    (rule idle_blocked_bind, (rule idle_blocked_idle, (rule idle_intros)+; fail), rule idle_blocked_option, rule idle_blocked_flag,
      rule idle_blocked_idle, simp only: not_True_eq_False simp_thms if_True, (rule idle_unavailable idle_intros)+,
      rule idle_blocked_idle, (rule idle_intros)+)

lemma dispatch_calls_idle: "idle_blocked (dispatch_calls sx cs)"
proof (induction cs)
  case (Cons c cs)
  show ?case
    unfolding dispatch_calls.simps
    by (rule idle_blocked_then [OF dispatch_turn_call_idle], rule idle_blocked_bind [OF idle_blocked_idle [OF idle_steps(6)]])
      (simp add: Cons idle_blocked_idle idle_steps)
qed (simp add: idle_blocked_idle idle_steps)

lemma flush_notices_idle: "idle (flush_notices sx)" "idle (flush_unless_stopped sx)"
  unfolding flush_unless_stopped_def flush_notices_def by (rule idle_intros)+

lemma reject_summary_calls_idle: "idle (reject_summary_calls sx)"
  unfolding reject_summary_calls_def refuse_call_def by (rule idle_intros)+

text \<open>A verification call reports a pause or an open decision in its events only: the stop flag of the run is not touched.\<close>

abbreviation keeps_stop :: "('x, 'a) io \<Rightarrow> bool" where
  "keeps_stop \<equiv> leaves (\<lambda>s. rs_stop (eg_run s))"

lemma keeps_stop_journal [kept_intros]: "keeps_stop (append_event sx t e)" "keeps_stop (append_message sx t m)" "keeps_stop (load_task_state sx t)"
  "keeps_stop (save_task_state sx t st)" "keeps_stop (message_added sx m)" "keeps_stop (recordI sx k p)" "keeps_stop (raise_if_cancelled sx)"
  "keeps_stop (resolved_action sx q)"
  unfolding recordI_def message_added_def new_event_def append_event_def append_message_def load_task_state_def save_task_state_def
    raise_if_cancelled_def resolved_action_def
  by (rule kept_intros | simp)+

lemma keeps_stop_pause [kept_intros]: "keeps_stop (pause_task sx k reason)" "keeps_stop (save_seconds sx k s)"
  unfolding pause_task_def save_seconds_def checkpoint_seconds_def record_active_seconds_of_def transition_task_def create_checkpoint_def
  by (rule kept_intros | simp)+

lemma keeps_stop_action [kept_intros]:
  "keeps_stop (supervise_action sx q)" "keeps_stop (invoke_action sx q c ctx)" "keeps_stop (execution_context sx i)"
  "keeps_stop (record_or_l0_failure sx c q r)"
  unfolding supervise_action_def invoke_action_def execution_context_def record_or_l0_failure_def record_action_state_def
    record_validation_state_def create_checkpoint_def Let_def
  by (rule kept_intros | simp)+

lemma keeps_stop_dispatch [kept_intros]: "(\<And>e. keeps_stop (emit e)) \<Longrightarrow> keeps_stop (dispatch_action sx c available why emit)"
  unfolding dispatch_action_def settle_action_def transition_task_def by (rule kept_intros | assumption | simp)+

lemma keeps_stop_verification: "keeps_stop (run_verification_call sx k c b)"
  unfolding run_verification_call_def task_progress_snapshot_def host_progress_facts_def reserve_task_budget_def persist_assistant_def
    available_names_def collectI_def
  by (rule kept_intros | simp)+

section \<open>What a run promises\<close>

text \<open>An engine at the start of a run; the run and turn in progress before it do not matter.\<close>

definition new_engine :: "'x \<Rightarrow> run_state \<Rightarrow> turn_state \<Rightarrow> 'x engine" where
  "new_engine x r n = \<lparr>eg_ext = x, eg_log = [], eg_run = r, eg_turn = n, eg_blocked = False, eg_result = None, eg_collected = [],
     eg_advertised = []\<rparr>"

lemma holds_new: "holds {} 0 0 q q (new_engine x r n)"
  by (simp add: holds_def new_engine_def)

lemma sound_log:
  assumes "sound {} m R"
  shows "durable [] (eg_log (snd (m (new_engine x r n)))) \<and> funded 0 0 (eg_log (snd (m (new_engine x r n))))"
proof -
  have k: "kept {} (new_engine x r n)" unfolding kept_def by (intro exI) (rule holds_new)
  have "\<exists>E. kept E (snd (m (new_engine x r n)))"
  proof (cases "m (new_engine x r n)")
    case (Pair v s)
    show ?thesis using soundD [OF assms order_refl k] Pair by (cases v) auto
  qed
  thus ?thesis by (auto simp: kept_def holds_def)
qed

text \<open>
  C5: Every event a run hands to its consumer has been appended to the session's journal before, whatever the
  model, the tools and the services do, and whether the run ends, fails or is cancelled.
\<close>

theorem engine_shows_what_it_stored:
  "durable [] (eg_log (snd (engine_run sx input th task atts required (new_engine x r n))))
   \<and> durable [] (eg_log (snd (engine_run_peer sx th (new_engine x r n))))"
  by (rule conjI conjunct1 [OF sound_log [OF engine_run_sound]] conjunct1 [OF sound_log [OF engine_run_peer_sound]])+

text \<open>
  C4: At every point of a run the model has been asked no more often than turns were granted by the durable
  budget, and tools were called no more often than calls were granted, suggested verifications included.
\<close>

theorem engine_spends_what_was_granted:
  "funded 0 0 (eg_log (snd (engine_run sx input th task atts required (new_engine x r n))))
   \<and> funded 0 0 (eg_log (snd (engine_run_peer sx th (new_engine x r n))))"
  by (rule conjI conjunct2 [OF sound_log [OF engine_run_sound]] conjunct2 [OF sound_log [OF engine_run_peer_sound]])+

text \<open>
  C6: The loop over the turns ends for every behaviour of the services, with at most as many model requests as
  the run's budget has rounds.
\<close>

theorem run_loop_is_bounded:
  "requests (eg_log (snd (run_loop sx (new_engine x r n)))) \<le> nat (el_max_agent_rounds (tb_limits (rs_budget r)))"
proof -
  let ?k = "nat (el_max_agent_rounds (tb_limits (rs_budget r)))"
  have s: "run_loop sx (new_engine x r n) = run_turns sx 1 ?k (new_engine x r n)"
    by (simp add: run_loop_eq new_engine_def)
  have "holds {} (0 + 0) (0 + 0) (0 + ?k) ?k (new_engine x r n)" using holds_new by simp
  hence o: "outcome_holds (\<lambda>_. {}) {} 0 0 0 ?k (run_turns sx 1 ?k (new_engine x r n))" by (rule safeD [OF run_turns_safe subset_refl])
  show ?thesis
    using o unfolding s outcome_holds_def holds_def
    by (cases "run_turns sx 1 ?k (new_engine x r n)"; cases "fst (run_turns sx 1 ?k (new_engine x r n))") auto
qed


text \<open>A turn that may only summarise runs no tool, even when the model asks for some.\<close>

theorem summary_turn_runs_nothing:
  "dispatches (eg_log (snd (conclude_turn sx final_modify
     (s\<lparr>eg_turn := (new_turn k [] [] True forced)\<lparr>tn_text_parts := parts, tn_calls := c # cs\<rparr>\<rparr>)))) = dispatches (eg_log s)"
proof -
  have "idle (thenI (reject_summary_calls sx) (flush_unless_stopped sx))"
    by (rule idle_then reject_summary_calls_idle flush_notices_idle)+
  thus ?thesis unfolding idle_def by (simp add: conclude_turn_def bindI_def turnI_def getI_def new_turn_def)
qed

text \<open>
  A verification that pauses the task or waits for a decision leaves the run going: the callers that do not look
  at its events, as the loop over the calls of a turn does not, ask the model again.
\<close>

theorem verification_leaves_run_going:
  "rs_stop (eg_run (snd (run_verification_call sx k c b s))) = rs_stop (eg_run s)"
  using keeps_stop_verification [of sx k c b] unfolding leaves_def by blast

end
