(* ===== verification/Risk.thy ===== *)
theory Risk
  imports Paths Regex Evidence_Ledger
begin

text \<open>
  How much a change must be verified: \<open>src/src/code_agent/verification/risk.py\<close> and \<open>planner.py\<close>. The
  patterns are those of the source, in the syntax of \<open>Regex\<close>; text matched without \<open>re.I\<close> is \<open>exact\<close>. The
  semantic graph and the files of the workspace are parameters.
\<close>

section \<open>Risk of a set of paths\<close>

datatype risk_tier = R_TRIVIAL | R_LOW | R_MEDIUM | R_HIGH | R_CRITICAL

fun tier_text :: "risk_tier \<Rightarrow> string" where
  "tier_text R_TRIVIAL = ''trivial''"
| "tier_text R_LOW = ''low''"
| "tier_text R_MEDIUM = ''medium''"
| "tier_text R_HIGH = ''high''"
| "tier_text R_CRITICAL = ''critical''"

text \<open>\<open>_TIER_ORDER.index\<close>.\<close>

fun tier_rank :: "risk_tier \<Rightarrow> nat" where
  "tier_rank R_TRIVIAL = 0"
| "tier_rank R_LOW = 1"
| "tier_rank R_MEDIUM = 2"
| "tier_rank R_HIGH = 3"
| "tier_rank R_CRITICAL = 4"

definition max_tier :: "risk_tier \<Rightarrow> risk_tier \<Rightarrow> risk_tier" where
  "max_tier a b = (if tier_rank a < tier_rank b then b else a)"

definition low_risk_extensions :: "string list" where
  "low_risk_extensions = [''.md'', ''.markdown'', ''.txt'', ''.rst'', ''.adoc'', ''.png'', ''.jpg'', ''.jpeg'', ''.gif'', ''.webp'', ''.svg'', ''.ico'']"

definition low_risk_filenames :: "string list" where
  "low_risk_filenames = [''license'', ''license.md'', ''license.txt'', ''.gitignore'', ''.gitattributes'', ''.editorconfig'', ''readme'', ''readme.md'']"

definition document_names :: "string list" where
  "document_names = [''readme'', ''readme.md'', ''license'', ''license.md'', ''license.txt'', ''changelog.md'', ''contributing.md'']"

definition critical_names :: "string list" where
  "critical_names = [''pyproject.toml'', ''setup.py'', ''setup.cfg'', ''requirements.txt'', ''requirements-'', ''alembic'', ''migrations'',
     ''_database.py'', ''_schema_'']"

definition high_risk_subsystems :: "string list" where
  "high_risk_subsystems = [''core/'', ''runtime/'', ''policy/'', ''workspace/'', ''sessions/'', ''checkpoints/'']"

text \<open>\<open>PurePosixPath(path).suffix\<close> and \<open>.stem\<close>: the last dot counts unless it begins or ends the name.\<close>

definition suffix_start :: "string \<Rightarrow> nat option" where
  "suffix_start name = (case filter (\<lambda>i. name ! i = CHR ''.'') [0..<length name] of
      [] \<Rightarrow> None
    | is \<Rightarrow> if 0 < last is \<and> last is < length name - 1 then Some (last is) else None)"

definition path_suffix :: "string \<Rightarrow> string" where
  "path_suffix path = (let name = path_name (posix_path path) in case suffix_start name of None \<Rightarrow> [] | Some i \<Rightarrow> drop i name)"

definition path_stem :: "string \<Rightarrow> string" where
  "path_stem path = (let name = path_name (posix_path path) in case suffix_start name of None \<Rightarrow> name | Some i \<Rightarrow> take i name)"

definition file_name :: "string \<Rightarrow> string" where
  "file_name path = casefold (path_name (posix_path path))"

definition critical_path :: "string \<Rightarrow> bool" where
  "critical_path path = list_ex (contains (casefold path)) critical_names"

definition high_path :: "string \<Rightarrow> bool" where
  "high_path path = list_ex (contains (casefold path)) high_risk_subsystems"

definition low_path :: "string \<Rightarrow> bool" where
  "low_path path = (casefold (path_suffix path) \<in> set low_risk_extensions \<or> file_name path \<in> set low_risk_filenames)"

definition classify_risk :: "string list \<Rightarrow> risk_tier \<times> string" where
  "classify_risk changed =
     (if changed = [] then (R_LOW, ''No changed files detected'')
      else
        let normalized = map to_slash changed in
        case find critical_path normalized of
          Some p \<Rightarrow> (R_CRITICAL, ''Critical configuration or schema modified: '' @ p)
        | None \<Rightarrow>
            (case find high_path normalized of
               Some p \<Rightarrow> (R_HIGH, ''Core subsystem modified: '' @ p)
             | None \<Rightarrow>
                 if list_all low_path normalized then (R_LOW, ''All changed files are documentation or non-executable assets'')
                 else (R_MEDIUM, ''Changes affect local feature logic or modules'')))"

section \<open>Patterns\<close>

primrec exact :: "string \<Rightarrow> rx" where
  "exact [] = Eps"
| "exact (c # cs) = Cat (One (\<lambda>x. x = c)) (exact cs)"

definition exact_alt :: "string list \<Rightarrow> rx" where
  "exact_alt ws = alts (map exact ws)"

definition is_name_start :: "char \<Rightarrow> bool" where
  "is_name_start c = (letter c \<or> c = CHR ''_'')"

text \<open>\<open>(?!c)\<close>: the end of the text, or another character. \<open>Eol\<close> matches before a final line feed, which is another character.\<close>

definition not_before :: "char \<Rightarrow> rx" where
  "not_before c = Alt Eol (Look (One (\<lambda>x. x \<noteq> c)))"

definition single :: "char \<Rightarrow> rx" where
  "single c = cats [NotAfter (\<lambda>x. x = c), One (\<lambda>x. x = c), not_before c]"

definition async_opt :: rx where
  "async_opt = opt (Cat (exact ''async'') (many1 is_space))"

definition symbol_pattern :: rx where
  "symbol_pattern = cats [async_opt, exact_alt [''def'', ''class''], many1 is_space, Cap (Cat (One is_name_start) (Many is_word))]"

definition high_rules :: "(rx \<times> string) list" where
  "high_rules =
     [(alts [single (CHR ''&''), single (CHR ''|''), exact ''^'', exact ''<<'', exact ''>>'', exact ''~''], ''Bitwise operation changed''),
      (cats [Wb, async_opt, exact ''def'', many1 is_space, many1 is_word, Many is_space, exact ''(''], ''Function signature added or removed''),
      (words_alt [''parse'', ''parser'', ''decode'', ''encode'', ''protocol'', ''state_machine'', ''transition''],
        ''Parser, protocol, or state-transition logic changed'')]"

definition control_flow :: rx where
  "control_flow = word (exact_alt [''if'', ''elif'', ''else'', ''except'', ''raise'', ''try'', ''finally'', ''for'', ''while'', ''match'', ''case''])"

definition stem_rule :: "string list \<Rightarrow> rx" where
  "stem_rule ws = word (Cat (words_alt ws) (Many is_word))"

definition trivial_blockers :: "rx list" where
  "trivial_blockers =
     [word (alts [exact ''import'', exact ''export'',
        cats [exact ''from'', many1 is_space, many1 (\<lambda>c. \<not> is_space c), many1 is_space, exact ''import''], exact ''__all__'']),
      cats [Wb, exact ''class'', many1 is_space, many1 is_word, Wb],
      stem_rule [''auth'', ''permission'', ''credential'', ''secret'', ''token'', ''encrypt'', ''decrypt'', ''sandbox''],
      stem_rule [''database'', ''migration'', ''schema'', ''serializ'', ''persist'', ''checkpoint'', ''recovery'', ''restore''],
      stem_rule [''async'', ''await'', ''thread'', ''process'', ''concurren'', ''lock'', ''mutex'', ''semaphore''],
      stem_rule [''network'', ''socket'', ''http'', ''https'', ''request'', ''response'', ''protocol''],
      alts [Cat (lit ''<script'') Wb, Cat (lit ''<form'') Wb, cats [Wb, lit ''on'', many1 letter, Many is_space, lit ''=''],
        cats [Wb, lit ''action'', Many is_space, lit ''='']]]"

section \<open>Risk of a patch\<close>

definition excluded_suffixes :: "string list" where
  "excluded_suffixes = [''.cfg'', ''.env'', ''.ini'', ''.json'', ''.toml'', ''.yaml'', ''.yml'']"

definition entry_names :: "string list" where
  "entry_names = [''__main__.py'', ''app.py'', ''cli.py'', ''main.py'', ''agent_app.py'', ''agent_cli.py'']"

definition excluded_parts :: "string list" where
  "excluded_parts = [''.github'', ''ci'', ''fixture'', ''fixtures'', ''generated'', ''snapshot'', ''snapshots'', ''tests'', ''vendor'', ''vendored'']"

definition folder_names :: "string \<Rightarrow> string list" where
  "folder_names path = map casefold (butlast (path_parts (posix_path path)))"

definition trivial_path_allowed :: "string \<Rightarrow> bool" where
  "trivial_path_allowed raw =
     (let path = to_slash raw; name = file_name path in
      \<not> (starts_with name ''test_'' \<or> ends_with name ''_test.py'' \<or> name \<in> set entry_names
         \<or> casefold (path_suffix path) \<in> set excluded_suffixes
         \<or> set (folder_names path) \<inter> set excluded_parts \<noteq> {}))"

definition document_path :: "string \<Rightarrow> bool" where
  "document_path raw =
     (let path = to_slash raw in file_name path \<in> set document_names
        \<or> set (folder_names path) \<inter> {''docs'', ''doc'', ''documentation''} \<noteq> {})"

definition clear_documentation_paths :: "string list \<Rightarrow> bool" where
  "clear_documentation_paths changed = (changed \<noteq> [] \<and> list_all document_path changed)"

definition line_end :: "char \<Rightarrow> bool" where
  "line_end c = (code_of c \<in> {10, 11, 12, 13, 28, 29, 30, 133})"

text \<open>\<open>str.splitlines()\<close>; a carriage return and line feed end one line.\<close>

fun split_lines :: "string \<Rightarrow> string \<Rightarrow> string list" where
  "split_lines l [] = (if l = [] then [] else [rev l])"
| "split_lines l [c] = (if line_end c then [rev l] else [rev (c # l)])"
| "split_lines l (c # d # s) =
     (if \<not> line_end c then split_lines (c # l) (d # s)
      else rev l # (if code_of c = 13 \<and> code_of d = 10 then split_lines [] s else split_lines [] (d # s)))"

definition patch_lines :: "string \<Rightarrow> string list" where
  "patch_lines = split_lines []"

definition changed_patch_lines :: "string \<Rightarrow> string list" where
  "changed_patch_lines patch = map (drop 1) (filter (\<lambda>l. (starts_with l ''+'' \<or> starts_with l ''-'')
     \<and> \<not> (starts_with l ''+++'' \<or> starts_with l ''---'')) (patch_lines patch))"

definition is_trivial_candidate :: "risk_tier \<Rightarrow> string list \<Rightarrow> string list \<Rightarrow> string \<Rightarrow> bool" where
  "is_trivial_candidate tier changed changed_lines text =
     (tier \<in> {R_LOW, R_MEDIUM} \<and> length changed = 1 \<and> 0 < length changed_lines \<and> length changed_lines \<le> 20
      \<and> trivial_path_allowed (hd changed) \<and> \<not> re_search control_flow text \<and> \<not> list_ex (\<lambda>r. re_search r text) trivial_blockers)"

definition trivial_reason :: "nat \<Rightarrow> bool \<Rightarrow> string" where
  "trivial_reason n signals =
     ''Single-file patch has '' @ int_text (int n) @ '' changed lines within the 20-line trivial limit''
     @ (if signals then '' and no forced-escalation signal'' else [])"

definition patch_cut :: "string \<Rightarrow> bool" where
  "patch_cut diff = (262144 < length diff \<or> contains diff ''PATCH_BODY_TRUNCATED'' \<or> contains diff ''GIT binary patch''
     \<or> contains diff ''Binary files '')"

definition insert_text :: "string \<Rightarrow> string list \<Rightarrow> string list" where
  "insert_text s xs = takeWhile (\<lambda>x. x \<noteq> s \<and> text_le x s) xs @ s # filter (\<lambda>x. x \<noteq> s) (dropWhile (\<lambda>x. x \<noteq> s \<and> text_le x s) xs)"

text \<open>\<open>sorted(set(xs))\<close>.\<close>

definition sorted_texts :: "string list \<Rightarrow> string list" where
  "sorted_texts xs = foldr insert_text xs []"

definition code_lines :: "string list \<Rightarrow> string list" where
  "code_lines changed_lines = filter (\<lambda>l. l \<noteq> [] \<and> \<not> (starts_with l ''#'' \<or> starts_with l ''//'')) (map py_strip changed_lines)"

type_synonym patch_risk = "risk_tier \<times> string list \<times> string list \<times> string list"

definition classify_patch_risk :: "string list \<Rightarrow> string \<Rightarrow> patch_risk" where
  "classify_patch_risk changed diff =
     (case classify_risk changed of (tier, path_reason) \<Rightarrow>
        if diff = [] \<or> (tier = R_LOW \<and> clear_documentation_paths changed) then (tier, [], [path_reason], [])
        else
          let patch = take 262144 diff;
              lines = changed_patch_lines patch;
              code = code_lines lines;
              symbols = sorted_texts (concat (map (\<lambda>l. map (\<lambda>k. case k of None \<Rightarrow> [] | Some s \<Rightarrow> s) (re_finditer symbol_pattern l))
                (code @ filter (\<lambda>l. starts_with l ''@@'') (patch_lines patch))));
              (final, reasons) =
                (if patch_cut diff
                 then (max_tier tier R_HIGH, [path_reason, ''Patch body incomplete; require conservative verification''])
                 else if lines \<noteq> [] \<and> code = []
                 then (if is_trivial_candidate tier changed lines [] then (R_TRIVIAL, [trivial_reason (length lines) False])
                       else if tier = R_MEDIUM then (R_LOW, [''Patch changes only comments or whitespace''])
                       else (tier, [path_reason]))
                 else
                   let text = join_with [CHR 10] code;
                       hits = filter (\<lambda>(r, why). re_search r text) high_rules;
                       raised = (if hits = [] then tier else max_tier tier R_HIGH)
                   in if is_trivial_candidate raised changed lines text then (R_TRIVIAL, [trivial_reason (length lines) True])
                      else (raised, path_reason # map snd hits
                              @ (if re_search control_flow text then [''Control-flow or exception handling changed''] else [])))
          in (final, symbols, reasons, if final \<in> {R_HIGH, R_CRITICAL} then [''related_behavior_tests'', ''final_project_gate''] else []))"

end
