(* ===== verification/Planner.thy ===== *)
theory Planner
  imports Risk Json_Text Convergence
begin

text \<open>
  What must be run for a change: \<open>src/src/code_agent/verification/planner.py\<close>, the plain functions of
  \<open>task_evidence.py\<close>, \<open>task_plans.py\<close>, and the candidates of \<open>projects/discovery.py\<close>. The semantic graph, the
  directories of the workspace and the executables on the path are parameters; changed files are relative.
\<close>

section \<open>Plans\<close>

datatype verification_phase = IN_FLIGHT | LOCAL_MILESTONE | FINAL_GATE

fun phase_value :: "verification_phase \<Rightarrow> string" where
  "phase_value IN_FLIGHT = ''in_flight''"
| "phase_value LOCAL_MILESTONE = ''local_milestone''"
| "phase_value FINAL_GATE = ''final_gate''"

record verification_plan =
  vp_tier :: risk_tier
  vp_phase :: verification_phase
  vp_changed :: "string list"
  vp_syntax_targets :: "string list"
  vp_targeted :: "string list"
  vp_full_gate :: bool
  vp_skip_tests :: bool
  vp_reason :: string
  vp_generation :: "int option"
  vp_symbols :: "string list"
  vp_risk_reasons :: "string list"
  vp_checks :: "string list"

definition text_list :: "string list \<Rightarrow> json" where
  "text_list xs = JArr (map JStr xs)"

definition plan_to_dict :: "verification_plan \<Rightarrow> jdict" where
  "plan_to_dict p =
     [(''tier'', JStr (tier_text (vp_tier p))), (''phase'', JStr (phase_value (vp_phase p))), (''changed_files'', text_list (vp_changed p)),
      (''syntax_targets'', text_list (vp_syntax_targets p)), (''targeted_tests'', text_list (vp_targeted p)),
      (''require_full_gate'', JBool (vp_full_gate p)), (''skip_tests'', JBool (vp_skip_tests p)), (''reason'', JStr (vp_reason p)),
      (''semantic_generation'', case vp_generation p of None \<Rightarrow> JNull | Some g \<Rightarrow> JInt g), (''risk_level'', JStr (tier_text (vp_tier p))),
      (''changed_symbols'', text_list (vp_symbols p)), (''risk_reasons'', text_list (vp_risk_reasons p)),
      (''selected_tests'', text_list (vp_targeted p)), (''additional_checks'', text_list (vp_checks p))]"

text \<open>The methods of a semantic graph, each optional; \<open>evaluate_risk\<close> answers with the value of a tier or with another text.\<close>

record semantic_graph =
  sg_evaluate :: "(string list \<Rightarrow> risk_tier option \<times> string) option"
  sg_impacted :: "(string list \<Rightarrow> string list) option"

text \<open>Directories and files by their path relative to the root; \<open>wt_glob d p\<close> lists the files of \<open>d\<close> that match \<open>p\<close>.\<close>

record workspace_tree =
  wt_is_dir :: "string \<Rightarrow> bool"
  wt_is_file :: "string \<Rightarrow> bool"
  wt_glob :: "string \<Rightarrow> string \<Rightarrow> string list"
  wt_text :: "string \<Rightarrow> string option"

record planner =
  pl_graph :: "semantic_graph option"
  pl_generation :: "int option"

definition new_planner :: "semantic_graph option \<Rightarrow> planner" where
  "new_planner g = \<lparr>pl_graph = g, pl_generation = None\<rparr>"

definition set_semantic_graph :: "semantic_graph \<Rightarrow> planner \<Rightarrow> planner" where
  "set_semantic_graph g p = p\<lparr>pl_graph := Some g, pl_generation := None\<rparr>"

definition set_semantic_snapshot :: "semantic_graph \<Rightarrow> int \<Rightarrow> planner \<Rightarrow> planner" where
  "set_semantic_snapshot g n p = p\<lparr>pl_graph := Some g, pl_generation := Some n\<rparr>"

definition parent_folder :: "string \<Rightarrow> string" where
  "parent_folder path = (let p = posix_path path in path_str (CHR ''/'') (p\<lparr>pp_tail := butlast (pp_tail p)\<rparr>))"

definition tests_beside :: "string \<Rightarrow> string" where
  "tests_beside path = (let d = parent_folder path in if d = ''.'' \<or> d = [] then ''tests'' else if d = ''/'' then ''/tests'' else d @ ''/tests'')"

definition is_test_name :: "string \<Rightarrow> bool" where
  "is_test_name name = (starts_with name ''test_'' \<or> ends_with name ''_test.py'')"

definition tests_of_file :: "workspace_tree \<Rightarrow> string \<Rightarrow> string list" where
  "tests_of_file w path =
     (let name = path_name (posix_path path); stem = path_stem path; beside = tests_beside path;
          near =
            (if \<not> wt_is_dir w beside then []
             else let named = wt_glob w beside (''test_'' @ stem @ ''*.py'') in
               if named \<noteq> [] then named
               else let mentioning = filter (\<lambda>f. case wt_text w f of None \<Rightarrow> False | Some t \<Rightarrow> contains t stem) (wt_glob w beside ''test_*.py'') in
                 if mentioning \<noteq> [] then mentioning else [beside]);
          root =
            (if \<not> wt_is_dir w ''tests'' then []
             else (let one = ''tests/test_'' @ stem @ ''.py'' in if wt_is_file w one then [one] else [])
                  @ wt_glob w ''tests'' (''test_'' @ stem @ ''_*.py''))
      in if is_test_name name then [path] else if \<not> ends_with path ''.py'' then [] else near @ root)"

definition find_impacted_tests :: "planner \<Rightarrow> workspace_tree \<Rightarrow> string list \<Rightarrow> string list" where
  "find_impacted_tests pl w changed =
     sorted_texts ((case pl_graph pl of None \<Rightarrow> [] | Some g \<Rightarrow> (case sg_impacted g of None \<Rightarrow> [] | Some f \<Rightarrow> f changed))
       @ concat (map (\<lambda>f. tests_of_file w (to_slash f)) changed))"

definition evaluated_risk :: "planner \<Rightarrow> string list \<Rightarrow> (risk_tier \<times> string) result" where
  "evaluated_risk pl changed =
     (case (case pl_graph pl of None \<Rightarrow> None | Some g \<Rightarrow> sg_evaluate g) of
        None \<Rightarrow> Inr (classify_risk changed)
      | Some f \<Rightarrow> (case f changed of (Some t, why) \<Rightarrow> Inr (t, why) | (None, why) \<Rightarrow> raiseR ValueError ''not a valid RiskTier''))"

definition combined_tier :: "risk_tier \<Rightarrow> risk_tier \<Rightarrow> bool \<Rightarrow> risk_tier" where
  "combined_tier tier patch_tier has_diff =
     (let t = (if has_diff \<and> tier = R_MEDIUM \<and> patch_tier \<in> {R_TRIVIAL, R_LOW} then patch_tier else tier)
      in if tier_rank t < tier_rank patch_tier then patch_tier else t)"

definition plan_verification :: "planner \<Rightarrow> workspace_tree \<Rightarrow> string list \<Rightarrow> verification_phase \<Rightarrow> string \<Rightarrow> verification_plan result" where
  "plan_verification pl w changed phase diff =
     bindR (evaluated_risk pl changed) (\<lambda>(tier, why). case classify_patch_risk changed diff of (patch_tier, symbols, reasons0, checks) \<Rightarrow>
       let final = combined_tier tier patch_tier (diff \<noteq> []);
           reasons = (if pl_graph pl \<noteq> None \<and> why \<notin> set reasons0 then reasons0 @ [why] else reasons0);
           reason = join_with ''; '' reasons;
           syntax = filter (\<lambda>f. ends_with f ''.py'' \<or> ends_with f ''.json'' \<or> ends_with f ''.toml'') changed;
           make = (\<lambda>targeted full skip reason. \<lparr>vp_tier = final, vp_phase = phase, vp_changed = changed, vp_syntax_targets = syntax,
             vp_targeted = targeted, vp_full_gate = full, vp_skip_tests = skip, vp_reason = reason, vp_generation = pl_generation pl,
             vp_symbols = symbols, vp_risk_reasons = reasons, vp_checks = checks\<rparr>)
       in if final \<in> {R_TRIVIAL, R_LOW} then Inr (make [] False True reason)
          else if phase = IN_FLIGHT then Inr (make [] False True ''In-flight phase performs fast syntax checking only (< 5ms)'')
          else let impacted = find_impacted_tests pl w changed in
            if phase = LOCAL_MILESTONE then Inr (make impacted False (impacted = []) reason)
            else let full = (final \<in> {R_CRITICAL, R_HIGH}) in Inr (make impacted full (if full then False else impacted = []) reason))"

section \<open>Evidence that needs no tests\<close>

definition risk_criterion :: string where "risk_criterion = ''risk-appropriate-validation''"
definition tests_criterion :: string where "tests_criterion = ''final-project-tests''"
definition integrity_criterion :: string where "integrity_criterion = ''integrity''"
definition legacy_criterion :: string where "legacy_criterion = ''project-tests''"

definition validation_contract :: "int \<Rightarrow> task_intent \<Rightarrow> revision result" where
  "validation_contract n intent = mk_revision \<lparr>rv_revision = n, rv_intent = intent,
     rv_criteria = [\<lparr>cr_identifier = risk_criterion, cr_description = ''Host-planned validation satisfies the current change risk tier.'',
       cr_requirement = REQUIRED, cr_strength = INTEGRITY\<rparr>]\<rparr>"

definition is_legacy_default_contract :: "revision \<Rightarrow> bool" where
  "is_legacy_default_contract v = (case rv_criteria v of
      [c] \<Rightarrow> cr_identifier c = legacy_criterion \<and> cr_strength c = INTEGRITY | _ \<Rightarrow> False)"

definition planner_attestation_allowed :: "verification_plan \<Rightarrow> bool" where
  "planner_attestation_allowed p =
     (if vp_changed p = [] then False
      else if vp_tier p = R_TRIVIAL then length (vp_changed p) = 1
      else if vp_tier p \<noteq> R_LOW then False
      else list_all document_path (vp_changed p))"

section \<open>Evidence\<close>

definition evidence_output :: "(string \<Rightarrow> string) \<Rightarrow> string \<Rightarrow> string \<Rightarrow> evidence_outcome \<Rightarrow> provenance \<Rightarrow> int \<Rightarrow> string
    \<Rightarrow> string \<Rightarrow> string \<Rightarrow> string option \<Rightarrow> evidence result" where
  "evidence_output sha i crit outcome prov g h output diagnostic identity =
     mk_evidence \<lparr>er_identifier = i, er_criterion = crit, er_outcome = outcome, er_provenance = prov, er_generation = g,
       er_subject_hash = h, er_output_hash = sha output, er_diagnostic = diagnostic, er_manual_only = False,
       er_verifier_identity = identity\<rparr>"

definition first_true :: "json list \<Rightarrow> json" where
  "first_true vs = (case find json_true vs of None \<Rightarrow> JStr ''verification passed'' | Some v \<Rightarrow> v)"

definition evidence_from_result :: "(string \<Rightarrow> string) \<Rightarrow> (json \<Rightarrow> string) \<Rightarrow> (json \<Rightarrow> string) \<Rightarrow> string \<Rightarrow> action_result
    \<Rightarrow> int \<Rightarrow> string \<Rightarrow> string \<Rightarrow> string option \<Rightarrow> evidence result" where
  "evidence_from_result sha ps pr i r g h crit identity =
     (let out = (case ar_output r of JObj d \<Rightarrow> d | _ \<Rightarrow> []);
          diagnostic = str_of ps (first_true [get_or ''stderr'' JNull out, get_or ''detail'' JNull out, get_or ''error'' JNull out]);
          outcome = (if \<not> ar_is_error r then EV_PASS
            else if dget out ''error'' = Some (JStr ''verification unavailable'') then EV_UNAVAILABLE else EV_FAIL)
      in evidence_output sha i crit outcome SYSTEM_VERIFIER g h (pr (JObj out)) diagnostic identity)"

text \<open>\<open>json.dumps(payload, sort_keys=True, separators=(",", ":"))\<close> in ASCII.\<close>

definition ascii_text :: dump_options where
  "ascii_text = \<lparr>dm_ascii = True, dm_sorted = True, dm_item_sep = '','', dm_key_sep = '':''\<rparr>"

definition verifier_identity :: "(string \<Rightarrow> string) \<Rightarrow> (int \<Rightarrow> nat \<Rightarrow> string) \<Rightarrow> jdict \<Rightarrow> string \<Rightarrow> string" where
  "verifier_identity sha ft args crit =
     sha (dumps ft ascii_text (JObj [(''criterion_id'', JStr crit), (''kind'', get_or ''kind'' JNull args),
       (''cwd'', get_or ''cwd'' (JStr ''.'') args), (''targets'', get_or ''targets'' (JArr []) args),
       (''timeout_s'', get_or ''timeout_s'' (JInt 300) args)]))"

definition verifier_arguments :: "string \<Rightarrow> string \<Rightarrow> string list \<Rightarrow> jdict" where
  "verifier_arguments kind cwd chosen = [(''kind'', JStr kind), (''cwd'', JStr cwd), (''targets'', text_list chosen)]"

definition planner_attestation :: "(string \<Rightarrow> string) \<Rightarrow> string \<Rightarrow> int \<Rightarrow> string \<Rightarrow> string \<Rightarrow> string \<Rightarrow> evidence result" where
  "planner_attestation sha uuid g h payload diagnostic =
     evidence_output sha (''planner-'' @ uuid) risk_criterion EV_PASS SYSTEM_PLANNER g h payload diagnostic None"

definition outcome_of_records :: "evidence list \<Rightarrow> verifier_outcome" where
  "outcome_of_records rs =
     (if list_ex (\<lambda>r. er_outcome r = EV_UNAVAILABLE) rs then UNAVAILABLE
      else if list_ex (\<lambda>r. er_outcome r \<in> {EV_FAIL, EV_ERROR, EV_UNSTABLE}) rs then FAIL
      else if list_ex evidence_satisfies_required rs then PASS else NOT_RUN)"

definition latest_by :: "('a \<Rightarrow> 'k) \<Rightarrow> 'a list \<Rightarrow> ('k \<times> 'a) list" where
  "latest_by key xs = foldl (\<lambda>d x. dput (key x) x d) [] xs"

definition has_passing :: "evidence list \<Rightarrow> string \<Rightarrow> string option \<Rightarrow> bool" where
  "has_passing rs crit identity =
     list_ex (\<lambda>r. er_outcome r = EV_PASS \<and> evidence_satisfies_required r)
       (dvals (latest_by (\<lambda>r. (er_criterion r, er_verifier_identity r))
         (filter (\<lambda>r. er_criterion r = crit \<and> (identity = None \<or> er_verifier_identity r = identity)) rs)))"

section \<open>Projects\<close>

datatype project_kind = PYTHON | NODE | DOTNET

fun kind_value :: "project_kind \<Rightarrow> string" where
  "kind_value PYTHON = ''python''"
| "kind_value NODE = ''node''"
| "kind_value DOTNET = ''dotnet''"

record recipe =
  vr_label :: string
  vr_argv :: "string list"
  vr_cwd :: string
  vr_available :: bool
  vr_reason :: "string option"

record project_candidate =
  pj_kind :: project_kind
  pj_root :: string
  pj_provenance :: string
  pj_recipes :: "recipe list"

text \<open>A directory with manifests: its absolute path, its relative path, its manifest names and the scripts of its \<open>package.json\<close>.\<close>

record manifest_folder =
  mf_path :: string
  mf_relative :: string
  mf_names :: "string list"
  mf_scripts :: "string list"
  mf_modules :: bool

definition missing_reason :: "bool \<Rightarrow> string \<Rightarrow> string option" where
  "missing_reason available why = (if available then None else Some why)"

definition python_candidate :: "(string \<Rightarrow> bool) \<Rightarrow> string \<Rightarrow> manifest_folder \<Rightarrow> project_candidate" where
  "python_candidate found executable f =
     (let root = mf_relative f; pytest = found ''pytest''; build = found ''python'' in
      \<lparr>pj_kind = PYTHON, pj_root = root, pj_provenance = mf_path f @ ''/pyproject.toml'',
       pj_recipes = [
         \<lparr>vr_label = ''python unittest'', vr_argv = [executable, ''-m'', ''unittest'', ''discover''], vr_cwd = root, vr_available = True, vr_reason = None\<rparr>,
         \<lparr>vr_label = ''pytest'', vr_argv = [executable, ''-m'', ''pytest''], vr_cwd = root, vr_available = pytest,
          vr_reason = missing_reason pytest ''pytest executable is unavailable''\<rparr>,
         \<lparr>vr_label = ''python build'', vr_argv = [executable, ''-m'', ''build'', ''--no-isolation''], vr_cwd = root, vr_available = build,
          vr_reason = missing_reason build ''python executable is unavailable''\<rparr>]\<rparr>)"

definition node_candidate :: "(string \<Rightarrow> bool) \<Rightarrow> manifest_folder \<Rightarrow> project_candidate" where
  "node_candidate found f =
     (let root = mf_relative f; ok = (found ''node'' \<and> mf_modules f) in
      \<lparr>pj_kind = NODE, pj_root = root, pj_provenance = mf_path f @ ''/package.json'',
       pj_recipes = map (\<lambda>name. \<lparr>vr_label = ''npm '' @ name, vr_argv = [''npm'', ''run'', name, ''--'', ''--offline''], vr_cwd = root,
           vr_available = ok, vr_reason = missing_reason ok ''node or existing node_modules is unavailable''\<rparr>)
         (filter (\<lambda>n. n \<in> set (mf_scripts f)) [''test'', ''build'', ''lint''])\<rparr>)"

definition dotnet_candidate :: "(string \<Rightarrow> bool) \<Rightarrow> manifest_folder \<Rightarrow> project_candidate" where
  "dotnet_candidate found f =
     (let root = mf_relative f; ok = found ''dotnet'';
          make = (\<lambda>verb. \<lparr>vr_label = ''dotnet '' @ verb, vr_argv = [''dotnet'', verb, ''--no-restore''], vr_cwd = root, vr_available = ok,
            vr_reason = missing_reason ok ''dotnet executable is unavailable''\<rparr>)
      in \<lparr>pj_kind = DOTNET, pj_root = root, pj_provenance = mf_path f, pj_recipes = [make ''test'', make ''build'']\<rparr>)"

definition project_le :: "project_candidate \<Rightarrow> project_candidate \<Rightarrow> bool" where
  "project_le a b = (if pj_root a = pj_root b then text_le (kind_value (pj_kind a)) (kind_value (pj_kind b)) else text_le (pj_root a) (pj_root b))"

fun insert_project :: "project_candidate \<Rightarrow> project_candidate list \<Rightarrow> project_candidate list" where
  "insert_project p [] = [p]"
| "insert_project p (q # qs) = (if project_le p q then p # q # qs else q # insert_project p qs)"

definition folder_projects :: "(string \<Rightarrow> bool) \<Rightarrow> string \<Rightarrow> manifest_folder \<Rightarrow> project_candidate list" where
  "folder_projects found executable f =
     (if list_ex (\<lambda>n. n \<in> {''pyproject.toml'', ''pytest.ini'', ''tox.ini''}) (mf_names f) then [python_candidate found executable f] else [])
     @ (if ''package.json'' \<in> set (mf_names f) then [node_candidate found f] else [])
     @ (if list_ex (\<lambda>n. ends_with n ''.sln'' \<or> ends_with n ''.csproj'' \<or> ends_with n ''.fsproj'') (mf_names f) then [dotnet_candidate found f] else [])"

definition discover_projects :: "(string \<Rightarrow> bool) \<Rightarrow> string \<Rightarrow> manifest_folder list \<Rightarrow> project_candidate list" where
  "discover_projects found executable folders = foldr insert_project (concat (map (folder_projects found executable) folders)) []"

definition test_kind :: "project_candidate \<Rightarrow> string option" where
  "test_kind p =
     (let available = map vr_label (filter vr_available (pj_recipes p)) in
      if pj_kind p = PYTHON \<and> ''python unittest'' \<in> set available then Some ''python_unittest''
      else if pj_kind p = NODE \<and> ''npm test'' \<in> set available then Some ''node_test''
      else if pj_kind p = DOTNET \<and> ''dotnet test'' \<in> set available then Some ''dotnet_test'' else None)"

definition build_kind :: "project_candidate \<Rightarrow> string" where
  "build_kind p = (if pj_kind p = PYTHON then ''python_build'' else if pj_kind p = NODE then ''node_build'' else ''dotnet_build'')"

section \<open>Planned calls\<close>

type_synonym planned_call = "string \<times> verification_phase \<times> risk_tier \<times> string"

type_synonym call_registry = "(string \<times> planned_call) list"

definition create_call :: "string \<Rightarrow> string \<Rightarrow> verification_plan \<Rightarrow> string \<Rightarrow> string \<Rightarrow> string list \<Rightarrow> string \<Rightarrow> call_registry
    \<Rightarrow> tool_call result \<times> call_registry" where
  "create_call uuid task plan kind cwd chosen step reg =
     (let identifier = ''system-'' @ phase_value (vp_phase plan) @ ''-'' @ uuid in
      (mk_tool_call \<lparr>tl_id = identifier, tl_name = ''run_verification'',
         tl_arguments = [(''kind'', JStr kind), (''cwd'', JStr cwd)] @ (if chosen = [] then [] else [(''targets'', text_list chosen)])\<rparr>,
       dput identifier (task, vp_phase plan, vp_tier plan, step) reg))"

definition criterion_of_call :: "string \<Rightarrow> planned_call option \<Rightarrow> string" where
  "criterion_of_call task planned =
     (case planned of
        None \<Rightarrow> integrity_criterion
      | Some (owner, phase, tier, step) \<Rightarrow>
          if owner \<noteq> task then integrity_criterion
          else if phase = LOCAL_MILESTONE then (if tier = R_MEDIUM then risk_criterion else integrity_criterion)
          else if tier = R_CRITICAL \<and> step = ''tests'' then tests_criterion else risk_criterion)"

definition consume_criterion :: "string \<Rightarrow> string \<Rightarrow> call_registry \<Rightarrow> string \<times> call_registry" where
  "consume_criterion task request reg = (criterion_of_call task (dget reg request), dpop request reg)"

end
