(* ===== verification/Plan_Facts.thy ===== *)
theory Plan_Facts
  imports Planner
begin

text \<open>
  What verification plans guarantee: risky changes are tested, attested changes are harmless, a planned call is used
  once, and a language whose code lines begin with a number sign escapes both.
\<close>

section \<open>Tiers of paths and patches\<close>

lemma max_tier_rank: "tier_rank (max_tier a b) = max (tier_rank a) (tier_rank b)"
  by (simp add: max_tier_def)

lemma tier_rank_inj: "tier_rank a = tier_rank b \<longleftrightarrow> a = b"
  by (cases a; cases b) simp_all

text \<open>The path tier: critical before high, and low only when every path is.\<close>

lemma classify_risk_facts:
  assumes "classify_risk changed = (t, why)"
  shows "t \<noteq> R_TRIVIAL" and "t = R_CRITICAL \<longleftrightarrow> (\<exists>p \<in> set changed. critical_path (to_slash p))"
    and "3 \<le> tier_rank t \<longleftrightarrow> (\<exists>p \<in> set changed. critical_path (to_slash p) \<or> high_path (to_slash p))"
  using assms
  by (auto simp: classify_risk_def Let_def find_Some_iff find_None_iff image_iff split: if_splits option.splits)

text \<open>The code of a patch that the signals are searched in.\<close>

definition patch_code :: "string \<Rightarrow> string" where
  "patch_code diff = join_with [CHR 10] (code_lines (changed_patch_lines diff))"

lemma not_cut_take: "\<not> patch_cut diff \<Longrightarrow> take 262144 diff = diff"
  by (simp add: patch_cut_def)

lemma patch_tier:
  assumes "classify_risk changed = (pt, why)"
  shows "fst (classify_patch_risk changed diff) =
    (if diff = [] \<or> (pt = R_LOW \<and> clear_documentation_paths changed) then pt
     else if patch_cut diff then max_tier pt R_HIGH
     else
       let lines = changed_patch_lines diff; text = patch_code diff in
       if lines \<noteq> [] \<and> code_lines lines = []
       then (if is_trivial_candidate pt changed lines [] then R_TRIVIAL else if pt = R_MEDIUM then R_LOW else pt)
       else
         let raised = (if list_ex (\<lambda>(r, why). re_search r text) high_rules then max_tier pt R_HIGH else pt)
         in if is_trivial_candidate raised changed lines text then R_TRIVIAL else raised)"
proof -
  have fst_case: "fst (case p of (a, b) \<Rightarrow> (a, f a b)) = fst p" for p :: "risk_tier \<times> string list" and f :: "risk_tier \<Rightarrow> string list \<Rightarrow> string list \<times> string list \<times> string list"
    by (cases p) simp
  have if_not: "(if \<not> b then x else y) = (if b then y else x)" for b and x y :: risk_tier by simp
  have hits: "filter (\<lambda>(r, why). re_search r w) rules = [] \<longleftrightarrow> \<not> list_ex (\<lambda>(r, why). re_search r w) rules" for w rules
    by (induction rules) auto
  show ?thesis
  proof (cases "diff = [] \<or> (pt = R_LOW \<and> clear_documentation_paths changed)")
    case True
    then show ?thesis by (simp add: classify_patch_risk_def assms)
  next
    case False
    note out = False
    show ?thesis
    proof (cases "patch_cut diff")
      case True
      then show ?thesis using out by (simp only: classify_patch_risk_def assms prod.case Let_def if_False if_True fst_case fst_conv)
    next
      case False
      have "fst (classify_patch_risk changed diff) = fst (let lines = changed_patch_lines diff; code = code_lines lines in
        if lines \<noteq> [] \<and> code = []
        then (if is_trivial_candidate pt changed lines [] then (R_TRIVIAL, [trivial_reason (length lines) False])
              else if pt = R_MEDIUM then (R_LOW, [''Patch changes only comments or whitespace'']) else (pt, [why]))
        else
          let text = join_with [CHR 10] code; hits = filter (\<lambda>(r, why). re_search r text) high_rules;
              raised = (if hits = [] then pt else max_tier pt R_HIGH)
          in if is_trivial_candidate raised changed lines text then (R_TRIVIAL, [trivial_reason (length lines) True])
             else (raised, why # map snd hits @ (if re_search control_flow text then [''Control-flow or exception handling changed''] else [])))"
        using False out by (simp only: classify_patch_risk_def assms prod.case Let_def if_False fst_case not_cut_take [OF False])
      then show ?thesis using False out
        by (simp only: Let_def patch_code_def hits if_False if_distrib [where f = fst] fst_conv if_not)
    qed
  qed
qed

lemma contains_Nil: "m \<noteq> [] \<Longrightarrow> \<not> contains [] m"
  by (auto simp: contains_def starts_with_def)

lemma patch_cut_nonempty: "patch_cut diff \<Longrightarrow> diff \<noteq> []"
  by (auto simp: patch_cut_def contains_Nil)

lemma candidate_tier: "is_trivial_candidate t changed lines u \<Longrightarrow> tier_rank t \<le> 2"
  by (cases t) (simp_all add: is_trivial_candidate_def)

lemma rank_not: "3 \<le> tier_rank t \<Longrightarrow> \<not> is_trivial_candidate t changed lines u \<and> t \<notin> {R_TRIVIAL, R_LOW, R_MEDIUM}"
  using candidate_tier [of t changed lines u] by (cases t) auto

lemma patch_tier_high:
  assumes "classify_risk changed = (pt, why)" and "3 \<le> tier_rank pt \<or> (patch_cut diff \<and> \<not> clear_documentation_paths changed)"
  shows "max 3 (tier_rank pt) \<le> tier_rank (fst (classify_patch_risk changed diff))"
proof (cases "3 \<le> tier_rank pt")
  case True
  have m: "3 \<le> tier_rank (max_tier pt R_HIGH)" by (simp add: max_tier_rank)
  show ?thesis
    using rank_not [OF True] rank_not [OF m] True
    unfolding patch_tier [OF assms(1)] Let_def by (simp add: max_tier_rank split: if_split)
next
  case False
  with assms(2) have "patch_cut diff" "\<not> clear_documentation_paths changed" by simp_all
  with patch_cut_nonempty show ?thesis unfolding patch_tier [OF assms(1)] by (simp add: max_tier_rank)
qed

lemma patch_tier_trivial:
  assumes "classify_risk changed = (pt, why)" and "fst (classify_patch_risk changed diff) = R_TRIVIAL"
  shows "tier_rank pt \<le> 2 \<and> \<not> patch_cut diff \<and> is_trivial_candidate pt changed (changed_patch_lines diff) (patch_code diff)"
proof -
  have "pt \<noteq> R_TRIVIAL" using classify_risk_facts(1) [OF assms(1)] .
  moreover have "max_tier pt R_HIGH \<noteq> R_TRIVIAL" "\<not> is_trivial_candidate (max_tier pt R_HIGH) changed lines u" for lines u
    by (auto simp: max_tier_def is_trivial_candidate_def)
  moreover have "patch_code diff = []" if "code_lines (changed_patch_lines diff) = []" using that by (simp add: patch_code_def)
  moreover have "tier_rank pt \<le> 2" if "is_trivial_candidate pt changed lines u" for lines u
    using that by (auto simp: is_trivial_candidate_def)
  ultimately show ?thesis using assms(2) unfolding patch_tier [OF assms(1)] Let_def by (simp split: if_split_asm)
qed

lemma patch_tier_low:
  assumes "classify_risk changed = (pt, why)" and "fst (classify_patch_risk changed diff) = R_LOW"
  shows "tier_rank pt \<le> 2"
  using assms(2) by (auto simp: patch_tier [OF assms(1)] max_tier_def Let_def split: if_split_asm)

section \<open>Plans and attestations\<close>

lemma plan_InrD:
  assumes "plan_verification pl w changed phase diff = Inr p"
  shows "tier_rank (fst (classify_patch_risk changed diff)) \<le> tier_rank (vp_tier p)"
    and "vp_changed p = changed" and "vp_phase p = phase"
    and "3 \<le> tier_rank (vp_tier p) \<Longrightarrow> vp_full_gate p = (phase = FINAL_GATE)
          \<and> vp_skip_tests p = (phase = IN_FLIGHT \<or> (phase = LOCAL_MILESTONE \<and> vp_targeted p = []))"
proof -
  have ge: "tier_rank b \<le> tier_rank (combined_tier a b d)" for a b d by (simp add: combined_tier_def Let_def)
  obtain tier why where t: "evaluated_risk pl changed = Inr (tier, why)"
    using assms by (auto simp: plan_verification_def bindR_Inr_iff)
  obtain pt symbols reasons0 checks where c: "classify_patch_risk changed diff = (pt, symbols, reasons0, checks)" by (metis prod_cases4)
  let ?full = "vp_tier p \<in> {R_CRITICAL, R_HIGH}"
  have tier: "vp_tier p = combined_tier tier pt (diff \<noteq> [])" and files: "vp_changed p = changed" and phase: "vp_phase p = phase"
    using assms by (auto simp: plan_verification_def t c Let_def split: if_split_asm)
  show "tier_rank (fst (classify_patch_risk changed diff)) \<le> tier_rank (vp_tier p)" by (simp add: c tier ge)
  show "vp_changed p = changed" and "vp_phase p = phase" by (fact files, fact phase)
  show "vp_full_gate p = (phase = FINAL_GATE)
        \<and> vp_skip_tests p = (phase = IN_FLIGHT \<or> (phase = LOCAL_MILESTONE \<and> vp_targeted p = []))" if "3 \<le> tier_rank (vp_tier p)"
  proof -
    have high: "combined_tier tier pt (diff \<noteq> []) \<notin> {R_TRIVIAL, R_LOW}" "combined_tier tier pt (diff \<noteq> []) \<in> {R_CRITICAL, R_HIGH}"
      using that unfolding tier by (cases "combined_tier tier pt (diff \<noteq> [])"; simp)+
    show ?thesis
      using assms high by (cases phase) (auto simp: plan_verification_def t c Let_def simp del: insert_iff split: if_split_asm)
  qed
qed


definition no_graph :: planner where
  "no_graph = new_planner None"

definition sample_tree :: workspace_tree where
  "sample_tree = \<lparr>wt_is_dir = (\<lambda>_. False), wt_is_file = (\<lambda>_. False), wt_glob = (\<lambda>_ _. []), wt_text = (\<lambda>_. None)\<rparr>"


text \<open>
  C10: What the host may attest without running tests: no path is critical or in a core subsystem, and either every
  changed path is documentation, or the change is one file outside tests, entry points, configuration and vendored
  code whose complete text patch changes one to twenty lines, none of its code lines with control flow or a blocker.
\<close>

theorem attested_changes_are_harmless:
  assumes "plan_verification pl w changed phase diff = Inr p" and "planner_attestation_allowed p"
  shows "changed \<noteq> [] \<and> (\<forall>q \<in> set changed. \<not> critical_path (to_slash q) \<and> \<not> high_path (to_slash q))
    \<and> (list_all document_path changed
       \<or> (length changed = 1 \<and> trivial_path_allowed (hd changed) \<and> \<not> patch_cut diff
          \<and> length (changed_patch_lines diff) \<in> {1..20} \<and> \<not> re_search control_flow (patch_code diff)
          \<and> \<not> list_ex (\<lambda>r. re_search r (patch_code diff)) trivial_blockers))"
proof -
  obtain pt why where c: "classify_risk changed = (pt, why)" by fastforce
  note plan = plan_InrD [OF assms(1)]
  have "vp_tier p \<in> {R_TRIVIAL, R_LOW}" "changed \<noteq> []" "vp_tier p = R_LOW \<longrightarrow> list_all document_path changed"
    using assms(2) plan(2) by (auto simp: planner_attestation_allowed_def split: if_split_asm)
  moreover from this(1) plan(1) have "fst (classify_patch_risk changed diff) = R_TRIVIAL
      \<or> (fst (classify_patch_risk changed diff) = R_LOW \<and> vp_tier p = R_LOW)"
    by (cases "fst (classify_patch_risk changed diff)") auto
  moreover have "tier_rank pt \<le> 2 \<Longrightarrow> \<forall>q \<in> set changed. \<not> critical_path (to_slash q) \<and> \<not> high_path (to_slash q)"
    using classify_risk_facts(3) [OF c] by auto
  ultimately show ?thesis
    using patch_tier_trivial [OF c, of diff] patch_tier_low [OF c, of diff]
    by (auto simp: is_trivial_candidate_def Suc_le_eq simp del: length_greater_0_conv)
qed

theorem attested_changes_are_harmless_witness:
  "\<exists>p. plan_verification no_graph sample_tree [''docs/guide.md''] FINAL_GATE [] = Inr p \<and> planner_attestation_allowed p
     \<and> (\<forall>q \<in> set [''docs/guide.md'']. \<not> critical_path (to_slash q))"
proof -
  have "okP planner_attestation_allowed (plan_verification no_graph sample_tree [''docs/guide.md''] FINAL_GATE [])" by code_simp
  then obtain p where p: "plan_verification no_graph sample_tree [''docs/guide.md''] FINAL_GATE [] = Inr p" "planner_attestation_allowed p"
    by (rule okP_E)
  with attested_changes_are_harmless [OF this] show ?thesis by blast
qed

section \<open>Lines that count as comments\<close>

text \<open>Reading back a patch of added lines.\<close>

definition added_patch :: "string list \<Rightarrow> string" where
  "added_patch ls = concat (map (\<lambda>l. ''+'' @ l @ [CHR 10]) ls)"

lemma line_end_newline: "line_end (CHR 10)"
  by (simp add: line_end_def code_of_def)

lemma split_lines_line:
  "list_all (\<lambda>c. \<not> line_end c) l \<Longrightarrow> split_lines a (l @ CHR 10 # s) = rev (rev l @ a) # split_lines [] s"
proof (induction l arbitrary: a)
  case Nil
  then show ?case by (cases s) (simp_all add: line_end_newline code_of_def)
next
  case (Cons c l)
  then show ?case by (cases l) simp_all
qed

lemma patch_lines_added:
  "list_all (list_all (\<lambda>c. \<not> line_end c)) ls \<Longrightarrow> patch_lines (added_patch ls) = map (Cons (CHR ''+'')) ls"
proof (induction ls)
  case Nil
  then show ?case by (simp add: patch_lines_def added_patch_def)
next
  case (Cons l ls)
  then have "split_lines [] ((CHR ''+'' # l) @ CHR 10 # added_patch ls) = (CHR ''+'' # l) # patch_lines (added_patch ls)"
    by (subst split_lines_line) (simp_all add: line_end_def code_of_def patch_lines_def)
  with Cons show ?case by (simp add: patch_lines_def added_patch_def)
qed

lemma changed_lines_added:
  assumes "list_all (list_all (\<lambda>c. \<not> line_end c)) ls" and "list_all (\<lambda>l. starts_with l ''#'') ls"
  shows "changed_patch_lines (added_patch ls) = ls"
proof -
  have "filter (\<lambda>l. (starts_with l ''+'' \<or> starts_with l ''-'') \<and> \<not> (starts_with l ''+++'' \<or> starts_with l ''---''))
      (map (Cons (CHR ''+'')) ls) = map (Cons (CHR ''+'')) ls"
  proof (rule filter_True, rule ballI)
    fix l assume "l \<in> set (map (Cons (CHR ''+'')) ls)"
    then obtain r where "l = CHR ''+'' # r" "starts_with r ''#''" using assms(2) by (auto simp: list_all_iff)
    then show "(starts_with l ''+'' \<or> starts_with l ''-'') \<and> \<not> (starts_with l ''+++'' \<or> starts_with l ''---'')"
      by (cases r) (auto simp: starts_with_def)
  qed
  then show ?thesis by (simp add: changed_patch_lines_def patch_lines_added [OF assms(1)] comp_def)
qed

lemma strip_hash: "starts_with l ''#'' \<Longrightarrow> starts_with (py_strip l) ''#''"
proof -
  assume "starts_with l ''#''"
  then obtain r where l: "l = CHR ''#'' # r" by (cases l) (auto simp: starts_with_def)
  have keep: "py_lstrip l = l" by (simp add: l py_lstrip_def is_space_def code_of_def)
  have "\<exists>u. dropWhile is_space (rev r @ [CHR ''#'']) = u @ [CHR ''#'']"
    by (induction "rev r") (auto simp: dropWhile_append is_space_def code_of_def)
  then show ?thesis by (auto simp: py_strip_def keep) (auto simp: l py_lstrip_def starts_with_def)
qed

lemma code_lines_hash: "list_all (\<lambda>l. starts_with l ''#'') ls \<Longrightarrow> code_lines ls = []"
  by (induction ls) (auto simp: code_lines_def strip_hash)

lemma no_signal_in_nothing: "\<not> re_search control_flow [] \<and> \<not> list_ex (\<lambda>r. re_search r []) trivial_blockers"
  by code_simp

text \<open>
  Every line that begins with a number sign counts as a comment, whatever the language: a patch that adds up to
  twenty of them to a file that is neither critical nor excluded needs no tests, and the host attests it -- though in C
  such lines are the preprocessor's and in JavaScript private members.
\<close>

theorem hash_lines_need_no_tests:
  assumes "pl_graph pl = None" and "classify_risk [q] = (R_MEDIUM, why)" and "trivial_path_allowed q"
    and "ls \<noteq> []" and "length ls \<le> 20" and "list_all (list_all (\<lambda>c. \<not> line_end c)) ls"
    and "list_all (\<lambda>l. starts_with l ''#'') ls" and "\<not> patch_cut (added_patch ls)"
  shows "\<exists>p. plan_verification pl w [q] FINAL_GATE (added_patch ls) = Inr p \<and> vp_tier p = R_TRIVIAL \<and> vp_skip_tests p
    \<and> planner_attestation_allowed p"
proof -
  have lines: "changed_patch_lines (added_patch ls) = ls" by (rule changed_lines_added [OF assms(6,7)])
  have some: "added_patch ls \<noteq> []" using assms(4) by (cases ls) (simp_all add: added_patch_def)
  have "is_trivial_candidate R_MEDIUM [q] ls []"
    using assms(3-5) no_signal_in_nothing by (simp add: is_trivial_candidate_def)
  then have "fst (classify_patch_risk [q] (added_patch ls)) = R_TRIVIAL"
    using assms(4,8) some code_lines_hash [OF assms(7)] by (simp add: patch_tier [OF assms(2)] lines)
  then obtain symbols reasons checks where "classify_patch_risk [q] (added_patch ls) = (R_TRIVIAL, symbols, reasons, checks)"
    by (metis fst_conv prod_cases4)
  then show ?thesis
    using assms(1,2) some
    by (simp add: plan_verification_def evaluated_risk_def combined_tier_def planner_attestation_allowed_def Let_def)
qed

theorem hash_lines_need_no_tests_witness:
  "\<exists>p. plan_verification no_graph sample_tree [''src/native/ring.c''] FINAL_GATE
      (added_patch [''#define SLOTS 0'', ''#undef GUARD'']) = Inr p \<and> planner_attestation_allowed p"
proof -
  have g: "pl_graph no_graph = None" by (simp add: no_graph_def new_planner_def)
  have "fst (classify_risk [''src/native/ring.c'']) = R_MEDIUM" by code_simp
  then obtain why where c: "classify_risk [''src/native/ring.c''] = (R_MEDIUM, why)" by (metis prod.collapse)
  have t: "trivial_path_allowed ''src/native/ring.c''" by code_simp
  have l: "list_all (list_all (\<lambda>c. \<not> line_end c)) [''#define SLOTS 0'', ''#undef GUARD'']" by code_simp
  have h: "list_all (\<lambda>l. starts_with l ''#'') [''#define SLOTS 0'', ''#undef GUARD'']" by code_simp
  let ?d = "added_patch [''#define SLOTS 0'', ''#undef GUARD'']"
  have "length ?d \<le> 100" by code_simp
  moreover have "\<not> contains ?d ''PATCH_BODY_TRUNCATED'' \<and> \<not> contains ?d ''GIT binary patch'' \<and> \<not> contains ?d ''Binary files ''" by code_simp
  ultimately have k: "\<not> patch_cut ?d" unfolding patch_cut_def by linarith
  have n: "[''#define SLOTS 0'', ''#undef GUARD''] \<noteq> []" "length [''#define SLOTS 0'', ''#undef GUARD''] \<le> 20" by simp_all
  show ?thesis using hash_lines_need_no_tests [OF g c t n l h k, of sample_tree] by blast
qed

section \<open>Planned calls\<close>

datatype call_op = CreateCall string string verification_plan string string "string list" string | ConsumeCall string string

fun call_op_id :: "call_op \<Rightarrow> string" where
  "call_op_id (CreateCall uuid t plan kind cwd chosen step) = ''system-'' @ phase_value (vp_phase plan) @ ''-'' @ uuid"
| "call_op_id (ConsumeCall t request) = request"

fun call_step :: "call_op \<Rightarrow> call_registry \<Rightarrow> call_registry" where
  "call_step (CreateCall uuid t plan kind cwd chosen step) reg = snd (create_call uuid t plan kind cwd chosen step reg)"
| "call_step (ConsumeCall t request) reg = snd (consume_criterion t request reg)"

definition last_call_op :: "string \<Rightarrow> call_op list \<Rightarrow> call_op option" where
  "last_call_op i ops = find (\<lambda>a. call_op_id a = i) (rev ops)"

lemma registry_entry:
  "dget (fold call_step ops []) i = Some (t, phase, tier, step) \<Longrightarrow>
    \<exists>uuid plan kind cwd chosen. last_call_op i ops = Some (CreateCall uuid t plan kind cwd chosen step)
      \<and> vp_phase plan = phase \<and> vp_tier plan = tier"
proof (induction ops rule: rev_induct)
  case (snoc a ops)
  then show ?case
    by (cases a) (auto simp: create_call_def consume_criterion_def Let_def last_call_op_def split: if_split_asm)
qed simp

text \<open>
  C11: A run of a verifier counts for more than integrity only when the host planned it: after any sequence of planned
  and consumed calls, an identifier is given a stronger criterion only if the last operation on it planned it for this
  very task, and a milestone only at medium risk; the criterion of the final tests only for the tests of a critical
  plan. So a second run under the same identifier, one of another task and one the model made up count as integrity.
\<close>

theorem planned_criteria_are_earned:
  assumes "fst (consume_criterion t i (fold call_step ops [])) = crit" and "crit \<noteq> integrity_criterion"
  shows "\<exists>uuid plan kind cwd chosen step. last_call_op i ops = Some (CreateCall uuid t plan kind cwd chosen step)
    \<and> (vp_phase plan = LOCAL_MILESTONE \<longrightarrow> vp_tier plan = R_MEDIUM)
    \<and> (crit = tests_criterion \<longleftrightarrow> vp_phase plan \<noteq> LOCAL_MILESTONE \<and> vp_tier plan = R_CRITICAL \<and> step = ''tests'')"
proof -
  have names: "tests_criterion \<noteq> risk_criterion" "tests_criterion \<noteq> integrity_criterion"
    by (simp_all add: tests_criterion_def risk_criterion_def integrity_criterion_def)
  obtain phase tier step where entry: "dget (fold call_step ops []) i = Some (t, phase, tier, step)"
    and crit: "crit = criterion_of_call t (Some (t, phase, tier, step))"
    using assms by (auto simp: consume_criterion_def criterion_of_call_def split: option.splits if_splits)
  obtain uuid plan kind cwd chosen where "last_call_op i ops = Some (CreateCall uuid t plan kind cwd chosen step)"
      and plan: "vp_phase plan = phase" "vp_tier plan = tier"
    using registry_entry [OF entry] by blast
  moreover have "(phase = LOCAL_MILESTONE \<longrightarrow> tier = R_MEDIUM)
      \<and> (crit = tests_criterion \<longleftrightarrow> phase \<noteq> LOCAL_MILESTONE \<and> tier = R_CRITICAL \<and> step = ''tests'')"
    using crit assms(2) names by (auto simp: criterion_of_call_def split: if_split_asm)
  ultimately show ?thesis unfolding plan [symmetric] by blast
qed

definition sample_plan :: verification_plan where
  "sample_plan = \<lparr>vp_tier = R_CRITICAL, vp_phase = FINAL_GATE, vp_changed = [''setup.py''], vp_syntax_targets = [], vp_targeted = [],
     vp_full_gate = True, vp_skip_tests = False, vp_reason = ''r'', vp_generation = None, vp_symbols = [], vp_risk_reasons = [], vp_checks = []\<rparr>"

definition sample_calls :: "call_op list" where
  "sample_calls = [CreateCall ''u1'' ''t'' sample_plan ''pytest'' ''.'' [] ''tests'', CreateCall ''u2'' ''t'' sample_plan ''pytest'' ''.'' [] ''build'',
     ConsumeCall ''t'' ''system-final_gate-u2'']"

theorem planned_criteria_are_earned_witness:
  "fst (consume_criterion ''t'' ''system-final_gate-u1'' (fold call_step sample_calls [])) = tests_criterion
   \<and> (\<exists>uuid plan kind cwd chosen step. last_call_op ''system-final_gate-u1'' sample_calls = Some (CreateCall uuid ''t'' plan kind cwd chosen step))
   \<and> fst (consume_criterion ''t'' ''system-final_gate-u2'' (fold call_step sample_calls [])) = integrity_criterion"
proof -
  have c: "fst (consume_criterion ''t'' ''system-final_gate-u1'' (fold call_step sample_calls [])) = tests_criterion" by code_simp
  have n: "tests_criterion \<noteq> integrity_criterion" by code_simp
  have "fst (consume_criterion ''t'' ''system-final_gate-u2'' (fold call_step sample_calls [])) = integrity_criterion" by code_simp
  with c planned_criteria_are_earned [OF c n] show ?thesis by blast
qed

end
