(* ===== verification/Verification_Service.thy ===== *)
theory Verification_Service
  imports Planner Engine_Base
begin

text \<open>
  The verification service: \<open>src/src/code_agent/verification/task_service.py\<close> and \<open>task_assessment.py\<close> over the
  evidence ledger, and \<open>src/chaos_agent/task_verification.py\<close>, which keeps one service per task. What is read
  from outside -- the clock, fresh identifiers, the hash of the guarded workspace, its files and projects, the
  syntax check -- is a parameter that may answer differently at every reading, counted by \<open>vt_tick\<close>.
\<close>

section \<open>State\<close>

record verification_env =
  ve_sha :: "string \<Rightarrow> string"
  ve_float :: "int \<Rightarrow> nat \<Rightarrow> string"
  ve_str :: "json \<Rightarrow> string"
  ve_repr :: "json \<Rightarrow> string"
  ve_uuid :: "nat \<Rightarrow> string"
  ve_clock :: "nat \<Rightarrow> int"
  ve_iso :: "int \<Rightarrow> string"
  ve_subject :: "nat \<Rightarrow> int \<Rightarrow> string list \<Rightarrow> string result"
  ve_tree :: "nat \<Rightarrow> workspace_tree"
  ve_syntax :: "nat \<Rightarrow> string \<Rightarrow> string option"
  ve_found :: "string \<Rightarrow> bool"
  ve_executable :: string
  ve_folders :: "nat \<Rightarrow> manifest_folder list"
  ve_refused :: "nat \<Rightarrow> exn option"

record verification_service =
  vs_changes :: "(string \<times> string list) list"
  vs_diffs :: "(string \<times> string list) list"
  vs_task_diffs :: "(string \<times> string list) list"
  vs_failures :: "(string \<times> string list) list"
  vs_calls :: call_registry
  vs_planner :: planner

definition new_service :: verification_service where
  "new_service = \<lparr>vs_changes = [], vs_diffs = [], vs_task_diffs = [], vs_failures = [], vs_calls = [], vs_planner = new_planner None\<rparr>"

record verify_state =
  vt_service :: verification_service
  vt_db :: ledger_db
  vt_tick :: nat

type_synonym 'a vio = "(verify_state, 'a) act"

text \<open>A reading of the outside, a query of the tables, and a transaction on them.\<close>

definition readV :: "(nat \<Rightarrow> 'a) \<Rightarrow> 'a vio" where
  "readV f = (\<lambda>s. (Inr (f (vt_tick s)), s\<lparr>vt_tick := Suc (vt_tick s)\<rparr>))"

definition serviceV :: "(verification_service \<Rightarrow> 'a) \<Rightarrow> 'a vio" where
  "serviceV f = getI (\<lambda>s. f (vt_service s))"

definition updateV :: "(verification_service \<Rightarrow> verification_service) \<Rightarrow> unit vio" where
  "updateV f = modifyI (\<lambda>s. s\<lparr>vt_service := f (vt_service s)\<rparr>)"

definition queryV :: "(ledger_db \<Rightarrow> 'a result) \<Rightarrow> 'a vio" where
  "queryV f = (\<lambda>s. (f (vt_db s), s))"

definition commitV :: "(ledger_db \<Rightarrow> ledger_db result) \<Rightarrow> unit vio" where
  "commitV f = (\<lambda>s. case f (vt_db s) of Inl e \<Rightarrow> (Inl e, s) | Inr db \<Rightarrow> (Inr (), s\<lparr>vt_db := db\<rparr>))"

definition nowV :: "verification_env \<Rightarrow> string vio" where
  "nowV env = readV (\<lambda>n. ve_iso env (ve_clock env n))"

section \<open>Logical changes\<close>

definition dict_or :: "'v \<Rightarrow> string \<Rightarrow> (string \<times> 'v) list \<Rightarrow> 'v" where
  "dict_or v k d = (case dget d k of None \<Rightarrow> v | Some x \<Rightarrow> x)"

definition set_default :: "string \<Rightarrow> 'v \<Rightarrow> (string \<times> 'v) list \<Rightarrow> (string \<times> 'v) list" where
  "set_default k v d = (if dget d k = None then dput k v d else d)"

definition begin_logical_change :: "string \<Rightarrow> unit vio" where
  "begin_logical_change t = updateV (\<lambda>v. v\<lparr>vs_changes := set_default t [] (vs_changes v), vs_diffs := set_default t [] (vs_diffs v)\<rparr>)"

definition in_logical_change :: "string \<Rightarrow> verification_service \<Rightarrow> bool" where
  "in_logical_change t v = (dget (vs_changes v) t \<noteq> None)"

definition get_pending_changes :: "string \<Rightarrow> verification_service \<Rightarrow> string list" where
  "get_pending_changes t v = sorted_texts (dict_or [] t (vs_changes v))"

definition rollback_logical_change :: "string \<Rightarrow> unit vio" where
  "rollback_logical_change t = updateV (\<lambda>v. v\<lparr>vs_changes := dpop t (vs_changes v), vs_diffs := dpop t (vs_diffs v), vs_failures := dpop t (vs_failures v)\<rparr>)"

definition patch_limit :: nat where
  "patch_limit = 262144"

text \<open>\<open>_append_patch\<close>: at most \<open>patch_limit\<close> characters are kept; a cut leaves a mark.\<close>

definition append_patch :: "string \<Rightarrow> string \<Rightarrow> (string \<times> string list) list \<Rightarrow> (string \<times> string list) list" where
  "append_patch t diff store =
     (let parts = dict_or [] t store; size = sum_list (map length parts) in
      if patch_limit < size then store
      else dput t (parts @ [take (patch_limit - size) diff]
        @ (if patch_limit - size < length diff then [CHR 10 # ''+ # PATCH_BODY_TRUNCATED'' @ [CHR 10]] else [])) store)"

definition load_state :: "string \<Rightarrow> ledger_db \<Rightarrow> task_state" where
  "load_state t db = (case dget (ld_states db) t of None \<Rightarrow> empty_state | Some s \<Rightarrow> s)"

text \<open>\<open>save_task_state_if_current\<close>; \<open>ve_refused\<close> is the guard of \<open>_child_action_state.py\<close>, which reads other tables.\<close>

definition save_if_current :: "exn option \<Rightarrow> string \<Rightarrow> task_state \<Rightarrow> task_state \<Rightarrow> ledger_db \<Rightarrow> ledger_db result" where
  "save_if_current refused t state expected db =
     (if load_state t db \<noteq> expected then raiseR ValueError ''task state changed during subject snapshot''
      else case refused of Some e \<Rightarrow> Inl e | None \<Rightarrow> Inr (db\<lparr>ld_states := dput t state (ld_states db)\<rparr>))"

definition snapshot_state :: "verification_env \<Rightarrow> task_record \<Rightarrow> task_state \<Rightarrow> int \<Rightarrow> task_state vio" where
  "snapshot_state env task state g =
     bindI (queryV (\<lambda>db. Inr (load_state (tk_thread task) db))) (\<lambda>expected.
     bindI (readV (\<lambda>n. ve_subject env n g (ts_files_changed state))) (\<lambda>h. bindI (liftR h) (\<lambda>h.
     bindI (liftR (mk_state (state\<lparr>ts_code_generation := g, ts_subject_hash := h\<rparr>))) (\<lambda>updated.
     bindI (readV (ve_refused env)) (\<lambda>refused.
     thenI (commitV (save_if_current refused (tk_thread task) updated expected)) (returnI updated))))))"

definition planV :: "verification_env \<Rightarrow> string list \<Rightarrow> verification_phase \<Rightarrow> string \<Rightarrow> verification_plan vio" where
  "planV env files phase diff =
     bindI (serviceV vs_planner) (\<lambda>pl. bindI (readV (\<lambda>n. plan_verification pl (ve_tree env n) files phase diff)) liftR)"

definition completed_evidence :: "string \<Rightarrow> evidence list vio" where
  "completed_evidence t = queryV (completed_evidence_for_task t)"

definition current_records :: "task_state \<Rightarrow> evidence list \<Rightarrow> evidence list" where
  "current_records state = filter (\<lambda>r. er_generation r = ts_code_generation state \<and> er_subject_hash r = ts_subject_hash state)"

text \<open>One run that holds one record.\<close>

definition record_run :: "verification_env \<Rightarrow> string \<Rightarrow> task_state \<Rightarrow> (string \<Rightarrow> evidence vio) \<Rightarrow> unit vio" where
  "record_run env t state build =
     bindI (readV (ve_uuid env)) (\<lambda>run.
     bindI (nowV env) (\<lambda>now. thenI (commitV (begin_run now run (ts_code_generation state) (ts_subject_hash state) t))
    (bindI (build run) (\<lambda>r.
     bindI (nowV env) (\<lambda>now. thenI (commitV (append_evidence now run t r))
    (bindI (nowV env) (\<lambda>now. commitV (close_run now run ''completed''))))))))"

definition record_planner_attestation :: "verification_env \<Rightarrow> string \<Rightarrow> task_state \<Rightarrow> verification_plan \<Rightarrow> unit vio" where
  "record_planner_attestation env t state plan =
     bindI (completed_evidence t) (\<lambda>rs.
     if list_ex (\<lambda>r. er_criterion r = risk_criterion \<and> er_provenance r = SYSTEM_PLANNER \<and> evidence_satisfies_required r) (current_records state rs)
     then returnI ()
     else record_run env t state (\<lambda>run. bindI (readV (ve_uuid env)) (\<lambda>uuid.
       liftR (planner_attestation (ve_sha env) uuid (ts_code_generation state) (ts_subject_hash state) (ve_repr env (JObj (plan_to_dict plan)))
         (''Host final-risk plan permits validation without project tests ('' @ vp_reason plan @ '')'')))))"

definition commit_logical_change :: "verification_env \<Rightarrow> task_record \<Rightarrow> task_state \<Rightarrow> (task_state \<times> verification_plan option) vio" where
  "commit_logical_change env task state =
     (let t = tk_id task in
      bindI (serviceV (\<lambda>v. (get_pending_changes t v, dict_or [] t (vs_diffs v), dict_or [] t (vs_failures v)))) (\<lambda>(pending, parts, failures).
      thenI (updateV (\<lambda>v. v\<lparr>vs_changes := dpop t (vs_changes v), vs_diffs := dpop t (vs_diffs v),
               vs_task_diffs := fold (append_patch t) parts (vs_task_diffs v), vs_failures := dpop t (vs_failures v)\<rparr>))
     (if pending = [] then returnI (state, None)
      else
        bindI (snapshot_state env task state (ts_code_generation state + 1)) (\<lambda>state.
        bindI (planV env pending LOCAL_MILESTONE (join_with [CHR 10] parts)) (\<lambda>plan.
        if failures \<noteq> [] then returnI (state, None)
        else thenI (if planner_attestation_allowed plan then record_planner_attestation env t state plan else returnI ())
               (returnI (state, Some plan)))))))"

definition prepare_verification :: "verification_env \<Rightarrow> task_record \<Rightarrow> task_state \<Rightarrow> task_state vio" where
  "prepare_verification env task state =
     bindI (queryV (load_contract (tk_id task))) (\<lambda>contract.
     thenI (case contract of
              None \<Rightarrow> bindI (liftR (validation_contract 1 (tc_intent (tk_contract task)))) (\<lambda>v. commitV (save_contract (tk_id task) v))
            | Some w \<Rightarrow>
                if is_legacy_default_contract w
                then bindI (liftR (validation_contract (rv_revision w + 1) (rv_intent w))) (\<lambda>v. commitV (save_contract (tk_id task) v))
                else returnI ())
    (if ts_subject_hash state \<noteq> [] then returnI state else snapshot_state env task state (ts_code_generation state)))"

section \<open>Recording actions\<close>

definition nonempty_texts :: "json list \<Rightarrow> string list" where
  "nonempty_texts vs = concat (map (\<lambda>v. case v of JStr (c # cs) \<Rightarrow> [c # cs] | _ \<Rightarrow> []) vs)"

text \<open>\<open>_changed_paths\<close>; a \<open>paths\<close> member that is not a list has no texts in it here.\<close>

definition changed_paths :: "action_request \<Rightarrow> action_result \<Rightarrow> string list option" where
  "changed_paths q r =
     (if aq_name q \<in> {''write_file'', ''replace_text''} \<and> \<not> ar_is_error r
      then Some (nonempty_texts [get_or ''path'' JNull (aq_arguments q)])
      else case ar_output r of
        JObj out \<Rightarrow>
          if aq_name q \<noteq> ''apply_workspace_edit_plan_v1'' \<or> dget out ''workspace_may_have_changed'' \<noteq> Some (JBool True) then None
          else Some (case get_or ''paths'' (JArr []) out of JArr vs \<Rightarrow> nonempty_texts vs | _ \<Rightarrow> [])
      | _ \<Rightarrow> None)"

definition add_paths :: "string list \<Rightarrow> string list \<Rightarrow> string list" where
  "add_paths ps = fold (\<lambda>p xs. if p \<in> set xs then xs else xs @ [p]) ps"

definition record_edit :: "verification_env \<Rightarrow> task_record \<Rightarrow> task_state \<Rightarrow> string list \<Rightarrow> action_result
    \<Rightarrow> ((task_state \<times> string) + task_state) vio" where
  "record_edit env task state paths r =
     (let t = tk_id task; diff = (case get_or ''diff'' JNull (ar_metadata r) of JStr d \<Rightarrow> Some d | _ \<Rightarrow> None) in
      bindI (serviceV (in_logical_change t)) (\<lambda>open_change.
      bindI (if open_change
             then thenI (updateV (\<lambda>v. v\<lparr>vs_changes := dput t (add_paths paths (dict_or [] t (vs_changes v))) (vs_changes v),
                      vs_diffs := (case diff of None \<Rightarrow> vs_diffs v | Some d \<Rightarrow> append_patch t d (vs_diffs v))\<rparr>)) (returnI state)
             else thenI (updateV (\<lambda>v. v\<lparr>vs_task_diffs := (case diff of None \<Rightarrow> vs_task_diffs v | Some d \<Rightarrow> append_patch t d (vs_task_diffs v))\<rparr>))
                    (snapshot_state env task state (ts_code_generation state + 1))) (\<lambda>updated.
      bindI (readV (\<lambda>n. concat (map (\<lambda>p. case ve_syntax env n p of None \<Rightarrow> [] | Some d \<Rightarrow> [d])
         (filter (\<lambda>p. ends_with p ''.py'' \<or> ends_with p ''.json'' \<or> ends_with p ''.toml'') paths)))) (\<lambda>failures.
      if failures = [] then returnI (Inr updated)
      else thenI (updateV (\<lambda>v. v\<lparr>vs_failures := dput t failures (vs_failures v)\<rparr>))
             (returnI (Inl (updated, join_with ''; '' failures)))))))"

definition settle_open_change :: "verification_env \<Rightarrow> task_record \<Rightarrow> task_state \<Rightarrow> task_state option vio" where
  "settle_open_change env task state =
     bindI (serviceV (\<lambda>v. get_pending_changes (tk_id task) v \<noteq> [])) (\<lambda>pending.
     if pending then bindI (commit_logical_change env task state) (\<lambda>(state, _). returnI (Some state)) else returnI None)"

text \<open>\<open>kind in {...} and not targets\<close>; a list or a mapping cannot be looked up in a set.\<close>

definition bare_test_run :: "jdict \<Rightarrow> bool result" where
  "bare_test_run args = (case get_or ''kind'' JNull args of
      JStr k \<Rightarrow> Inr (k \<in> {''python_unittest'', ''pytest'', ''node_test'', ''dotnet_test''} \<and> \<not> json_true (get_or ''targets'' (JArr []) args))
    | JArr _ \<Rightarrow> raiseR TypeError ''unhashable type''
    | JObj _ \<Rightarrow> raiseR TypeError ''unhashable type''
    | _ \<Rightarrow> Inr False)"

definition record_verification :: "verification_env \<Rightarrow> task_record \<Rightarrow> action_request \<Rightarrow> action_result \<Rightarrow> task_state \<Rightarrow> task_state vio" where
  "record_verification env task q r state =
     bindI (snapshot_state env task state (ts_code_generation state)) (\<lambda>state.
     thenI (record_run env (tk_id task) state (\<lambda>run.
        bindI (serviceV (\<lambda>v. consume_criterion (tk_id task) (aq_id q) (vs_calls v))) (\<lambda>(crit, calls).
        thenI (updateV (\<lambda>v. v\<lparr>vs_calls := calls\<rparr>))
       (bindI (liftR (if crit = integrity_criterion then bare_test_run (aq_arguments q) else Inr False)) (\<lambda>bare.
        let crit' = (if bare then risk_criterion else crit) in
        liftR (evidence_from_result (ve_sha env) (ve_str env) (ve_repr env) run r (ts_code_generation state) (ts_subject_hash state) crit'
          (Some (verifier_identity (ve_sha env) (ve_float env) (aq_arguments q) crit'))))))))
     (returnI state))"

definition record_action :: "verification_env \<Rightarrow> task_record \<Rightarrow> action_request \<Rightarrow> action_result \<Rightarrow> task_state
    \<Rightarrow> ((task_state \<times> string) + task_state) vio" where
  "record_action env task q r state =
     (case changed_paths q r of
        Some paths \<Rightarrow> record_edit env task state paths r
      | None \<Rightarrow>
          if aq_name q \<in> {''run_command'', ''run_process_v1''} \<and> dget (ar_metadata r) ''execution_attempted'' = Some (JBool True)
          then bindI (settle_open_change env task state) (\<lambda>settled. case settled of
              Some state \<Rightarrow> returnI (Inr state)
            | None \<Rightarrow> bindI (snapshot_state env task state (ts_code_generation state + 1)) (\<lambda>state. returnI (Inr state)))
          else if aq_name q \<noteq> ''run_verification'' then returnI (Inr state)
          else bindI (settle_open_change env task state) (\<lambda>settled.
               bindI (record_verification env task q r (case settled of None \<Rightarrow> state | Some s \<Rightarrow> s)) (\<lambda>state. returnI (Inr state))))"

section \<open>Assessing\<close>

fun provenance_value :: "provenance \<Rightarrow> string" where
  "provenance_value SYSTEM_VERIFIER = ''system_verifier''"
| "provenance_value SYSTEM_PLANNER = ''system_planner''"
| "provenance_value USER_COMMAND = ''user_command''"
| "provenance_value USER_CONFIRMATION = ''user_confirmation''"

text \<open>\<open>item.verifier_identity or item.provenance.value\<close>.\<close>

definition proof_source :: "evidence \<Rightarrow> string" where
  "proof_source r = (case er_verifier_identity r of Some (c # cs) \<Rightarrow> c # cs | _ \<Rightarrow> provenance_value (er_provenance r))"

definition discovered_project :: "verification_env \<Rightarrow> project_candidate option vio" where
  "discovered_project env =
     readV (\<lambda>n. case discover_projects (ve_found env) (ve_executable env) (ve_folders env n) of [] \<Rightarrow> None | p # _ \<Rightarrow> Some p)"

definition identity_for :: "verification_env \<Rightarrow> string \<Rightarrow> string \<Rightarrow> string list \<Rightarrow> string \<Rightarrow> string" where
  "identity_for env kind cwd chosen crit = verifier_identity (ve_sha env) (ve_float env) (verifier_arguments kind cwd chosen) crit"

text \<open>What proves a plan for a project: the identifiers of the records that count, and what is missing.\<close>

definition matching :: "evidence list \<Rightarrow> string \<Rightarrow> string \<Rightarrow> evidence list" where
  "matching rs crit identity = filter (\<lambda>r. er_criterion r = crit \<and> er_verifier_identity r = Some identity \<and> evidence_satisfies_current_verifier r) rs"

definition plan_proof :: "verification_env \<Rightarrow> verification_plan \<Rightarrow> project_candidate option \<Rightarrow> evidence list \<Rightarrow> string list \<times> string list" where
  "plan_proof env plan found rs =
     (case found of
        None \<Rightarrow> ([], [''No supported project verifier was discovered for the changed files.''])
      | Some p \<Rightarrow>
          (case test_kind p of
             None \<Rightarrow>
               (let reasons = concat (map (\<lambda>x. case vr_reason x of Some (c # cs) \<Rightarrow> [c # cs] | _ \<Rightarrow> []) (filter (\<lambda>x. \<not> vr_available x) (pj_recipes p)))
                in ([], if reasons = [] then [''Project test verifier is unavailable.''] else reasons))
           | Some kind \<Rightarrow>
               (let chosen = (if vp_full_gate plan then [] else vp_targeted plan);
                    crit = (if vp_tier plan = R_CRITICAL then tests_criterion else risk_criterion);
                    tests = matching rs crit (identity_for env kind (pj_root p) chosen crit)
                in if vp_tier plan \<noteq> R_CRITICAL then (map er_identifier tests, [])
                   else (if tests = [] then []
                         else map er_identifier (matching rs risk_criterion (identity_for env (build_kind p) (pj_root p) [] risk_criterion)), []))))"

definition final_plan_proof :: "verification_env \<Rightarrow> string \<Rightarrow> task_state \<Rightarrow> evidence list \<Rightarrow> (string list \<times> string list) vio" where
  "final_plan_proof env t state records =
     (let rs = dvals (latest_by (\<lambda>r. (er_criterion r, proof_source r)) records) in
      if ts_files_changed state = [] then returnI (map er_identifier rs, [])
      else
        bindI (serviceV (\<lambda>v. join_with [CHR 10] (dict_or [] t (vs_task_diffs v)))) (\<lambda>diff.
        bindI (planV env (ts_files_changed state) FINAL_GATE diff) (\<lambda>plan.
        if planner_attestation_allowed plan
        then returnI (map er_identifier (filter (\<lambda>r. er_provenance r = SYSTEM_PLANNER) rs), [])
        else bindI (discovered_project env) (\<lambda>found. returnI (plan_proof env plan found rs)))))"

definition candidate_of :: "string list \<Rightarrow> evidence \<Rightarrow> candidate result" where
  "candidate_of allowed r = mk_candidate
     \<lparr>cd_criterion = er_criterion r,
      cd_passed = (evidence_satisfies_current_verifier r \<and> (er_criterion r \<noteq> risk_criterion \<or> er_identifier r \<in> set allowed)),
      cd_generation = er_generation r, cd_subject_hash = er_subject_hash r\<rparr>"

definition take_last :: "nat \<Rightarrow> 'a list \<Rightarrow> 'a list" where
  "take_last n xs = drop (length xs - n) xs"

definition unique_texts :: "string list \<Rightarrow> string list" where
  "unique_texts xs = map fst (fold (\<lambda>x d. set_default x () d) xs [])"

definition assess_task :: "verification_env \<Rightarrow> task_record \<Rightarrow> task_state \<Rightarrow> assessed vio" where
  "assess_task env task state =
     (let t = tk_id task in
      bindI (snapshot_state env task state (ts_code_generation state)) (\<lambda>state.
      bindI (queryV (load_contract t)) (\<lambda>contract. case contract of
         None \<Rightarrow> raiseI RuntimeError ''task contract revision is unavailable''
       | Some v \<Rightarrow>
           bindI (completed_evidence t) (\<lambda>records. let current = current_records state records in
           bindI (final_plan_proof env t state current) (\<lambda>(allowed, missing).
           bindI (liftR (mapR (candidate_of allowed) current)) (\<lambda>cs.
           bindI (liftR (assess_completion v (ts_code_generation state) (ts_subject_hash state) cs)) (\<lambda>a.
           bindI (queryV (latest_completed_run t (ts_code_generation state) (ts_subject_hash state))) (\<lambda>run.
           bindI (liftR (mapR (\<lambda>r. bounded_diagnostic (take 512 (er_diagnostic r)))
             (filter (\<lambda>r. er_outcome r \<in> {EV_FAIL, EV_ERROR, EV_UNAVAILABLE, EV_UNSTABLE}) current))) (\<lambda>said.
           bindI (liftR (mk_diagnostics (take_last 8 (unique_texts (missing @ said))))) (\<lambda>ds.
             returnI \<lparr>va_assessment = a, va_outcome = outcome_of_records current, va_generation = ts_code_generation state,
               va_subject_hash = ts_subject_hash state, va_run_id = run, va_diagnostics = ds\<rparr>))))))))))"

definition pair_le :: "string \<times> string \<Rightarrow> string \<times> string \<Rightarrow> bool" where
  "pair_le p q = (if fst p = fst q then text_le (snd p) (snd q) else text_le (fst p) (fst q))"

fun insert_pair :: "string \<times> string \<Rightarrow> (string \<times> string) list \<Rightarrow> (string \<times> string) list" where
  "insert_pair p [] = [p]"
| "insert_pair p (q # qs) = (if p = q then q # qs else if pair_le p q then p # q # qs else q # insert_pair p qs)"

definition progress_fingerprint :: "verification_env \<Rightarrow> task_record \<Rightarrow> task_state \<Rightarrow> string vio" where
  "progress_fingerprint env task state =
     bindI (completed_evidence (tk_id task)) (\<lambda>records.
     let seen = foldr insert_pair (map (\<lambda>r. (er_criterion r, proof_source r))
           (filter (\<lambda>r. er_outcome r = EV_PASS \<and> evidence_satisfies_current_verifier r) (current_records state records))) []
     in returnI (if seen = [] then []
          else ve_sha env (dumps (ve_float env) ascii_text (JArr [JInt (ts_code_generation state), JStr (ts_subject_hash state),
            JArr (map (\<lambda>(c, p). JArr [JStr c, JStr p]) seen)]))))"

section \<open>Suggesting\<close>

definition plan_call :: "verification_env \<Rightarrow> string \<Rightarrow> verification_plan \<Rightarrow> string \<Rightarrow> string \<Rightarrow> string list \<Rightarrow> string \<Rightarrow> tool_call vio" where
  "plan_call env t plan kind cwd chosen step =
     bindI (readV (ve_uuid env)) (\<lambda>uuid. bindI (serviceV vs_calls) (\<lambda>reg.
     case create_call uuid t plan kind cwd chosen step reg of (c, reg') \<Rightarrow>
       thenI (updateV (\<lambda>v. v\<lparr>vs_calls := reg'\<rparr>)) (liftR c)))"

definition suggest_for_project :: "verification_env \<Rightarrow> string \<Rightarrow> verification_plan \<Rightarrow> project_candidate \<Rightarrow> evidence list \<Rightarrow> tool_call option vio" where
  "suggest_for_project env t plan p current =
     (let call = (\<lambda>kind chosen step. bindI (plan_call env t plan kind (pj_root p) chosen step) (\<lambda>c. returnI (Some c)));
          passed = (\<lambda>kind chosen crit. has_passing current crit (Some (identity_for env kind (pj_root p) chosen crit)))
      in case test_kind p of
           None \<Rightarrow> returnI None
         | Some kind \<Rightarrow>
             if vp_tier plan = R_CRITICAL
             then if \<not> passed kind [] tests_criterion then call kind [] ''tests''
                  else if passed (build_kind p) [] risk_criterion then returnI None
                  else call (build_kind p) [] ''build''
             else let chosen = (if \<not> vp_full_gate plan then vp_targeted plan else []) in
                  if passed kind chosen risk_criterion then returnI None else call kind chosen ''tests'')"

definition suggest_verification :: "verification_env \<Rightarrow> task_record \<Rightarrow> task_state \<Rightarrow> tool_call option vio" where
  "suggest_verification env task state =
     (let t = tk_id task in
      if ts_files_changed state = [] then returnI None
      else
        bindI (completed_evidence t) (\<lambda>records.
        bindI (serviceV (\<lambda>v. join_with [CHR 10] (dict_or [] t (vs_task_diffs v)))) (\<lambda>diff.
        bindI (planV env (ts_files_changed state) FINAL_GATE diff) (\<lambda>plan.
        if planner_attestation_allowed plan
        then thenI (record_planner_attestation env t state plan) (returnI None)
        else bindI (discovered_project env) (\<lambda>found. case found of
            None \<Rightarrow> returnI None
          | Some p \<Rightarrow> suggest_for_project env t plan p (current_records state records))))))"

definition milestone_verification :: "verification_env \<Rightarrow> task_record \<Rightarrow> verification_plan option \<Rightarrow> tool_call option vio" where
  "milestone_verification env task found =
     (case (case found of None \<Rightarrow> None | Some plan \<Rightarrow> if vp_skip_tests plan then None else Some plan) of
        None \<Rightarrow> returnI None
      | Some plan \<Rightarrow> bindI (discovered_project env) (\<lambda>found. case found of
          None \<Rightarrow> returnI None
        | Some p \<Rightarrow> (case test_kind p of
              None \<Rightarrow> returnI None
            | Some kind \<Rightarrow> bindI (plan_call env (tk_id task) plan kind (pj_root p) (vp_targeted plan) ''tests'') (\<lambda>c. returnI (Some c)))))"

definition finalize_verified :: "verification_env \<Rightarrow> task_record \<Rightarrow> assessed \<Rightarrow> task_record vio" where
  "finalize_verified env task a =
     (case va_run_id a of
        None \<Rightarrow> raiseI RuntimeError ''current verification run is unavailable''
      | Some run \<Rightarrow>
          bindI (queryV (load_contract (tk_id task))) (\<lambda>contract. case contract of
             None \<Rightarrow> raiseI RuntimeError ''task contract revision is unavailable''
           | Some v \<Rightarrow>
               bindI (readV (ve_clock env)) (\<lambda>now.
               thenI (commitV (finalize_task (ve_sha env) (ve_iso env now) (tk_id task) run v (va_generation a) (va_subject_hash a)))
                 (returnI (task\<lparr>tk_status := T_COMPLETED, tk_stop_reason := None, tk_updated := now\<rparr>)))))"

end
