(* ===== verification/Verification_Facts.thy ===== *)
theory Verification_Facts
  imports Verification_Service
begin

text \<open>
  What the verification service keeps: the rows it writes are bound to the run they belong to, no completion goes
  unearned, an assessment of a changed task as verified rests on evidence for the plan of the change, and the diffs the
  plan is made from are complete or marked.
\<close>

section \<open>Keeping the tables sound\<close>

text \<open>
  The ledger itself accepts any record into an open run; the service only writes records of the run's generation and
  subject. \<open>keepsV P m Q\<close>: the effect \<open>m\<close>, started on sound tables that satisfy \<open>P\<close>, leaves them sound however it
  ends, and when it returns \<open>v\<close> they satisfy \<open>Q v\<close>.
\<close>

definition evidence_bound :: "ledger_db \<Rightarrow> bool" where
  "evidence_bound db = (distinct (map ew_id (ld_evidence db)) \<and> (\<forall>r \<in> set (ld_evidence db).
     ew_id r = er_identifier (ew_record r)
     \<and> (\<exists>w. dget (ld_runs db) (ew_run r) = Some w \<and> rw_task w = ew_task r
          \<and> rw_generation w = er_generation (ew_record r) \<and> rw_subject_hash w = er_subject_hash (ew_record r))))"

definition tables_sound :: "ledger_db \<Rightarrow> bool" where
  "tables_sound db = (proof_inv db \<and> evidence_bound db)"

definition keepsV :: "(ledger_db \<Rightarrow> bool) \<Rightarrow> 'a vio \<Rightarrow> ('a \<Rightarrow> ledger_db \<Rightarrow> bool) \<Rightarrow> bool" where
  "keepsV P m Q = (\<forall>s. tables_sound (vt_db s) \<and> P (vt_db s) \<longrightarrow>
     tables_sound (vt_db (snd (m s))) \<and> (\<forall>v. fst (m s) = Inr v \<longrightarrow> Q v (vt_db (snd (m s)))))"

abbreviation any_db :: "ledger_db \<Rightarrow> bool" where
  "any_db \<equiv> (\<lambda>_. True)"

abbreviation quietly :: "'a vio \<Rightarrow> bool" where
  "quietly m \<equiv> keepsV any_db m (\<lambda>_. any_db)"

named_theorems keeps_intros \<open>rules of keepsV by the construct of the effect\<close>

lemma keeps_bind:
  assumes "keepsV P m Q" "\<And>v. keepsV (Q v) (f v) R"
  shows "keepsV P (bindI m f) R"
  using assms unfolding keepsV_def bindI_def by (auto split: prod.splits sum.splits; metis fst_conv snd_conv)

lemma keeps_weaken: "keepsV P m Q \<Longrightarrow> (\<And>db. P' db \<Longrightarrow> P db) \<Longrightarrow> (\<And>v db. Q v db \<Longrightarrow> Q' v db) \<Longrightarrow> keepsV P' m Q'"
  unfolding keepsV_def by blast

lemma keeps_then: "keepsV P m (\<lambda>_. Q) \<Longrightarrow> keepsV Q n R \<Longrightarrow> keepsV P (thenI m n) R"
  unfolding thenI_def by (rule keeps_bind)

lemma quiet_bind [keeps_intros]: "quietly m \<Longrightarrow> (\<And>v. quietly (f v)) \<Longrightarrow> quietly (bindI m f)"
  by (rule keeps_bind)

lemma quiet_then [keeps_intros]: "quietly m \<Longrightarrow> quietly n \<Longrightarrow> quietly (thenI m n)"
  by (rule keeps_then)

lemma quiet_return [keeps_intros]: "quietly (returnI v)" "quietly (liftR r)" "quietly (raiseI c msg)" "quietly (failI e)"
  by (simp_all add: keepsV_def returnI_def liftR_def raiseI_def failI_def)

lemma keeps_same_db: "(\<And>s. vt_db (snd (m s)) = vt_db s) \<Longrightarrow> keepsV P m (\<lambda>_. P)"
  by (simp add: keepsV_def)

lemma quiet_read [keeps_intros]: "quietly (readV f)" "quietly (serviceV g)" "quietly (updateV h)" "quietly (queryV q)" "quietly (nowV env)"
  by (simp_all add: keepsV_def readV_def serviceV_def updateV_def queryV_def nowV_def getI_def modifyI_def)

lemma quiet_if [keeps_intros]: "quietly m \<Longrightarrow> quietly n \<Longrightarrow> quietly (if b then m else n)"
  by simp

lemma quiet_let [keeps_intros]: "quietly (f x) \<Longrightarrow> quietly (Let x f)"
  by simp

lemma quiet_option [keeps_intros]: "quietly m \<Longrightarrow> (\<And>y. quietly (f y)) \<Longrightarrow> quietly (case x of None \<Rightarrow> m | Some y \<Rightarrow> f y)"
  by (cases x) simp_all

lemma quiet_prod [keeps_intros]: "(\<And>x y. quietly (f x y)) \<Longrightarrow> quietly (case p of (x, y) \<Rightarrow> f x y)"
  by (cases p) simp

lemma keeps_commit:
  "(\<And>db db'. tables_sound db \<Longrightarrow> P db \<Longrightarrow> f db = Inr db' \<Longrightarrow> tables_sound db' \<and> Q db') \<Longrightarrow> keepsV P (commitV f) (\<lambda>_. Q)"
  unfolding keepsV_def commitV_def by (auto split: sum.splits)

text \<open>The transactions of the ledger.\<close>

lemma proof_inv_step: "proof_inv db \<Longrightarrow> proof_op_result sha a db = Inr db' \<Longrightarrow> proof_inv db'"
  using proof_op_le by blast

definition runs_extend :: "ledger_db \<Rightarrow> ledger_db \<Rightarrow> bool" where
  "runs_extend a b = (\<forall>i w. dget (ld_runs a) i = Some w \<longrightarrow> (\<exists>w'. dget (ld_runs b) i = Some w' \<and> rw_task w' = rw_task w
     \<and> rw_generation w' = rw_generation w \<and> rw_subject_hash w' = rw_subject_hash w))"

lemma sound_step:
  assumes "tables_sound db" "proof_op_result sha a db = Inr db'" "ld_evidence db' = ld_evidence db" "runs_extend db db'"
  shows "tables_sound db'"
proof -
  have "evidence_bound db'"
    using assms unfolding tables_sound_def evidence_bound_def runs_extend_def by simp metis
  with proof_inv_step [OF _ assms(2)] assms(1) show ?thesis by (simp add: tables_sound_def)
qed

lemma sound_save_contract:
  assumes "tables_sound db" "save_contract t v db = Inr db'"
  shows "tables_sound db'"
  by (rule sound_step [of db "\<lambda>x. x" "SaveContract t v"])
     (use assms in \<open>auto simp: save_contract_def bindR_Inr_iff runs_extend_def split: if_split_asm\<close>)

lemma sound_states: "tables_sound db \<Longrightarrow> tables_sound (db\<lparr>ld_tasks := tasks, ld_states := states\<rparr>)"
  by (rule sound_step [of db "\<lambda>x. x" "Elsewhere tasks states"]) (auto simp: runs_extend_def)

lemma sound_begin:
  assumes "tables_sound db" "begin_run now run g h t db = Inr db'"
  shows "tables_sound db' \<and> (\<exists>w. dget (ld_runs db') run = Some w \<and> rw_task w = t \<and> rw_generation w = g \<and> rw_subject_hash w = h)"
proof
  show "tables_sound db'"
    by (rule sound_step [of db "\<lambda>x. x" "BeginRun now run g h t"])
       (use assms in \<open>auto simp: begin_run_def bindR_Inr_iff runs_extend_def split: if_split_asm\<close>)
qed (use assms(2) in \<open>auto simp: begin_run_def bindR_Inr_iff split: if_split_asm\<close>)

lemma sound_close:
  assumes "tables_sound db" "close_run now run st db = Inr db'"
  shows "tables_sound db'"
  by (rule sound_step [of db "\<lambda>x. x" "CloseRun now run st"])
     (use assms in \<open>auto simp: close_run_def bindR_Inr_iff runs_extend_def split: if_split_asm option.splits\<close>)

lemma sound_interrupt:
  assumes "tables_sound db" "interrupt_open_runs now t db = Inr (db', n)"
  shows "tables_sound db'"
  by (rule sound_step [of db "\<lambda>x. x" "InterruptRuns now t"])
     (use assms in \<open>auto simp: interrupt_open_runs_def bindR_Inr_iff runs_extend_def Let_def dget_map_snd\<close>)

lemma sound_finalize:
  assumes "tables_sound db" "finalize_task sha now t run v g h db = Inr db'"
  shows "tables_sound db'"
  by (rule sound_step [of db sha "FinalizeTask now t run v g h"])
     (use assms in \<open>auto simp: runs_extend_def elim!: finalize_InrD\<close>)

lemma sound_append:
  assumes "tables_sound db" "append_evidence now run t r db = Inr db'"
    and "\<exists>w. dget (ld_runs db) run = Some w \<and> rw_task w = t \<and> rw_generation w = er_generation r \<and> rw_subject_hash w = er_subject_hash r"
  shows "tables_sound db'"
proof -
  have "proof_inv db'" using proof_inv_step [of db _ "AppendEvidence now run t r" db'] assms(1,2) by (simp add: tables_sound_def)
  moreover have "evidence_bound db'"
    using assms by (auto simp: tables_sound_def evidence_bound_def append_evidence_def bindR_Inr_iff split: if_split_asm option.splits)
  ultimately show ?thesis by (simp add: tables_sound_def)
qed

section \<open>The operations keep the tables sound\<close>

lemma quiet_commit:
  "(\<And>db db'. tables_sound db \<Longrightarrow> f db = Inr db' \<Longrightarrow> tables_sound db') \<Longrightarrow> quietly (commitV f)"
  by (rule keeps_commit) simp

lemma quiet_save [keeps_intros]:
  "quietly (commitV (save_contract t v))" "quietly (commitV (finalize_task sha now t run w g h))"
  "quietly (commitV (save_if_current refused t state expected))"
proof -
  show "quietly (commitV (save_if_current refused t state expected))"
  proof (rule quiet_commit)
    fix db db' assume "tables_sound db" "save_if_current refused t state expected db = Inr db'"
    then show "tables_sound db'"
      using sound_states [where db = db and tasks = "ld_tasks db" and states = "dput t state (ld_states db)"]
      by (auto simp: save_if_current_def split: if_split_asm option.splits)
  qed
qed (rule quiet_commit; erule (1) sound_save_contract sound_finalize)+

definition has_run :: "string \<Rightarrow> string \<Rightarrow> int \<Rightarrow> string \<Rightarrow> ledger_db \<Rightarrow> bool" where
  "has_run run t g h db = (\<exists>w. dget (ld_runs db) run = Some w \<and> rw_task w = t \<and> rw_generation w = g \<and> rw_subject_hash w = h)"

text \<open>A record may be built with the help of the service, but not of the tables, and it is of the run's generation and subject.\<close>

definition builds :: "int \<Rightarrow> string \<Rightarrow> evidence vio \<Rightarrow> bool" where
  "builds g h m = (\<forall>s. vt_db (snd (m s)) = vt_db s \<and> (\<forall>r. fst (m s) = Inr r \<longrightarrow> er_generation r = g \<and> er_subject_hash r = h))"

definition calm :: "'a vio \<Rightarrow> bool" where
  "calm m = (\<forall>s. vt_db (snd (m s)) = vt_db s)"

lemma calm_effects: "calm (readV f)" "calm (serviceV g)" "calm (updateV h)" "calm (liftR r)"
  by (simp_all add: calm_def readV_def serviceV_def updateV_def liftR_def getI_def modifyI_def)

lemma builds_bind: "calm m \<Longrightarrow> (\<And>v. builds g h (f v)) \<Longrightarrow> builds g h (bindI m f)"
  unfolding builds_def bindI_def calm_def by (auto split: prod.splits sum.splits; metis fst_conv snd_conv)

lemma builds_pass: "(\<And>x y. builds g h (f x y)) \<Longrightarrow> builds g h (case p of (x, y) \<Rightarrow> f x y)" "builds g h (k v) \<Longrightarrow> builds g h (Let v k)"
  by (cases p) simp_all

lemma builds_lift: "(\<And>r. x = Inr r \<Longrightarrow> er_generation r = g \<and> er_subject_hash r = h) \<Longrightarrow> builds g h (liftR x)"
  by (simp add: builds_def liftR_def)

lemma quiet_record_run:
  assumes "\<And>run. builds (ts_code_generation state) (ts_subject_hash state) (build run)"
  shows "quietly (record_run env t state build)"
proof -
  let ?g = "ts_code_generation state" and ?h = "ts_subject_hash state"
  have read: "keepsV P (nowV env) (\<lambda>_. P)" for P by (rule keeps_same_db) (simp add: nowV_def readV_def)
  have built: "keepsV (has_run run t ?g ?h) (build run)
      (\<lambda>r db. has_run run t ?g ?h db \<and> er_generation r = ?g \<and> er_subject_hash r = ?h)" for run
    using assms [of run] by (auto simp: keepsV_def builds_def)
  have "keepsV any_db (commitV (begin_run now run ?g ?h t)) (\<lambda>_. has_run run t ?g ?h)" for now run
    by (rule keeps_commit) (use sound_begin in \<open>auto simp: has_run_def\<close>)
  moreover have "keepsV (\<lambda>db. has_run run t ?g ?h db \<and> er_generation r = ?g \<and> er_subject_hash r = ?h)
      (commitV (append_evidence now run t r)) (\<lambda>_. any_db)" for now run r
    by (rule keeps_commit) (auto intro: sound_append simp: has_run_def)
  moreover have "quietly (commitV (close_run now run x))" for now run x
    by (rule quiet_commit) (rule sound_close)
  ultimately show ?thesis
    unfolding record_run_def
    by (intro quiet_bind quiet_read keeps_then [where Q = "has_run _ t ?g ?h"])
       (assumption | rule keeps_bind [OF built] | rule keeps_bind [OF read] | rule keeps_then | rule quiet_read)+
qed

lemma mk_evidence_same: "mk_evidence r = Inr s \<Longrightarrow> \<exists>d. s = r\<lparr>er_diagnostic := d\<rparr>"
  by (auto simp: mk_evidence_def bindR_Inr_iff bounded_text_def split: if_split_asm)

lemma evidence_output_bound:
  "evidence_output sha i crit outcome prov g h output diagnostic identity = Inr r \<Longrightarrow> er_generation r = g \<and> er_subject_hash r = h"
  using mk_evidence_same by (fastforce simp: evidence_output_def)

lemma quiet_attestation [keeps_intros]: "quietly (record_planner_attestation env t state plan)"
  unfolding record_planner_attestation_def completed_evidence_def
  by (intro keeps_intros quiet_record_run builds_bind calm_effects builds_lift) (auto simp: planner_attestation_def dest: evidence_output_bound)

lemma quiet_snapshot [keeps_intros]: "quietly (snapshot_state env task state g)"
  unfolding snapshot_state_def by (intro keeps_intros)

lemma quiet_plan [keeps_intros]: "quietly (planV env files phase diff)"
  unfolding planV_def by (intro keeps_intros)

lemma quiet_commit_change [keeps_intros]: "quietly (commit_logical_change env task state)"
  unfolding commit_logical_change_def by (intro keeps_intros)

lemma quiet_prepare: "quietly (prepare_verification env task state)"
  unfolding prepare_verification_def by (intro keeps_intros)

lemma quiet_record_verification [keeps_intros]: "quietly (record_verification env task q r state)"
proof -
  have seen: "evidence_from_result sha ps pr i a g h crit identity = Inr e \<Longrightarrow> er_generation e = g \<and> er_subject_hash e = h"
    for sha ps pr i a g h crit identity e
    by (auto simp: evidence_from_result_def Let_def dest: evidence_output_bound)
  show ?thesis
    unfolding record_verification_def thenI_def [where 'b = evidence]
    by (intro keeps_intros quiet_record_run builds_bind calm_effects builds_pass builds_lift) (rule seen)
qed

lemma quiet_record_action: "quietly (record_action env task q r state)"
  unfolding record_action_def record_edit_def settle_open_change_def by (intro keeps_intros)

lemma quiet_assess: "quietly (assess_task env task state)"
  unfolding assess_task_def final_plan_proof_def completed_evidence_def discovered_project_def by (intro keeps_intros)

lemma quiet_call [keeps_intros]: "quietly (plan_call env t plan kind cwd chosen step)"
  unfolding plan_call_def by (intro keeps_intros)

lemma quiet_suggest: "quietly (suggest_verification env task state)"
  unfolding suggest_verification_def suggest_for_project_def completed_evidence_def discovered_project_def by (intro keeps_intros)

lemma quiet_milestone: "quietly (milestone_verification env task found)"
  unfolding milestone_verification_def discovered_project_def by (intro keeps_intros)

lemma quiet_finalize: "quietly (finalize_verified env task a)"
  unfolding finalize_verified_def by (intro keeps_intros)

section \<open>Sequences of operations\<close>

text \<open>
  The operations of the service, and what others do to the tables in between: rows of tasks and states may change in
  any way, and open runs may be interrupted.
\<close>

datatype service_op =
    BeginChange string
  | RollbackChange string
  | CommitChange task_record task_state
  | PrepareTask task_record task_state
  | RecordAction task_record action_request action_result task_state
  | AssessTask task_record task_state
  | SuggestVerification task_record task_state
  | MilestoneVerification task_record "verification_plan option"
  | FinalizeVerified task_record assessed
  | OtherTables "(string \<times> owner_row) list" "(string \<times> task_state) list"
  | InterruptOpen string string

fun service_step :: "verification_env \<Rightarrow> service_op \<Rightarrow> verify_state \<Rightarrow> verify_state" where
  "service_step env (BeginChange t) s = snd (begin_logical_change t s)"
| "service_step env (RollbackChange t) s = snd (rollback_logical_change t s)"
| "service_step env (CommitChange task state) s = snd (commit_logical_change env task state s)"
| "service_step env (PrepareTask task state) s = snd (prepare_verification env task state s)"
| "service_step env (RecordAction task q r state) s = snd (record_action env task q r state s)"
| "service_step env (AssessTask task state) s = snd (assess_task env task state s)"
| "service_step env (SuggestVerification task state) s = snd (suggest_verification env task state s)"
| "service_step env (MilestoneVerification task found) s = snd (milestone_verification env task found s)"
| "service_step env (FinalizeVerified task a) s = snd (finalize_verified env task a s)"
| "service_step env (OtherTables tasks states) s = s\<lparr>vt_db := (vt_db s)\<lparr>ld_tasks := tasks, ld_states := states\<rparr>\<rparr>"
| "service_step env (InterruptOpen now t) s = snd (commitV (\<lambda>db. bindR (interrupt_open_runs now t db) (\<lambda>(db', n). Inr db')) s)"

lemma quietD: "quietly m \<Longrightarrow> tables_sound (vt_db s) \<Longrightarrow> tables_sound (vt_db (snd (m s)))"
  by (simp add: keepsV_def)

lemma service_step_sound: "tables_sound (vt_db s) \<Longrightarrow> tables_sound (vt_db (service_step env a s))"
proof (cases a)
  case (InterruptOpen now t)
  moreover have "quietly (commitV (\<lambda>db. bindR (interrupt_open_runs now t db) (\<lambda>(db', n). Inr db')))"
    by (rule quiet_commit) (auto simp: bindR_Inr_iff intro: sound_interrupt)
  moreover assume "tables_sound (vt_db s)"
  ultimately show ?thesis by (simp add: quietD)
qed (simp_all add: quietD quiet_commit_change quiet_prepare quiet_record_action quiet_assess quiet_suggest quiet_milestone quiet_finalize
      begin_logical_change_def rollback_logical_change_def quiet_read sound_states)

interpretation verification_tables: state_machine "service_step env" "\<lambda>s. tables_sound (vt_db s)"
  by unfold_locales (rule service_step_sound)

definition fresh_tables :: "verification_service \<Rightarrow> (string \<times> owner_row) list \<Rightarrow> (string \<times> task_state) list \<Rightarrow> verify_state" where
  "fresh_tables v tasks states = \<lparr>vt_service = v, vt_db = empty_ledger tasks states, vt_tick = 0\<rparr>"

lemma fresh_tables_sound: "tables_sound (vt_db (fresh_tables v tasks states))"
  by (simp add: fresh_tables_def empty_ledger_def tables_sound_def proof_inv_def evidence_bound_def)

text \<open>
  C8: What the service records is bound to what was verified. After any sequence of its operations, whatever the clock,
  the workspace and the graph answer and whatever others do to tasks, states and open runs, every evidence row belongs
  to a run of its own task, generation and subject, and every completed task has, for each required criterion of a
  stored contract revision, satisfying evidence recorded for the very generation and subject it was completed at.
\<close>

theorem service_evidence_is_bound:
  "let db = vt_db (fold (service_step env) ops (fresh_tables v tasks states)) in
   (\<forall>r \<in> set (ld_evidence db). \<exists>w. dget (ld_runs db) (ew_run r) = Some w \<and> rw_task w = ew_task r
      \<and> rw_generation w = er_generation (ew_record r) \<and> rw_subject_hash w = er_subject_hash (ew_record r))
   \<and> (\<forall>c \<in> set (ld_completions db). \<exists>x. (cw_task c, x) \<in> set (ld_contracts db) \<and> rv_revision x = cw_revision c
      \<and> (\<forall>k \<in> set (rv_criteria x). cr_requirement k = REQUIRED \<longrightarrow>
           (\<exists>r \<in> set (ld_evidence db). ew_task r = cw_task c \<and> er_criterion (ew_record r) = cr_identifier k
              \<and> evidence_satisfies_current_verifier (ew_record r) \<and> er_generation (ew_record r) = cw_generation c
              \<and> er_subject_hash (ew_record r) = cw_subject_hash c)))"
proof -
  let ?db = "vt_db (fold (service_step env) ops (fresh_tables v tasks states))"
  have sound: "tables_sound ?db" using verification_tables.run_inv [OF fresh_tables_sound] .
  then have bound: "r \<in> set (ld_evidence ?db) \<Longrightarrow> \<exists>w. dget (ld_runs ?db) (ew_run r) = Some w \<and> rw_task w = ew_task r
      \<and> rw_generation w = er_generation (ew_record r) \<and> rw_subject_hash w = er_subject_hash (ew_record r)" for r
    by (simp add: tables_sound_def evidence_bound_def)
  have proven: "proven ?db t g h i \<Longrightarrow> \<exists>r \<in> set (ld_evidence ?db). ew_task r = t \<and> er_criterion (ew_record r) = i
      \<and> evidence_satisfies_current_verifier (ew_record r) \<and> er_generation (ew_record r) = g \<and> er_subject_hash (ew_record r) = h" for t g h i
    using bound unfolding proven_def run_done_def by (fastforce split: option.splits)
  have "\<forall>c \<in> set (ld_completions ?db). earned ?db c" using sound by (simp add: tables_sound_def proof_inv_def)
  then show ?thesis using bound proven unfolding earned_def Let_def by meson
qed

text \<open>A run of a whole project's tests, recorded and used to finish a task that changed nothing.\<close>

definition sample_env :: verification_env where
  "sample_env = \<lparr>ve_sha = (\<lambda>_. ''d''), ve_float = (\<lambda>_ _. ''0.5''), ve_str = (\<lambda>_. ''s''), ve_repr = (\<lambda>_. ''o''),
     ve_uuid = (\<lambda>n. replicate (Suc n) (CHR ''u'')), ve_clock = int, ve_iso = (\<lambda>_. ''now''), ve_subject = (\<lambda>_ _ _. Inr ''h''),
     ve_tree = (\<lambda>_. \<lparr>wt_is_dir = (\<lambda>_. False), wt_is_file = (\<lambda>_. False), wt_glob = (\<lambda>_ _. []), wt_text = (\<lambda>_. None)\<rparr>),
     ve_syntax = (\<lambda>_ _. None), ve_found = (\<lambda>_. True), ve_executable = ''python'',
     ve_folders = (\<lambda>_. [\<lparr>mf_path = ''/w'', mf_relative = ''.'', mf_names = [''pyproject.toml''], mf_scripts = [], mf_modules = False\<rparr>]),
     ve_refused = (\<lambda>_. None)\<rparr>"

definition sample_owner :: task_record where
  "sample_owner = sample_task\<lparr>tk_id := ''t'', tk_thread := ''th''\<rparr>"

definition sample_run_request :: action_request where
  "sample_run_request = \<lparr>aq_id = ''c'', aq_name = ''run_verification'', aq_arguments = [(''kind'', JStr ''pytest'')]\<rparr>"

definition sample_run_result :: action_result where
  "sample_run_result = \<lparr>ar_request_id = ''c'', ar_name = ''run_verification'', ar_output = JObj [], ar_is_error = False, ar_metadata = []\<rparr>"

definition sample_verified :: assessed where
  "sample_verified = \<lparr>va_assessment = \<lparr>as_kind = VERIFIED, as_unmet = []\<rparr>, va_outcome = PASS, va_generation = 0, va_subject_hash = ''h'',
     va_run_id = Some (replicate 5 (CHR ''u'')), va_diagnostics = []\<rparr>"

definition sample_service_ops :: "service_op list" where
  "sample_service_ops = [BeginChange ''t'', PrepareTask sample_owner empty_state, RollbackChange ''t'',
     RecordAction sample_owner sample_run_request sample_run_result (empty_state\<lparr>ts_subject_hash := ''h''\<rparr>),
     FinalizeVerified sample_owner sample_verified]"

theorem service_evidence_is_bound_witness:
  "let db = vt_db (fold (service_step sample_env) sample_service_ops (fresh_tables new_service sample_tasks sample_states)) in
   length (ld_completions db) = 1 \<and> (\<forall>r \<in> set (ld_evidence db). \<exists>w. dget (ld_runs db) (ew_run r) = Some w \<and> rw_task w = ew_task r)"
proof -
  have one: "length (ld_completions (vt_db (fold (service_step sample_env) sample_service_ops
      (fresh_tables new_service sample_tasks sample_states)))) = 1" by code_simp
  show ?thesis
    using service_evidence_is_bound [where env = sample_env and ops = sample_service_ops and v = new_service and tasks = sample_tasks
        and states = sample_states]
    unfolding Let_def one by meson
qed

section \<open>Diffs are complete or marked\<close>

lemma contains_iff: "contains s p \<longleftrightarrow> (\<exists>a b. s = a @ p @ b)"
proof
  assume "contains s p"
  then obtain i where "take (length p) (drop i s) = p" by (auto simp: contains_def list_ex_iff starts_with_def)
  then have "s = take i s @ p @ drop (length p) (drop i s)" by (metis append_take_drop_id)
  then show "\<exists>a b. s = a @ p @ b" by blast
next
  assume "\<exists>a b. s = a @ p @ b"
  then obtain a b where "s = a @ p @ b" by blast
  then show "contains s p"
    unfolding contains_def list_ex_iff starts_with_def by (intro bexI [of _ "length a"]) auto
qed

lemma contains_join: "x \<in> set xs \<Longrightarrow> contains x m \<Longrightarrow> contains (join_with sep xs) m"
proof (induction sep xs rule: join_with.induct)
  case (3 sep p q ps)
  show ?case
  proof (cases "x = p")
    case True
    with 3(3) show ?thesis unfolding contains_iff by (metis append.assoc join_with.simps(3))
  next
    case False
    with 3 have "contains (join_with sep (q # ps)) m" by simp
    then obtain a b where "join_with sep (q # ps) = a @ m @ b" unfolding contains_iff by blast
    then have "join_with sep (p # q # ps) = (p @ sep @ a) @ m @ b" by simp
    then show ?thesis unfolding contains_iff by blast
  qed
qed auto

definition patch_mark :: string where
  "patch_mark = CHR 10 # ''+ # PATCH_BODY_TRUNCATED'' @ [CHR 10]"

lemma mark_cuts: "patch_mark \<in> set parts \<Longrightarrow> patch_cut (join_with sep parts)"
proof -
  have "contains patch_mark ''PATCH_BODY_TRUNCATED''" by code_simp
  then show "patch_mark \<in> set parts \<Longrightarrow> patch_cut (join_with sep parts)"
    unfolding patch_cut_def using contains_join by blast
qed

definition buffer_ok :: "string list \<Rightarrow> string list \<Rightarrow> bool" where
  "buffer_ok ds parts = (let size = sum_list (map length parts) in
     (parts = ds \<and> size \<le> patch_limit) \<or> (patch_mark \<in> set parts \<and> patch_limit < size \<and> size \<le> patch_limit + 26))"

lemma buffer_step:
  assumes "buffer_ok ds (dict_or [] t store)"
  shows "buffer_ok (ds @ [d]) (dict_or [] t (append_patch t d store))"
proof -
  let ?parts = "dict_or [] t store"
  let ?size = "sum_list (map length ?parts)"
  have mark: "length patch_mark = 26" by (simp add: patch_mark_def)
  show ?thesis
  proof (cases "patch_limit < ?size")
    case True
    with assms show ?thesis by (auto simp: buffer_ok_def append_patch_def Let_def)
  next
    case False
    with assms have kept: "?parts = ds" by (auto simp: buffer_ok_def Let_def)
    have new: "dict_or [] t (append_patch t d store) = ?parts @ [take (patch_limit - ?size) d]
        @ (if patch_limit - ?size < length d then [patch_mark] else [])"
      using False by (simp add: append_patch_def Let_def dict_or_def patch_mark_def)
    show ?thesis
      unfolding new buffer_ok_def Let_def using False kept mark by (auto simp: min_def)
  qed
qed

lemma buffer_fold: "dget store t = None \<Longrightarrow> buffer_ok ds (dict_or [] t (fold (append_patch t) ds store))"
proof (induction ds rule: rev_induct)
  case Nil
  then show ?case by (simp add: buffer_ok_def dict_or_def)
next
  case (snoc d ds)
  then show ?case using buffer_step [of ds t "fold (append_patch t) ds store" d] by simp
qed

text \<open>
  C12: The diffs of a task are bounded and never cut unnoticed: however many are appended, at most 262144 characters and
  one mark are kept, and either every diff is there whole, or the text the plan is made from is recognised as cut --
  with which, documentation apart, the plan is high or critical.
\<close>

theorem task_diffs_are_complete_or_marked:
  assumes "dget store t = None"
  shows "let parts = dict_or [] t (fold (append_patch t) ds store) in
    sum_list (map length parts) \<le> patch_limit + 26 \<and> (parts = ds \<or> patch_cut (join_with [CHR 10] parts))"
  using buffer_fold [OF assms, of ds] mark_cuts by (auto simp: buffer_ok_def Let_def)

theorem task_diffs_are_complete_or_marked_witness:
  "let parts = dict_or [] ''t'' (fold (append_patch ''t'') [replicate 300000 (CHR ''+''), ''-b''] [(''u'', [])]) in
    sum_list (map length parts) \<le> patch_limit + 26 \<and> (parts = [replicate 300000 (CHR ''+''), ''-b''] \<or> patch_cut (join_with [CHR 10] parts))"
  by (rule task_diffs_are_complete_or_marked) simp

section \<open>Assessing a changed task\<close>

lemma bindI_Inr_iff: "bindI m f s = (Inr y, s'') \<longleftrightarrow> (\<exists>x s'. m s = (Inr x, s') \<and> f x s' = (Inr y, s''))"
  by (auto simp: bindI_def split: prod.splits sum.splits)

lemma returnI_Inr_iff [simp]: "returnI x s = (Inr y, s') \<longleftrightarrow> y = x \<and> s' = s"
  by (auto simp: returnI_def)

lemma liftR_Inr_iff [simp]: "liftR r s = (Inr y, s') \<longleftrightarrow> r = Inr y \<and> s' = s"
  by (auto simp: liftR_def)

lemma readV_Inr_iff: "readV f s = (Inr y, s') \<longleftrightarrow> y = f (vt_tick s) \<and> s' = s\<lparr>vt_tick := Suc (vt_tick s)\<rparr>"
  by (auto simp: readV_def)

lemma serviceV_Inr_iff [simp]: "serviceV f s = (Inr y, s') \<longleftrightarrow> y = f (vt_service s) \<and> s' = s"
  by (auto simp: serviceV_def getI_def)

lemma queryV_Inr_iff [simp]: "queryV q s = (Inr y, s') \<longleftrightarrow> q (vt_db s) = Inr y \<and> s' = s"
  by (auto simp: queryV_def)

lemma raiseI_Inr [simp]: "raiseI c msg s \<noteq> (Inr y, s')"
  by (simp add: raiseI_def failI_def)

lemmas effect_iffs = bindI_Inr_iff readV_Inr_iff

lemma snapshot_returns:
  assumes "snapshot_state env task state g s = (Inr st, s')"
  shows "vt_service s' = vt_service s" and "ts_files_changed st = ts_files_changed state" and "ts_code_generation st = g"
    and "ld_contracts (vt_db s') = ld_contracts (vt_db s)" and "ld_evidence (vt_db s') = ld_evidence (vt_db s)"
    and "ld_runs (vt_db s') = ld_runs (vt_db s)"
  using assms
  by (auto simp: snapshot_state_def effect_iffs thenI_def commitV_def save_if_current_def mk_state_Inr
      split: sum.splits option.splits if_split_asm)

text \<open>A record of the task in a completed run.\<close>

definition recorded :: "string \<Rightarrow> ledger_db \<Rightarrow> evidence \<Rightarrow> bool" where
  "recorded t db r = list_ex (\<lambda>row. ew_task row = t \<and> ew_record row = r \<and> run_done db row (\<lambda>_. True)) (ld_evidence db)"

lemma latest_by_member: "r \<in> set (dvals (latest_by key xs)) \<Longrightarrow> r \<in> set xs"
proof (induction xs rule: rev_induct)
  case (snoc x xs)
  have "latest_by key (xs @ [x]) = dput (key x) x (latest_by key xs)" by (simp add: latest_by_def)
  moreover have "set (dvals (dput k v d)) \<subseteq> insert v (set (dvals d))" for k v and d :: "('b \<times> 'a) list"
    using dput_set [of k v d] by (auto simp: dvals_def)
  ultimately show ?case using snoc by auto
qed (simp add: latest_by_def dvals_def)

text \<open>What the proof of a plan may name: by kind of plan, the records that count.\<close>

definition plan_met :: "verification_env \<Rightarrow> verification_plan \<Rightarrow> project_candidate option \<Rightarrow> evidence list \<Rightarrow> evidence \<Rightarrow> bool" where
  "plan_met env plan found rs r =
     (if planner_attestation_allowed plan then er_provenance r = SYSTEM_PLANNER
      else case found of
        None \<Rightarrow> False
      | Some p \<Rightarrow>
          (case test_kind p of
             None \<Rightarrow> False
           | Some kind \<Rightarrow>
               if vp_tier plan = R_CRITICAL
               then er_verifier_identity r = Some (identity_for env (build_kind p) (pj_root p) [] risk_criterion)
                 \<and> list_ex (\<lambda>x. er_criterion x = tests_criterion \<and> evidence_satisfies_current_verifier x
                     \<and> er_verifier_identity x = Some (identity_for env kind (pj_root p) (if vp_full_gate plan then [] else vp_targeted plan) tests_criterion)) rs
               else er_verifier_identity r = Some (identity_for env kind (pj_root p) (if vp_full_gate plan then [] else vp_targeted plan) risk_criterion)))"

lemma plan_proof_met:
  assumes "i \<in> set (fst (plan_proof env plan found rs))" and "\<not> planner_attestation_allowed plan"
  shows "\<exists>r \<in> set rs. er_identifier r = i \<and> plan_met env plan found rs r"
  using assms
  by (cases found; cases "test_kind (the found)"; cases "vp_tier plan = R_CRITICAL")
     (auto simp: plan_proof_def plan_met_def matching_def list_ex_iff Let_def filter_empty_conv split: if_split_asm)

lemma plan_met_mono: "plan_met env plan found rs r \<Longrightarrow> set rs \<subseteq> set rs' \<Longrightarrow> plan_met env plan found rs' r"
proof -
  assume "plan_met env plan found rs r" "set rs \<subseteq> set rs'"
  moreover have "list_ex P rs \<Longrightarrow> set rs \<subseteq> set rs' \<Longrightarrow> list_ex P rs'" for P by (auto simp: list_ex_iff)
  ultimately show ?thesis
    by (cases "planner_attestation_allowed plan"; cases found; cases "test_kind (the found)"; cases "vp_tier plan = R_CRITICAL")
       (simp_all add: plan_met_def)
qed

definition found_at :: "verification_env \<Rightarrow> nat \<Rightarrow> project_candidate option" where
  "found_at env m = (case discover_projects (ve_found env) (ve_executable env) (ve_folders env m) of [] \<Rightarrow> None | p # _ \<Rightarrow> Some p)"

lemma discovered_returns: "discovered_project env s = (Inr f, s') \<Longrightarrow> f = found_at env (vt_tick s) \<and> s' = s\<lparr>vt_tick := Suc (vt_tick s)\<rparr>"
  by (simp add: discovered_project_def readV_Inr_iff found_at_def)

lemma final_plan_returns:
  assumes "final_plan_proof env t state records s = (Inr (allowed, missing), s')" and "ts_files_changed state \<noteq> []"
  shows "vt_service s' = vt_service s \<and> vt_db s' = vt_db s
    \<and> (\<exists>n m plan. plan_verification (vs_planner (vt_service s)) (ve_tree env n) (ts_files_changed state) FINAL_GATE
          (join_with [CHR 10] (dict_or [] t (vs_task_diffs (vt_service s)))) = Inr plan
        \<and> (\<forall>i \<in> set allowed. \<exists>r \<in> set records. er_identifier r = i \<and> plan_met env plan (found_at env m) records r))"
proof -
  let ?rs = "dvals (latest_by (\<lambda>r. (er_criterion r, proof_source r)) records)"
  have sub: "set ?rs \<subseteq> set records" using latest_by_member by fast
  let ?diff = "join_with [CHR 10] (dict_or [] t (vs_task_diffs (vt_service s)))"
  obtain plan s1 where one: "planV env (ts_files_changed state) FINAL_GATE ?diff s = (Inr plan, s1)"
    and rest: "(if planner_attestation_allowed plan then returnI (map er_identifier (filter (\<lambda>r. er_provenance r = SYSTEM_PLANNER) ?rs), [])
        else bindI (discovered_project env) (\<lambda>found. returnI (plan_proof env plan found ?rs))) s1 = (Inr (allowed, missing), s')"
    using assms by (simp only: final_plan_proof_def Let_def if_False bindI_Inr_iff serviceV_Inr_iff) blast
  then have plan: "plan_verification (vs_planner (vt_service s)) (ve_tree env (vt_tick s)) (ts_files_changed state) FINAL_GATE ?diff = Inr plan"
    and s1: "s1 = s\<lparr>vt_tick := Suc (vt_tick s)\<rparr>"
    by (auto simp: planV_def effect_iffs)
  show ?thesis
  proof (cases "planner_attestation_allowed plan")
    case True
    then have "\<forall>i \<in> set allowed. \<exists>r \<in> set records. er_identifier r = i \<and> plan_met env plan (found_at env 0) records r"
      using rest sub by (auto simp: plan_met_def)
    with True rest plan s1 show ?thesis by auto
  next
    case False
    with rest have "bindI (discovered_project env) (\<lambda>found. returnI (plan_proof env plan found ?rs)) s1 = (Inr (allowed, missing), s')"
      by (simp only: if_False)
    then obtain f s2 where "discovered_project env s1 = (Inr f, s2)" "(allowed, missing) = plan_proof env plan f ?rs" "s' = s2"
      by (simp only: bindI_Inr_iff returnI_Inr_iff) blast
    with discovered_returns have eq: "(allowed, missing) = plan_proof env plan (found_at env (vt_tick s1)) ?rs" and s': "s' = s1\<lparr>vt_tick := Suc (vt_tick s1)\<rparr>"
      by metis+
    from s' s1 have same: "vt_service s' = vt_service s" "vt_db s' = vt_db s" by simp_all
    have "\<forall>i \<in> set allowed. \<exists>r \<in> set records. er_identifier r = i \<and> plan_met env plan (found_at env (vt_tick s1)) records r"
    proof (intro ballI)
      fix i assume "i \<in> set allowed"
      then have "i \<in> set (fst (plan_proof env plan (found_at env (vt_tick s1)) ?rs))" using eq by (metis fst_conv)
      then obtain r where "r \<in> set ?rs" "er_identifier r = i" "plan_met env plan (found_at env (vt_tick s1)) ?rs r"
        using plan_proof_met [OF _ False] by blast
      with plan_met_mono [OF _ sub] sub show "\<exists>r \<in> set records. er_identifier r = i \<and> plan_met env plan (found_at env (vt_tick s1)) records r"
        by blast
    qed
    with plan same show ?thesis by blast
  qed
qed

lemma completed_members: "completed_evidence_for_task t db = Inr rs \<Longrightarrow> set rs = {r. recorded t db r}"
  by (auto simp: completed_evidence_for_task_def bindR_Inr_iff recorded_def list_ex_iff)

lemma recorded_unique:
  assumes "tables_sound db" "recorded t db r" "recorded t db r'" "er_identifier r = er_identifier r'"
  shows "r = r'"
proof -
  obtain x x' where "x \<in> set (ld_evidence db)" "x' \<in> set (ld_evidence db)" "ew_record x = r" "ew_record x' = r'"
    using assms(2,3) by (auto simp: recorded_def list_ex_iff)
  moreover from this assms(1,4) have "ew_id x = ew_id x'" by (auto simp: tables_sound_def evidence_bound_def)
  ultimately show ?thesis using assms(1) by (auto simp: tables_sound_def evidence_bound_def distinct_map inj_on_def)
qed

lemma last_passed_member: "last_passed g h cs i \<Longrightarrow> \<exists>c \<in> set cs. cd_passed c \<and> cd_criterion c = i"
  by (auto simp: last_passed_def last_matching_def find_Some_iff split: option.splits) (metis length_rev nth_mem set_rev)

lemma candidate_fields: "candidate_of allowed r = Inr c \<Longrightarrow> cd_criterion c = er_criterion r
    \<and> cd_passed c = (evidence_satisfies_current_verifier r \<and> (er_criterion r \<noteq> risk_criterion \<or> er_identifier r \<in> set allowed))"
  by (auto simp: candidate_of_def mk_candidate_def bindR_Inr_iff split: if_split_asm)

lemma assess_returns:
  assumes "assess_task env task state s = (Inr a, s')"
  obtains st s1 v records allowed missing s2 cs where "snapshot_state env task state (ts_code_generation state) s = (Inr st, s1)"
    "newest (revisions_of (tk_id task) (vt_db s1)) = Some v" "completed_evidence_for_task (tk_id task) (vt_db s1) = Inr records"
    "final_plan_proof env (tk_id task) st (current_records st records) s1 = (Inr (allowed, missing), s2)"
    "mapR (candidate_of allowed) (current_records st records) = Inr cs"
    "assess_completion v (ts_code_generation st) (ts_subject_hash st) cs = Inr (va_assessment a)"
    "va_generation a = ts_code_generation st" "va_subject_hash a = ts_subject_hash st"
proof -
  have contract: "load_contract t db = Inr x \<Longrightarrow> x = newest (revisions_of t db)" for t db x
    by (auto simp: load_contract_def bindR_Inr_iff)
  show ?thesis
    using assms unfolding assess_task_def Let_def completed_evidence_def
    by (clarsimp simp: bindI_Inr_iff split: option.splits prod.splits) (drule contract, rule that, auto)
qed


text \<open>
  C7: A changed task is assessed as verified only with evidence for the plan of its change. On sound tables, and with a
  required criterion for risk-appropriate validation, there is a satisfying record of that criterion, in a completed run
  and of the assessed generation and subject: the planner's own when the final plan of all changed files and diffs may
  be attested; otherwise one of the verifier run the plan asks for in the discovered project, and for a critical plan
  one of the build together with one of the project's tests.
\<close>

theorem verified_changes_have_planned_proof:
  assumes "assess_task env task state s = (Inr a, s')" and "as_kind (va_assessment a) = VERIFIED"
    and "tables_sound (vt_db s)" and "ts_files_changed state \<noteq> []"
    and "newest (revisions_of (tk_id task) (vt_db s)) = Some v" and "k \<in> set (rv_criteria v)"
    and "cr_identifier k = risk_criterion" and "cr_requirement k = REQUIRED"
  shows "\<exists>n m plan r rs. plan_verification (vs_planner (vt_service s)) (ve_tree env n) (ts_files_changed state) FINAL_GATE
        (join_with [CHR 10] (dict_or [] (tk_id task) (vs_task_diffs (vt_service s)))) = Inr plan
      \<and> (\<forall>x \<in> set (r # rs). recorded (tk_id task) (vt_db s) x \<and> er_generation x = va_generation a
           \<and> er_subject_hash x = va_subject_hash a)
      \<and> er_criterion r = risk_criterion \<and> evidence_satisfies_current_verifier r
      \<and> plan_met env plan (found_at env m) rs r"
proof -
  obtain st s1 v' records allowed missing s2 cs where snap: "snapshot_state env task state (ts_code_generation state) s = (Inr st, s1)"
    and v': "newest (revisions_of (tk_id task) (vt_db s1)) = Some v'"
    and records: "completed_evidence_for_task (tk_id task) (vt_db s1) = Inr records"
    and final: "final_plan_proof env (tk_id task) st (current_records st records) s1 = (Inr (allowed, missing), s2)"
    and cs: "mapR (candidate_of allowed) (current_records st records) = Inr cs"
    and verdict: "assess_completion v' (ts_code_generation st) (ts_subject_hash st) cs = Inr (va_assessment a)"
    and subject: "va_generation a = ts_code_generation st" "va_subject_hash a = ts_subject_hash st"
    using assess_returns [OF assms(1)] .
  note same = snapshot_returns [OF snap]
  have db: "recorded t (vt_db s1) x = recorded t (vt_db s) x" for t x by (simp add: recorded_def run_done_def same)
  have rs: "x \<in> set (current_records st records) \<Longrightarrow> recorded (tk_id task) (vt_db s) x \<and> er_generation x = va_generation a
      \<and> er_subject_hash x = va_subject_hash a" for x
    using completed_members [OF records] db by (auto simp: current_records_def subject)
  have "v' = v" using v' assms(5) same by (simp add: revisions_of_def)
  then have "last_passed (ts_code_generation st) (ts_subject_hash st) cs risk_criterion"
    using assess_verified_iff [OF verdict] assms(2,6-8) by metis
  then obtain c where "c \<in> set cs" "cd_passed c" "cd_criterion c = risk_criterion" using last_passed_member by blast
  then obtain r where r: "r \<in> set (current_records st records)" "er_criterion r = risk_criterion"
      "evidence_satisfies_current_verifier r" "er_identifier r \<in> set allowed"
    using cs candidate_fields by (fastforce simp: mapR_Inr_iff list_all2_conv_all_nth in_set_conv_nth)
  obtain n m plan where plan: "plan_verification (vs_planner (vt_service s)) (ve_tree env n) (ts_files_changed state) FINAL_GATE
        (join_with [CHR 10] (dict_or [] (tk_id task) (vs_task_diffs (vt_service s)))) = Inr plan"
    and met: "\<forall>i \<in> set allowed. \<exists>x \<in> set (current_records st records). er_identifier x = i
        \<and> plan_met env plan (found_at env m) (current_records st records) x"
    using final_plan_returns [OF final] assms(4) same by auto
  from met r(4) obtain x where "x \<in> set (current_records st records)" "er_identifier x = er_identifier r"
      "plan_met env plan (found_at env m) (current_records st records) x" by blast
  moreover from this rs r(1) have "x = r" using recorded_unique [OF assms(3)] by blast
  ultimately show ?thesis using plan r rs by (metis set_ConsD)
qed

lemma fst_okP: "okP P (fst q) \<Longrightarrow> \<exists>x s. q = (Inr x, s) \<and> P x"
  by (cases q) (auto elim: okP_E)

definition sample_changed :: task_state where
  "sample_changed = empty_state\<lparr>ts_files_changed := [''docs/guide.md''], ts_subject_hash := ''h''\<rparr>"

definition sample_attested :: verify_state where
  "sample_attested = fold (service_step sample_env) [PrepareTask sample_owner sample_changed, SuggestVerification sample_owner sample_changed]
     (fresh_tables new_service sample_tasks sample_states)"

theorem verified_changes_have_planned_proof_witness:
  "\<exists>a s' r. assess_task sample_env sample_owner sample_changed sample_attested = (Inr a, s') \<and> as_kind (va_assessment a) = VERIFIED
     \<and> recorded ''t'' (vt_db sample_attested) r \<and> er_generation r = va_generation a"
proof -
  let ?v = "\<lparr>rv_revision = 1, rv_intent = MODIFY, rv_criteria = [\<lparr>cr_identifier = risk_criterion,
      cr_description = ''Host-planned validation satisfies the current change risk tier.'', cr_requirement = REQUIRED, cr_strength = INTEGRITY\<rparr>]\<rparr>"
  have "okP (\<lambda>a. as_kind (va_assessment a) = VERIFIED) (fst (assess_task sample_env sample_owner sample_changed sample_attested))" by code_simp
  then obtain a s' where a: "assess_task sample_env sample_owner sample_changed sample_attested = (Inr a, s')" "as_kind (va_assessment a) = VERIFIED"
    using fst_okP by blast
  have sound: "tables_sound (vt_db sample_attested)"
    unfolding sample_attested_def by (rule verification_tables.run_inv [OF fresh_tables_sound])
  have files: "ts_files_changed sample_changed \<noteq> []" by (simp add: sample_changed_def)
  have v: "newest (revisions_of (tk_id sample_owner) (vt_db sample_attested)) = Some ?v" by code_simp
  have k: "hd (rv_criteria ?v) \<in> set (rv_criteria ?v)" "cr_identifier (hd (rv_criteria ?v)) = risk_criterion"
      "cr_requirement (hd (rv_criteria ?v)) = REQUIRED" by simp_all
  have t: "tk_id sample_owner = ''t''" by (simp add: sample_owner_def)
  obtain r where "recorded (tk_id sample_owner) (vt_db sample_attested) r" "er_generation r = va_generation a"
    using verified_changes_have_planned_proof [OF a sound files v k] by fastforce
  with a show ?thesis unfolding t by blast
qed

end
