(* ===== verification/Context_Budget.thy ===== *)
theory Context_Budget
  imports Values Json_Text
begin

text \<open>
  Token estimates, the prompt budget and the text of the task state: \<open>src/src/code_agent/context/tokens.py\<close>,
  \<open>attachment_budget.py\<close> and \<open>budget.py\<close>. Code points are below 256, so that a cluster is one character, of one byte
  below 128 and of two from there on.
\<close>

section \<open>Estimates\<close>

definition ceil_div :: "int \<Rightarrow> int \<Rightarrow> int" where
  "ceil_div v d = (v + d - 1) div d"

definition is_ascii :: "char \<Rightarrow> bool" where
  "is_ascii c = (code_of c < 128)"

definition estimate_tokens :: "string \<Rightarrow> int" where
  "estimate_tokens s = ceil_div (int (length (filter is_ascii s))) 4 + ceil_div (2 * int (length (filter (\<lambda>c. \<not> is_ascii c) s))) 3"

text \<open>The binary search of \<open>truncate_to_tokens\<close>.\<close>

function longest_fit :: "string \<Rightarrow> int \<Rightarrow> nat \<Rightarrow> nat \<Rightarrow> nat" where
  "longest_fit s b low high =
     (if low < high
      then let mid = (low + high + 1) div 2 in
           if estimate_tokens (take mid s) \<le> b then longest_fit s b mid high else longest_fit s b low (mid - 1)
      else low)"
  by pat_completeness auto
termination by (relation "measure (\<lambda>(s, b, low, high). high - low)") auto

declare longest_fit.simps [simp del]

definition truncate_to_tokens :: "string \<Rightarrow> int \<Rightarrow> string result" where
  "truncate_to_tokens s b =
     (if b < 0 then raiseR ValueError ''token_budget must not be negative''
      else if b = 0 \<or> s = [] then Inr []
      else if estimate_tokens s \<le> b then Inr s
      else Inr (take (longest_fit s b 0 (length s)) s))"

text \<open>An image without dimensions is refused by \<open>mk_attachment\<close>; the sizes are small enough for exact quotients.\<close>

definition estimate_attachment :: "attachment \<Rightarrow> int" where
  "estimate_attachment a =
     (if am_media_type a = ''text/plain'' then max 1 (ceil_div (am_size a) 2)
      else case (am_width a, am_height a) of
        (Some w, Some h) \<Rightarrow> 85 + 170 * (ceil_div w 512 * ceil_div h 512)
      | _ \<Rightarrow> 0)"

definition attachment_summary :: "attachment \<Rightarrow> string" where
  "attachment_summary a = am_display_name a @ '' ('' @ am_media_type a @ '', '' @ int_text (am_size a) @ '' bytes''
     @ (case (am_width a, am_height a) of (Some w, Some h) \<Rightarrow> '' '' @ int_text w @ ''x'' @ int_text h | _ \<Rightarrow> [])
     @ '', sha256='' @ take 12 (am_sha256 a) @ '')''"

definition optional_tokens :: "string option \<Rightarrow> int" where
  "optional_tokens t = (case t of None \<Rightarrow> 0 | Some s \<Rightarrow> estimate_tokens s)"

definition message_tokens :: "(int \<Rightarrow> nat \<Rightarrow> string) \<Rightarrow> chat_message \<Rightarrow> int" where
  "message_tokens ft m = 1 + estimate_tokens (ms_content m) + sum_list (map estimate_attachment (ms_attachments m))
     + optional_tokens (ms_name m) + optional_tokens (ms_tool_call_id m)
     + sum_list (map (\<lambda>c. 1 + estimate_tokens (dumps ft canonical_text (JObj (tool_call_to_dict c)))) (ms_tool_calls m))"

definition messages_cost :: "(int \<Rightarrow> nat \<Rightarrow> string) \<Rightarrow> chat_message list \<Rightarrow> int" where
  "messages_cost ft ms = sum_list (map (message_tokens ft) ms)"

section \<open>Prompt budget\<close>

record prompt_allocation =
  pa_rules :: int
  pa_tools :: int
  pa_task_state :: int
  pa_repo_map :: int
  pa_messages :: int
  pa_safety :: int

definition total_allocated :: "prompt_allocation \<Rightarrow> int" where
  "total_allocated a = pa_rules a + pa_tools a + pa_task_state a + pa_repo_map a + pa_messages a + pa_safety a"

record prompt_budget =
  pb_max_prompt :: int
  pb_max_rules :: int
  pb_max_system :: int
  pb_max_tools :: int
  pb_max_task_state :: int
  pb_max_repo_map :: int
  pb_max_messages :: int
  pb_min_messages :: int
  pb_safety :: int

definition default_prompt_budget :: prompt_budget where
  "default_prompt_budget = \<lparr>pb_max_prompt = 300000, pb_max_rules = 6000, pb_max_system = 2000, pb_max_tools = 20000,
     pb_max_task_state = 1000, pb_max_repo_map = 2000, pb_max_messages = 12000, pb_min_messages = 2000, pb_safety = 500\<rparr>"

definition nonnegative_tokens :: "int \<Rightarrow> string \<Rightarrow> unit result" where
  "nonnegative_tokens v label = (if v < 0 then raiseR PromptBudgetError (label @ '' must not be negative'') else Inr ())"

definition positive_tokens :: "int \<Rightarrow> string \<Rightarrow> unit result" where
  "positive_tokens v label = bindR (nonnegative_tokens v label) (\<lambda>_.
     if v = 0 then raiseR PromptBudgetError (label @ '' must be positive'') else Inr ())"

definition each_tokens :: "(int \<Rightarrow> string \<Rightarrow> unit result) \<Rightarrow> (int \<times> string) list \<Rightarrow> unit result" where
  "each_tokens check vs = foldR (\<lambda>(v, label) _. check v label) vs ()"

definition mk_allocation :: "prompt_allocation \<Rightarrow> prompt_allocation result" where
  "mk_allocation a = bindR (each_tokens nonnegative_tokens
     [(pa_rules a, ''rule_tokens''), (pa_tools a, ''tool_tokens''), (pa_task_state a, ''task_state_tokens''),
      (pa_repo_map a, ''repo_map_tokens''), (pa_messages a, ''message_tokens''), (pa_safety a, ''safety_tokens'')]) (\<lambda>_. Inr a)"

definition mk_prompt_budget :: "prompt_budget \<Rightarrow> prompt_budget result" where
  "mk_prompt_budget b =
     bindR (each_tokens positive_tokens
       [(pb_max_prompt b, ''max_prompt_tokens''), (pb_max_rules b, ''max_rule_tokens''), (pb_max_system b, ''max_system_tokens''),
        (pb_max_tools b, ''max_tool_tokens''), (pb_max_task_state b, ''max_task_state_tokens''),
        (pb_max_repo_map b, ''max_repo_map_tokens''), (pb_max_messages b, ''max_message_tokens''),
        (pb_min_messages b, ''min_message_tokens'')]) (\<lambda>_.
     bindR (nonnegative_tokens (pb_safety b) ''safety_tokens'') (\<lambda>_.
     if pb_max_messages b < pb_min_messages b
     then raiseR PromptBudgetError ''min_message_tokens cannot exceed max_message_tokens''
     else if pb_max_prompt b < pb_safety b + pb_min_messages b
     then raiseR PromptBudgetError ''max_prompt_tokens cannot cover safety and minimum messages''
     else Inr b))"

definition fixed_tokens :: "string \<Rightarrow> int \<Rightarrow> int \<Rightarrow> unit result" where
  "fixed_tokens label v ceiling = bindR (nonnegative_tokens v label) (\<lambda>_.
     if ceiling < v then raiseR PromptBudgetError (label @ '' exceeds its configured ceiling'') else Inr ())"

definition allocate :: "int \<Rightarrow> int \<Rightarrow> int \<Rightarrow> prompt_budget \<Rightarrow> prompt_allocation result" where
  "allocate rules tools state b =
     bindR (fixed_tokens ''system_and_rules_tokens'' rules (pb_max_rules b + pb_max_system b)) (\<lambda>_.
     bindR (fixed_tokens ''tool_tokens'' tools (pb_max_tools b)) (\<lambda>_.
     bindR (fixed_tokens ''task_state_tokens'' state (pb_max_task_state b)) (\<lambda>_.
     let remaining = pb_max_prompt b - pb_safety b - rules - tools - state in
     if remaining < pb_min_messages b
     then raiseR PromptBudgetError ''fixed prompt content cannot retain minimum messages''
     else
       let messages = min (pb_max_messages b) remaining in
       mk_allocation \<lparr>pa_rules = rules, pa_tools = tools, pa_task_state = state,
         pa_repo_map = min (pb_max_repo_map b) (remaining - messages), pa_messages = messages, pa_safety = pb_safety b\<rparr>)))"

section \<open>What estimates and allocations promise\<close>

lemma ceil_div_mono: "0 < d \<Longrightarrow> v \<le> w \<Longrightarrow> ceil_div v d \<le> ceil_div w d"
  by (simp add: ceil_div_def zdiv_mono1)

lemma estimate_nonneg: "0 \<le> estimate_tokens s"
  by (simp add: estimate_tokens_def ceil_div_def)

lemma estimate_Nil [simp]: "estimate_tokens [] = 0"
  by (simp add: estimate_tokens_def ceil_div_def)

lemma estimate_pos: "s \<noteq> [] \<Longrightarrow> 0 < estimate_tokens s"
proof (cases s)
  case (Cons c r)
  then show ?thesis
    by (cases "is_ascii c") (auto simp: estimate_tokens_def ceil_div_def intro!: add_pos_nonneg add_nonneg_pos)
qed simp

lemma estimate_take_mono: "m \<le> n \<Longrightarrow> estimate_tokens (take m s) \<le> estimate_tokens (take n s)"
proof -
  assume "m \<le> n"
  then have "prefix (take m s) (take n s)" by (simp add: take_is_prefix prefix_def) (metis append_take_drop_id le_Suc_ex take_add)
  then obtain t where t: "take n s = take m s @ t" by (auto simp: prefix_def)
  show ?thesis unfolding estimate_tokens_def t by (intro add_mono ceil_div_mono) simp_all
qed

lemma longest_fit_spec:
  assumes "low \<le> high" "estimate_tokens (take low s) \<le> b" "high < length s \<Longrightarrow> b < estimate_tokens (take (Suc high) s)"
    and "high \<le> length s"
  shows "let n = longest_fit s b low high in
    low \<le> n \<and> n \<le> high \<and> estimate_tokens (take n s) \<le> b \<and> (n < length s \<longrightarrow> b < estimate_tokens (take (Suc n) s))"
  using assms
proof (induction s b low high rule: longest_fit.induct)
  case (1 s b low high)
  let ?mid = "(low + high + 1) div 2"
  show ?case
  proof (cases "low < high")
    case False
    then have "longest_fit s b low high = low" by (subst longest_fit.simps) simp
    with False 1 show ?thesis by (simp add: Let_def)
  next
    case True
    then have mid: "low < ?mid" "?mid \<le> high" by auto
    show ?thesis
    proof (cases "estimate_tokens (take ?mid s) \<le> b")
      case fits: True
      have step: "longest_fit s b low high = longest_fit s b ?mid high"
        using True fits by (simp add: longest_fit.simps [of s b low high] Let_def)
      from "1.IH"(1) [OF True refl fits mid(2) fits "1.prems"(3,4)] mid show ?thesis unfolding step Let_def by auto
    next
      case False
      have step: "longest_fit s b low high = longest_fit s b low (?mid - 1)"
        using True False by (simp add: longest_fit.simps [of s b low high] Let_def)
      let ?n = "longest_fit s b low (?mid - 1)"
      have "low \<le> ?mid - 1" "?mid - 1 \<le> length s" "b < estimate_tokens (take (Suc (?mid - 1)) s)"
        using mid False "1.prems"(4) by auto
      from "1.IH"(2) [OF True refl False this(1) "1.prems"(2) this(3,2)]
      have n: "low \<le> ?n \<and> ?n \<le> ?mid - 1 \<and> estimate_tokens (take ?n s) \<le> b \<and> (?n < length s \<longrightarrow> b < estimate_tokens (take (Suc ?n) s))"
        unfolding Let_def .
      then have "?n \<le> high" using mid by linarith
      with n show ?thesis unfolding step Let_def by blast
    qed
  qed
qed

text \<open>
  Truncating a text to a budget keeps the longest prefix that fits: for a budget that is not negative the result is
  a prefix within the budget, and either the whole text or one whose next longer prefix is over the budget.
\<close>

theorem truncation_keeps_longest:
  assumes "0 \<le> b"
  shows "\<exists>n. truncate_to_tokens s b = Inr (take n s) \<and> estimate_tokens (take n s) \<le> b
    \<and> (take n s = s \<or> (\<forall>k \<le> length s. n < k \<longrightarrow> b < estimate_tokens (take k s)))"
proof -
  have all: "b < estimate_tokens (take (Suc n) s) \<Longrightarrow> n < k \<Longrightarrow> b < estimate_tokens (take k s)" for n k
    using estimate_take_mono [of "Suc n" k s] by simp
  consider "b = 0 \<or> s = []" | "b \<noteq> 0" "estimate_tokens s \<le> b" | "b \<noteq> 0" "s \<noteq> []" "\<not> estimate_tokens s \<le> b" by blast
  then show ?thesis
  proof cases
    case 1
    then have "truncate_to_tokens s b = Inr (take 0 s)" using assms by (auto simp: truncate_to_tokens_def)
    moreover have "b = 0 \<Longrightarrow> s \<noteq> [] \<Longrightarrow> b < estimate_tokens (take k s)" if "0 < k" for k
      using estimate_pos [of "take k s"] that by (cases s) (auto simp: take_Cons')
    ultimately show ?thesis using 1 assms by (intro exI [of _ 0]) auto
  next
    case 2
    then have "truncate_to_tokens s b = Inr (take (length s) s)" using assms by (auto simp: truncate_to_tokens_def)
    with 2 show ?thesis by (intro exI [of _ "length s"]) simp
  next
    case 3
    let ?n = "longest_fit s b 0 (length s)"
    have "truncate_to_tokens s b = Inr (take ?n s)" using assms 3 by (simp add: truncate_to_tokens_def)
    moreover have "estimate_tokens (take ?n s) \<le> b \<and> (?n < length s \<longrightarrow> b < estimate_tokens (take (Suc ?n) s))"
      using longest_fit_spec [of 0 "length s" s b] assms by (simp add: Let_def)
    ultimately show ?thesis using all by (intro exI [of _ ?n]) (auto simp: not_less)
  qed
qed

theorem truncation_keeps_longest_witness:
  "\<exists>n. truncate_to_tokens ''abcdefghi'' 2 = Inr (take n ''abcdefghi'') \<and> take n ''abcdefghi'' = ''abcdefgh''"
proof -
  have "truncate_to_tokens ''abcdefghi'' 2 = Inr ''abcdefgh''" by code_simp
  moreover have "(0::int) \<le> 2" by simp
  ultimately show ?thesis using truncation_keeps_longest [of 2 "''abcdefghi''"] by auto
qed

lemma truncate_fits: "truncate_to_tokens s b = Inr t \<Longrightarrow> estimate_tokens t \<le> b \<and> prefix t s"
proof -
  assume t: "truncate_to_tokens s b = Inr t"
  then have "0 \<le> b" by (simp add: truncate_to_tokens_def split: if_split_asm)
  with t longest_fit_spec [of 0 "length s" s b] show ?thesis
    by (auto simp: truncate_to_tokens_def Let_def take_is_prefix split: if_split_asm)
qed

text \<open>
  C17: An allocation keeps the prompt within its limit and the messages above theirs: what \<open>allocate\<close> returns adds up to
  at most the prompt limit, gives the fixed parts what they ask for, the messages between their minimum and maximum, and
  the repository map only what the messages leave over; and it returns exactly when the fixed parts fit their ceilings
  and leave room for the minimum of messages.
\<close>

theorem allocation_fits:
  assumes "mk_prompt_budget b = Inr b"
  shows "(case allocate r t s b of
      Inl _ \<Rightarrow> True
    | Inr a \<Rightarrow> total_allocated a \<le> pb_max_prompt b \<and> pa_rules a = r \<and> pa_tools a = t \<and> pa_task_state a = s
        \<and> pb_min_messages b \<le> pa_messages a \<and> pa_messages a \<le> pb_max_messages b
        \<and> 0 \<le> pa_repo_map a \<and> pa_repo_map a \<le> pb_max_repo_map b
        \<and> (0 < pa_repo_map a \<longrightarrow> pa_messages a = pb_max_messages b))
    \<and> (okR (allocate r t s b) \<longleftrightarrow> 0 \<le> r \<and> r \<le> pb_max_rules b + pb_max_system b \<and> 0 \<le> t \<and> t \<le> pb_max_tools b
        \<and> 0 \<le> s \<and> s \<le> pb_max_task_state b
        \<and> pb_min_messages b \<le> pb_max_prompt b - pb_safety b - r - t - s)"
proof -
  have guard: "each_tokens f (p # ps) = bindR (f (fst p) (snd p)) (\<lambda>_. each_tokens f ps)" for f p ps
    by (cases p) (simp add: each_tokens_def)
  have nil: "each_tokens f [] = Inr ()" for f by (simp add: each_tokens_def)
  have ok: "nonnegative_tokens v l = Inr u \<longleftrightarrow> 0 \<le> v" "positive_tokens v l = Inr u \<longleftrightarrow> 0 < v" for v l u
    by (auto simp: nonnegative_tokens_def positive_tokens_def bindR_Inr_iff)
  have b: "0 < pb_max_repo_map b" "0 < pb_min_messages b" "0 \<le> pb_safety b" "pb_min_messages b \<le> pb_max_messages b"
    using assms by (auto simp: mk_prompt_budget_def guard nil bindR_Inr_iff ok split: if_split_asm)
  have fixed: "fixed_tokens l v c = Inr u \<longleftrightarrow> 0 \<le> v \<and> v \<le> c" for l v c u
    by (auto simp: fixed_tokens_def bindR_Inr_iff ok)
  have alloc: "allocate r t s b = Inr a \<longleftrightarrow> 0 \<le> r \<and> r \<le> pb_max_rules b + pb_max_system b \<and> 0 \<le> t \<and> t \<le> pb_max_tools b
      \<and> 0 \<le> s \<and> s \<le> pb_max_task_state b \<and> pb_min_messages b \<le> pb_max_prompt b - pb_safety b - r - t - s
      \<and> a = (let rest = pb_max_prompt b - pb_safety b - r - t - s; messages = min (pb_max_messages b) rest in
          \<lparr>pa_rules = r, pa_tools = t, pa_task_state = s, pa_repo_map = min (pb_max_repo_map b) (rest - messages),
           pa_messages = messages, pa_safety = pb_safety b\<rparr>)" for a
    using b by (auto simp: allocate_def bindR_Inr_iff fixed mk_allocation_def guard nil ok Let_def)
  show ?thesis
    using b by (auto simp: okR_iff alloc Let_def total_allocated_def split: sum.splits)
qed

theorem allocation_fits_witness:
  "\<exists>a. allocate 5000 1000 500 default_prompt_budget = Inr a \<and> total_allocated a \<le> 300000 \<and> 2000 \<le> pa_messages a"
proof -
  have "mk_prompt_budget default_prompt_budget = Inr default_prompt_budget" by code_simp
  from allocation_fits [OF this, of 5000 1000 500] show ?thesis
    by (auto simp: default_prompt_budget_def okR_iff split: sum.splits)
qed

end
