(* ===== verification/Compaction.thy ===== *)
theory Compaction
  imports Context_Budget
begin

text \<open>
  Fitting a conversation into its token budget: \<open>src/src/code_agent/context/compaction.py\<close> and
  \<open>_compaction_render.py\<close>. The selected blocks are the ascending list of their positions; \<open>ft\<close> is the text of a float
  in the arguments of a call.
\<close>

section \<open>Blocks\<close>

definition plain_chat :: "string \<Rightarrow> string \<Rightarrow> chat_message" where
  "plain_chat role content = \<lparr>ms_role = role, ms_content = content, ms_name = None, ms_tool_calls = [], ms_tool_call_id = None,
     ms_attachments = []\<rparr>"

definition max_tool_content :: int where
  "max_tool_content = 6000"

definition truncation_note :: string where
  "truncation_note = CHR 10 # ''[tool result truncated; re-read the source if needed]''"

definition bound_tool_message :: "chat_message \<Rightarrow> chat_message result" where
  "bound_tool_message m =
     (if ms_role m \<noteq> ''tool'' \<or> ms_content m = [] then Inr m
      else bindR (truncate_to_tokens (ms_content m) max_tool_content) (\<lambda>bounded.
        if bounded = ms_content m then Inr m else Inr (m\<lparr>ms_content := bounded @ truncation_note\<rparr>)))"

record message_block =
  mb_indices :: "nat list"
  mb_messages :: "chat_message list"
  mb_valid :: bool

definition answers_call :: "chat_message \<Rightarrow> chat_message \<Rightarrow> bool" where
  "answers_call m r = (ms_role r = ''tool'' \<and> ms_tool_call_id r \<in> (\<lambda>c. Some (tl_id c)) ` set (ms_tool_calls m))"

definition calls_tools :: "chat_message \<Rightarrow> bool" where
  "calls_tools m = (ms_role m = ''assistant'' \<and> ms_tool_calls m \<noteq> [])"

function message_blocks :: "nat \<Rightarrow> chat_message list \<Rightarrow> message_block list" where
  "message_blocks i [] = []"
| "message_blocks i (m # ms) =
     (if calls_tools m
      then let run = takeWhile (answers_call m) ms in
        \<lparr>mb_indices = [i..<i + 1 + length run], mb_messages = m # run, mb_valid = True\<rparr>
          # message_blocks (i + 1 + length run) (drop (length run) ms)
      else \<lparr>mb_indices = [i], mb_messages = [m], mb_valid = ms_role m \<noteq> ''tool''\<rparr> # message_blocks (i + 1) ms)"
  by pat_completeness auto
termination by (relation "measure (\<lambda>(i, ms). length ms)") auto

definition latest_user_index :: "chat_message list \<Rightarrow> nat option" where
  "latest_user_index ms = find (\<lambda>i. ms_role (ms ! i) = ''user'') (rev [0..<length ms])"

definition block_containing :: "message_block list \<Rightarrow> nat option \<Rightarrow> nat option" where
  "block_containing bs i = (case i of None \<Rightarrow> None | Some i \<Rightarrow> find (\<lambda>b. i \<in> set (mb_indices (bs ! b))) [0..<length bs])"

text \<open>The loop over the blocks from the last one; \<open>n\<close> blocks are still ahead.\<close>

fun select_back :: "message_block list \<Rightarrow> int \<Rightarrow> nat \<Rightarrow> int \<Rightarrow> nat list \<Rightarrow> nat list" where
  "select_back bs recent 0 kept acc = acc"
| "select_back bs recent (Suc n) kept acc =
     (if \<not> mb_valid (bs ! n) then select_back bs recent n kept acc
      else let kept' = kept + int (length (mb_messages (bs ! n))) in
        if recent \<le> kept' then n # acc else select_back bs recent n kept' (n # acc))"

definition select_recent_blocks :: "message_block list \<Rightarrow> chat_message list \<Rightarrow> int \<Rightarrow> nat list" where
  "select_recent_blocks bs ms recent =
     (let chosen = select_back bs recent (length bs) 0 [] in
      case block_containing bs (latest_user_index ms) of
        Some b \<Rightarrow> if mb_valid (bs ! b) \<and> b \<notin> set chosen then insort b chosen else chosen
      | None \<Rightarrow> chosen)"

definition flatten_selected :: "message_block list \<Rightarrow> nat list \<Rightarrow> chat_message list" where
  "flatten_selected bs chosen = concat (map (\<lambda>b. mb_messages (bs ! b)) chosen)"

definition removed_indices :: "message_block list \<Rightarrow> nat list \<Rightarrow> nat \<Rightarrow> nat list" where
  "removed_indices bs chosen n = filter (\<lambda>i. \<not> list_ex (\<lambda>b. i \<in> set (mb_indices (bs ! b))) chosen) [0..<n]"

definition summary_reserve :: "nat list \<Rightarrow> int \<Rightarrow> int" where
  "summary_reserve removed budget = (if removed \<noteq> [] \<and> 2 \<le> budget then 1 else 0)"

definition kept_fit :: "(int \<Rightarrow> nat \<Rightarrow> string) \<Rightarrow> message_block list \<Rightarrow> nat \<Rightarrow> int \<Rightarrow> nat list \<Rightarrow> bool" where
  "kept_fit ft bs n budget chosen =
     (messages_cost ft (flatten_selected bs chosen) + summary_reserve (removed_indices bs chosen n) budget \<le> budget)"

function drop_old_blocks :: "(int \<Rightarrow> nat \<Rightarrow> string) \<Rightarrow> message_block list \<Rightarrow> nat option \<Rightarrow> nat \<Rightarrow> int \<Rightarrow> nat list \<Rightarrow> nat list" where
  "drop_old_blocks ft bs protected n budget chosen =
     (if kept_fit ft bs n budget chosen then chosen
      else case filter (\<lambda>b. Some b \<noteq> protected) chosen of
        [] \<Rightarrow> chosen
      | b # _ \<Rightarrow> drop_old_blocks ft bs protected n budget (removeAll b chosen))"
  by pat_completeness auto
termination
proof (relation "measure (\<lambda>(ft, bs, protected, n, budget, chosen). length chosen)")
  show "wf (measure (\<lambda>(ft, bs, protected, n, budget, chosen). length chosen))" by simp
next
  fix ft bs protected n budget chosen b bs'
  assume "filter (\<lambda>b. Some b \<noteq> protected) chosen = b # bs'"
  then have "b \<in> set (filter (\<lambda>b. Some b \<noteq> protected) chosen)" by simp
  then have "b \<in> set chosen" by simp
  then show "((ft, bs, protected, n, budget, removeAll b chosen), ft, bs, protected, n, budget, chosen)
      \<in> measure (\<lambda>(ft, bs, protected, n, budget, chosen). length chosen)"
    by (simp add: length_removeAll_less)
qed

declare drop_old_blocks.simps [simp del]

section \<open>Rendering\<close>

text \<open>\<open>_truncate_message\<close>.\<close>

definition truncate_message :: "(int \<Rightarrow> nat \<Rightarrow> string) \<Rightarrow> chat_message \<Rightarrow> int \<Rightarrow> chat_message option result" where
  "truncate_message ft m budget =
     (if budget < 1 then Inr None
      else let base = message_tokens ft (m\<lparr>ms_content := []\<rparr>) in
        if budget < base then Inr None
        else bindR (truncate_to_tokens (ms_content m) (budget - base)) (\<lambda>t. Inr (Some (m\<lparr>ms_content := t\<rparr>))))"

text \<open>\<open>str.split()\<close>.\<close>

fun split_words :: "string \<Rightarrow> string \<Rightarrow> string list" where
  "split_words w [] = (if w = [] then [] else [rev w])"
| "split_words w (c # s) = (if is_space c then (if w = [] then [] else [rev w]) @ split_words [] s else split_words (c # w) s)"

definition first_text :: "string option list \<Rightarrow> string \<Rightarrow> string" where
  "first_text vs d = (case filter (\<lambda>v. v \<noteq> None \<and> v \<noteq> Some []) vs of Some t # _ \<Rightarrow> t | _ \<Rightarrow> d)"

definition summary_line :: "chat_message \<Rightarrow> string result" where
  "summary_line m =
     (let named = join_with '','' (map tl_name (ms_tool_calls m));
          actions = (if named = [] \<and> ms_role m = ''tool'' then first_text [ms_name m, ms_tool_call_id m] ''tool'' else named);
          label = ms_role m @ (if actions = [] then [] else '' action='' @ actions)
      in bindR (truncate_to_tokens (join_with '' '' (split_words [] (ms_content m))) 12) (\<lambda>snippet.
         let snippet' = (if ms_attachments m = [] then snippet
               else py_strip (snippet @ '' attachments='' @ join_with ''; '' (map attachment_summary (ms_attachments m))))
         in Inr (if snippet' = [] then ''- '' @ label else ''- '' @ label @ '': '' @ snippet')))"

definition summary_text :: "chat_message list \<Rightarrow> nat list \<Rightarrow> int \<Rightarrow> string result" where
  "summary_text ms removed budget =
     (if budget = 0 then Inr []
      else bindR (mapR (\<lambda>i. summary_line (ms ! i)) removed) (\<lambda>ls.
        truncate_to_tokens (join_with [CHR 10] (''Conversation checkpoint:'' # ls)) budget))"

section \<open>Compaction\<close>

record compaction_result =
  cp_messages :: "chat_message list"
  cp_removed :: int
  cp_tokens :: int
  cp_summary :: "string option"

definition ensure_attachment_budget :: "(int \<Rightarrow> nat \<Rightarrow> string) \<Rightarrow> chat_message list \<Rightarrow> nat option \<Rightarrow> int \<Rightarrow> unit result" where
  "ensure_attachment_budget ft ms user budget =
     (case user of
        None \<Rightarrow> Inr ()
      | Some u \<Rightarrow>
          if ms_attachments (ms ! u) = [] then Inr ()
          else if budget < message_tokens ft ((plain_chat ''user'' [])\<lparr>ms_attachments := ms_attachments (ms ! u)\<rparr>)
          then raiseR ContextBudgetError ''latest user attachments exceed the message token budget'' else Inr ())"

definition fit_retained :: "(int \<Rightarrow> nat \<Rightarrow> string) \<Rightarrow> chat_message list \<Rightarrow> message_block list \<Rightarrow> nat list \<Rightarrow> nat option \<Rightarrow> nat option
    \<Rightarrow> int \<Rightarrow> (chat_message list \<times> nat list) result" where
  "fit_retained ft ms bs chosen protected user budget =
     (let n = length ms; removed = removed_indices bs chosen n in
      if kept_fit ft bs n budget chosen then Inr (flatten_selected bs chosen, removed)
      else case (protected, user) of
        (Some p, Some u) \<Rightarrow>
          if p \<in> set chosen
          then bindR (truncate_message ft (ms ! u) (budget - summary_reserve removed budget)) (\<lambda>t.
            Inr ([case t of None \<Rightarrow> plain_chat ''user'' [] | Some m \<Rightarrow> m], removed_indices bs (filter (\<lambda>b. b = p) chosen) n))
          else Inr ([], removed_indices bs [] n)
      | _ \<Rightarrow> Inr ([], removed_indices bs [] n))"

definition prepend_summary :: "(int \<Rightarrow> nat \<Rightarrow> string) \<Rightarrow> chat_message list \<Rightarrow> chat_message list \<Rightarrow> nat list \<Rightarrow> int
    \<Rightarrow> (chat_message list \<times> string option) result" where
  "prepend_summary ft ms retained removed budget =
     (let remaining = budget - messages_cost ft retained in
      if removed = [] \<or> remaining < 1 then Inr (retained, None)
      else bindR (summary_text ms removed (max 0 (remaining - 1))) (\<lambda>s. Inr (plain_chat ''developer'' s # retained, Some s)))"

fun first_truncated :: "(int \<Rightarrow> nat \<Rightarrow> string) \<Rightarrow> int \<Rightarrow> chat_message list \<Rightarrow> chat_message list result" where
  "first_truncated ft budget [] = Inr []"
| "first_truncated ft budget (m # ms) =
     (if ms_role m = ''tool'' then first_truncated ft budget ms
      else bindR (truncate_message ft m budget) (\<lambda>t. case t of None \<Rightarrow> first_truncated ft budget ms | Some x \<Rightarrow> Inr [x]))"

definition last_resort :: "(int \<Rightarrow> nat \<Rightarrow> string) \<Rightarrow> chat_message list \<Rightarrow> chat_message list \<Rightarrow> nat option \<Rightarrow> int \<Rightarrow> chat_message list result" where
  "last_resort ft compacted ms user budget =
     bindR (case user of None \<Rightarrow> Inr None | Some u \<Rightarrow> truncate_message ft (ms ! u) budget) (\<lambda>t. case t of
        Some m \<Rightarrow> Inr [m]
      | None \<Rightarrow> first_truncated ft budget (rev compacted))"

definition compact_over_budget :: "(int \<Rightarrow> nat \<Rightarrow> string) \<Rightarrow> chat_message list \<Rightarrow> int \<Rightarrow> int \<Rightarrow> compaction_result result" where
  "compact_over_budget ft ms budget recent =
     (let bs = message_blocks 0 ms;
          chosen = select_recent_blocks bs ms recent;
          user = latest_user_index ms
      in bindR (ensure_attachment_budget ft ms user budget) (\<lambda>_.
      let protected = (case block_containing bs user of Some p \<Rightarrow> Some p | None \<Rightarrow> if chosen = [] then None else Some (last chosen));
          kept = drop_old_blocks ft bs protected (length ms) budget chosen
      in bindR (fit_retained ft ms bs kept protected user budget) (\<lambda>(retained, removed).
         bindR (prepend_summary ft ms retained removed budget) (\<lambda>(compacted, summary).
         if messages_cost ft compacted \<le> budget
         then Inr \<lparr>cp_messages = compacted, cp_removed = int (length removed), cp_tokens = messages_cost ft compacted, cp_summary = summary\<rparr>
         else bindR (last_resort ft compacted ms user budget) (\<lambda>rest.
           Inr \<lparr>cp_messages = rest, cp_removed = int (length removed), cp_tokens = messages_cost ft rest, cp_summary = None\<rparr>)))))"

definition compact :: "(int \<Rightarrow> nat \<Rightarrow> string) \<Rightarrow> int \<Rightarrow> chat_message list \<Rightarrow> int \<Rightarrow> compaction_result result" where
  "compact ft recent messages budget =
     (if budget \<le> 0 then raiseR ValueError ''token_budget must be positive''
      else bindR (mapR bound_tool_message messages) (\<lambda>ms.
        let cost = messages_cost ft ms in
        if cost \<le> budget then Inr \<lparr>cp_messages = ms, cp_removed = 0, cp_tokens = cost, cp_summary = None\<rparr>
        else compact_over_budget ft ms budget recent))"

section \<open>The budget is kept\<close>

lemma truncate_message_cost: "truncate_message ft m b = Inr (Some x) \<Longrightarrow> message_tokens ft x \<le> b"
  by (auto simp: truncate_message_def Let_def bindR_Inr_iff message_tokens_def dest!: truncate_fits split: if_split_asm)

lemma truncate_message_shape: "truncate_message ft m b = Inr (Some x) \<Longrightarrow> \<exists>t. x = m\<lparr>ms_content := t\<rparr> \<and> prefix t (ms_content m)"
  by (auto simp: truncate_message_def Let_def bindR_Inr_iff dest!: truncate_fits split: if_split_asm)

lemma plain_cost: "message_tokens ft (plain_chat role content) = 1 + estimate_tokens content"
  by (simp add: message_tokens_def plain_chat_def optional_tokens_def)

lemma cost_Cons [simp]: "messages_cost ft (m # ms) = message_tokens ft m + messages_cost ft ms" "messages_cost ft [] = 0"
  by (simp_all add: messages_cost_def)

lemma fit_retained_cost:
  assumes "fit_retained ft ms bs chosen protected user budget = Inr (retained, removed)" and "0 < budget"
  shows "messages_cost ft retained \<le> budget"
proof -
  have reserve: "0 \<le> summary_reserve r budget" for r by (simp add: summary_reserve_def)
  show ?thesis
  proof (cases "kept_fit ft bs (length ms) budget chosen")
    case True
    with assms reserve [of "removed_indices bs chosen (length ms)"] show ?thesis by (auto simp: fit_retained_def kept_fit_def Let_def)
  next
    case False
    then have "retained = [] \<or> (\<exists>t. retained = [t] \<and> (t = plain_chat ''user'' [] \<or>
        (\<exists>m b. b \<le> budget \<and> truncate_message ft m b = Inr (Some t))))"
      using assms(1) reserve [of "removed_indices bs chosen (length ms)"]
      by (auto simp: fit_retained_def Let_def bindR_Inr_iff split: option.splits if_split_asm)
    then show ?thesis
      using assms(2) truncate_message_cost [of ft] by (auto simp: plain_cost) force
  qed
qed

lemma prepend_summary_cost:
  assumes "prepend_summary ft ms retained removed budget = Inr (compacted, summary)" and "messages_cost ft retained \<le> budget"
  shows "messages_cost ft compacted \<le> budget"
  using assms
  by (auto simp: prepend_summary_def summary_text_def Let_def bindR_Inr_iff plain_cost dest!: truncate_fits split: if_split_asm)

lemma compact_over_InrD:
  assumes "compact_over_budget ft ms budget recent = Inr r" and "0 < budget"
  obtains retained removed where
    "let bs = message_blocks 0 ms; chosen = select_recent_blocks bs ms recent; user = latest_user_index ms;
         protected = (case block_containing bs user of Some p \<Rightarrow> Some p | None \<Rightarrow> if chosen = [] then None else Some (last chosen))
     in ensure_attachment_budget ft ms user budget = Inr ()
       \<and> fit_retained ft ms bs (drop_old_blocks ft bs protected (length ms) budget chosen) protected user budget = Inr (retained, removed)"
    "prepend_summary ft ms retained removed budget = Inr (cp_messages r, cp_summary r)"
    "cp_tokens r = messages_cost ft (cp_messages r)" "cp_removed r = int (length removed)"
  using assms
  by (auto simp: compact_over_budget_def Let_def bindR_Inr_iff intro!: that split: prod.splits if_split_asm
      dest: prepend_summary_cost fit_retained_cost)

lemma compact_over_fits:
  assumes "compact_over_budget ft ms budget recent = Inr r" and "0 < budget"
  shows "messages_cost ft (cp_messages r) \<le> budget \<and> cp_tokens r = messages_cost ft (cp_messages r)"
  using compact_over_InrD [OF assms] prepend_summary_cost fit_retained_cost [OF _ assms(2)] unfolding Let_def by metis

section \<open>Blocks of a history\<close>

lemma block_messages:
  "drop i full = ms \<Longrightarrow> i \<le> length full \<Longrightarrow> b \<in> set (message_blocks i ms) \<Longrightarrow>
    mb_messages b = map ((!) full) (mb_indices b)
    \<and> (mb_valid b \<longrightarrow> (\<exists>m run. mb_messages b = m # run \<and> ms_role m \<noteq> ''tool'' \<and> (\<forall>r \<in> set run. calls_tools m \<and> answers_call m r)))
    \<and> (\<not> mb_valid b \<longrightarrow> (\<exists>m. mb_messages b = [m] \<and> ms_role m = ''tool''))"
proof (induction i ms rule: message_blocks.induct)
  case (2 i m ms)
  have ms: "ms = drop (Suc i) full" and m: "full ! i = m" and i: "i < length full"
    using "2.prems" by (metis drop_Suc drop_tl list.sel(3), metis hd_drop_conv_nth leD le_neq_implies_less list.discI list.sel(1) drop_eq_Nil2 nat_less_le,
        metis drop_all list.discI not_le)
  let ?run = "takeWhile (answers_call m) ms"
  show ?case
  proof (cases "calls_tools m")
    case True
    have "length ?run \<le> length ms" by (rule length_takeWhile_le)
    then have "?run = map ((!) full) [Suc i..<Suc i + length ?run]"
      using i by (intro nth_equalityI) (auto simp: ms takeWhile_nth simp del: upt_Suc)
    moreover have "[i..<i + 1 + length ?run] = i # [Suc i..<Suc i + length ?run]" by (simp add: upt_conv_Cons del: upt_Suc)
    ultimately have whole: "m # ?run = map ((!) full) [i..<i + 1 + length ?run]" using m by simp
    have role: "ms_role m \<noteq> ''tool''" using True by (simp add: calls_tools_def)
    have rest: "drop (i + 1 + length ?run) full = drop (length ?run) ms" by (simp add: ms ac_simps)
    have le: "i + 1 + length ?run \<le> length full" using i length_takeWhile_le [of "answers_call m" ms] by (simp add: ms)
    have own: "\<forall>r \<in> set ?run. calls_tools m \<and> answers_call m r" using True by (auto dest: set_takeWhileD)
    have "b = \<lparr>mb_indices = [i..<i + 1 + length ?run], mb_messages = m # ?run, mb_valid = True\<rparr>
        \<or> b \<in> set (message_blocks (i + 1 + length ?run) (drop (length ?run) ms))"
      using True "2.prems"(3) by (simp add: Let_def del: upt_Suc)
    then show ?thesis
    proof
      assume b: "b = \<lparr>mb_indices = [i..<i + 1 + length ?run], mb_messages = m # ?run, mb_valid = True\<rparr>"
      show ?thesis unfolding b message_block.simps using whole role own by blast
    next
      assume "b \<in> set (message_blocks (i + 1 + length ?run) (drop (length ?run) ms))"
      from "2.IH"(1) [OF True refl rest le this] show ?thesis .
    qed
  next
    case False
    then show ?thesis using "2.IH"(2) [OF False] "2.prems"(3) ms m i by auto
  qed
qed simp

lemma block_indices: "concat (map mb_indices (message_blocks i ms)) = [i..<i + length ms]"
proof (induction i ms rule: message_blocks.induct)
  case (2 i m ms)
  let ?run = "takeWhile (answers_call m) ms"
  have run: "length ?run \<le> length ms" by (rule length_takeWhile_le)
  then have "[i..<i + 1 + length ?run] @ [i + 1 + length ?run..<i + Suc (length ms)] = [i..<i + Suc (length ms)]"
    using upt_add_eq_append [of i "i + 1 + length ?run" "length ms - length ?run"] by (simp del: upt_Suc)
  moreover have "[i..<i + Suc (length ms)] = i # [i + 1..<i + 1 + length ms]" by (simp add: upt_conv_Cons del: upt_Suc)
  ultimately show ?case using 2 run by (cases "calls_tools m") (simp_all add: Let_def del: upt_Suc)
qed simp

section \<open>What a compacted history keeps\<close>

text \<open>Every tool message answers a call of the last message before it that is not one.\<close>

fun answered :: "chat_message option \<Rightarrow> chat_message list \<Rightarrow> bool" where
  "answered cur [] = True"
| "answered cur (m # ms) =
     (if ms_role m = ''tool''
      then (case cur of None \<Rightarrow> False | Some a \<Rightarrow> calls_tools a \<and> answers_call a m) \<and> answered cur ms
      else answered (Some m) ms)"

definition ascending :: "nat list \<Rightarrow> nat \<Rightarrow> bool" where
  "ascending chosen n = (sorted chosen \<and> distinct chosen \<and> (\<forall>b \<in> set chosen. b < n))"

lemma select_back_ascending:
  "ascending acc (length bs) \<Longrightarrow> \<forall>b \<in> set acc. n \<le> b \<and> mb_valid (bs ! b) \<Longrightarrow> n \<le> length bs \<Longrightarrow>
    ascending (select_back bs recent n kept acc) (length bs) \<and> (\<forall>b \<in> set (select_back bs recent n kept acc). mb_valid (bs ! b))"
proof (induction bs recent n kept acc rule: select_back.induct)
  case (2 bs recent n kept acc)
  have down: "\<forall>b \<in> set acc. n \<le> b \<and> mb_valid (bs ! b)" "n \<le> length bs" using "2.prems" by auto
  show ?case
  proof (cases "mb_valid (bs ! n)")
    case False
    with "2.IH"(1) [OF False "2.prems"(1) down] show ?thesis by simp
  next
    case True
    have next_acc: "ascending (n # acc) (length bs)" "\<forall>b \<in> set (n # acc). n \<le> b \<and> mb_valid (bs ! b)"
      using "2.prems" True by (auto simp: ascending_def)
    show ?thesis
    proof (cases "recent \<le> kept + int (length (mb_messages (bs ! n)))")
      case True
      with \<open>mb_valid (bs ! n)\<close> next_acc show ?thesis by (simp add: Let_def)
    next
      case False
      with "2.IH"(2) [OF _ refl False next_acc down(2)] True show ?thesis by (simp add: Let_def)
    qed
  qed
qed simp

lemma block_containing_SomeD: "block_containing bs i = Some b \<Longrightarrow> b < length bs \<and> (\<exists>j. i = Some j \<and> j \<in> set (mb_indices (bs ! b)))"
  by (auto simp: block_containing_def find_Some_iff split: option.splits)

lemma select_recent_ascending:
  "ascending (select_recent_blocks bs ms recent) (length bs) \<and> (\<forall>b \<in> set (select_recent_blocks bs ms recent). mb_valid (bs ! b))"
proof -
  have "ascending (select_back bs recent (length bs) 0 []) (length bs) \<and> (\<forall>b \<in> set (select_back bs recent (length bs) 0 []). mb_valid (bs ! b))"
    by (rule select_back_ascending) (simp_all add: ascending_def)
  then show ?thesis
    using block_containing_SomeD [of bs]
    by (auto simp: select_recent_blocks_def Let_def ascending_def sorted_insort distinct_insort set_insort_key split: option.split)
qed

lemma drop_old_blocks_keeps:
  "ascending chosen n \<Longrightarrow> let kept = drop_old_blocks ft bs protected k budget chosen in
    ascending kept n \<and> set kept \<subseteq> set chosen \<and> (\<forall>p. protected = Some p \<and> p \<in> set chosen \<longrightarrow> p \<in> set kept)"
proof (induction ft bs protected k budget chosen rule: drop_old_blocks.induct)
  case (1 ft bs protected k budget chosen)
  show ?case
  proof (cases "kept_fit ft bs k budget chosen \<or> filter (\<lambda>b. Some b \<noteq> protected) chosen = []")
    case True
    then have eq: "drop_old_blocks ft bs protected k budget chosen = chosen"
      by (subst drop_old_blocks.simps) auto
    show ?thesis unfolding eq Let_def using 1(2) by simp
  next
    case False
    then obtain b rest where b: "filter (\<lambda>b. Some b \<noteq> protected) chosen = b # rest" by (meson list.exhaust)
    have "b \<in> set (filter (\<lambda>b. Some b \<noteq> protected) chosen)" unfolding b by simp
    then have p: "Some b \<noteq> protected" by simp
    have eq: "drop_old_blocks ft bs protected k budget chosen = drop_old_blocks ft bs protected k budget (removeAll b chosen)"
      using False by (subst drop_old_blocks.simps) (simp add: b)
    have "ascending (removeAll b chosen) n" using 1(2) by (auto simp: ascending_def sorted_wrt_filter removeAll_filter_not_eq)
    moreover have "\<not> kept_fit ft bs k budget chosen" using False by simp
    ultimately have IH: "let kept = drop_old_blocks ft bs protected k budget (removeAll b chosen) in
        ascending kept n \<and> set kept \<subseteq> set (removeAll b chosen) \<and> (\<forall>p. protected = Some p \<and> p \<in> set (removeAll b chosen) \<longrightarrow> p \<in> set kept)"
      by (intro "1.IH" [OF _ b])
    obtain kept where kept: "drop_old_blocks ft bs protected k budget (removeAll b chosen) = kept" by simp
    from IH have "ascending kept n" "set kept \<subseteq> set (removeAll b chosen)" and
        prot: "\<And>q. protected = Some q \<Longrightarrow> q \<in> set (removeAll b chosen) \<Longrightarrow> q \<in> set kept"
      unfolding kept Let_def by blast+
    moreover have "protected = Some q \<Longrightarrow> q \<in> set chosen \<Longrightarrow> q \<in> set kept" for q using prot [of q] p by simp
    ultimately show ?thesis unfolding eq kept Let_def by auto
  qed
qed

lemma ascending_filter: "ascending chosen n \<Longrightarrow> filter (\<lambda>b. b \<in> set chosen) [0..<n] = chosen"
  by (intro sorted_distinct_set_unique) (auto simp: ascending_def sorted_wrt_filter)

lemma concat_map_subseq: "subseq xs ys \<Longrightarrow> subseq (concat (map f xs)) (concat (map f ys))"
  by (induction rule: list_emb.induct) (auto intro: list_emb_append2 list_emb_append_mono)

lemma flatten_subseq:
  assumes "ascending chosen (length (message_blocks 0 ms))"
  shows "subseq (flatten_selected (message_blocks 0 ms) chosen) ms"
proof -
  let ?bs = "message_blocks 0 ms"
  have own: "b < length ?bs \<Longrightarrow> mb_messages (?bs ! b) = map ((!) ms) (mb_indices (?bs ! b))" for b
    using block_messages [of 0 ms ms "?bs ! b"] by simp
  have "concat (map (\<lambda>b. mb_messages (?bs ! b)) [0..<length ?bs]) = map ((!) ms) (concat (map (\<lambda>b. mb_indices (?bs ! b)) [0..<length ?bs]))"
    using own by (auto simp: map_concat intro!: arg_cong [where f = concat])
  also have "map (\<lambda>b. mb_indices (?bs ! b)) [0..<length ?bs] = map mb_indices (map ((!) ?bs) [0..<length ?bs])" by simp
  also have "\<dots> = map mb_indices ?bs" by (simp only: map_nth)
  finally have "concat (map (\<lambda>b. mb_messages (?bs ! b)) [0..<length ?bs]) = ms" by (simp add: block_indices map_nth)
  moreover have "subseq chosen [0..<length ?bs]"
    using subseq_filter_left [of "\<lambda>b. b \<in> set chosen" "[0..<length ?bs]"] ascending_filter [OF assms] by simp
  ultimately show ?thesis
    unfolding flatten_selected_def using concat_map_subseq [of chosen "[0..<length ?bs]" "\<lambda>b. mb_messages (?bs ! b)"] by simp
qed

lemma answered_run:
  "\<forall>r \<in> set run. calls_tools m \<and> answers_call m r \<Longrightarrow> answered (Some m) (run @ rest) = answered (Some m) rest"
  by (induction run) (auto simp: answers_call_def)

lemma answered_block:
  assumes "b \<in> set (message_blocks 0 ms)" and "mb_valid b" and "\<And>c. answered c rest"
  shows "answered cur (mb_messages b @ rest)"
proof -
  obtain m run where "mb_messages b = m # run" "ms_role m \<noteq> ''tool''" "\<forall>r \<in> set run. calls_tools m \<and> answers_call m r"
    using block_messages [OF drop_0 le0 assms(1)] assms(2) by blast
  with answered_run [of run m rest] assms(3) show ?thesis by simp
qed

lemma flatten_answered:
  assumes "\<forall>b \<in> set chosen. b < length (message_blocks 0 ms) \<and> mb_valid (message_blocks 0 ms ! b)"
  shows "answered cur (flatten_selected (message_blocks 0 ms) chosen)"
  using assms
proof (induction chosen arbitrary: cur)
  case (Cons b chosen)
  have "answered cur (mb_messages (message_blocks 0 ms ! b) @ flatten_selected (message_blocks 0 ms) chosen)"
    by (rule answered_block [where ms = ms]) (use Cons in auto)
  then show ?case by (simp add: flatten_selected_def)
qed (simp add: flatten_selected_def)

section \<open>Promises of compaction\<close>

lemma compact_cases:
  assumes "compact ft recent messages budget = Inr r"
  obtains (fits) ms where "0 < budget" "mapR bound_tool_message messages = Inr ms" "messages_cost ft ms \<le> budget" "cp_messages r = ms"
      "cp_tokens r = messages_cost ft ms" "cp_removed r = 0" "cp_summary r = None"
    | (over) ms where "0 < budget" "mapR bound_tool_message messages = Inr ms" "budget < messages_cost ft ms"
      "compact_over_budget ft ms budget recent = Inr r"
proof -
  obtain ms where ms: "0 < budget" "mapR bound_tool_message messages = Inr ms"
    and r: "(if messages_cost ft ms \<le> budget
      then Inr \<lparr>cp_messages = ms, cp_removed = 0, cp_tokens = messages_cost ft ms, cp_summary = None\<rparr>
      else compact_over_budget ft ms budget recent) = Inr r"
    using assms by (auto simp: compact_def Let_def bindR_Inr_iff split: if_split_asm)
  show thesis
  proof (cases "messages_cost ft ms \<le> budget")
    case True
    with r have "r = \<lparr>cp_messages = ms, cp_removed = 0, cp_tokens = messages_cost ft ms, cp_summary = None\<rparr>" by simp
    with ms True show thesis by (intro fits) simp_all
  next
    case False
    with ms r show thesis by (intro over) simp_all
  qed
qed

lemma prepend_summary_shape:
  assumes "prepend_summary ft ms retained removed budget = Inr (compacted, summary)"
  shows "summary = None \<and> compacted = retained \<or> (\<exists>s. summary = Some s \<and> compacted = plain_chat ''developer'' s # retained)"
  using assms by (auto simp: prepend_summary_def Let_def bindR_Inr_iff split: if_split_asm)

definition sample_history :: "chat_message list" where
  "sample_history = [plain_chat ''user'' ''Please write the parser for the configuration file.'',
     (plain_chat ''assistant'' [])\<lparr>ms_tool_calls := [\<lparr>tl_id = ''c1'', tl_name = ''read'', tl_arguments = []\<rparr>]\<rparr>,
     (plain_chat ''tool'' ''key = value'')\<lparr>ms_tool_call_id := Some ''c1''\<rparr>,
     plain_chat ''assistant'' ''The file holds one pair per line and no sections at all.'',
     plain_chat ''user'' ''Now the tests.'']"

definition sample_compacted :: compaction_result where
  "sample_compacted = (let s = ''Conversation checkpoint:'' @ CHR 10 # ''- user: Ple'' in
     \<lparr>cp_messages = [plain_chat ''developer'' s,
        plain_chat ''assistant'' ''The file holds one pair per line and no sections at all.'', plain_chat ''user'' ''Now the tests.''],
      cp_removed = 3, cp_tokens = 30, cp_summary = Some s\<rparr>)"

definition attached_history :: "chat_message list" where
  "attached_history = [plain_chat ''user'' ''earlier question'', (plain_chat ''user'' [])\<lparr>ms_attachments :=
     [\<lparr>am_sha256 = replicate 64 (CHR ''a''), am_media_type = ''text/plain'', am_size = 20, am_display_name = ''log.txt'',
       am_width = None, am_height = None\<rparr>]\<rparr>]"

lemma compact_run:
  assumes "mapR bound_tool_message messages = Inr ms" "0 < budget" "budget < messages_cost ft ms"
    and "select_recent_blocks (message_blocks 0 ms) ms recent = chosen" "latest_user_index ms = Some u"
    and "ensure_attachment_budget ft ms (Some u) budget = Inr ()" "block_containing (message_blocks 0 ms) (Some u) = Some p"
    and "drop_old_blocks ft (message_blocks 0 ms) (Some p) (length ms) budget chosen = kept"
    and "fit_retained ft ms (message_blocks 0 ms) kept (Some p) (Some u) budget = Inr (retained, removed)"
    and "prepend_summary ft ms retained removed budget = Inr (compacted, summary)"
  shows "compact ft recent messages budget
    = Inr \<lparr>cp_messages = compacted, cp_removed = int (length removed), cp_tokens = messages_cost ft compacted, cp_summary = summary\<rparr>"
  using assms prepend_summary_cost [OF assms(10) fit_retained_cost [OF assms(9,2)]]
  by (simp add: compact_def compact_over_budget_def Let_def)

lemma sample_compacted: "mapR bound_tool_message sample_history = Inr sample_history" "30 < messages_cost (\<lambda>_ _. []) sample_history"
  "latest_user_index sample_history = Some 4"
  by code_simp+

lemma sample_run: "compact (\<lambda>_ _. []) 2 sample_history 30 = Inr sample_compacted"
proof -
  let ?s = "''Conversation checkpoint:'' @ CHR 10 # ''- user: Ple''"
  let ?last = "[plain_chat ''assistant'' ''The file holds one pair per line and no sections at all.'', plain_chat ''user'' ''Now the tests.'']"
  have "select_recent_blocks (message_blocks 0 sample_history) sample_history 2 = [2, 3]"
    "ensure_attachment_budget (\<lambda>_ _. []) sample_history (Some 4) 30 = Inr ()"
    "block_containing (message_blocks 0 sample_history) (Some 4) = Some 3"
    "drop_old_blocks (\<lambda>_ _. []) (message_blocks 0 sample_history) (Some 3) (length sample_history) 30 [2, 3] = [2, 3]"
    "fit_retained (\<lambda>_ _. []) sample_history (message_blocks 0 sample_history) [2, 3] (Some 3) (Some 4) 30 = Inr (?last, [0, 1, 2])"
    "prepend_summary (\<lambda>_ _. []) sample_history ?last [0, 1, 2] 30 = Inr (plain_chat ''developer'' ?s # ?last, Some ?s)"
    by code_simp+
  note run = compact_run [OF sample_compacted(1) _ sample_compacted(2) this(1) sample_compacted(3) this(2-6)]
  have "messages_cost (\<lambda>_ _. []) (plain_chat ''developer'' ?s # ?last) = 30" by code_simp
  with run show ?thesis by (simp add: sample_compacted_def Let_def)
qed

lemma sample_names: "cp_messages sample_compacted = plain_chat ''developer'' (''Conversation checkpoint:'' @ CHR 10 # ''- user: Ple'')
    # drop 3 sample_history" "cp_summary sample_compacted = Some (''Conversation checkpoint:'' @ CHR 10 # ''- user: Ple'')"
  by (simp_all add: sample_compacted_def sample_history_def Let_def)

text \<open>
  C15: A compacted history keeps within its budget: whatever \<open>compact\<close> returns costs at most the token budget, and the
  token count it reports is the cost of the messages it returns; so the last resort is never needed.
\<close>

theorem compaction_fits:
  assumes "compact ft recent messages budget = Inr r"
  shows "messages_cost ft (cp_messages r) \<le> budget \<and> cp_tokens r = messages_cost ft (cp_messages r)"
  using assms
proof (cases rule: compact_cases)
  case (over ms)
  then show ?thesis using compact_over_fits by metis
qed simp

theorem compaction_fits_witness:
  "\<exists>r. compact (\<lambda>_ _. []) 2 sample_history 30 = Inr r \<and> messages_cost (\<lambda>_ _. []) (cp_messages r) \<le> 30"
  using sample_run compaction_fits [OF sample_run] by blast

definition retained_body :: "chat_message list \<Rightarrow> chat_message list \<Rightarrow> bool" where
  "retained_body ms body = (subseq body ms \<or> body = [plain_chat ''user'' []]
     \<or> (\<exists>u t. latest_user_index ms = Some u \<and> body = [(ms ! u)\<lparr>ms_content := t\<rparr>] \<and> prefix t (ms_content (ms ! u))))"

lemma latest_user_role: "latest_user_index ms = Some u \<Longrightarrow> u < length ms \<and> ms_role (ms ! u) = ''user''"
  by (auto simp: latest_user_index_def find_Some_iff rev_nth)

lemma fit_retained_shape:
  assumes "fit_retained ft ms (message_blocks 0 ms) chosen protected user budget = Inr (retained, removed)"
    and "ascending chosen (length (message_blocks 0 ms))" and "\<forall>b \<in> set chosen. mb_valid (message_blocks 0 ms ! b)"
    and "user = latest_user_index ms"
  shows "retained_body ms retained \<and> answered None retained"
proof -
  have flat: "subseq (flatten_selected (message_blocks 0 ms) chosen) ms" "answered None (flatten_selected (message_blocks 0 ms) chosen)"
    using flatten_subseq [OF assms(2)] flatten_answered [of chosen ms None] assms(2,3) by (auto simp: ascending_def)
  have single: "ms_role m \<noteq> ''tool'' \<Longrightarrow> answered None [m]" for m by simp
  show ?thesis
  proof (cases "kept_fit ft (message_blocks 0 ms) (length ms) budget chosen")
    case True
    with assms(1) flat show ?thesis by (simp add: fit_retained_def retained_body_def Let_def)
  next
    case False
    then consider "retained = []" | "retained = [plain_chat ''user'' []]"
      | u m b where "user = Some u" "truncate_message ft (ms ! u) b = Inr (Some m)" "retained = [m]"
      using assms(1) by (auto simp: fit_retained_def Let_def bindR_Inr_iff split: option.splits if_split_asm)
    then show ?thesis
    proof cases
      case 3
      then obtain t where "m = (ms ! u)\<lparr>ms_content := t\<rparr>" "prefix t (ms_content (ms ! u))" using truncate_message_shape by blast
      with 3 assms(4) latest_user_role [of ms u] show ?thesis by (auto simp: retained_body_def)
    qed (simp_all add: retained_body_def plain_chat_def)
  qed
qed

lemma compaction_shape:
  assumes "compact ft recent messages budget = Inr r" and "mapR bound_tool_message messages = Inr ms"
    and "budget < messages_cost ft ms"
  shows "\<exists>body. retained_body ms body \<and> answered None (cp_messages r)
    \<and> cp_messages r = (case cp_summary r of None \<Rightarrow> body | Some s \<Rightarrow> plain_chat ''developer'' s # body)"
  using assms(1)
proof (cases rule: compact_cases)
  case (over ms')
  with assms(2) have ms': "ms' = ms" by simp
  let ?bs = "message_blocks 0 ms"
  let ?chosen = "select_recent_blocks ?bs ms recent"
  obtain protected retained removed where
    fit: "fit_retained ft ms ?bs (drop_old_blocks ft ?bs protected (length ms) budget ?chosen) protected (latest_user_index ms) budget
        = Inr (retained, removed)"
    and pre: "prepend_summary ft ms retained removed budget = Inr (cp_messages r, cp_summary r)"
    using compact_over_InrD [OF over(4,1)] unfolding ms' Let_def by metis
  have kept: "ascending (drop_old_blocks ft ?bs protected (length ms) budget ?chosen) (length ?bs)"
      "\<forall>b \<in> set (drop_old_blocks ft ?bs protected (length ms) budget ?chosen). mb_valid (?bs ! b)"
    using drop_old_blocks_keeps [of ?chosen "length ?bs" ft ?bs protected "length ms" budget] select_recent_ascending [of ?bs ms recent]
    by (auto simp: Let_def)
  have body: "retained_body ms retained" "answered None retained" using fit_retained_shape [OF fit kept refl] by auto
  have next_ok: "answered (Some c) retained" for c using body(2) by (cases retained) (auto split: if_split_asm)
  from prepend_summary_shape [OF pre] show ?thesis
    using body next_ok by (elim disjE exE conjE) (auto simp: plain_chat_def intro!: exI [of _ retained])
qed (use assms in simp)

text \<open>
  C13: A compacted history is still a conversation: the result of compacting a history over its budget is the bounded
  history with messages left out, or the latest user message alone, cut to a prefix or emptied, behind at most one
  summary of the developer; and in it every tool message answers a call of the assistant message in front of it.
\<close>

theorem compaction_keeps_call_pairs:
  assumes "compact ft recent messages budget = Inr r" and "mapR bound_tool_message messages = Inr ms"
    and "budget < messages_cost ft ms"
  shows "\<exists>body. retained_body ms body \<and> answered None (cp_messages r)
    \<and> cp_messages r = (case cp_summary r of None \<Rightarrow> body | Some s \<Rightarrow> plain_chat ''developer'' s # body)"
  by (rule compaction_shape [OF assms])

theorem compaction_keeps_call_pairs_witness:
  "\<exists>r. compact (\<lambda>_ _. []) 2 sample_history 30 = Inr r \<and> answered None (cp_messages r)
    \<and> (\<exists>body. retained_body sample_history body \<and> cp_messages r \<noteq> body)"
  using compaction_keeps_call_pairs [OF sample_run sample_compacted(1,2)] sample_run by (auto simp: sample_names(2))

lemma user_block:
  assumes "latest_user_index ms = Some u"
  obtains p where "block_containing (message_blocks 0 ms) (Some u) = Some p" "p < length (message_blocks 0 ms)"
    "mb_valid (message_blocks 0 ms ! p)" "ms ! u \<in> set (mb_messages (message_blocks 0 ms ! p))"
proof -
  let ?bs = "message_blocks 0 ms"
  have u: "u < length ms" "ms_role (ms ! u) = ''user''" using latest_user_role [OF assms] by auto
  have "u \<in> set (concat (map mb_indices ?bs))" using u(1) by (simp add: block_indices)
  then obtain b where "b \<in> set ?bs" "u \<in> set (mb_indices b)" by auto
  then have "\<exists>b < length ?bs. u \<in> set (mb_indices (?bs ! b))" by (metis in_set_conv_nth)
  then obtain p where p: "block_containing ?bs (Some u) = Some p"
    by (cases "block_containing ?bs (Some u)") (auto simp: block_containing_def find_None_iff)
  then have lt: "p < length ?bs" and mem: "u \<in> set (mb_indices (?bs ! p))" using block_containing_SomeD [OF p] by auto
  have own: "mb_messages (?bs ! p) = map ((!) ms) (mb_indices (?bs ! p))"
    and tool: "\<not> mb_valid (?bs ! p) \<Longrightarrow> \<exists>m. mb_messages (?bs ! p) = [m] \<and> ms_role m = ''tool''"
    using block_messages [OF drop_0 le0, of "?bs ! p" ms] lt by auto
  have "ms ! u \<in> set (mb_messages (?bs ! p))" using mem own by simp
  moreover have "mb_valid (?bs ! p)"
  proof (rule ccontr)
    assume "\<not> mb_valid (?bs ! p)"
    with tool calculation have "ms_role (ms ! u) = ''tool''" by auto
    with u(2) show False by simp
  qed
  ultimately show thesis using that p lt by blast
qed

text \<open>
  C14: Compaction never loses the message the user sent last: when a history over its budget has a user message, the
  result has the latest one, its content whole or cut to a prefix; only when the budget leaves no room for what the
  message carries besides its content is an empty user message in its place.
\<close>

theorem latest_user_survives:
  assumes "compact ft recent messages budget = Inr r" and "mapR bound_tool_message messages = Inr ms"
    and "budget < messages_cost ft ms" and "latest_user_index ms = Some u"
  shows "(\<exists>t. prefix t (ms_content (ms ! u)) \<and> (ms ! u)\<lparr>ms_content := t\<rparr> \<in> set (cp_messages r))
    \<or> plain_chat ''user'' [] \<in> set (cp_messages r) \<and> budget \<le> message_tokens ft ((ms ! u)\<lparr>ms_content := []\<rparr>)"
  using assms(1)
proof (cases rule: compact_cases)
  case (over ms')
  with assms(2) have ms': "ms' = ms" by simp
  let ?bs = "message_blocks 0 ms"
  let ?chosen = "select_recent_blocks ?bs ms recent"
  obtain p where p: "block_containing ?bs (Some u) = Some p" "p < length ?bs" "mb_valid (?bs ! p)" "ms ! u \<in> set (mb_messages (?bs ! p))"
    using user_block [OF assms(4)] by blast
  let ?kept = "drop_old_blocks ft ?bs (Some p) (length ms) budget ?chosen"
  obtain retained removed where
    fit: "fit_retained ft ms ?bs ?kept (Some p) (Some u) budget = Inr (retained, removed)"
    and pre: "prepend_summary ft ms retained removed budget = Inr (cp_messages r, cp_summary r)"
    by (rule compact_over_InrD [OF over(4,1)]) (simp add: ms' Let_def p(1) assms(4))
  have "p \<in> set ?chosen" using p assms(4) by (auto simp: select_recent_blocks_def Let_def set_insort_key)
  then have kept: "p \<in> set ?kept" using drop_old_blocks_keeps [of ?chosen "length ?bs" ft ?bs "Some p" "length ms" budget]
      select_recent_ascending [of ?bs ms recent] by (simp add: Let_def)
  have sub: "set retained \<subseteq> set (cp_messages r)"
    using prepend_summary_shape [OF pre] by auto
  have whole: "ms ! u = (ms ! u)\<lparr>ms_content := ms_content (ms ! u)\<rparr>" by simp
  consider "ms ! u \<in> set retained" | t where "retained = [(ms ! u)\<lparr>ms_content := t\<rparr>]" "prefix t (ms_content (ms ! u))"
    | "retained = [plain_chat ''user'' []]" "budget \<le> message_tokens ft ((ms ! u)\<lparr>ms_content := []\<rparr>)"
  proof (cases "kept_fit ft ?bs (length ms) budget ?kept")
    case True
    then have "retained = flatten_selected ?bs ?kept" using fit by (simp add: fit_retained_def Let_def)
    then show thesis using kept p(4) that(1) by (auto simp: flatten_selected_def)
  next
    case False
    let ?b = "budget - summary_reserve (removed_indices ?bs ?kept (length ms)) budget"
    obtain x where x: "truncate_message ft (ms ! u) ?b = Inr x"
        "retained = [case x of None \<Rightarrow> plain_chat ''user'' [] | Some m \<Rightarrow> m]"
      using fit False kept by (auto simp: fit_retained_def Let_def bindR_Inr_iff)
    show thesis
    proof (cases x)
      case None
      have b: "1 \<le> ?b" "budget - 1 \<le> ?b" using over(1) by (auto simp: summary_reserve_def)
      have "?b < message_tokens ft ((ms ! u)\<lparr>ms_content := []\<rparr>)"
        using x(1) b None by (auto simp: truncate_message_def Let_def bindR_Inr_iff split: if_split_asm)
      with b(2) x(2) None that(3) show thesis by simp
    next
      case (Some m)
      with x truncate_message_shape that(2) show thesis by force
    qed
  qed
  then show ?thesis
  proof cases
    case 1
    then show ?thesis using sub whole by (intro disjI1 exI [of _ "ms_content (ms ! u)"]) auto
  qed (use sub in auto)
qed (use assms in simp)

theorem latest_user_survives_witness:
  "\<exists>r. compact (\<lambda>_ _. []) 2 sample_history 30 = Inr r \<and> (\<exists>m \<in> set (cp_messages r). ms_role m = ''user'')"
proof -
  have "ms_role ((sample_history ! 4)\<lparr>ms_content := t\<rparr>) = ''user''" "ms_role (plain_chat ''user'' []) = ''user''" for t
    by (simp_all add: sample_history_def plain_chat_def)
  with latest_user_survives [OF sample_run sample_compacted] sample_run show ?thesis by metis
qed

lemma subseq_sets: "subseq xs ys \<Longrightarrow> set xs \<subseteq> set ys"
  by (induction rule: list_emb.induct) auto

lemma content_keeps_message: "mk_message m = Inr m \<Longrightarrow> mk_message (m\<lparr>ms_content := t\<rparr>) = Inr (m\<lparr>ms_content := t\<rparr>)"
  by (auto simp: mk_message_def bindR_Inr_iff split: if_split_asm)

lemma plain_message: "role \<in> set message_roles \<Longrightarrow> mk_message (plain_chat role t) = Inr (plain_chat role t)"
  by (simp add: mk_message_def plain_chat_def freeze_attachments_def max_message_attachment_bytes_def optR_def)

lemma bounded_messages:
  "mapR bound_tool_message messages = Inr ms \<Longrightarrow> \<forall>m \<in> set messages. mk_message m = Inr m \<Longrightarrow> \<forall>m \<in> set ms. mk_message m = Inr m"
proof (induction messages arbitrary: ms)
  case (Cons m messages)
  then obtain m' ms' where m': "bound_tool_message m = Inr m'" and ms: "mapR bound_tool_message messages = Inr ms'" "ms = m' # ms'"
    by (auto simp: bindR_Inr_iff)
  have "mk_message m' = Inr m'"
    using m' Cons.prems(2) content_keeps_message by (auto simp: bound_tool_message_def bindR_Inr_iff split: if_split_asm)
  with Cons.IH [OF ms(1)] Cons.prems(2) ms(2) show ?case by simp
qed simp

text \<open>
  C16: Compaction builds messages only: when every message of the history passes the checks of the message constructor,
  so does every message of the result, the cut ones and the summary included.
\<close>

theorem compacted_messages_are_valid:
  assumes "compact ft recent messages budget = Inr r" and "\<forall>m \<in> set messages. mk_message m = Inr m"
  shows "\<forall>m \<in> set (cp_messages r). mk_message m = Inr m"
  using assms(1)
proof (cases rule: compact_cases)
  case (fits ms)
  with bounded_messages [OF fits(2) assms(2)] show ?thesis by simp
next
  case (over ms)
  have ms: "\<forall>m \<in> set ms. mk_message m = Inr m" by (rule bounded_messages [OF over(2) assms(2)])
  obtain body where body: "retained_body ms body"
      "cp_messages r = (case cp_summary r of None \<Rightarrow> body | Some s \<Rightarrow> plain_chat ''developer'' s # body)"
    using compaction_shape [OF assms(1) over(2,3)] by blast
  have roles: "''developer'' \<in> set message_roles" "''user'' \<in> set message_roles" by (simp_all add: message_roles_def)
  have "u < length ms \<Longrightarrow> mk_message (ms ! u) = Inr (ms ! u)" for u using ms by simp
  then have "\<forall>m \<in> set body. mk_message m = Inr m"
    using body(1) ms plain_message [OF roles(2)] content_keeps_message latest_user_role
    by (auto simp: retained_body_def dest!: subseq_sets)
  with body(2) plain_message [OF roles(1)] show ?thesis by (simp split: option.splits)
qed

theorem compacted_messages_are_valid_witness:
  "\<exists>r. compact (\<lambda>_ _. []) 2 sample_history 30 = Inr r \<and> cp_removed r = 3 \<and> (\<forall>m \<in> set (cp_messages r). mk_message m = Inr m)"
proof -
  have "list_all (\<lambda>m. mk_message m = Inr m) sample_history" by code_simp
  then have "\<forall>m \<in> set sample_history. mk_message m = Inr m" by (simp only: list_all_iff)
  from compacted_messages_are_valid [OF sample_run this] sample_run show ?thesis by (auto simp: sample_compacted_def Let_def)
qed

text \<open>
  Attachments that fill the budget exactly are dropped without an error. The guard refuses a budget below the cost of
  the latest attachments, but the token kept for the summary of what was removed is taken off afterwards: with an
  attachment of cost 11 a budget of 10 raises, a budget of 12 keeps it, and a budget of 11 leaves an empty user message.
\<close>

theorem attachments_vanish_at_the_limit:
  "compact (\<lambda>_ _. []) 4 attached_history 10
      = raiseR ContextBudgetError ''latest user attachments exceed the message token budget''
    \<and> (\<exists>r. compact (\<lambda>_ _. []) 4 attached_history 11 = Inr r \<and> (\<forall>m \<in> set (cp_messages r). ms_attachments m = []))
    \<and> (\<exists>r. compact (\<lambda>_ _. []) 4 attached_history 12 = Inr r \<and> attached_history ! 1 \<in> set (cp_messages r))"
proof (intro conjI)
  let ?ft = "\<lambda>_ _. []"
  let ?cs = "[plain_chat ''developer'' (''Conversation checkpoint:'' @ CHR 10 # ''- user: ear''), plain_chat ''user'' []]"
  have h: "mapR bound_tool_message attached_history = Inr attached_history"
    "latest_user_index attached_history = Some 1"
    "select_recent_blocks (message_blocks 0 attached_history) attached_history 4 = [0, 1]"
    "block_containing (message_blocks 0 attached_history) (Some 1) = Some 1"
    by code_simp+
  have cost: "messages_cost ?ft attached_history = 16" by code_simp
  have e: "ensure_attachment_budget ?ft attached_history (Some 1) 10
      = raiseR ContextBudgetError ''latest user attachments exceed the message token budget''"
    by code_simp
  show "compact ?ft 4 attached_history 10 = raiseR ContextBudgetError ''latest user attachments exceed the message token budget''"
    using h cost e by (simp add: compact_def compact_over_budget_def Let_def)
  have e11: "ensure_attachment_budget ?ft attached_history (Some 1) 11 = Inr ()"
    "drop_old_blocks ?ft (message_blocks 0 attached_history) (Some 1) (length attached_history) 11 [0, 1] = [1]"
    "fit_retained ?ft attached_history (message_blocks 0 attached_history) [1] (Some 1) (Some 1) 11 = Inr ([plain_chat ''user'' []], [0])"
    "prepend_summary ?ft attached_history [plain_chat ''user'' []] [0] 11 = Inr (?cs, Some (ms_content (hd ?cs)))"
    by code_simp+
  note r11 = compact_run [OF h(1) _ _ h(3,2) e11(1) h(4) e11(2-4), simplified cost, simplified]
  then show "\<exists>r. compact ?ft 4 attached_history 11 = Inr r \<and> (\<forall>m \<in> set (cp_messages r). ms_attachments m = [])"
    by (intro exI conjI) (rule r11, simp add: plain_chat_def)
  have e12: "ensure_attachment_budget ?ft attached_history (Some 1) 12 = Inr ()"
    "drop_old_blocks ?ft (message_blocks 0 attached_history) (Some 1) (length attached_history) 12 [0, 1] = [1]"
    "fit_retained ?ft attached_history (message_blocks 0 attached_history) [1] (Some 1) (Some 1) 12 = Inr ([attached_history ! 1], [0])"
    "prepend_summary ?ft attached_history [attached_history ! 1] [0] 12
      = Inr ([plain_chat ''developer'' [], attached_history ! 1], Some [])"
    by code_simp+
  note r12 = compact_run [OF h(1) _ _ h(3,2) e12(1) h(4) e12(2-4), simplified cost, simplified]
  then show "\<exists>r. compact ?ft 4 attached_history 12 = Inr r \<and> attached_history ! 1 \<in> set (cp_messages r)"
    by (intro exI conjI) (rule r12, simp)
qed

end
