(* ===== verification/Spec2Isabelle.thy ===== *)
theory Spec2Isabelle
  imports Task_Budget Policy Workflow_Service Task_Result Evidence_Ledger Approvals Sse Convergence Capabilities Engine_Facts Plan_Facts Verification_Facts Compaction
begin

section \<open>Supervisor and stored budget\<close>

text \<open>
  The engine tells every validation both to the supervisor in memory and to the stored budget, from which
  the supervisor of the next run is built. \<open>counters_agree\<close> says the two count the same.
\<close>

definition counters_agree :: "supervisor \<Rightarrow> task_budget \<Rightarrow> bool" where
  "counters_agree s b = (sv_repetitions s = tb_repeated_failures b \<and> sv_last_failure s = tb_last_failure b
     \<and> sv_repair_cycles s = tb_repair_cycles b)"

lemma new_supervisor_agrees: "counters_agree (new_supervisor c (Some b) now) b"
  by (simp add: counters_agree_def new_supervisor_def)

lemma observe_budget_InrD:
  assumes "observe_validation_budget t fp k db = Inr (db', b')" and "load_budget db t = Inr b"
  shows "tb_last_failure b' = fp"
    and "tb_repeated_failures b' = (if fp \<noteq> None \<and> fp \<noteq> Some [] \<and> k \<noteq> 0
           then if fp = tb_last_failure b then tb_repeated_failures b + 1 else 1 else 0)"
    and "tb_repair_cycles b' = tb_repair_cycles b + (if fp \<noteq> None \<and> fp \<noteq> Some [] \<and> k \<noteq> 0 then 1 else 0)"
proof -
  let ?failing = "fp \<noteq> None \<and> fp \<noteq> Some [] \<and> k \<noteq> 0"
  let ?new = "b\<lparr>tb_repair_cycles := tb_repair_cycles b + (if ?failing then 1 else 0),
      tb_repeated_failures := (if ?failing \<and> fp = tb_last_failure b then tb_repeated_failures b + 1
        else if ?failing then 1 else 0), tb_last_failure := fp\<rparr>"
  have guard: "(if P then raiseR c m else x) = Inr y \<longleftrightarrow> \<not> P \<and> x = Inr y" for P c m and x :: "'a result" and y
    by simp
  have "check_task_budget ?new = Inr b'"
    using assms unfolding observe_validation_budget_def Let_def
    by (auto simp: bindR_Inr_iff guard simp del: if_split split del: if_split)
  then have "b' = ?new" by (simp add: check_task_budget_Inr)
  then show "tb_last_failure b' = fp"
    and "tb_repeated_failures b' = (if ?failing then if fp = tb_last_failure b then tb_repeated_failures b + 1 else 1 else 0)"
    and "tb_repair_cycles b' = tb_repair_cycles b + (if ?failing then 1 else 0)"
    by simp_all
qed

text \<open>
  C36: The stored counters follow the supervisor's through every failing validation with changes; any other
  validation leaves the supervisor as it was and clears the stored repetitions, so that the two still agree
  afterwards only if no failure had been counted.
\<close>

theorem validation_counters_follow:
  assumes "counters_agree s b" and "load_budget db t = Inr b"
    and "observe_validation_budget t fp k db = Inr (db', b')" and "observe_validation fp k s = Inr (s', d)"
  shows "(fp \<noteq> None \<and> fp \<noteq> Some [] \<and> k \<noteq> 0 \<longrightarrow> counters_agree s' b')
    \<and> (\<not> (fp \<noteq> None \<and> fp \<noteq> Some [] \<and> k \<noteq> 0) \<longrightarrow>
         s' = s \<and> (counters_agree s' b' \<longleftrightarrow> tb_repeated_failures b = 0 \<and> tb_last_failure b = fp))"
proof -
  note row = observe_budget_InrD [OF assms(3,2)]
  show ?thesis
  proof (cases "fp \<noteq> None \<and> fp \<noteq> Some [] \<and> k \<noteq> 0")
    case True
    then have "s' = (let s1 = (if fp = sv_last_failure s then s\<lparr>sv_repetitions := sv_repetitions s + 1\<rparr>
        else s\<lparr>sv_last_failure := fp, sv_repetitions := 1\<rparr>) in s1\<lparr>sv_repair_cycles := sv_repair_cycles s1 + 1\<rparr>)"
      using assms(4) by (auto simp: observe_validation_def Let_def split: if_splits)
    with True row assms(1) show ?thesis by (auto simp: counters_agree_def Let_def)
  next
    case False
    then have "s' = s" using assms(4) by (auto simp: observe_validation_def split: if_splits)
    with False row assms(1) show ?thesis by (auto simp: counters_agree_def)
  qed
qed

theorem validation_counters_follow_witness:
  "\<exists>b db' b' s' d. load_budget sample_bound_db ''t'' = Inr b
    \<and> observe_validation_budget ''t'' (Some ''e'') 1 sample_bound_db = Inr (db', b')
    \<and> observe_validation (Some ''e'') 1 (new_supervisor sample_contract (Some b) 0) = Inr (s', d)
    \<and> counters_agree s' b'"
proof -
  have "okP (\<lambda>_. True) (load_budget sample_bound_db ''t'')"
    and "okP (\<lambda>_. True) (observe_validation_budget ''t'' (Some ''e'') 1 sample_bound_db)" by code_simp+
  then obtain b p where b: "load_budget sample_bound_db ''t'' = Inr b"
      and p: "observe_validation_budget ''t'' (Some ''e'') 1 sample_bound_db = Inr p" by (meson okP_E)
  obtain s' d where s: "observe_validation (Some ''e'') 1 (new_supervisor sample_contract (Some b) 0) = Inr (s', d)"
    using observe_failure [of "(''e'', 1)"] by force
  obtain db' b' where "p = (db', b')" by (cases p)
  with p have p: "observe_validation_budget ''t'' (Some ''e'') 1 sample_bound_db = Inr (db', b')" by simp
  from validation_counters_follow [OF new_supervisor_agrees b p s] b p s show ?thesis by auto
qed

end
